(* ===== verification/Prelude.thy ===== *)
theory Prelude
  imports Main
begin

text \<open>
  Generic material shared by every component: programs that pass a state and may raise,
  the \<open>keeps\<close> calculus for state predicates, and table operations on lists of rows.

  A Python coroutine that reads and writes shared state and may raise is a function from the
  state to a result and the new state. An exception does not undo the state changes made
  before it: that is what the language does, and rolling back is an operation of its own.
\<close>

named_theorems prog_simps \<open>unfolding rules of the program combinators\<close>
named_theorems keeps_intros \<open>rules that push a preserved predicate through a program\<close>
named_theorems run_simps \<open>symbolic execution: a sequence of steps applied to a state\<close>
named_theorems table_simps \<open>facts on tables as lists of rows\<close>

section \<open>Programs with state and exceptions\<close>

type_synonym ('e, 's, 'a) prog = "'s \<Rightarrow> ('e + 'a) \<times> 's"

definition ret :: "'a \<Rightarrow> ('e, 's, 'a) prog" where
  [prog_simps]: "ret x = (\<lambda>s. (Inr x, s))"

definition raise :: "'e \<Rightarrow> ('e, 's, 'a) prog" where
  [prog_simps]: "raise e = (\<lambda>s. (Inl e, s))"

definition bindP :: "('e, 's, 'a) prog \<Rightarrow> ('a \<Rightarrow> ('e, 's, 'b) prog) \<Rightarrow> ('e, 's, 'b) prog" where
  [prog_simps]: "bindP m f = (\<lambda>s. case m s of (r, s') \<Rightarrow>
     (case r of Inl e \<Rightarrow> (Inl e, s') | Inr x \<Rightarrow> f x s'))"

text \<open>\<open>try: m  except e: h e\<close>, where \<open>h\<close> re-raises what it does not handle.\<close>

definition catchP :: "('e, 's, 'a) prog \<Rightarrow> ('e \<Rightarrow> ('e, 's, 'a) prog) \<Rightarrow> ('e, 's, 'a) prog" where
  [prog_simps]: "catchP m h = (\<lambda>s. case m s of (r, s') \<Rightarrow>
     (case r of Inl e \<Rightarrow> h e s' | Inr x \<Rightarrow> (Inr x, s')))"

text \<open>\<open>try: m  finally: c\<close>: the cleanup runs on both outcomes, and its own exception wins.\<close>

definition finallyP :: "('e, 's, 'a) prog \<Rightarrow> ('e, 's, unit) prog \<Rightarrow> ('e, 's, 'a) prog" where
  [prog_simps]: "finallyP m c = (\<lambda>s. case m s of (r, s') \<Rightarrow>
     (case c s' of (q, s'') \<Rightarrow> (case q of Inl e \<Rightarrow> (Inl e, s'') | Inr _ \<Rightarrow> (r, s''))))"

definition asks :: "('s \<Rightarrow> 'a) \<Rightarrow> ('e, 's, 'a) prog" where
  [prog_simps]: "asks f = (\<lambda>s. (Inr (f s), s))"

definition modify :: "('s \<Rightarrow> 's) \<Rightarrow> ('e, 's, unit) prog" where
  [prog_simps]: "modify f = (\<lambda>s. (Inr (), f s))"

definition whenP :: "bool \<Rightarrow> ('e, 's, unit) prog \<Rightarrow> ('e, 's, unit) prog" where
  [prog_simps]: "whenP b m = (if b then m else ret ())"

text \<open>\<open>for x in xs: acc = f(acc, x)\<close>, stopping at the first exception.\<close>

fun foldP :: "('b \<Rightarrow> 'a \<Rightarrow> ('e, 's, 'b) prog) \<Rightarrow> 'b \<Rightarrow> 'a list \<Rightarrow> ('e, 's, 'b) prog" where
  "foldP f acc [] = ret acc"
| "foldP f acc (x # xs) = bindP (f acc x) (\<lambda>acc'. foldP f acc' xs)"

lemma bindP_assoc: "bindP (bindP m f) g = bindP m (\<lambda>x. bindP (f x) g)"
  by (auto simp: bindP_def fun_eq_iff split: prod.splits sum.splits)

lemma bindP_ret [simp]: "bindP (ret x) f = f x" "bindP m ret = m"
  by (auto simp: bindP_def ret_def fun_eq_iff split: prod.splits sum.splits)

lemma bindP_raise [simp]: "bindP (raise e) f = raise e"
  by (auto simp: bindP_def raise_def fun_eq_iff)

lemma run_prog [run_simps]:
  "ret x s = (Inr x, s)" "raise e s = (Inl e, s)" "asks f s = (Inr (f s), s)" "modify g s = (Inr (), g s)"
  "bindP (asks f) k s = k (f s) s" "bindP (modify g) k s = k () (g s)"
  "bindP (bindP m h) k' s = bindP m (\<lambda>x. bindP (h x) k') s"
  "bindP (whenP b n) k'' s = (if b then bindP n k'' s else k'' () s)"
  by (simp_all add: bindP_assoc) (simp_all add: prog_simps)

lemma bindP_Pair [run_simps]: "bindP (Pair (Inr x)) k = k x" "bindP (Pair (Inl e)) k s = (Inl e, s)"
  by (simp_all add: bindP_def fun_eq_iff)

lemma bindP_if_raise [run_simps]: "bindP (if b then raise e else m) k s = (if b then (Inl e, s) else bindP m k s)"
  by (simp add: prog_simps)

lemma bindP_result:
  "m s = (q, s') \<Longrightarrow> bindP m k s = (case q of Inl e \<Rightarrow> (Inl e, s') | Inr x \<Rightarrow> k x s')"
  by (simp add: bindP_def)

lemma bindP_ret_result:
  "m s = (q, s') \<Longrightarrow> bindP m (\<lambda>x. ret (f x)) s = (map_sum (\<lambda>e. e) f q, s')"
  by (simp add: bindP_def ret_def split: sum.split)

lemma bindP_Inr_iff:
  "bindP m f s = (Inr y, s'') \<longleftrightarrow> (\<exists>x s'. m s = (Inr x, s') \<and> f x s' = (Inr y, s''))"
  by (auto simp: bindP_def split: prod.splits sum.splits)

lemma bindP_Inl_iff:
  "bindP m f s = (Inl e, s'') \<longleftrightarrow>
     m s = (Inl e, s'') \<or> (\<exists>x s'. m s = (Inr x, s') \<and> f x s' = (Inl e, s''))"
  by (auto simp: bindP_def split: prod.splits sum.splits)

section \<open>Predicates kept by a program\<close>

definition keeps :: "('s \<Rightarrow> bool) \<Rightarrow> ('e, 's, 'a) prog \<Rightarrow> bool" where
  "keeps I m \<longleftrightarrow> (\<forall>s. I s \<longrightarrow> I (snd (m s)))"

lemma keepsI: "(\<And>s. I s \<Longrightarrow> I (snd (m s))) \<Longrightarrow> keeps I m"
  by (simp add: keeps_def)

lemma keepsD: "keeps I m \<Longrightarrow> I s \<Longrightarrow> m s = (r, s') \<Longrightarrow> I s'"
  by (metis keeps_def snd_conv)

lemma keeps_ret [keeps_intros]: "keeps I (ret x)"
  by (simp add: keeps_def ret_def)

lemma keeps_raise [keeps_intros]: "keeps I (raise e)"
  by (simp add: keeps_def raise_def)

lemma keeps_asks [keeps_intros]: "keeps I (asks f)"
  by (simp add: keeps_def asks_def)

lemma keeps_bind [keeps_intros]:
  "keeps I m \<Longrightarrow> (\<And>x. keeps I (f x)) \<Longrightarrow> keeps I (bindP m f)"
  by (fastforce simp: keeps_def bindP_def split: prod.splits sum.splits)

lemma keeps_catch [keeps_intros]:
  "keeps I m \<Longrightarrow> (\<And>e. keeps I (h e)) \<Longrightarrow> keeps I (catchP m h)"
  by (fastforce simp: keeps_def catchP_def split: prod.splits sum.splits)

lemma keeps_finally [keeps_intros]:
  "keeps I m \<Longrightarrow> keeps I c \<Longrightarrow> keeps I (finallyP m c)"
  by (fastforce simp: keeps_def finallyP_def split: prod.splits sum.splits)

lemma keeps_when [keeps_intros]: "(b \<Longrightarrow> keeps I m) \<Longrightarrow> keeps I (whenP b m)"
  by (simp add: whenP_def keeps_ret)

lemma keeps_if [keeps_intros]:
  "(b \<Longrightarrow> keeps I m) \<Longrightarrow> (\<not> b \<Longrightarrow> keeps I n) \<Longrightarrow> keeps I (if b then m else n)"
  by simp

lemma keeps_case_option [keeps_intros]:
  "keeps I m \<Longrightarrow> (\<And>x. keeps I (f x)) \<Longrightarrow> keeps I (case x of None \<Rightarrow> m | Some y \<Rightarrow> f y)"
  by (simp split: option.split)

lemma keeps_case_prod [keeps_intros]:
  "(\<And>a b. keeps I (f a b)) \<Longrightarrow> keeps I (case p of (a, b) \<Rightarrow> f a b)"
  by (simp split: prod.split)

lemma keeps_foldP [keeps_intros]:
  "(\<And>acc x. keeps I (f acc x)) \<Longrightarrow> keeps I (foldP f acc xs)"
  by (induction xs arbitrary: acc) (auto intro: keeps_intros)

section \<open>Tables: lists of rows\<close>

text \<open>\<open>UPDATE t SET f WHERE P\<close> and \<open>DELETE FROM t WHERE P\<close>.\<close>

definition update_where :: "('a \<Rightarrow> bool) \<Rightarrow> ('a \<Rightarrow> 'a) \<Rightarrow> 'a list \<Rightarrow> 'a list" where
  "update_where P f xs = map (\<lambda>x. if P x then f x else x) xs"

definition delete_where :: "('a \<Rightarrow> bool) \<Rightarrow> 'a list \<Rightarrow> 'a list" where
  "delete_where P xs = filter (\<lambda>x. \<not> P x) xs"

lemma update_where_simps [simp]:
  "update_where P f [] = []"
  "update_where P f (x # xs) = (if P x then f x else x) # update_where P f xs"
  "update_where P f (xs @ ys) = update_where P f xs @ update_where P f ys"
  "length (update_where P f xs) = length xs"
  by (simp_all add: update_where_def)

lemma set_update_where [table_simps]:
  "y \<in> set (update_where P f xs) \<longleftrightarrow> (\<exists>x\<in>set xs. y = (if P x then f x else x))"
  by (auto simp: update_where_def)

lemma update_where_selected:
  assumes "y \<in> set (update_where P f xs)" "P y"
  obtains x where "x \<in> set xs" "P x" "y = f x"
proof -
  obtain x where "x \<in> set xs" "y = (if P x then f x else x)"
    using assms(1) by (auto simp: table_simps)
  with assms(2) show ?thesis by (cases "P x") (auto intro: that)
qed

lemma update_where_other: "x \<in> set xs \<Longrightarrow> \<not> P x \<Longrightarrow> x \<in> set (update_where P f xs)"
  by (auto simp: table_simps intro!: bexI [of _ x])

lemma map_update_where_key:
  "(\<And>x. P x \<Longrightarrow> k (f x) = k x) \<Longrightarrow> map k (update_where P f xs) = map k xs"
  by (induction xs) auto

lemma set_delete_where [simp]: "set (delete_where P xs) = {x \<in> set xs. \<not> P x}"
  by (auto simp: delete_where_def)

lemma find_None_iff_all: "find P xs = None \<longleftrightarrow> (\<forall>x\<in>set xs. \<not> P x)"
  by (induction xs) auto

lemma find_SomeD: "find P xs = Some x \<Longrightarrow> x \<in> set xs \<and> P x"
  by (induction xs) (auto split: if_splits)

lemma find_unique_key:
  assumes d: "distinct (map k xs)" and x: "x \<in> set xs" "P x"
    and key: "\<And>y. P y \<Longrightarrow> k y = k x"
  shows "find P xs = Some x"
proof -
  from x have "find P xs \<noteq> None" by (auto simp: find_None_iff_all)
  then obtain y where y: "find P xs = Some y" by blast
  then have "y \<in> set xs" "P y" by (auto dest: find_SomeD)
  moreover from \<open>P y\<close> have "k y = k x" by (rule key)
  ultimately have "y = x" using d x(1) by (metis distinct_map inj_onD)
  with y show ?thesis by simp
qed

lemma find_append: "find P (xs @ ys) = (case find P xs of None \<Rightarrow> find P ys | Some x \<Rightarrow> Some x)"
  by (induction xs) auto

lemma find_update_where:
  assumes "\<And>x. Q x \<Longrightarrow> R (f x) = R x"
  shows "find R (update_where Q f xs) = map_option (\<lambda>x. if Q x then f x else x) (find R xs)"
  using assms by (induction xs) auto

lemma one_row_per_key:
  assumes "distinct (map k xs)"
  shows "length (filter (\<lambda>x. k x = v) xs) \<le> 1"
  using assms by (induction xs) (auto simp: filter_empty_conv image_iff)

lemma in_set_distinct_key:
  "distinct (map k xs) \<Longrightarrow> x \<in> set xs \<Longrightarrow> y \<in> set xs \<Longrightarrow> k x = k y \<Longrightarrow> x = y"
  by (metis distinct_map inj_onD)

end
