(* ===== verification/Py_Text.thy ===== *)
theory Py_Text
  imports Prelude
begin

text \<open>
  The parts of Python's \<open>str\<close> and \<open>int\<close> the program uses, on \<open>string\<close>.
  A \<open>char\<close> with code \<open>n\<close> stands for the code point \<open>U+00n\<close>, so the texts covered are the
  Latin-1 range; on it every operation is exactly Python's, except \<open>casefold\<close> of the micro
  sign U+00B5, whose image lies outside the range and which is left as it is.
\<close>

section \<open>Whitespace\<close>

definition is_space :: "char \<Rightarrow> bool" where
  "is_space c = (let n = of_char c :: nat in
     (9 \<le> n \<and> n \<le> 13) \<or> (28 \<le> n \<and> n \<le> 32) \<or> n = 133 \<or> n = 160)"

definition lstrip_by :: "(char \<Rightarrow> bool) \<Rightarrow> string \<Rightarrow> string" where
  "lstrip_by p s = dropWhile p s"

definition rstrip_by :: "(char \<Rightarrow> bool) \<Rightarrow> string \<Rightarrow> string" where
  "rstrip_by p s = rev (dropWhile p (rev s))"

definition strip_by :: "(char \<Rightarrow> bool) \<Rightarrow> string \<Rightarrow> string" where
  "strip_by p s = rstrip_by p (lstrip_by p s)"

definition strip :: "string \<Rightarrow> string" where
  "strip s = strip_by is_space s"

text \<open>\<open>str.split()\<close> with no argument: maximal runs of non-space characters.\<close>

fun split_ws_aux :: "string \<Rightarrow> string \<Rightarrow> string list" where
  "split_ws_aux w [] = (if w = [] then [] else [rev w])"
| "split_ws_aux w (c # cs) =
     (if is_space c then (if w = [] then split_ws_aux [] cs else rev w # split_ws_aux [] cs)
      else split_ws_aux (c # w) cs)"

definition split_ws :: "string \<Rightarrow> string list" where
  "split_ws s = split_ws_aux [] s"

text \<open>\<open>s.split(c)\<close> for a single separator character: never empty.\<close>

fun split_on :: "char \<Rightarrow> string \<Rightarrow> string list" where
  "split_on d [] = [[]]"
| "split_on d (c # cs) =
     (if c = d then [] # split_on d cs
      else (case split_on d cs of [] \<Rightarrow> [[c]] | p # ps \<Rightarrow> (c # p) # ps))"

text \<open>\<open>s.partition(c)\<close>: the part before, whether the separator occurs, the part after.\<close>

definition partition_at :: "char \<Rightarrow> string \<Rightarrow> string \<times> bool \<times> string" where
  "partition_at d s = (takeWhile (\<lambda>c. c \<noteq> d) s, d \<in> set s, drop 1 (dropWhile (\<lambda>c. c \<noteq> d) s))"

text \<open>\<open>sep.join(xs)\<close>.\<close>

fun join :: "string \<Rightarrow> string list \<Rightarrow> string" where
  "join sep [] = []"
| "join sep [x] = x"
| "join sep (x # y # xs) = x @ sep @ join sep (y # xs)"

definition startswith :: "string \<Rightarrow> string \<Rightarrow> bool" where
  "startswith s p = (take (length p) s = p)"

text \<open>\<open>p in s\<close> for strings.\<close>

fun contains :: "string \<Rightarrow> string \<Rightarrow> bool" where
  "contains [] p = (p = [])"
| "contains (c # cs) p = (startswith (c # cs) p \<or> contains cs p)"

section \<open>Case\<close>

definition lower_char :: "char \<Rightarrow> char" where
  "lower_char c = (let n = of_char c :: nat in
     if (65 \<le> n \<and> n \<le> 90) \<or> (192 \<le> n \<and> n \<le> 222 \<and> n \<noteq> 215) then char_of (n + 32) else c)"

definition lower :: "string \<Rightarrow> string" where
  "lower s = map lower_char s"

definition casefold_char :: "char \<Rightarrow> string" where
  "casefold_char c = (if (of_char c :: nat) = 223 then ''ss'' else [lower_char c])"

definition casefold :: "string \<Rightarrow> string" where
  "casefold s = concat (map casefold_char s)"

section \<open>Decimal integers\<close>

definition digit_char :: "nat \<Rightarrow> char" where
  "digit_char d = (if d < 10 then char_of (48 + d) else char_of (87 + d))"

fun nat_to_base :: "nat \<Rightarrow> nat \<Rightarrow> string" where
  "nat_to_base b n =
     (if b < 2 \<or> n < b then [digit_char n] else nat_to_base b (n div b) @ [digit_char (n mod b)])"

declare nat_to_base.simps [simp del]

text \<open>\<open>str(i)\<close>.\<close>

definition str_int :: "int \<Rightarrow> string" where
  "str_int i = (if i < 0 then CHR ''-'' # nat_to_base 10 (nat (- i)) else nat_to_base 10 (nat i))"

text \<open>The value of a digit character in bases up to 36, as \<open>int(s, base)\<close> reads it.\<close>

definition digit_val :: "char \<Rightarrow> nat option" where
  "digit_val c = (let n = of_char c :: nat in
     if 48 \<le> n \<and> n \<le> 57 then Some (n - 48)
     else if 97 \<le> n \<and> n \<le> 122 then Some (n - 87)
     else if 65 \<le> n \<and> n \<le> 90 then Some (n - 55) else None)"

text \<open>
  Digits with single underscores between them; \<open>us\<close> says that an underscore may come next.
  The empty digit string and a trailing underscore are rejected.
\<close>

fun digits_acc :: "nat \<Rightarrow> bool \<Rightarrow> nat \<Rightarrow> string \<Rightarrow> nat option" where
  "digits_acc b us acc [] = (if us then Some acc else None)"
| "digits_acc b us acc (c # cs) =
     (if c = CHR ''_'' then (if us then digits_acc b False acc cs else None)
      else (case digit_val c of
              None \<Rightarrow> None
            | Some d \<Rightarrow> if d < b then digits_acc b True (acc * b + d) cs else None))"

text \<open>
  \<open>int(s, 10)\<close> and \<open>int(s, 16)\<close>: surrounding whitespace, a sign, for base 16 an optional
  \<open>0x\<close> prefix (after which one underscore may come), digits. \<open>None\<close> is \<open>ValueError\<close>.
\<close>

definition parse_digits :: "nat \<Rightarrow> string \<Rightarrow> nat option" where
  "parse_digits b s =
     (if b = 16 \<and> (startswith s ''0x'' \<or> startswith s ''0X'')
      then digits_acc b False 0 (if startswith (drop 2 s) ''_'' then drop 3 s else drop 2 s)
      else digits_acc b False 0 s)"

definition parse_int :: "nat \<Rightarrow> string \<Rightarrow> int option" where
  "parse_int b s0 = (let s = strip s0 in
     (case s of
        [] \<Rightarrow> None
      | c # cs \<Rightarrow>
          if c = CHR ''-'' then map_option (\<lambda>n. - int n) (parse_digits b cs)
          else if c = CHR ''+'' then map_option int (parse_digits b cs)
          else map_option int (parse_digits b s)))"

section \<open>Facts\<close>

lemma dropWhile_rev_dropWhile_fix:
  assumes "xs = [] \<or> \<not> p (hd xs)"
  shows "rev (dropWhile p (rev xs)) = [] \<or> \<not> p (hd (rev (dropWhile p (rev xs))))"
proof -
  obtain ys where ys: "xs = rev (dropWhile p (rev xs)) @ ys"
    by (metis rev_append rev_rev_ident takeWhile_dropWhile_id)
  then show ?thesis
    using assms by (metis append_is_Nil_conv hd_append2)
qed

lemma lstrip_by_idem: "xs = [] \<or> \<not> p (hd xs) \<Longrightarrow> lstrip_by p xs = xs"
  by (cases xs) (auto simp: lstrip_by_def)

lemma strip_by_idem [simp]: "strip_by p (strip_by p s) = strip_by p s"
proof -
  let ?l = "dropWhile p s"
  have "?l = [] \<or> \<not> p (hd ?l)" by (metis hd_dropWhile)
  from dropWhile_rev_dropWhile_fix [of ?l p, OF this] have "lstrip_by p (strip_by p s) = strip_by p s"
    by (intro lstrip_by_idem) (simp add: strip_by_def rstrip_by_def lstrip_by_def)
  moreover have "rstrip_by p (strip_by p s) = strip_by p s"
    by (simp add: strip_by_def rstrip_by_def)
  ultimately show ?thesis by (simp add: strip_by_def [of p "strip_by p s"])
qed

lemma strip_idem [simp]: "strip (strip s) = strip s"
  by (simp add: strip_def)

lemma strip_no_space: "\<forall>c\<in>set s. \<not> is_space c \<Longrightarrow> strip s = s"
proof -
  assume a: "\<forall>c\<in>set s. \<not> is_space c"
  then have "dropWhile is_space s = s" and "dropWhile is_space (rev s) = rev s"
    by (metis dropWhile_eq_self_iff hd_in_set, metis a dropWhile_eq_self_iff hd_in_set set_rev)
  then show "strip s = s" by (simp add: strip_def strip_by_def lstrip_by_def rstrip_by_def)
qed

lemma contains_refl [simp]: "contains s s"
  by (cases s) (simp_all add: startswith_def)

lemma contains_iff: "contains s p \<longleftrightarrow> (\<exists>u v. s = u @ p @ v)"
proof (induction s)
  case Nil
  then show ?case by auto
next
  case (Cons c cs)
  have pre: "startswith (c # cs) p \<longleftrightarrow> (\<exists>v. c # cs = p @ v)"
    by (metis append_eq_conv_conj append_take_drop_id startswith_def)
  show ?case
    unfolding contains.simps Cons.IH pre
    by (metis append_Cons append_Nil neq_Nil_conv list.inject)
qed

lemma lower_append: "lower (s @ t) = lower s @ lower t"
  by (simp add: lower_def)

lemma nat_to_base_nonempty: "nat_to_base b n \<noteq> []"
  by (subst nat_to_base.simps) simp

end
