(* ===== verification/Uuid.thy ===== *)
theory Uuid
  imports Py_Text
begin

text \<open>
  Identifiers. A \<open>uuid.UUID\<close> is its 128-bit integer; \<open>uuid_str\<close> is \<open>str(u)\<close> and
  \<open>uuid_parse\<close> is the constructor \<open>uuid.UUID(s)\<close> of the standard library, with \<open>None\<close> for
  its \<open>ValueError\<close>. The routes print identifiers with the first and the authentication
  dependency reads the subject, the session and the legacy header with the second.
\<close>

type_synonym uuid = nat

fun hex_pad :: "nat \<Rightarrow> nat \<Rightarrow> string" where
  "hex_pad 0 n = []"
| "hex_pad (Suc k) n = hex_pad k (n div 16) @ [digit_char (n mod 16)]"

definition uuid_str :: "uuid \<Rightarrow> string" where
  "uuid_str u = (let h = hex_pad 32 u in
     take 8 h @ ''-'' @ take 4 (drop 8 h) @ ''-'' @ take 4 (drop 12 h) @ ''-'' @
     take 4 (drop 16 h) @ ''-'' @ drop 20 h)"

text \<open>\<open>s.replace(p, "")\<close> for a non-empty \<open>p\<close>.\<close>

function remove_sub :: "string \<Rightarrow> string \<Rightarrow> string" where
  "remove_sub p s =
     (if p \<noteq> [] \<and> s \<noteq> [] \<and> startswith s p then remove_sub p (drop (length p) s)
      else (case s of [] \<Rightarrow> [] | c # cs \<Rightarrow> c # remove_sub p cs))"
  by pat_completeness auto
termination
  by (relation "measure (\<lambda>(p, s). length s)") auto

declare remove_sub.simps [simp del]

definition uuid_parse :: "string \<Rightarrow> uuid option" where
  "uuid_parse s =
     (let h1 = remove_sub ''uuid:'' (remove_sub ''urn:'' s);
          h2 = filter (\<lambda>c. c \<noteq> CHR ''-'') (strip_by (\<lambda>c. c = CHR ''{'' \<or> c = CHR ''}'') h1)
      in if length h2 \<noteq> 32 then None
         else (case parse_int 16 h2 of
                 None \<Rightarrow> None
               | Some i \<Rightarrow> if 0 \<le> i \<and> i < 2 ^ 128 then Some (nat i) else None))"

section \<open>Printing and reading back\<close>

definition hex_char :: "char \<Rightarrow> bool" where
  "hex_char c \<longleftrightarrow> (\<exists>d < 16. c = digit_char d)"

lemma lt_16_cases:
  "(d::nat) < 16 \<Longrightarrow> d = 0 \<or> d = 1 \<or> d = 2 \<or> d = 3 \<or> d = 4 \<or> d = 5 \<or> d = 6 \<or> d = 7 \<or>
     d = 8 \<or> d = 9 \<or> d = 10 \<or> d = 11 \<or> d = 12 \<or> d = 13 \<or> d = 14 \<or> d = 15"
  by arith

lemma of_digit_char:
  "d < 16 \<Longrightarrow> (of_char (digit_char d) :: nat) = (if d < 10 then 48 + d else 87 + d)"
  by (simp add: digit_char_def)

lemma digit_val_digit_char: "d < 16 \<Longrightarrow> digit_val (digit_char d) = Some d"
  by (simp add: digit_val_def of_digit_char Let_def)

lemma hex_char_plain:
  assumes "hex_char c"
  shows "\<not> is_space c" "c \<noteq> CHR ''_''" "c \<noteq> CHR ''-''" "c \<noteq> CHR ''+''" "c \<noteq> CHR ''x''"
    "c \<noteq> CHR ''X''" "c \<noteq> CHR ''{''" "c \<noteq> CHR ''}''" "c \<noteq> CHR '':''"
proof -
  from assms obtain d where d: "d < 16" and c: "c = digit_char d" by (auto simp: hex_char_def)
  have n: "(of_char c :: nat) = (if d < 10 then 48 + d else 87 + d)"
    using of_digit_char [OF d] c by simp
  then show "\<not> is_space c" using d by (auto simp: is_space_def Let_def)
  have "\<And>e. (of_char c :: nat) \<noteq> of_char e \<Longrightarrow> c \<noteq> e" by auto
  then show "c \<noteq> CHR ''_''" "c \<noteq> CHR ''-''" "c \<noteq> CHR ''+''" "c \<noteq> CHR ''x''" "c \<noteq> CHR ''X''"
    "c \<noteq> CHR ''{''" "c \<noteq> CHR ''}''" "c \<noteq> CHR '':''"
    using n d by (simp_all split: if_splits)
qed

lemma hex_pad_length [simp]: "length (hex_pad k n) = k"
  by (induction k arbitrary: n) auto

lemma hex_pad_chars: "c \<in> set (hex_pad k n) \<Longrightarrow> hex_char c"
proof (induction k arbitrary: n)
  case 0
  then show ?case by simp
next
  case (Suc k)
  have "hex_char (digit_char (n mod 16))"
    unfolding hex_char_def by (intro exI [of _ "n mod 16"]) simp
  with Suc show ?case by auto
qed

lemma digits_acc_foldl:
  assumes "\<forall>c\<in>set s. c \<noteq> CHR ''_'' \<and> (\<exists>d<b. digit_val c = Some d)" and "us \<or> s \<noteq> []"
  shows "digits_acc b us acc s = Some (foldl (\<lambda>a c. a * b + the (digit_val c)) acc s)"
  using assms
proof (induction s arbitrary: us acc)
  case Nil
  then show ?case by simp
next
  case (Cons c cs)
  then obtain d where "d < b" "digit_val c = Some d" "c \<noteq> CHR ''_''" by auto
  with Cons show ?case by simp
qed

lemma foldl_hex_pad:
  "foldl (\<lambda>a c. a * 16 + the (digit_val c)) acc (hex_pad k n) = acc * 16 ^ k + n mod 16 ^ k"
proof (induction k arbitrary: n)
  case 0
  then show ?case by simp
next
  case (Suc k)
  have "n mod 16 ^ Suc k = (n div 16) mod 16 ^ k * 16 + n mod 16"
    by (metis mod_mult2_eq mult.commute power_Suc add.commute)
  then show ?case
    by (simp add: Suc digit_val_digit_char add_mult_distrib)
qed

lemma remove_sub_absent: "CHR '':'' \<notin> set s \<Longrightarrow> CHR '':'' \<in> set p \<Longrightarrow> remove_sub p s = s"
proof (induction s)
  case Nil
  then show ?case by (simp add: remove_sub.simps)
next
  case (Cons c cs)
  then have "\<not> startswith (c # cs) p"
    by (metis in_set_takeD startswith_def)
  with Cons show ?case by (simp add: remove_sub.simps [of p "c # cs"])
qed

lemma strip_by_absent: "\<forall>c\<in>set s. \<not> p c \<Longrightarrow> strip_by p s = s"
proof -
  have same: "\<forall>c\<in>set xs. \<not> p c \<Longrightarrow> dropWhile p xs = xs" for xs
    by (cases xs) auto
  assume "\<forall>c\<in>set s. \<not> p c"
  then show "strip_by p s = s"
    using same [of s] same [of "rev s"] by (simp add: strip_by_def lstrip_by_def rstrip_by_def)
qed

lemma uuid_str_chars: "c \<in> set (uuid_str u) \<Longrightarrow> hex_char c \<or> c = CHR ''-''"
  by (auto simp: uuid_str_def Let_def dest: in_set_takeD in_set_dropD intro: hex_pad_chars)

lemma filter_hex: "\<forall>c\<in>set s. hex_char c \<Longrightarrow> filter (\<lambda>c. c \<noteq> CHR ''-'') s = s"
  using hex_char_plain(3) by (intro filter_True) blast

lemma split_hex_32:
  "take 8 h @ take 4 (drop 8 h) @ take 4 (drop 12 h) @ take 4 (drop 16 h) @ drop 20 h = h"
proof -
  have step: "take n (drop m h) @ drop (m + n) h = drop m h" for m n
    by (metis append_take_drop_id drop_drop add.commute)
  show ?thesis
    using step [where m = 16 and n = 4] step [where m = 12 and n = 4] step [where m = 8 and n = 4]
    by simp
qed

lemma filter_hex_pad: "filter (\<lambda>c. c \<noteq> CHR ''-'') (uuid_str u) = hex_pad 32 u"
proof -
  have "\<forall>c\<in>set (take i (drop j (hex_pad 32 u))). hex_char c"
    and "\<forall>c\<in>set (drop j (hex_pad 32 u)). hex_char c"
    and "\<forall>c\<in>set (take i (hex_pad 32 u)). hex_char c" for i j
    by (auto dest!: in_set_takeD in_set_dropD intro: hex_pad_chars)
  then have "filter (\<lambda>c. c \<noteq> CHR ''-'') (uuid_str u) =
      take 8 (hex_pad 32 u) @ take 4 (drop 8 (hex_pad 32 u)) @ take 4 (drop 12 (hex_pad 32 u)) @
      take 4 (drop 16 (hex_pad 32 u)) @ drop 20 (hex_pad 32 u)"
    by (simp add: uuid_str_def Let_def filter_hex del: filter_True)
  then show ?thesis by (simp only: split_hex_32)
qed

lemma parse_int_hex_pad: "parse_int 16 (hex_pad 32 u) = Some (int (u mod 16 ^ 32))"
proof -
  let ?h = "hex_pad 32 u"
  have h: "\<forall>c\<in>set ?h. hex_char c" by (auto intro: hex_pad_chars)
  have len: "length ?h = 32" by simp
  then obtain c cs where ccs: "?h = c # cs" by (cases ?h) auto
  from len ccs obtain e es where ees: "cs = e # es" by (cases cs) auto
  have plain: "c \<noteq> CHR ''-''" "c \<noteq> CHR ''+''" "e \<noteq> CHR ''x''" "e \<noteq> CHR ''X''"
    using h ccs ees hex_char_plain by auto
  have "strip ?h = ?h" using h hex_char_plain(1) by (intro strip_no_space) blast
  moreover have "digits_acc 16 False 0 ?h = Some (u mod 16 ^ 32)"
  proof -
    have "\<forall>c\<in>set ?h. c \<noteq> CHR ''_'' \<and> (\<exists>d<16. digit_val c = Some d)"
      using h hex_char_plain(2) digit_val_digit_char by (metis hex_char_def)
    then have "digits_acc 16 False 0 ?h = Some (foldl (\<lambda>a c. a * 16 + the (digit_val c)) 0 ?h)"
      using ccs by (intro digits_acc_foldl) auto
    then show ?thesis by (simp only: foldl_hex_pad) simp
  qed
  ultimately show ?thesis
    using plain ccs ees by (simp add: parse_int_def parse_digits_def startswith_def Let_def)
qed

lemma uuid_parse_str: "u < 2 ^ 128 \<Longrightarrow> uuid_parse (uuid_str u) = Some u"
proof -
  assume u: "u < 2 ^ 128"
  have "CHR '':'' \<notin> set (uuid_str u)"
    using uuid_str_chars hex_char_plain(9) by fastforce
  then have r: "remove_sub ''uuid:'' (remove_sub ''urn:'' (uuid_str u)) = uuid_str u"
    by (simp add: remove_sub_absent)
  have s: "strip_by (\<lambda>c. c = CHR ''{'' \<or> c = CHR ''}'') (uuid_str u) = uuid_str u"
    using uuid_str_chars hex_char_plain(7,8) by (intro strip_by_absent) fastforce
  have "u mod 16 ^ 32 = u" using u by simp
  then show ?thesis
    using u by (simp add: uuid_parse_def r s filter_hex_pad parse_int_hex_pad Let_def)
qed

lemma uuid_str_inject: "u < 2 ^ 128 \<Longrightarrow> v < 2 ^ 128 \<Longrightarrow> uuid_str u = uuid_str v \<Longrightarrow> u = v"
  by (metis option.inject uuid_parse_str)

lemma uuid_str_nonempty [simp]: "uuid_str u \<noteq> []"
  by (simp add: uuid_str_def Let_def)

end
