(* ===== verification/Http.thy ===== *)
theory Http
  imports Uuid Complex_Main
begin

text \<open>
  Data exchanged at the borders of the program: JSON values (configurations, payloads and
  response bodies), requests and responses. A JSON object keeps its members in order, as a
  Python \<open>dict\<close> does, and lookup takes the first member with the key. A finite float is
  the rational it denotes.
\<close>

section \<open>JSON values\<close>

datatype json =
    JNull
  | JBool bool
  | JInt int
  | JFloat rat
  | JStr string
  | JArr "json list"
  | JObj "(string \<times> json) list"

text \<open>\<open>d.get(k, default)\<close>, \<open>d[k]\<close> and the truth value of a value.\<close>

definition jget :: "(string \<times> json) list \<Rightarrow> string \<Rightarrow> json \<Rightarrow> json" where
  "jget d k v = (case map_of d k of None \<Rightarrow> v | Some x \<Rightarrow> x)"

fun truthy :: "json \<Rightarrow> bool" where
  "truthy JNull = False"
| "truthy (JBool b) = b"
| "truthy (JInt i) = (i \<noteq> 0)"
| "truthy (JFloat q) = (q \<noteq> 0)"
| "truthy (JStr s) = (s \<noteq> [])"
| "truthy (JArr xs) = (xs \<noteq> [])"
| "truthy (JObj kvs) = (kvs \<noteq> [])"

definition jstr_opt :: "string option \<Rightarrow> json" where
  "jstr_opt x = (case x of None \<Rightarrow> JNull | Some s \<Rightarrow> JStr s)"

definition jint_opt :: "int option \<Rightarrow> json" where
  "jint_opt x = (case x of None \<Rightarrow> JNull | Some i \<Rightarrow> JInt i)"

definition jstrs :: "string list \<Rightarrow> json" where
  "jstrs xs = JArr (map JStr xs)"

lemma jget_Cons [simp]: "jget ((k', x) # d) k v = (if k = k' then x else jget d k v)"
  by (simp add: jget_def)

lemma jget_Nil [simp]: "jget [] k v = v"
  by (simp add: jget_def)

section \<open>Requests and responses\<close>

record request =
  rq_method :: string
  rq_path :: string
  rq_headers :: "(string \<times> string) list"
  rq_cookies :: "(string \<times> string) list"
  rq_client :: "string option"
  rq_request_id :: "string option"
  rq_session_id :: "uuid option"

record response =
  rs_status :: int
  rs_body :: json
  rs_headers :: "(string \<times> string) list"

text \<open>Header names are compared without case, cookies with it.\<close>

fun header :: "(string \<times> string) list \<Rightarrow> string \<Rightarrow> string option" where
  "header [] k = None"
| "header ((n, v) # hs) k = (if lower n = lower k then Some v else header hs k)"

text \<open>\<open>response.headers[name] = value\<close>: replaces a header of that name or appends one.\<close>

definition set_header :: "string \<Rightarrow> string \<Rightarrow> response \<Rightarrow> response" where
  "set_header k v r =
     (if header (rs_headers r) k = None then r\<lparr>rs_headers := rs_headers r @ [(k, v)]\<rparr>
      else r\<lparr>rs_headers := map (\<lambda>(n, w). if lower n = lower k then (n, v) else (n, w)) (rs_headers r)\<rparr>)"

definition json_response :: "int \<Rightarrow> json \<Rightarrow> (string \<times> string) list \<Rightarrow> response" where
  "json_response st b hs = \<lparr>rs_status = st, rs_body = b, rs_headers = hs\<rparr>"

text \<open>The identifier of a request outside the request-id middleware is \<open>"unknown"\<close>.\<close>

definition request_id_or_unknown :: "request \<Rightarrow> string" where
  "request_id_or_unknown rq = (case rq_request_id rq of None \<Rightarrow> ''unknown'' | Some i \<Rightarrow> i)"

lemma header_append: "header (xs @ ys) k = (case header xs k of None \<Rightarrow> header ys k | Some v \<Rightarrow> Some v)"
  by (induction xs k rule: header.induct) auto

lemma header_map_other:
  "lower k \<noteq> lower k' \<Longrightarrow>
     header (map (\<lambda>(n, w). if lower n = lower k' then (n, v) else (n, w)) hs) k = header hs k"
  by (induction hs k rule: header.induct) auto

lemma header_map_same:
  "header hs k \<noteq> None \<Longrightarrow>
     header (map (\<lambda>(n, w). if lower n = lower k then (n, v) else (n, w)) hs) k = Some v"
  by (induction hs k rule: header.induct) auto

lemma header_set_header:
  "header (rs_headers (set_header k' v r)) k =
     (if lower k = lower k' then Some v else header (rs_headers r) k)"
proof -
  have "lower k = lower k' \<Longrightarrow> header hs k = header hs k'" for hs
    by (induction hs k rule: header.induct) auto
  then show ?thesis
    by (auto simp: set_header_def header_append header_map_other header_map_same
        split: option.splits)
qed

lemma set_header_fields [simp]:
  "rs_status (set_header k v r) = rs_status r" "rs_body (set_header k v r) = rs_body r"
  by (simp_all add: set_header_def)

section \<open>The success envelope\<close>

text \<open>
  \<open>app/api/responses.py\<close>: \<open>ResponseMeta\<close> carries the request id, the API version and the
  optional page numbers, with their bounds (\<open>page \<ge> 1\<close>, \<open>page_size \<ge> 1\<close>, \<open>total \<ge> 0\<close>); a
  value out of bounds makes the constructor raise. \<open>None\<close> stands for that.
\<close>

record response_meta =
  m_request_id :: string
  m_api_version :: string
  m_page :: "int option"
  m_page_size :: "int option"
  m_total :: "int option"

definition at_least :: "int \<Rightarrow> int option \<Rightarrow> bool" where
  "at_least n x = (case x of None \<Rightarrow> True | Some i \<Rightarrow> n \<le> i)"

definition meta_ok :: "response_meta \<Rightarrow> bool" where
  "meta_ok m = (at_least 1 (m_page m) \<and> at_least 1 (m_page_size m) \<and> at_least 0 (m_total m))"

definition meta_json :: "response_meta \<Rightarrow> json" where
  "meta_json m = JObj [(''request_id'', JStr (m_request_id m)),
     (''api_version'', JStr (m_api_version m)), (''page'', jint_opt (m_page m)),
     (''page_size'', jint_opt (m_page_size m)), (''total'', jint_opt (m_total m))]"

definition success_response ::
  "json \<Rightarrow> request option \<Rightarrow> string \<Rightarrow> int option \<Rightarrow> int option \<Rightarrow> int option \<Rightarrow> json option" where
  "success_response dat rq ver page page_size tot =
     (let m = \<lparr>m_request_id = (case rq of None \<Rightarrow> ''unknown'' | Some r \<Rightarrow> request_id_or_unknown r),
               m_api_version = ver, m_page = page, m_page_size = page_size, m_total = tot\<rparr>
      in if meta_ok m then Some (JObj [(''success'', JBool True), (''data'', dat), (''meta'', meta_json m)])
         else None)"

end
