(* ===== verification/App_Errors.thy ===== *)
theory App_Errors
  imports Http
begin

text \<open>
  \<open>app/errors\<close>: the class hierarchy of application errors, the translation of database
  errors, and the exception handlers that turn every exception into an HTTP response.
\<close>

section \<open>The class hierarchy (exceptions.py)\<close>

datatype app_class =
    AppError | BadRequestError | InvalidInputError | NotFoundError | ConflictError
  | AuthenticationError | PermissionDenied | PersistenceFailure | DatabaseUnavailable
  | UserAlreadyExists | DataConflict | AccountLocked | InvalidCredentials
  | EmailVerificationRequired | InvalidAccessToken | AuthenticationRequired | SessionRevoked
  | InvalidRefreshToken | RefreshTokenReplay | InvalidVerificationCode | FeatureNotAvailable
  | SessionManagementDisabled | CurrentSessionUnavailable | SessionNotFound
  | UserOrRoleNotFound | UserNotFound | SourceNotFound | UnsupportedSourceKind
  | IngestionAlreadyRunning | RunNotFound | JobNotFound | MatchNotFound
  | ActivePreferenceNotFound | NotificationDeliveryNotFound | InvalidUserIdentifier

text \<open>The base class each \<open>class\<close> statement names; \<open>AppError\<close> derives from \<open>Exception\<close>.\<close>

primrec parent :: "app_class \<Rightarrow> app_class option" where
  "parent AppError = None"
| "parent BadRequestError = Some AppError"
| "parent InvalidInputError = Some AppError"
| "parent NotFoundError = Some AppError"
| "parent ConflictError = Some AppError"
| "parent AuthenticationError = Some AppError"
| "parent PermissionDenied = Some AppError"
| "parent PersistenceFailure = Some AppError"
| "parent DatabaseUnavailable = Some PersistenceFailure"
| "parent UserAlreadyExists = Some ConflictError"
| "parent DataConflict = Some ConflictError"
| "parent AccountLocked = Some AuthenticationError"
| "parent InvalidCredentials = Some AuthenticationError"
| "parent EmailVerificationRequired = Some AuthenticationError"
| "parent InvalidAccessToken = Some AuthenticationError"
| "parent AuthenticationRequired = Some AuthenticationError"
| "parent SessionRevoked = Some AuthenticationError"
| "parent InvalidRefreshToken = Some AuthenticationError"
| "parent RefreshTokenReplay = Some InvalidRefreshToken"
| "parent InvalidVerificationCode = Some BadRequestError"
| "parent FeatureNotAvailable = Some NotFoundError"
| "parent SessionManagementDisabled = Some ConflictError"
| "parent CurrentSessionUnavailable = Some ConflictError"
| "parent SessionNotFound = Some NotFoundError"
| "parent UserOrRoleNotFound = Some NotFoundError"
| "parent UserNotFound = Some NotFoundError"
| "parent SourceNotFound = Some NotFoundError"
| "parent UnsupportedSourceKind = Some InvalidInputError"
| "parent IngestionAlreadyRunning = Some ConflictError"
| "parent RunNotFound = Some NotFoundError"
| "parent JobNotFound = Some NotFoundError"
| "parent MatchNotFound = Some NotFoundError"
| "parent ActivePreferenceNotFound = Some NotFoundError"
| "parent NotificationDeliveryNotFound = Some NotFoundError"
| "parent InvalidUserIdentifier = Some BadRequestError"

text \<open>The class attributes \<open>code\<close> and \<open>message\<close>.\<close>

primrec class_code :: "app_class \<Rightarrow> string" where
  "class_code AppError = ''APPLICATION_ERROR''"
| "class_code BadRequestError = ''BAD_REQUEST''"
| "class_code InvalidInputError = ''INVALID_INPUT''"
| "class_code NotFoundError = ''RESOURCE_NOT_FOUND''"
| "class_code ConflictError = ''CONFLICT''"
| "class_code AuthenticationError = ''AUTHENTICATION_FAILED''"
| "class_code PermissionDenied = ''PERMISSION_DENIED''"
| "class_code PersistenceFailure = ''DATABASE_ERROR''"
| "class_code DatabaseUnavailable = ''DATABASE_UNAVAILABLE''"
| "class_code UserAlreadyExists = ''USER_ALREADY_EXISTS''"
| "class_code DataConflict = ''DATA_CONFLICT''"
| "class_code AccountLocked = ''ACCOUNT_LOCKED''"
| "class_code InvalidCredentials = ''INVALID_CREDENTIALS''"
| "class_code EmailVerificationRequired = ''EMAIL_VERIFICATION_REQUIRED''"
| "class_code InvalidAccessToken = ''INVALID_ACCESS_TOKEN''"
| "class_code AuthenticationRequired = ''AUTHENTICATION_REQUIRED''"
| "class_code SessionRevoked = ''SESSION_REVOKED''"
| "class_code InvalidRefreshToken = ''INVALID_REFRESH_TOKEN''"
| "class_code RefreshTokenReplay = ''REFRESH_TOKEN_REPLAY''"
| "class_code InvalidVerificationCode = ''INVALID_VERIFICATION_CODE''"
| "class_code FeatureNotAvailable = ''FEATURE_NOT_AVAILABLE''"
| "class_code SessionManagementDisabled = ''SESSION_MANAGEMENT_DISABLED''"
| "class_code CurrentSessionUnavailable = ''CURRENT_SESSION_UNAVAILABLE''"
| "class_code SessionNotFound = ''SESSION_NOT_FOUND''"
| "class_code UserOrRoleNotFound = ''USER_OR_ROLE_NOT_FOUND''"
| "class_code UserNotFound = ''USER_NOT_FOUND''"
| "class_code SourceNotFound = ''SOURCE_NOT_FOUND''"
| "class_code UnsupportedSourceKind = ''UNSUPPORTED_SOURCE_KIND''"
| "class_code IngestionAlreadyRunning = ''INGESTION_ALREADY_RUNNING''"
| "class_code RunNotFound = ''RUN_NOT_FOUND''"
| "class_code JobNotFound = ''JOB_NOT_FOUND''"
| "class_code MatchNotFound = ''MATCH_NOT_FOUND''"
| "class_code ActivePreferenceNotFound = ''ACTIVE_PREFERENCES_NOT_FOUND''"
| "class_code NotificationDeliveryNotFound = ''NOTIFICATION_DELIVERY_NOT_FOUND''"
| "class_code InvalidUserIdentifier = ''INVALID_USER_ID''"

primrec class_message :: "app_class \<Rightarrow> string" where
  "class_message AppError = ''An application error occurred''"
| "class_message BadRequestError = ''The request could not be processed''"
| "class_message InvalidInputError = ''The request contains invalid data''"
| "class_message NotFoundError = ''The requested resource was not found''"
| "class_message ConflictError = ''The request conflicts with the current state''"
| "class_message AuthenticationError = ''Authentication failed''"
| "class_message PermissionDenied = ''You do not have permission to perform this action''"
| "class_message PersistenceFailure = ''A database operation failed''"
| "class_message DatabaseUnavailable = ''The database is temporarily unavailable''"
| "class_message UserAlreadyExists = ''A user with this email already exists''"
| "class_message DataConflict = ''A record with these values already exists''"
| "class_message AccountLocked = ''The account is temporarily locked''"
| "class_message InvalidCredentials = ''Invalid credentials''"
| "class_message EmailVerificationRequired = ''Email verification is required''"
| "class_message InvalidAccessToken = ''Invalid authentication token''"
| "class_message AuthenticationRequired = ''Authentication is required''"
| "class_message SessionRevoked = ''The session is no longer active''"
| "class_message InvalidRefreshToken = ''Invalid refresh token''"
| "class_message RefreshTokenReplay = ''Refresh token reuse was detected''"
| "class_message InvalidVerificationCode = ''The verification code is invalid or expired''"
| "class_message FeatureNotAvailable = ''This feature is not enabled''"
| "class_message SessionManagementDisabled = ''Session management is disabled''"
| "class_message CurrentSessionUnavailable = ''The current session is unavailable''"
| "class_message SessionNotFound = ''The session was not found''"
| "class_message UserOrRoleNotFound = ''The user or role was not found''"
| "class_message UserNotFound = ''The user was not found''"
| "class_message SourceNotFound = ''The source was not found''"
| "class_message UnsupportedSourceKind = ''The configured source type is not supported''"
| "class_message IngestionAlreadyRunning = ''An ingestion run is already in progress for this source''"
| "class_message RunNotFound = ''The ingestion run was not found''"
| "class_message JobNotFound = ''The job was not found''"
| "class_message MatchNotFound = ''The match was not found''"
| "class_message ActivePreferenceNotFound = ''No active preference profile was found''"
| "class_message NotificationDeliveryNotFound = ''The notification delivery was not found''"
| "class_message InvalidUserIdentifier = ''X-User-ID must be a UUID''"

text \<open>\<open>isinstance(e, d)\<close>: the chain of base classes, whose length the depth bounds.\<close>

definition class_depth :: "app_class \<Rightarrow> nat" where
  "class_depth c = (if c = AppError then 0 else if c = RefreshTokenReplay then 3
     else if parent c = Some AppError then 1 else 2)"

lemma parent_depth: "parent c = Some d \<Longrightarrow> class_depth d < class_depth c"
  by (cases c) (auto simp: class_depth_def)

function mro :: "app_class \<Rightarrow> app_class list" where
  "mro c = c # (case parent c of None \<Rightarrow> [] | Some p \<Rightarrow> mro p)"
  by pat_completeness auto
termination
  by (relation "measure class_depth") (auto simp: parent_depth)

declare mro.simps [simp del]

definition isinstance :: "app_class \<Rightarrow> app_class \<Rightarrow> bool" where
  "isinstance c d = (d \<in> set (mro c))"

text \<open>\<open>AppError.__init__\<close>: an argument that is absent or falsy gives the class default.\<close>

record app_error =
  ae_class :: app_class
  ae_code :: string
  ae_message :: string
  ae_details :: "json list"

definition or_default :: "string option \<Rightarrow> string \<Rightarrow> string" where
  "or_default x d = (case x of None \<Rightarrow> d | Some s \<Rightarrow> if s = [] then d else s)"

definition app_error_init ::
  "app_class \<Rightarrow> string option \<Rightarrow> string option \<Rightarrow> json list option \<Rightarrow> app_error" where
  "app_error_init c code msg details =
     \<lparr>ae_class = c, ae_code = or_default code (class_code c),
      ae_message = or_default msg (class_message c),
      ae_details = (case details of None \<Rightarrow> [] | Some ds \<Rightarrow> ds)\<rparr>"

definition err :: "app_class \<Rightarrow> app_error" where
  "err c = app_error_init c None None None"

lemma err_class [simp]: "ae_class (err c) = c"
  and err_code [simp]: "ae_code (err c) = class_code c"
  and err_message [simp]: "ae_message (err c) = class_message c"
  and err_details [simp]: "ae_details (err c) = []"
  by (simp_all add: err_def app_error_init_def or_default_def)

lemma err_inject [simp]: "err c = err d \<longleftrightarrow> c = d"
  by (metis err_class)

section \<open>Exceptions of the program\<close>

text \<open>
  A driver error is what SQLAlchemy raises: its class (\<open>IntegrityError\<close> is a
  \<open>DBAPIError\<close>, which is a \<open>SQLAlchemyError\<close>) and the attributes the translation reads.
\<close>

datatype sql_class = Integrity | Dbapi | OtherSql

record sql_error =
  sq_class :: sql_class
  sq_diag_constraint :: "string option"
  sq_orig_constraint :: "string option"
  sq_sqlstate :: "string option"
  sq_pgcode :: "string option"
  sq_message :: string
  sq_invalidated :: bool

text \<open>
  Every exception that can reach a handler or a loop of the program. \<open>Adapter\<close> is
  \<open>AdapterError\<close> with its message and its \<open>retryable\<close> attribute; \<open>HttpStatus\<close> is
  \<open>httpx.HTTPStatusError\<close>, which carries no \<open>status_code\<close> attribute of its own;
  \<open>Foreign\<close> is any other exception, with its \<open>str\<close>, its \<open>status_code\<close> and \<open>retryable\<close>.
\<close>

datatype exn =
    App app_error
  | Sql sql_error
  | Adapter string bool
  | KeyError string
  | TypeError string
  | AttributeError string
  | ValueError string
  | TimeoutError string
  | ConnectionError string
  | RedisError string
  | HttpStatus string
  | Foreign string "int option" bool

text \<open>\<open>str(error)\<close>.\<close>

fun exn_str :: "exn \<Rightarrow> string" where
  "exn_str (App e) = ae_message e"
| "exn_str (Sql e) = sq_message e"
| "exn_str (Adapter m _) = m"
| "exn_str (KeyError m) = CHR 0x27 # m @ [CHR 0x27]"
| "exn_str (TypeError m) = m"
| "exn_str (AttributeError m) = m"
| "exn_str (ValueError m) = m"
| "exn_str (TimeoutError m) = m"
| "exn_str (ConnectionError m) = m"
| "exn_str (RedisError m) = m"
| "exn_str (HttpStatus m) = m"
| "exn_str (Foreign m _ _) = m"

section \<open>Database errors (database.py)\<close>

definition py_or :: "string option \<Rightarrow> string option \<Rightarrow> string option" where
  "py_or a b = (case a of None \<Rightarrow> b | Some s \<Rightarrow> if s = [] then b else Some s)"

definition constraint_name :: "sql_error \<Rightarrow> string option" where
  "constraint_name e = py_or (sq_diag_constraint e) (sq_orig_constraint e)"

definition sqlstate :: "sql_error \<Rightarrow> string option" where
  "sqlstate e = py_or (sq_sqlstate e) (sq_pgcode e)"

definition translate_database_error :: "sql_error \<Rightarrow> app_error" where
  "translate_database_error e =
     (let orig = lower (sq_message e);
          named_email = (case constraint_name e of None \<Rightarrow> False
             | Some c \<Rightarrow> c \<noteq> [] \<and> contains (lower c) ''user'' \<and> contains (lower c) ''email'')
      in if sq_class e = Integrity \<and> (named_email \<or> contains orig ''users.email'')
         then err UserAlreadyExists
         else if sq_class e = Integrity
                 \<and> (sqlstate e = Some ''23505'' \<or> contains orig ''unique constraint failed'')
         then err DataConflict
         else if (sq_class e = Integrity \<or> sq_class e = Dbapi)
                 \<and> (sq_invalidated e
                    \<or> (case sqlstate e of None \<Rightarrow> False | Some s \<Rightarrow> startswith s ''08''))
         then err DatabaseUnavailable
         else err PersistenceFailure)"

section \<open>Payloads (responses.py)\<close>

definition build_error_payload :: "string \<Rightarrow> string \<Rightarrow> string \<Rightarrow> json list \<Rightarrow> json" where
  "build_error_payload code msg rid details =
     JObj [(''error'', JObj [(''code'', JStr code), (''message'', JStr msg),
       (''details'', JArr details), (''request_id'', JStr rid)])]"

definition error_payload :: "app_error \<Rightarrow> string \<Rightarrow> json" where
  "error_payload e rid = build_error_payload (ae_code e) (ae_message e) rid (ae_details e)"

section \<open>Handlers (handlers.py)\<close>

definition error_status_codes :: "(app_class \<times> int) list" where
  "error_status_codes = [(DatabaseUnavailable, 503), (InvalidInputError, 422),
     (BadRequestError, 400), (NotFoundError, 404), (ConflictError, 409),
     (AuthenticationError, 401), (PermissionDenied, 403), (PersistenceFailure, 500)]"

definition http_error_codes :: "(int \<times> string) list" where
  "http_error_codes = [(400, ''BAD_REQUEST''), (401, ''UNAUTHORIZED''), (403, ''FORBIDDEN''),
     (404, ''NOT_FOUND''), (405, ''METHOD_NOT_ALLOWED''), (409, ''CONFLICT''),
     (422, ''VALIDATION_ERROR''), (429, ''RATE_LIMIT_EXCEEDED'')]"

fun status_in :: "(app_class \<times> int) list \<Rightarrow> app_class \<Rightarrow> int" where
  "status_in [] c = 500"
| "status_in ((d, st) # ts) c = (if isinstance c d then st else status_in ts c)"

definition status_for_app_error :: "app_error \<Rightarrow> int" where
  "status_for_app_error e = status_in error_status_codes (ae_class e)"

definition is_mapped_app_error :: "app_error \<Rightarrow> bool" where
  "is_mapped_app_error e = (\<exists>(d, st) \<in> set error_status_codes. isinstance (ae_class e) d)"

definition unexpected_error_handler :: "request \<Rightarrow> response" where
  "unexpected_error_handler rq =
     json_response 500 (build_error_payload ''INTERNAL_SERVER_ERROR''
       ''An unexpected error occurred'' (request_id_or_unknown rq) []) []"

definition app_error_handler :: "request \<Rightarrow> app_error \<Rightarrow> response" where
  "app_error_handler rq e =
     (if \<not> is_mapped_app_error e then unexpected_error_handler rq
      else json_response (status_for_app_error e) (error_payload e (request_id_or_unknown rq))
        (if isinstance (ae_class e) AuthenticationRequired
            \<or> isinstance (ae_class e) InvalidAccessToken \<or> isinstance (ae_class e) SessionRevoked
         then [(''WWW-Authenticate'', ''Bearer'')] else []))"

text \<open>Pydantic's validation errors: the fields the payload is built from.\<close>

datatype loc_part = LocStr string | LocInt int

record validation_item =
  vi_type :: "string option"
  vi_loc :: "loc_part list"
  vi_min_length :: "int option"
  vi_max_length :: "int option"

fun loc_str :: "loc_part \<Rightarrow> string" where
  "loc_str (LocStr s) = s"
| "loc_str (LocInt i) = str_int i"

text \<open>\<open>str.capitalize\<close> on the ASCII letters; other first letters stay as they are.\<close>

definition upper_first :: "char \<Rightarrow> char" where
  "upper_first c = (let n = of_char c :: nat in if 97 \<le> n \<and> n \<le> 122 then char_of (n - 32) else c)"

fun capitalize :: "string \<Rightarrow> string" where
  "capitalize [] = []"
| "capitalize (c # cs) = upper_first c # lower cs"

definition opt_int_str :: "int option \<Rightarrow> string" where
  "opt_int_str x = (case x of None \<Rightarrow> ''None'' | Some i \<Rightarrow> str_int i)"

definition validation_message :: "validation_item \<Rightarrow> string \<Rightarrow> string" where
  "validation_message v field =
     (let code = (case vi_type v of None \<Rightarrow> [] | Some t \<Rightarrow> t);
          label = capitalize (map (\<lambda>c. if c = CHR ''_'' then CHR '' '' else c) field)
      in if code = ''missing'' then label @ '' is required''
         else if code = ''string_too_short''
           then label @ '' must be at least '' @ opt_int_str (vi_min_length v) @ '' characters''
         else if code = ''string_too_long''
           then label @ '' must be at most '' @ opt_int_str (vi_max_length v) @ '' characters''
         else if code = ''value_error.email'' then label @ '' must be a valid email address''
         else label @ '' is invalid'')"

definition validation_detail :: "validation_item \<Rightarrow> json" where
  "validation_detail v =
     (let joined = join ''.'' (map loc_str (tl (vi_loc v)));
          field = (if joined = [] then ''request'' else joined)
      in JObj [(''field'', JStr field),
        (''location'', JStr (case vi_loc v of [] \<Rightarrow> ''request'' | l # _ \<Rightarrow> loc_str l)),
        (''code'', JStr (case vi_type v of None \<Rightarrow> ''validation_error'' | Some t \<Rightarrow> t)),
        (''message'', JStr (validation_message v field))])"

definition validation_error_payload :: "validation_item list \<Rightarrow> string \<Rightarrow> json" where
  "validation_error_payload vs rid =
     build_error_payload ''VALIDATION_ERROR'' ''The request contains invalid data'' rid
       (map validation_detail vs)"

definition request_validation_error_handler :: "request \<Rightarrow> validation_item list \<Rightarrow> response" where
  "request_validation_error_handler rq vs =
     json_response 422 (validation_error_payload vs (request_id_or_unknown rq)) []"

text \<open>\<open>StarletteHTTPException\<close>: the detail is text or some other value (\<open>None\<close> here).\<close>

definition http_exception_handler ::
  "request \<Rightarrow> int \<Rightarrow> string option \<Rightarrow> (string \<times> string) list \<Rightarrow> response" where
  "http_exception_handler rq st detail hs =
     (let code = (case map_of http_error_codes st of None \<Rightarrow> ''HTTP_ERROR'' | Some c \<Rightarrow> c);
          msg = (case detail of None \<Rightarrow> ''The request could not be processed'' | Some d \<Rightarrow> d);
          (code', msg') = (if st \<ge> 500
             then (''INTERNAL_SERVER_ERROR'', ''An unexpected error occurred'') else (code, msg))
      in json_response st (build_error_payload code' msg' (request_id_or_unknown rq) []) hs)"

text \<open>
  \<open>register_exception_handlers\<close>: the handler of the most specific registered class.
  What escapes a route is one of these.
\<close>

datatype raised =
    RaisedExn exn
  | RaisedValidation "validation_item list"
  | RaisedHttp int "string option" "(string \<times> string) list"

fun handle_raised :: "request \<Rightarrow> raised \<Rightarrow> response" where
  "handle_raised rq (RaisedExn (App e)) = app_error_handler rq e"
| "handle_raised rq (RaisedExn x) = unexpected_error_handler rq"
| "handle_raised rq (RaisedValidation vs) = request_validation_error_handler rq vs"
| "handle_raised rq (RaisedHttp st d hs) = http_exception_handler rq st d hs"

section \<open>Facts\<close>

lemma mro_table [simp]:
  "mro AppError = [AppError]"
  "parent c = Some AppError \<Longrightarrow> mro c = [c, AppError]"
  by (simp_all add: mro.simps [of c] mro.simps [of AppError])

lemma isinstance_simps: "isinstance c d \<longleftrightarrow> c = d \<or> (\<exists>p. parent c = Some p \<and> isinstance p d)"
  by (simp add: isinstance_def mro.simps [of c] split: option.split) auto

lemma isinstance_AppError [simp]: "isinstance AppError d \<longleftrightarrow> d = AppError"
  by (auto simp: isinstance_simps [of AppError])

end
