(* ===== verification/Config.thy ===== *)
theory Config
  imports App_Errors
begin

text \<open>
  \<open>app/config.py\<close> and \<open>app/version.py\<close>: the settings with their defaults and field bounds,
  the start-up security validation, and the runtime metadata.
\<close>

record settings =
  app_env :: string
  app_name :: string
  app_version :: string
  git_sha :: string
  build_timestamp :: string
  log_level :: string
  database_url :: string
  redis_url :: string
  default_timezone :: string
  secret_key :: "string option"
  jwt_secret_key :: string
  jwt_issuer :: string
  access_token_expire_minutes :: int
  refresh_token_expire_days :: int
  default_user_role :: string
  initial_admin_email :: "string option"
  auth_require_token :: bool
  scheduler_poll_seconds :: int
  backup_dir :: string
  backup_retention_days :: int
  backup_interval_seconds :: int
  otel_enabled :: bool
  otel_service_name :: string
  otel_exporter_otlp_endpoint :: "string option"
  otel_sample_rate :: rat
  rate_limit_enabled :: bool
  rate_limit_window_seconds :: int
  rate_limit_general_requests :: int
  rate_limit_auth_requests :: int
  rate_limit_fail_open :: bool
  trusted_proxy_ips :: string
  auth_session_management_enabled :: bool
  auth_password_reset_enabled :: bool
  auth_email_verification_enabled :: bool
  auth_account_lockout_enabled :: bool
  auth_max_login_attempts :: int
  auth_lockout_minutes :: int
  auth_otp_expire_minutes :: int
  auth_otp_resend_seconds :: int
  cors_allowed_origins :: string
  cors_allow_credentials :: bool
  security_headers_enabled :: bool
  csrf_enabled :: bool
  hsts_enabled :: bool
  audit_retention_days :: int
  audit_archive_enabled :: bool
  audit_archive_dir :: string

text \<open>The values of the fields that the environment does not set.\<close>

definition default_settings :: "string \<Rightarrow> string \<Rightarrow> settings" where
  "default_settings db rd =
    \<lparr>app_env = ''local'', app_name = ''job-radar-agent'', app_version = ''0.1.0'',
     git_sha = ''unknown'', build_timestamp = ''unknown'', log_level = ''INFO'',
     database_url = db, redis_url = rd, default_timezone = ''Asia/Kolkata'', secret_key = None,
     jwt_secret_key = ''local-development-secret-change-me'', jwt_issuer = ''job-radar-agent'',
     access_token_expire_minutes = 15, refresh_token_expire_days = 30,
     default_user_role = ''user'', initial_admin_email = None, auth_require_token = False,
     scheduler_poll_seconds = 30, backup_dir = ''./backups'', backup_retention_days = 7,
     backup_interval_seconds = 86400, otel_enabled = False,
     otel_service_name = ''job-radar-agent'', otel_exporter_otlp_endpoint = None,
     otel_sample_rate = 1, rate_limit_enabled = True, rate_limit_window_seconds = 60,
     rate_limit_general_requests = 100, rate_limit_auth_requests = 10,
     rate_limit_fail_open = True, trusted_proxy_ips = [],
     auth_session_management_enabled = False, auth_password_reset_enabled = False,
     auth_email_verification_enabled = False, auth_account_lockout_enabled = False,
     auth_max_login_attempts = 5, auth_lockout_minutes = 15, auth_otp_expire_minutes = 10,
     auth_otp_resend_seconds = 60, cors_allowed_origins = [], cors_allow_credentials = False,
     security_headers_enabled = True, csrf_enabled = False, hsts_enabled = False,
     audit_retention_days = 365, audit_archive_enabled = False,
     audit_archive_dir = ''./backups/audit''\<rparr>"

text \<open>The \<open>Field(...)\<close> constraints, which Pydantic enforces when the settings are read.\<close>

definition settings_bounds :: "settings \<Rightarrow> bool" where
  "settings_bounds S = (database_url S \<noteq> [] \<and> redis_url S \<noteq> [] \<and>
     0 \<le> otel_sample_rate S \<and> otel_sample_rate S \<le> 1 \<and>
     1 \<le> rate_limit_window_seconds S \<and> 1 \<le> rate_limit_general_requests S \<and>
     1 \<le> rate_limit_auth_requests S \<and> 1 \<le> auth_max_login_attempts S \<and>
     1 \<le> auth_lockout_minutes S \<and> 1 \<le> auth_otp_expire_minutes S \<and>
     1 \<le> auth_otp_resend_seconds S \<and> 1 \<le> audit_retention_days S)"

definition validate_security :: "settings \<Rightarrow> exn + unit" where
  "validate_security S =
     (if app_env S \<in> {''staging'', ''production''} \<and> length (jwt_secret_key S) < 32
      then Inl (ValueError ''JWT_SECRET_KEY must contain at least 32 characters'')
      else if app_env S \<in> {''staging'', ''production''}
              \<and> jwt_secret_key S = ''local-development-secret-change-me''
      then Inl (ValueError ''JWT_SECRET_KEY must not use the development default'')
      else if cors_allow_credentials S \<and> contains (cors_allowed_origins S) ''*''
      then Inl (ValueError ''wildcard CORS origins cannot be used with credentials'')
      else Inr ())"

record runtime_metadata =
  rm_application :: string
  rm_version :: string
  rm_commit_sha :: string
  rm_build_timestamp :: string
  rm_environment :: string

definition runtime_metadata_of :: "settings \<Rightarrow> runtime_metadata" where
  "runtime_metadata_of S = \<lparr>rm_application = app_name S, rm_version = app_version S,
     rm_commit_sha = git_sha S, rm_build_timestamp = build_timestamp S,
     rm_environment = app_env S\<rparr>"

text \<open>The default settings satisfy the bounds, whatever the two required addresses are.\<close>

lemma default_settings_bounds:
  "db \<noteq> [] \<Longrightarrow> rd \<noteq> [] \<Longrightarrow> settings_bounds (default_settings db rd)"
  by (simp add: settings_bounds_def default_settings_def)

end
