(* ===== verification/Py_Repr.thy ===== *)
theory Py_Repr
  imports Http
begin

text \<open>
  Python's \<open>repr\<close> and \<open>str\<close> of the values a JSON document decodes to, and the quoting of
  \<open>csv.writer\<close>. Both are used on data the program stores or hashes: the payload hash of an
  ingested job is the digest of a \<open>repr\<close>, the audit export writes rows of \<open>str\<close>.
\<close>

definition hex2 :: "nat \<Rightarrow> string" where
  "hex2 n = (let s = nat_to_base 16 n in if length s < 2 then CHR ''0'' # s else s)"

definition repr_char :: "char \<Rightarrow> char \<Rightarrow> string" where
  "repr_char q c = (let n = of_char c :: nat in
     if c = q \<or> n = 92 then [char_of (92::nat), c]
     else if n = 10 then [char_of (92::nat), CHR ''n'']
     else if n = 13 then [char_of (92::nat), CHR ''r'']
     else if n = 9 then [char_of (92::nat), CHR ''t'']
     else if n < 32 \<or> (127 \<le> n \<and> n \<le> 160) \<or> n = 173 then [char_of (92::nat), CHR ''x''] @ hex2 n
     else [c])"

definition repr_str :: "string \<Rightarrow> string" where
  "repr_str s =
     (let sq = char_of (39::nat); dq = char_of (34::nat);
          q = if sq \<in> set s \<and> dq \<notin> set s then dq else sq
      in q # concat (map (repr_char q) s) @ [q])"

fun py_repr :: "(rat \<Rightarrow> string) \<Rightarrow> json \<Rightarrow> string" where
  "py_repr fr JNull = ''None''"
| "py_repr fr (JBool b) = (if b then ''True'' else ''False'')"
| "py_repr fr (JInt i) = str_int i"
| "py_repr fr (JFloat x) = fr x"
| "py_repr fr (JStr s) = repr_str s"
| "py_repr fr (JArr xs) = ''['' @ join '', '' (map (py_repr fr) xs) @ '']''"
| "py_repr fr (JObj kvs) =
     CHR 0x7B # join '', '' (map (\<lambda>(k, v). repr_str k @ '': '' @ py_repr fr v) kvs) @ [CHR 0x7D]"

definition py_str :: "(rat \<Rightarrow> string) \<Rightarrow> json \<Rightarrow> string" where
  "py_str fr v = (case v of JStr s \<Rightarrow> s | _ \<Rightarrow> py_repr fr v)"

section \<open>CSV\<close>

definition csv_field :: "string \<Rightarrow> string" where
  "csv_field s =
     (let dq = char_of (34::nat) in
      if \<exists>c\<in>set s. c = CHR '','' \<or> c = dq \<or> c = CHR 0x0A \<or> c = CHR 0x0D
      then dq # concat (map (\<lambda>c. if c = dq then [dq, dq] else [c]) s) @ [dq]
      else s)"

definition csv_row :: "string list \<Rightarrow> string" where
  "csv_row fs = join '','' (map csv_field fs) @ [CHR 0x0D, CHR 0x0A]"

text \<open>\<open>csv\<close> writes \<open>None\<close> as the empty field.\<close>

definition csv_value :: "(rat \<Rightarrow> string) \<Rightarrow> json \<Rightarrow> string" where
  "csv_value fr v = (case v of JNull \<Rightarrow> [] | _ \<Rightarrow> py_str fr v)"

end
