(* ===== verification/Schema.thy ===== *)
theory Schema
  imports Config Py_Repr
begin

text \<open>
  The persistent data of the program: one record per ORM model, with the columns of the class,
  and the database as a record of tables. A table is the list of its rows in insertion order.
  Instants are integers, microseconds since the epoch in UTC. The unique and foreign keys the
  models declare are the list \<open>constraints\<close>; \<open>db_ok\<close> says that all of them hold.
\<close>

type_synonym time = int

definition seconds :: "int \<Rightarrow> time" where "seconds n = n * 1000000"
definition minutes :: "int \<Rightarrow> time" where "minutes n = seconds (60 * n)"
definition days :: "int \<Rightarrow> time" where "days n = seconds (86400 * n)"

section \<open>Accounts (domain/preferences/models.py)\<close>

record user =
  u_id :: uuid
  u_email :: "string option"
  u_password_hash :: "string option"
  u_timezone :: string
  u_status :: string
  u_email_verified_at :: "time option"
  u_failed_login_attempts :: int
  u_locked_until :: "time option"
  u_created_at :: time
  u_updated_at :: time

record role =
  ro_id :: uuid
  ro_name :: string
  ro_description :: "string option"
  ro_is_active :: bool

record user_role =
  ur_user_id :: uuid
  ur_role_id :: uuid

record refresh_token =
  rt_id :: uuid
  rt_user_id :: uuid
  rt_session_id :: "uuid option"
  rt_token_hash :: string
  rt_family_id :: uuid
  rt_expires_at :: time
  rt_revoked_at :: "time option"
  rt_created_at :: time

record auth_session =
  as_id :: uuid
  as_user_id :: uuid
  as_device_name :: "string option"
  as_user_agent :: "string option"
  as_ip_address :: "string option"
  as_created_at :: time
  as_last_used_at :: time
  as_revoked_at :: "time option"

record verification_code =
  vc_id :: uuid
  vc_user_id :: uuid
  vc_purpose :: string
  vc_code_hash :: string
  vc_expires_at :: time
  vc_consumed_at :: "time option"
  vc_created_at :: time

record audit_event =
  ev_id :: uuid
  ev_actor_user_id :: "uuid option"
  ev_action :: string
  ev_resource_type :: string
  ev_resource_id :: "string option"
  ev_success :: bool
  ev_ip_address :: "string option"
  ev_user_agent :: "string option"
  ev_request_id :: "string option"
  ev_metadata :: "(string \<times> json) list"
  ev_created_at :: time

record preference_profile =
  pp_id :: uuid
  pp_user_id :: uuid
  pp_version :: int
  pp_config :: json
  pp_matching_weights :: "(string \<times> int) list"
  pp_is_active :: bool
  pp_created_at :: time

section \<open>Sources and jobs (ingestion/models.py, domain/jobs, domain/matching, domain/notifications)\<close>

record source =
  so_id :: uuid
  so_user_id :: uuid
  so_kind :: string
  so_name :: string
  so_config :: "(string \<times> json) list"
  so_credentials_ref :: "string option"
  so_schedule :: "string option"
  so_enabled :: bool
  so_last_success_at :: "time option"
  so_last_error_at :: "time option"

record ingestion_run =
  ir_id :: uuid
  ir_source_id :: uuid
  ir_status :: string
  ir_started_at :: time
  ir_completed_at :: "time option"
  ir_fetched_count :: int
  ir_normalized_count :: int
  ir_created_count :: int
  ir_updated_count :: int
  ir_duplicate_count :: int
  ir_error_count :: int
  ir_error_summary :: "(string \<times> json) list"

record job =
  j_id :: uuid
  j_title :: string
  j_company_name :: string
  j_company_normalized :: string
  j_description :: string
  j_description_hash :: string
  j_locations :: "json list"
  j_work_mode :: string
  j_experience_min :: "int option"
  j_experience_max :: "int option"
  j_salary_min :: "rat option"
  j_salary_max :: "rat option"
  j_salary_currency :: "string option"
  j_salary_unit :: "string option"
  j_extracted_skills :: "string list"
  j_application_url :: string
  j_last_seen_at :: time
  j_status :: string

record job_source_record =
  sr_id :: uuid
  sr_job_id :: uuid
  sr_source_id :: uuid
  sr_external_id :: string
  sr_source_url :: string
  sr_raw_payload :: "json option"
  sr_raw_payload_hash :: string
  sr_first_seen_at :: time
  sr_last_seen_at :: time

record job_feedback =
  jf_id :: uuid
  jf_user_id :: uuid
  jf_job_id :: uuid
  jf_label :: string
  jf_note :: "string option"
  jf_created_at :: time
  jf_updated_at :: time

record match_result =
  mr_id :: uuid
  mr_job_id :: uuid
  mr_preference_profile_id :: uuid
  mr_job_description_hash :: string
  mr_score :: int
  mr_confidence :: rat
  mr_decision :: string
  mr_component_scores :: "(string \<times> int) list"
  mr_matched_criteria :: "string list"
  mr_missing_criteria :: "string list"
  mr_concerns :: "string list"
  mr_reasoning :: string
  mr_matcher_version :: string
  mr_embedding_model :: "string option"
  mr_llm_model :: "string option"
  mr_prompt_version :: "string option"
  mr_created_at :: time

record notification_delivery =
  nd_id :: uuid
  nd_user_id :: uuid
  nd_job_id :: uuid
  nd_profile_id :: uuid
  nd_channel :: string
  nd_status :: string
  nd_attempt_count :: int
  nd_provider_message_id :: "string option"
  nd_error :: "string option"
  nd_created_at :: time
  nd_updated_at :: time

section \<open>The database\<close>

record db =
  users :: "user list"
  roles :: "role list"
  user_roles :: "user_role list"
  refresh_tokens :: "refresh_token list"
  auth_sessions :: "auth_session list"
  verification_codes :: "verification_code list"
  audit_events :: "audit_event list"
  preference_profiles :: "preference_profile list"
  sources :: "source list"
  ingestion_runs :: "ingestion_run list"
  jobs :: "job list"
  job_source_records :: "job_source_record list"
  job_feedbacks :: "job_feedback list"
  match_results :: "match_result list"
  notification_deliveries :: "notification_delivery list"

definition empty_db :: db where
  "empty_db = \<lparr>users = [], roles = [], user_roles = [], refresh_tokens = [], auth_sessions = [],
     verification_codes = [], audit_events = [], preference_profiles = [], sources = [],
     ingestion_runs = [], jobs = [], job_source_records = [], job_feedbacks = [],
     match_results = [], notification_deliveries = []\<rparr>"

text \<open>A unique column that may be null: only the values present must differ.\<close>

definition present :: "('a \<Rightarrow> 'b option) \<Rightarrow> 'a list \<Rightarrow> 'b list" where
  "present f xs = concat (map (\<lambda>x. case f x of None \<Rightarrow> [] | Some y \<Rightarrow> [y]) xs)"

definition references :: "('a \<Rightarrow> uuid) \<Rightarrow> 'a list \<Rightarrow> uuid list \<Rightarrow> bool" where
  "references f xs ids = (\<forall>x\<in>set xs. f x \<in> set ids)"

definition references_opt :: "('a \<Rightarrow> uuid option) \<Rightarrow> 'a list \<Rightarrow> uuid list \<Rightarrow> bool" where
  "references_opt f xs ids = (\<forall>x\<in>set xs. case f x of None \<Rightarrow> True | Some i \<Rightarrow> i \<in> set ids)"

text \<open>
  Each constraint with its name in the database and the SQLSTATE of its violation: 23505 for
  the unique ones, 23503 for the foreign keys. The last unique one is the partial index of the
  first migration (one active profile per user).
\<close>

definition constraints :: "(string \<times> string \<times> (db \<Rightarrow> bool)) list" where
  "constraints = [
    (''users_email_key'', ''23505'', \<lambda>d. distinct (present u_email (users d))),
    (''users_pkey'', ''23505'', \<lambda>d. distinct (map u_id (users d))),
    (''roles_name_key'', ''23505'', \<lambda>d. distinct (map ro_name (roles d))),
    (''roles_pkey'', ''23505'', \<lambda>d. distinct (map ro_id (roles d))),
    (''user_roles_pkey'', ''23505'', \<lambda>d. distinct (user_roles d)),
    (''refresh_tokens_token_hash_key'', ''23505'', \<lambda>d. distinct (map rt_token_hash (refresh_tokens d))),
    (''refresh_tokens_pkey'', ''23505'', \<lambda>d. distinct (map rt_id (refresh_tokens d))),
    (''auth_sessions_pkey'', ''23505'', \<lambda>d. distinct (map as_id (auth_sessions d))),
    (''verification_codes_pkey'', ''23505'', \<lambda>d. distinct (map vc_id (verification_codes d))),
    (''audit_events_pkey'', ''23505'', \<lambda>d. distinct (map ev_id (audit_events d))),
    (''preference_profiles_pkey'', ''23505'', \<lambda>d. distinct (map pp_id (preference_profiles d))),
    (''uq_preference_user_version'', ''23505'',
       \<lambda>d. distinct (map (\<lambda>p. (pp_user_id p, pp_version p)) (preference_profiles d))),
    (''uq_preference_active_user'', ''23505'',
       \<lambda>d. distinct (map pp_user_id (filter pp_is_active (preference_profiles d)))),
    (''sources_pkey'', ''23505'', \<lambda>d. distinct (map so_id (sources d))),
    (''ingestion_runs_pkey'', ''23505'', \<lambda>d. distinct (map ir_id (ingestion_runs d))),
    (''jobs_pkey'', ''23505'', \<lambda>d. distinct (map j_id (jobs d))),
    (''job_source_records_pkey'', ''23505'', \<lambda>d. distinct (map sr_id (job_source_records d))),
    (''job_feedback_pkey'', ''23505'', \<lambda>d. distinct (map jf_id (job_feedbacks d))),
    (''uq_job_feedback_user_job'', ''23505'',
       \<lambda>d. distinct (map (\<lambda>f. (jf_user_id f, jf_job_id f)) (job_feedbacks d))),
    (''match_results_pkey'', ''23505'', \<lambda>d. distinct (map mr_id (match_results d))),
    (''notification_deliveries_pkey'', ''23505'', \<lambda>d. distinct (map nd_id (notification_deliveries d))),
    (''uq_notification_delivery'', ''23505'',
       \<lambda>d. distinct (map (\<lambda>n. (nd_user_id n, nd_job_id n, nd_profile_id n, nd_channel n))
                      (notification_deliveries d))),
    (''user_roles_user_id_fkey'', ''23503'', \<lambda>d. references ur_user_id (user_roles d) (map u_id (users d))),
    (''user_roles_role_id_fkey'', ''23503'', \<lambda>d. references ur_role_id (user_roles d) (map ro_id (roles d))),
    (''refresh_tokens_user_id_fkey'', ''23503'', \<lambda>d. references rt_user_id (refresh_tokens d) (map u_id (users d))),
    (''refresh_tokens_session_id_fkey'', ''23503'',
       \<lambda>d. references_opt rt_session_id (refresh_tokens d) (map as_id (auth_sessions d))),
    (''auth_sessions_user_id_fkey'', ''23503'', \<lambda>d. references as_user_id (auth_sessions d) (map u_id (users d))),
    (''verification_codes_user_id_fkey'', ''23503'',
       \<lambda>d. references vc_user_id (verification_codes d) (map u_id (users d))),
    (''audit_events_actor_user_id_fkey'', ''23503'',
       \<lambda>d. references_opt ev_actor_user_id (audit_events d) (map u_id (users d))),
    (''preference_profiles_user_id_fkey'', ''23503'',
       \<lambda>d. references pp_user_id (preference_profiles d) (map u_id (users d))),
    (''sources_user_id_fkey'', ''23503'', \<lambda>d. references so_user_id (sources d) (map u_id (users d))),
    (''ingestion_runs_source_id_fkey'', ''23503'',
       \<lambda>d. references ir_source_id (ingestion_runs d) (map so_id (sources d))),
    (''job_source_records_job_id_fkey'', ''23503'',
       \<lambda>d. references sr_job_id (job_source_records d) (map j_id (jobs d))),
    (''job_source_records_source_id_fkey'', ''23503'',
       \<lambda>d. references sr_source_id (job_source_records d) (map so_id (sources d))),
    (''job_feedback_user_id_fkey'', ''23503'', \<lambda>d. references jf_user_id (job_feedbacks d) (map u_id (users d))),
    (''job_feedback_job_id_fkey'', ''23503'', \<lambda>d. references jf_job_id (job_feedbacks d) (map j_id (jobs d))),
    (''match_results_job_id_fkey'', ''23503'', \<lambda>d. references mr_job_id (match_results d) (map j_id (jobs d))),
    (''match_results_preference_profile_id_fkey'', ''23503'',
       \<lambda>d. references mr_preference_profile_id (match_results d) (map pp_id (preference_profiles d))),
    (''notification_deliveries_user_id_fkey'', ''23503'',
       \<lambda>d. references nd_user_id (notification_deliveries d) (map u_id (users d))),
    (''notification_deliveries_job_id_fkey'', ''23503'',
       \<lambda>d. references nd_job_id (notification_deliveries d) (map j_id (jobs d))),
    (''notification_deliveries_profile_id_fkey'', ''23503'',
       \<lambda>d. references nd_profile_id (notification_deliveries d) (map pp_id (preference_profiles d)))]"

definition db_ok :: "db \<Rightarrow> bool" where
  "db_ok d = list_all (\<lambda>(n, st, holds). holds d) constraints"

definition integrity_error :: "string \<Rightarrow> string \<Rightarrow> sql_error" where
  "integrity_error name st = \<lparr>sq_class = Integrity, sq_diag_constraint = None,
     sq_orig_constraint = Some name, sq_sqlstate = Some st, sq_pgcode = None,
     sq_message = [], sq_invalidated = False\<rparr>"

text \<open>What the database reports when a write leaves a constraint violated.\<close>

definition db_violation :: "db \<Rightarrow> sql_error option" where
  "db_violation d =
     map_option (\<lambda>(n, st, holds). integrity_error n st) (find (\<lambda>(n, st, holds). \<not> holds d) constraints)"

section \<open>Facts\<close>

lemma db_violation_None: "db_violation d = None \<longleftrightarrow> db_ok d"
  by (auto simp: db_violation_def db_ok_def find_None_iff_all list_all_iff)

lemma db_violation_ok [simp]: "db_ok d \<Longrightarrow> db_violation d = None"
  by (simp add: db_violation_None)

lemma present_simps [simp]:
  "present f [] = []"
  "present f (x # xs) = (case f x of None \<Rightarrow> [] | Some y \<Rightarrow> [y]) @ present f xs"
  "present f (xs @ ys) = present f xs @ present f ys"
  by (simp_all add: present_def)

lemma set_present: "y \<in> set (present f xs) \<longleftrightarrow> (\<exists>x\<in>set xs. f x = Some y)"
  by (induction xs) (auto split: option.splits)

lemma present_update_where:
  "(\<And>x. P x \<Longrightarrow> f (g x) = f x) \<Longrightarrow> present f (update_where P g xs) = present f xs"
  by (induction xs) auto

lemma references_simps [simp]:
  "references f [] ids"
  "references f (x # xs) ids \<longleftrightarrow> f x \<in> set ids \<and> references f xs ids"
  "references f (xs @ ys) ids \<longleftrightarrow> references f xs ids \<and> references f ys ids"
  by (auto simp: references_def)

lemma references_opt_simps [simp]:
  "references_opt f [] ids"
  "references_opt f (x # xs) ids \<longleftrightarrow>
     (case f x of None \<Rightarrow> True | Some i \<Rightarrow> i \<in> set ids) \<and> references_opt f xs ids"
  "references_opt f (xs @ ys) ids \<longleftrightarrow> references_opt f xs ids \<and> references_opt f ys ids"
  by (auto simp: references_opt_def)

lemma references_mono: "references f xs ids \<Longrightarrow> set ids \<subseteq> set ids' \<Longrightarrow> references f xs ids'"
  by (auto simp: references_def)

lemma references_opt_mono:
  "references_opt f xs ids \<Longrightarrow> set ids \<subseteq> set ids' \<Longrightarrow> references_opt f xs ids'"
  by (fastforce simp: references_opt_def split: option.splits)

lemma references_update_where:
  "(\<And>x. P x \<Longrightarrow> f (g x) = f x) \<Longrightarrow> references f (update_where P g xs) ids = references f xs ids"
  by (induction xs) auto

lemma references_opt_update_where:
  "(\<And>x. P x \<Longrightarrow> f (g x) = f x) \<Longrightarrow>
     references_opt f (update_where P g xs) ids = references_opt f xs ids"
  by (induction xs) auto

lemma delete_where_keys [simp]:
  "distinct (map k xs) \<Longrightarrow> distinct (map k (delete_where P xs))"
  "references f xs ids \<Longrightarrow> references f (delete_where P xs) ids"
  "references_opt g xs ids \<Longrightarrow> references_opt g (delete_where P xs) ids"
  by (simp_all add: delete_where_def distinct_map_filter references_def references_opt_def)

lemma in_ids_mono: "references f xs ids \<Longrightarrow> references f xs (ids @ ids')"
  by (auto simp: references_def)

lemma in_ids_opt_mono: "references_opt f xs ids \<Longrightarrow> references_opt f xs (ids @ ids')"
  by (fastforce simp: references_opt_def split: option.splits)

lemma db_ok_empty: "db_ok empty_db"
  by (simp add: db_ok_def constraints_def empty_db_def)

lemmas db_ok_unfold = db_ok_def constraints_def

end
