(* ===== verification/Iso_Time.thy ===== *)
theory Iso_Time
  imports Schema
begin

text \<open>
  \<open>datetime.isoformat()\<close> and \<open>date.isoformat()\<close> of an instant in UTC: the proleptic Gregorian
  calendar of Python's \<open>datetime\<close>. The fraction is printed only when it is not zero.
\<close>

definition pad :: "nat \<Rightarrow> nat \<Rightarrow> string" where
  "pad w n = (let s = nat_to_base 10 n in replicate (w - length s) (CHR ''0'') @ s)"

definition day_of :: "time \<Rightarrow> int" where
  "day_of t = t div 86400000000"

text \<open>Year, month and day of a day number counted from 1970-01-01.\<close>

definition civil :: "int \<Rightarrow> int \<times> int \<times> int" where
  "civil z0 =
     (let z = z0 + 719468; era = z div 146097; doe = z mod 146097;
          yoe = (doe - doe div 1460 + doe div 36524 - doe div 146096) div 365;
          doy = doe - (365 * yoe + yoe div 4 - yoe div 100);
          mp = (5 * doy + 2) div 153;
          d = doy - (153 * mp + 2) div 5 + 1;
          m = if mp < 10 then mp + 3 else mp - 9
      in (yoe + era * 400 + (if m \<le> 2 then 1 else 0), m, d))"

definition iso_date :: "time \<Rightarrow> string" where
  "iso_date t = (let (y, m, d) = civil (day_of t) in
     pad 4 (nat y) @ ''-'' @ pad 2 (nat m) @ ''-'' @ pad 2 (nat d))"

definition iso_clock :: "time \<Rightarrow> string" where
  "iso_clock t = (let us = t mod 86400000000; s = us div 1000000; f = us mod 1000000 in
     pad 2 (nat (s div 3600)) @ '':'' @ pad 2 (nat (s div 60 mod 60)) @ '':'' @ pad 2 (nat (s mod 60))
     @ (if f = 0 then [] else ''.'' @ pad 6 (nat f)))"

definition isoformat :: "time \<Rightarrow> string" where
  "isoformat t = iso_date t @ ''T'' @ iso_clock t @ ''+00:00''"

lemma isoformat_example: "isoformat (seconds 951782400 + 5) = ''2000-02-29T00:00:00.000005+00:00''"
  by code_simp

end
