(* ===== verification/Runtime.thy ===== *)
theory Runtime
  imports Iso_Time
begin

text \<open>
  The state every service works on, and the session primitives of \<open>app/db.py\<close> and
  \<open>app/errors/database.py\<close>.

  A world holds the committed database, the session's own view of it (what its queries see
  after autoflush), the state of Redis (of any type \<open>'r\<close>: the client is an argument of the
  operations that use it), the Celery queue, the authentication log and the lines appended to
  audit archives (the path and the JSON object of the line). What the program
  cannot determine (the clock, random values, failures of the database server) are sequences
  in \<open>env\<close>, read at the position \<open>tick\<close>, which every reading advances.
\<close>

text \<open>
  What a GET of the HTTP client gives: a transport error, or a response with its status, its
  \<open>Retry-After\<close> header and its body as JSON (\<open>None\<close> when it is not JSON).
\<close>

datatype http_result =
    Request_Error
  | Http_Response int "string option" "json option"

record env =
  clock :: "nat \<Rightarrow> time"
  uuid_source :: "nat \<Rightarrow> uuid"
  token_source :: "nat \<Rightarrow> string"
  code_source :: "nat \<Rightarrow> nat"
  db_fault :: "nat \<Rightarrow> sql_error option"
  http :: "nat \<Rightarrow> string \<Rightarrow> http_result"

record 'r world =
  wenv :: env
  tick :: nat
  committed :: db
  work :: db
  kv :: 'r
  queued :: "(string \<times> string) list"
  auth_log :: "string list"
  archived :: "(string \<times> json) list"

type_synonym ('r, 'a) op = "(exn, 'r world, 'a) prog"

text \<open>
  Third-party pure functions: the password hasher (\<open>pwdlib\<close>, whose salt is its first
  argument), the SHA-256 digest of the OpenSSL library behind \<open>hashlib\<close> (on the text's
  encoding, in hex), and PyJWT. Decoding gets the secret, the issuer and the current instant and
  answers \<open>None\<close> where PyJWT raises \<open>InvalidTokenError\<close>. The last field is the C library's shortest
  decimal form of a float, which \<open>repr\<close> prints.
\<close>

record jwt_claims =
  jc_sub :: "string option"
  jc_email :: "string option"
  jc_roles :: "string list"
  jc_type :: "string option"
  jc_jti :: string
  jc_iat :: time
  jc_exp :: time
  jc_iss :: string
  jc_sid :: "string option"

record lib =
  pw_hash :: "nat \<Rightarrow> string \<Rightarrow> string"
  pw_verify :: "string \<Rightarrow> string \<Rightarrow> bool"
  digest :: "string \<Rightarrow> string"
  jwt_encode :: "jwt_claims \<Rightarrow> string \<Rightarrow> string"
  jwt_decode :: "string \<Rightarrow> string \<Rightarrow> string \<Rightarrow> time \<Rightarrow> jwt_claims option"
  float_repr :: "rat \<Rightarrow> string"

text \<open>
  The Redis client: each command gets the instant of the server and its state and answers a
  value or the message of a \<open>RedisError\<close>. The commands are those the program sends: \<open>SET key 1 NX
  EX seconds\<close>, \<open>DEL\<close>, \<open>INCR\<close>, \<open>EXPIRE\<close> and \<open>PING\<close>.
\<close>

record 'r redis =
  r_set_nx_ex :: "string \<Rightarrow> int \<Rightarrow> time \<Rightarrow> 'r \<Rightarrow> (string + bool) \<times> 'r"
  r_delete :: "string \<Rightarrow> time \<Rightarrow> 'r \<Rightarrow> (string + int) \<times> 'r"
  r_incr :: "string \<Rightarrow> time \<Rightarrow> 'r \<Rightarrow> (string + int) \<times> 'r"
  r_expire :: "string \<Rightarrow> int \<Rightarrow> time \<Rightarrow> 'r \<Rightarrow> (string + bool) \<times> 'r"
  r_ping :: "time \<Rightarrow> 'r \<Rightarrow> (string + bool) \<times> 'r"

section \<open>Readings of the environment\<close>

definition draw :: "(env \<Rightarrow> nat \<Rightarrow> 'a) \<Rightarrow> ('r, 'a) op" where
  [prog_simps]: "draw f = (\<lambda>w. (Inr (f (wenv w) (tick w)), w\<lparr>tick := Suc (tick w)\<rparr>))"

definition now_utc :: "('r, time) op" where
  [prog_simps]: "now_utc = draw clock"

definition uuid4 :: "('r, uuid) op" where
  [prog_simps]: "uuid4 = draw uuid_source"

definition token_urlsafe :: "('r, string) op" where
  [prog_simps]: "token_urlsafe = draw token_source"

text \<open>\<open>secrets.randbelow(1_000_000)\<close>.\<close>

definition randbelow_million :: "('r, nat) op" where
  [prog_simps]: "randbelow_million = draw (\<lambda>e n. code_source e n mod 1000000)"

definition http_get :: "string \<Rightarrow> ('r, http_result) op" where
  [prog_simps]: "http_get url = draw (\<lambda>e n. http e n url)"

text \<open>A command sent to Redis; its error is raised.\<close>

definition redis_call ::
  "(time \<Rightarrow> 'r \<Rightarrow> (string + 'a) \<times> 'r) \<Rightarrow> ('r, 'a) op" where
  "redis_call cmd = (\<lambda>w. case cmd (clock (wenv w) (tick w)) (kv w) of (res, k) \<Rightarrow>
     ((case res of Inl m \<Rightarrow> Inl (RedisError m) | Inr x \<Rightarrow> Inr x), w\<lparr>tick := Suc (tick w), kv := k\<rparr>))"

section \<open>The session\<close>

definition query :: "(db \<Rightarrow> 'a) \<Rightarrow> ('r, 'a) op" where
  [prog_simps]: "query f = (\<lambda>w. (Inr (f (work w)), w))"

definition alter :: "(db \<Rightarrow> db) \<Rightarrow> ('r, unit) op" where
  [prog_simps]: "alter f = (\<lambda>w. (Inr (), w\<lparr>work := f (work w)\<rparr>))"

text \<open>
  The driver's calls. A flush sends the pending writes, so it reports a violated constraint
  or a failure of the server; a commit flushes and makes the session's view permanent.
\<close>

definition session_flush :: "('r, unit) op" where
  "session_flush = (\<lambda>w.
     (case db_fault (wenv w) (tick w) of
        Some e \<Rightarrow> (Inl (Sql e), w\<lparr>tick := Suc (tick w)\<rparr>)
      | None \<Rightarrow> (case db_violation (work w) of
            Some e \<Rightarrow> (Inl (Sql e), w\<lparr>tick := Suc (tick w)\<rparr>)
          | None \<Rightarrow> (Inr (), w\<lparr>tick := Suc (tick w)\<rparr>))))"

definition session_commit :: "('r, unit) op" where
  "session_commit = bindP session_flush (\<lambda>_. modify (\<lambda>w. w\<lparr>committed := work w\<rparr>))"

definition session_refresh :: "('r, unit) op" where
  "session_refresh = (\<lambda>w.
     (case db_fault (wenv w) (tick w) of
        Some e \<Rightarrow> (Inl (Sql e), w\<lparr>tick := Suc (tick w)\<rparr>)
      | None \<Rightarrow> (Inr (), w\<lparr>tick := Suc (tick w)\<rparr>)))"

definition session_rollback :: "('r, unit) op" where
  "session_rollback = modify (\<lambda>w. w\<lparr>work := committed w\<rparr>)"

text \<open>\<open>app/errors/database.py\<close>: roll back, then raise the translated error.\<close>

definition raise_database_error :: "sql_error \<Rightarrow> ('r, 'a) op" where
  "raise_database_error e =
     bindP session_rollback (\<lambda>_. raise (App (translate_database_error e)))"

definition on_sql_error :: "('r, 'a) op \<Rightarrow> ('r, 'a) op" where
  "on_sql_error m = catchP m (\<lambda>x. case x of Sql e \<Rightarrow> raise_database_error e | _ \<Rightarrow> raise x)"

definition commit_session :: "('r, unit) op" where
  "commit_session = on_sql_error session_commit"

definition flush_session :: "('r, unit) op" where
  "flush_session = on_sql_error session_flush"

definition refresh_session :: "('r, unit) op" where
  "refresh_session = on_sql_error session_refresh"

text \<open>
  \<open>session_scope\<close>: a fresh session sees the committed data; closing it drops whatever was
  not committed.
\<close>

definition session_scope :: "('r, 'a) op \<Rightarrow> ('r, 'a) op" where
  "session_scope m =
     bindP session_rollback (\<lambda>_. finallyP (on_sql_error m) session_rollback)"

definition check_postgres :: "('r, bool) op" where
  "check_postgres = (\<lambda>w. (Inr (db_fault (wenv w) (tick w) = None), w\<lparr>tick := Suc (tick w)\<rparr>))"

section \<open>Facts\<close>

text \<open>Updates of a world are kept in the order of its fields.\<close>

lemma world_update_order [simp]:
  fixes w :: "'r world"
  shows
  "w\<lparr>committed := c, tick := t\<rparr> = w\<lparr>tick := t, committed := c\<rparr>"
  "w\<lparr>work := d, tick := t\<rparr> = w\<lparr>tick := t, work := d\<rparr>"
  "w\<lparr>kv := k, tick := t\<rparr> = w\<lparr>tick := t, kv := k\<rparr>"
  "w\<lparr>queued := q, tick := t\<rparr> = w\<lparr>tick := t, queued := q\<rparr>"
  "w\<lparr>auth_log := l, tick := t\<rparr> = w\<lparr>tick := t, auth_log := l\<rparr>"
  "w\<lparr>archived := a, tick := t\<rparr> = w\<lparr>tick := t, archived := a\<rparr>"
  "w\<lparr>work := d, committed := c\<rparr> = w\<lparr>committed := c, work := d\<rparr>"
  "w\<lparr>kv := k, committed := c\<rparr> = w\<lparr>committed := c, kv := k\<rparr>"
  "w\<lparr>queued := q, committed := c\<rparr> = w\<lparr>committed := c, queued := q\<rparr>"
  "w\<lparr>auth_log := l, committed := c\<rparr> = w\<lparr>committed := c, auth_log := l\<rparr>"
  "w\<lparr>archived := a, committed := c\<rparr> = w\<lparr>committed := c, archived := a\<rparr>"
  "w\<lparr>kv := k, work := d\<rparr> = w\<lparr>work := d, kv := k\<rparr>"
  "w\<lparr>queued := q, work := d\<rparr> = w\<lparr>work := d, queued := q\<rparr>"
  "w\<lparr>auth_log := l, work := d\<rparr> = w\<lparr>work := d, auth_log := l\<rparr>"
  "w\<lparr>archived := a, work := d\<rparr> = w\<lparr>work := d, archived := a\<rparr>"
  "w\<lparr>queued := q, kv := k\<rparr> = w\<lparr>kv := k, queued := q\<rparr>"
  "w\<lparr>auth_log := l, kv := k\<rparr> = w\<lparr>kv := k, auth_log := l\<rparr>"
  "w\<lparr>archived := a, kv := k\<rparr> = w\<lparr>kv := k, archived := a\<rparr>"
  "w\<lparr>auth_log := l, queued := q\<rparr> = w\<lparr>queued := q, auth_log := l\<rparr>"
  "w\<lparr>archived := a, queued := q\<rparr> = w\<lparr>queued := q, archived := a\<rparr>"
  "w\<lparr>archived := a, auth_log := l\<rparr> = w\<lparr>auth_log := l, archived := a\<rparr>"
  by simp_all

text \<open>A database server that does not fail.\<close>

definition calm :: "'r world \<Rightarrow> bool" where
  "calm w \<longleftrightarrow> (\<forall>n. db_fault (wenv w) n = None)"

lemma run_world [run_simps]:
  "bindP (draw f) k w = k (f (wenv w) (tick w)) (w\<lparr>tick := Suc (tick w)\<rparr>)"
  "bindP now_utc k' w = k' (clock (wenv w) (tick w)) (w\<lparr>tick := Suc (tick w)\<rparr>)"
  "bindP uuid4 h w = h (uuid_source (wenv w) (tick w)) (w\<lparr>tick := Suc (tick w)\<rparr>)"
  "bindP token_urlsafe h' w = h' (token_source (wenv w) (tick w)) (w\<lparr>tick := Suc (tick w)\<rparr>)"
  "bindP (query g) h'' w = h'' (g (work w)) w" "query g w = (Inr (g (work w)), w)"
  "bindP (alter a) l w = l () (w\<lparr>work := a (work w)\<rparr>)" "alter a w = (Inr (), w\<lparr>work := a (work w)\<rparr>)"
  by (simp_all add: prog_simps)

lemma calm_fields [simp]:
  "calm (w\<lparr>tick := t\<rparr>) = calm w" "calm (w\<lparr>work := d\<rparr>) = calm w"
  "calm (w\<lparr>committed := d\<rparr>) = calm w" "calm (w\<lparr>kv := r\<rparr>) = calm w"
  "calm (w\<lparr>queued := q\<rparr>) = calm w" "calm (w\<lparr>auth_log := l\<rparr>) = calm w"
  "calm (w\<lparr>archived := a\<rparr>) = calm w"
  by (simp_all add: calm_def)

lemma commit_calm:
  "calm w \<Longrightarrow> db_ok (work w) \<Longrightarrow>
     commit_session w = (Inr (), w\<lparr>tick := Suc (tick w), committed := work w\<rparr>)"
  by (simp add: commit_session_def on_sql_error_def session_commit_def session_flush_def
      calm_def prog_simps)

lemma flush_calm:
  "calm w \<Longrightarrow> db_ok (work w) \<Longrightarrow> flush_session w = (Inr (), w\<lparr>tick := Suc (tick w)\<rparr>)"
  by (simp add: flush_session_def on_sql_error_def session_flush_def calm_def prog_simps)

lemma refresh_calm: "calm w \<Longrightarrow> refresh_session w = (Inr (), w\<lparr>tick := Suc (tick w)\<rparr>)"
  by (simp add: refresh_session_def on_sql_error_def session_refresh_def calm_def prog_simps)

lemma run_calm [run_simps]:
  "calm w \<Longrightarrow> db_ok (work w) \<Longrightarrow>
     bindP commit_session k w = k () (w\<lparr>tick := Suc (tick w), committed := work w\<rparr>)"
  "calm w \<Longrightarrow> db_ok (work w) \<Longrightarrow> bindP flush_session k w = k () (w\<lparr>tick := Suc (tick w)\<rparr>)"
  "calm w \<Longrightarrow> bindP refresh_session k w = k () (w\<lparr>tick := Suc (tick w)\<rparr>)"
  by (simp_all add: commit_calm flush_calm refresh_calm bindP_def)

text \<open>
  Whatever the server does, a commit either makes the whole view of the session permanent,
  and then every constraint holds, or leaves the committed data as it was.
\<close>

lemma commit_session_cases:
  assumes "commit_session w = (r, w')"
  shows "(r = Inr () \<and> db_ok (work w) \<and> w' = w\<lparr>tick := Suc (tick w), committed := work w\<rparr>)
       \<or> (\<exists>e. r = Inl (App e) \<and> w' = w\<lparr>tick := Suc (tick w), work := committed w\<rparr>)"
  using assms
  by (auto simp: commit_session_def on_sql_error_def session_commit_def session_flush_def
      raise_database_error_def session_rollback_def db_violation_None prog_simps
      split: option.splits)

lemma flush_session_cases:
  assumes "flush_session w = (r, w')"
  shows "(r = Inr () \<and> db_ok (work w) \<and> w' = w\<lparr>tick := Suc (tick w)\<rparr>)
       \<or> (\<exists>e. r = Inl (App e) \<and> w' = w\<lparr>tick := Suc (tick w), work := committed w\<rparr>)"
  using assms
  by (auto simp: flush_session_def on_sql_error_def session_flush_def
      raise_database_error_def session_rollback_def db_violation_None prog_simps
      split: option.splits)

lemma refresh_session_cases:
  assumes "refresh_session w = (r, w')"
  shows "(r = Inr () \<and> w' = w\<lparr>tick := Suc (tick w)\<rparr>)
       \<or> (\<exists>e. r = Inl (App e) \<and> w' = w\<lparr>tick := Suc (tick w), work := committed w\<rparr>)"
  using assms
  by (auto simp: refresh_session_def on_sql_error_def session_refresh_def
      raise_database_error_def session_rollback_def prog_simps split: option.splits)

text \<open>Predicates of the committed data alone, kept by everything but a commit.\<close>

definition committed_ok :: "(db \<Rightarrow> bool) \<Rightarrow> 'r world \<Rightarrow> bool" where
  "committed_ok P w \<longleftrightarrow> P (committed w)"

lemma keeps_committed [keeps_intros]:
  "keeps (committed_ok P) (query f)" "keeps (committed_ok P) (alter g)"
  "keeps (committed_ok P) now_utc" "keeps (committed_ok P) uuid4"
  "keeps (committed_ok P) token_urlsafe" "keeps (committed_ok P) randbelow_million"
  by (simp_all add: keeps_def committed_ok_def prog_simps)

lemma keeps_flush [keeps_intros]: "keeps (committed_ok P) flush_session"
proof (rule keepsI)
  fix w :: "'a world"
  assume "committed_ok P w"
  moreover obtain r w' where c: "flush_session w = (r, w')" by fastforce
  ultimately show "committed_ok P (snd (flush_session w))"
    using flush_session_cases [OF c] by (auto simp: committed_ok_def)
qed

lemma keeps_refresh [keeps_intros]: "keeps (committed_ok P) refresh_session"
proof (rule keepsI)
  fix w :: "'a world"
  assume "committed_ok P w"
  moreover obtain r w' where c: "refresh_session w = (r, w')" by fastforce
  ultimately show "committed_ok P (snd (refresh_session w))"
    using refresh_session_cases [OF c] by (auto simp: committed_ok_def)
qed

lemma keeps_commit_db_ok [keeps_intros]: "keeps (committed_ok db_ok) commit_session"
proof (rule keepsI)
  fix w :: "'a world"
  assume "committed_ok db_ok w"
  moreover obtain r w' where c: "commit_session w = (r, w')" by fastforce
  ultimately show "committed_ok db_ok (snd (commit_session w))"
    using commit_session_cases [OF c] by (auto simp: committed_ok_def)
qed

end
