(* ===== verification/Auth_Repo.thy ===== *)
theory Auth_Repo
  imports Runtime
begin

text \<open>
  \<open>app/repositories/auth.py\<close>: accounts, roles, refresh tokens, sessions and codes. A
  \<open>select\<close> is a filter of the table; \<open>session.scalar\<close> takes its first row. An update of
  an ORM row that changes nothing is not sent, and one that does also sets the columns
  declared with \<open>onupdate=func.now()\<close>.
\<close>

section \<open>Accounts and roles\<close>

definition user_by_email :: "string \<Rightarrow> ('r, user option) op" where
  "user_by_email email = query (\<lambda>d. find (\<lambda>u. u_email u = Some (lower email)) (users d))"

definition get_user :: "uuid \<Rightarrow> ('r, user option) op" where
  "get_user i = query (\<lambda>d. find (\<lambda>u. u_id u = i) (users d))"

definition roles_in :: "db \<Rightarrow> uuid \<Rightarrow> string list" where
  "roles_in d i = concat (map (\<lambda>r. concat (map (\<lambda>ur.
     if ur_role_id ur = ro_id r \<and> ur_user_id ur = i \<and> ro_is_active r then [ro_name r] else [])
     (user_roles d))) (roles d))"

definition repo_roles :: "uuid \<Rightarrow> ('r, string list) op" where
  "repo_roles i = query (\<lambda>d. roles_in d i)"

definition repo_role :: "string \<Rightarrow> ('r, role option) op" where
  "repo_role name = query (\<lambda>d. find (\<lambda>r. ro_name r = name) (roles d))"

definition repo_create_role :: "string \<Rightarrow> string option \<Rightarrow> ('r, role) op" where
  "repo_create_role name description =
     bindP uuid4 (\<lambda>i.
     let r = \<lparr>ro_id = i, ro_name = name, ro_description = description, ro_is_active = True\<rparr> in
     bindP (alter (\<lambda>d. d\<lparr>roles := roles d @ [r]\<rparr>)) (\<lambda>_.
     bindP commit_session (\<lambda>_.
     bindP refresh_session (\<lambda>_. ret r))))"

definition repo_assign_role :: "uuid \<Rightarrow> uuid \<Rightarrow> ('r, unit) op" where
  "repo_assign_role uid rid =
     bindP (query (\<lambda>d. find (\<lambda>ur. ur_user_id ur = uid \<and> ur_role_id ur = rid) (user_roles d))) (\<lambda>ex.
     whenP (ex = None)
       (bindP (alter (\<lambda>d. d\<lparr>user_roles := user_roles d @ [\<lparr>ur_user_id = uid, ur_role_id = rid\<rparr>]\<rparr>))
          (\<lambda>_. commit_session)))"

text \<open>Assigning attributes of a \<open>User\<close> object: the \<open>UPDATE\<close> the next flush sends.\<close>

definition set_user :: "uuid \<Rightarrow> (user \<Rightarrow> user) \<Rightarrow> ('r, unit) op" where
  "set_user i f = bindP now_utc (\<lambda>t.
     alter (\<lambda>d. d\<lparr>users := update_where (\<lambda>u. u_id u = i \<and> f u \<noteq> u)
                             (\<lambda>u. (f u)\<lparr>u_updated_at := t\<rparr>) (users d)\<rparr>))"

section \<open>Refresh tokens\<close>

definition revoke_tokens_where :: "(refresh_token \<Rightarrow> bool) \<Rightarrow> time \<Rightarrow> db \<Rightarrow> db" where
  "revoke_tokens_where P now d =
     d\<lparr>refresh_tokens := update_where (\<lambda>t. P t \<and> rt_revoked_at t = None)
                          (\<lambda>t. t\<lparr>rt_revoked_at := Some now\<rparr>) (refresh_tokens d)\<rparr>"

definition revoke_tokens :: "uuid \<Rightarrow> time \<Rightarrow> ('r, unit) op" where
  "revoke_tokens family now = alter (revoke_tokens_where (\<lambda>t. rt_family_id t = family) now)"

definition repo_refresh_token :: "string \<Rightarrow> ('r, refresh_token option) op" where
  "repo_refresh_token h = query (\<lambda>d. find (\<lambda>t. rt_token_hash t = h) (refresh_tokens d))"

definition save_refresh_token :: "refresh_token \<Rightarrow> ('r, unit) op" where
  "save_refresh_token t =
     bindP (alter (\<lambda>d. d\<lparr>refresh_tokens := refresh_tokens d @ [t]\<rparr>)) (\<lambda>_. commit_session)"

section \<open>Sessions\<close>

definition save_auth_session :: "auth_session \<Rightarrow> ('r, unit) op" where
  "save_auth_session s =
     bindP (alter (\<lambda>d. d\<lparr>auth_sessions := auth_sessions d @ [s]\<rparr>)) (\<lambda>_. flush_session)"

definition repo_auth_session :: "uuid \<Rightarrow> uuid \<Rightarrow> ('r, auth_session option) op" where
  "repo_auth_session sid uid =
     query (\<lambda>d. find (\<lambda>s. as_id s = sid \<and> as_user_id s = uid) (auth_sessions d))"

text \<open>Most recently used first; rows used at the same instant keep their table order.\<close>

definition live_sessions :: "db \<Rightarrow> uuid \<Rightarrow> auth_session list" where
  "live_sessions d uid = sort_key (\<lambda>s. - as_last_used_at s)
     (filter (\<lambda>s. as_user_id s = uid \<and> as_revoked_at s = None) (auth_sessions d))"

definition repo_auth_sessions :: "uuid \<Rightarrow> ('r, auth_session list) op" where
  "repo_auth_sessions uid = query (\<lambda>d. live_sessions d uid)"

definition revoke_sessions_where :: "(auth_session \<Rightarrow> bool) \<Rightarrow> time \<Rightarrow> time \<Rightarrow> db \<Rightarrow> db" where
  "revoke_sessions_where P now db_now d =
     d\<lparr>auth_sessions := update_where P
         (\<lambda>s. s\<lparr>as_revoked_at := Some now, as_last_used_at := db_now\<rparr>) (auth_sessions d)\<rparr>"

definition revoke_auth_session :: "uuid \<Rightarrow> uuid \<Rightarrow> time \<Rightarrow> ('r, bool) op" where
  "revoke_auth_session sid uid now =
     bindP (repo_auth_session sid uid) (\<lambda>s0.
     (case s0 of
        None \<Rightarrow> ret False
      | Some s \<Rightarrow>
          if as_revoked_at s \<noteq> None then ret False
          else
            bindP now_utc (\<lambda>t.
            bindP (alter (revoke_sessions_where (\<lambda>x. as_id x = sid) now t)) (\<lambda>_.
            bindP (alter (revoke_tokens_where (\<lambda>x. rt_session_id x = Some sid) now)) (\<lambda>_.
            bindP commit_session (\<lambda>_. ret True))))))"

text \<open>
  The comparison \<open>RefreshToken.session_id != current\<close> is SQL's: it does not hold for a null
  session, so tokens issued without a session are not selected.
\<close>

definition sql_differs :: "uuid option \<Rightarrow> uuid \<Rightarrow> bool" where
  "sql_differs x y = (case x of None \<Rightarrow> False | Some i \<Rightarrow> i \<noteq> y)"

definition revoke_other_auth_sessions :: "uuid \<Rightarrow> uuid \<Rightarrow> time \<Rightarrow> ('r, nat) op" where
  "revoke_other_auth_sessions uid current now =
     bindP (repo_auth_sessions uid) (\<lambda>ss.
     let others = map as_id (filter (\<lambda>s. as_id s \<noteq> current) ss) in
     bindP (whenP (others \<noteq> [])
       (bindP now_utc (\<lambda>t.
        bindP (alter (revoke_sessions_where (\<lambda>s. as_id s \<in> set others) now t)) (\<lambda>_.
        bindP (alter (revoke_tokens_where
                 (\<lambda>x. rt_user_id x = uid \<and> sql_differs (rt_session_id x) current) now)) (\<lambda>_.
        commit_session)))))
     (\<lambda>_. ret (length others)))"

section \<open>Verification codes\<close>

definition repo_verification_code ::
  "uuid \<Rightarrow> string \<Rightarrow> string \<Rightarrow> ('r, verification_code option) op" where
  "repo_verification_code uid purpose h = query (\<lambda>d. find (\<lambda>c. vc_user_id c = uid
     \<and> vc_purpose c = purpose \<and> vc_code_hash c = h \<and> vc_consumed_at c = None) (verification_codes d))"

definition save_verification_code :: "verification_code \<Rightarrow> ('r, unit) op" where
  "save_verification_code c =
     bindP (alter (\<lambda>d. d\<lparr>verification_codes := verification_codes d @ [c]\<rparr>)) (\<lambda>_. commit_session)"

definition revoke_user_tokens :: "uuid \<Rightarrow> time \<Rightarrow> ('r, unit) op" where
  "revoke_user_tokens uid now =
     bindP (alter (revoke_tokens_where (\<lambda>t. rt_user_id t = uid) now)) (\<lambda>_.
     bindP now_utc (\<lambda>t.
     bindP (alter (revoke_sessions_where (\<lambda>s. as_user_id s = uid \<and> as_revoked_at s = None) now t)) (\<lambda>_.
     commit_session)))"

section \<open>Facts\<close>

lemmas auth_repo_defs = user_by_email_def get_user_def repo_roles_def repo_role_def
  repo_create_role_def repo_assign_role_def set_user_def revoke_tokens_def repo_refresh_token_def
  save_refresh_token_def save_auth_session_def repo_auth_session_def repo_auth_sessions_def
  revoke_auth_session_def revoke_other_auth_sessions_def repo_verification_code_def
  save_verification_code_def revoke_user_tokens_def

lemma revoke_tokens_where_fields [simp]:
  "users (revoke_tokens_where P n d) = users d"
  "roles (revoke_tokens_where P n d) = roles d"
  "user_roles (revoke_tokens_where P n d) = user_roles d"
  "auth_sessions (revoke_tokens_where P n d) = auth_sessions d"
  "verification_codes (revoke_tokens_where P n d) = verification_codes d"
  by (simp_all add: revoke_tokens_where_def)

lemma revoke_sessions_where_fields [simp]:
  "users (revoke_sessions_where P n t d) = users d"
  "roles (revoke_sessions_where P n t d) = roles d"
  "user_roles (revoke_sessions_where P n t d) = user_roles d"
  "refresh_tokens (revoke_sessions_where P n t d) = refresh_tokens d"
  "verification_codes (revoke_sessions_where P n t d) = verification_codes d"
  by (simp_all add: revoke_sessions_where_def)

text \<open>Every token the predicate selects is revoked afterwards, and no other token changes.\<close>

lemma revoke_tokens_where_selected:
  assumes "t \<in> set (refresh_tokens (revoke_tokens_where P now d))" and "P t"
    and "\<And>x. P (x\<lparr>rt_revoked_at := Some now\<rparr>) = P x"
  shows "rt_revoked_at t \<noteq> None"
proof -
  from assms(1) obtain x where
    x: "t = (if P x \<and> rt_revoked_at x = None then x\<lparr>rt_revoked_at := Some now\<rparr> else x)"
    by (auto simp: revoke_tokens_where_def table_simps)
  show ?thesis
  proof (cases "P x \<and> rt_revoked_at x = None")
    case True
    with x show ?thesis by simp
  next
    case False
    with x assms(2) show ?thesis by auto
  qed
qed

lemma revoke_tokens_where_other:
  "t \<in> set (refresh_tokens d) \<Longrightarrow> \<not> P t \<Longrightarrow> t \<in> set (refresh_tokens (revoke_tokens_where P now d))"
  by (auto simp: revoke_tokens_where_def table_simps intro!: bexI [of _ t])

lemma revoke_sessions_where_selected:
  assumes "s \<in> set (auth_sessions (revoke_sessions_where P now t d))" and "P s"
  shows "as_revoked_at s \<noteq> None"
  using assms by (auto simp: revoke_sessions_where_def elim: update_where_selected)

lemma revoke_sessions_where_other:
  "s \<in> set (auth_sessions d) \<Longrightarrow> \<not> P s \<Longrightarrow> s \<in> set (auth_sessions (revoke_sessions_where P now t d))"
  by (simp add: revoke_sessions_where_def update_where_other)

lemma password_unchanged_iff [simp]: "u\<lparr>u_password_hash := h\<rparr> = u \<longleftrightarrow> u_password_hash u = h"
  by (cases u) auto

lemma revoke_tokens_where_keys:
  "map rt_token_hash (refresh_tokens (revoke_tokens_where P now d)) = map rt_token_hash (refresh_tokens d)"
  "map rt_id (refresh_tokens (revoke_tokens_where P now d)) = map rt_id (refresh_tokens d)"
  "map rt_family_id (refresh_tokens (revoke_tokens_where P now d)) = map rt_family_id (refresh_tokens d)"
  by (simp_all add: revoke_tokens_where_def map_update_where_key)

lemma db_ok_revoke_tokens_where [simp]: "db_ok (revoke_tokens_where P now d) = db_ok d"
  by (simp add: db_ok_unfold revoke_tokens_where_def map_update_where_key references_update_where
      references_opt_update_where)

lemma db_ok_revoke_sessions_where [simp]: "db_ok (revoke_sessions_where P now t d) = db_ok d"
  by (simp add: db_ok_unfold revoke_sessions_where_def map_update_where_key
      references_update_where)

lemma db_ok_update_user:
  assumes "\<And>u. u_id (f u) = u_id u" "\<And>u. u_email (f u) = u_email u"
  shows "db_ok (d\<lparr>users := update_where P f (users d)\<rparr>) = db_ok d"
  using assms by (simp add: db_ok_unfold map_update_where_key present_update_where)

lemma find_token_by_hash:
  "db_ok d \<Longrightarrow> t \<in> set (refresh_tokens d) \<Longrightarrow>
     find (\<lambda>x. rt_token_hash x = rt_token_hash t) (refresh_tokens d) = Some t"
  by (rule find_unique_key [where k = rt_token_hash]) (auto simp: db_ok_unfold)

lemma find_user_by_id:
  "db_ok d \<Longrightarrow> u \<in> set (users d) \<Longrightarrow> find (\<lambda>x. u_id x = u_id u) (users d) = Some u"
  by (rule find_unique_key [where k = u_id]) (auto simp: db_ok_unfold)

end
