(* ===== verification/Auth_Service.thy ===== *)
theory Auth_Service
  imports Auth_Repo
begin

text \<open>
  \<open>app/auth/security.py\<close> and \<open>app/domain/auth/service.py\<close>: registration, login with
  lockout, token issuing and rotation, sessions, one-time codes and roles. Every method is
  one definition; \<open>L\<close> is the record of third-party functions and \<open>S\<close> the settings.
\<close>

section \<open>Access tokens (security.py)\<close>

definition create_access_token ::
  "lib \<Rightarrow> uuid \<Rightarrow> string option \<Rightarrow> string list \<Rightarrow> string \<Rightarrow> int \<Rightarrow> string \<Rightarrow> uuid option \<Rightarrow>
   ('r, string) op" where
  "create_access_token L uid email rls secret mins issuer sid =
     bindP now_utc (\<lambda>now.
     bindP uuid4 (\<lambda>jti.
     ret (jwt_encode L
       \<lparr>jc_sub = Some (uuid_str uid), jc_email = email, jc_roles = rls, jc_type = Some ''access'',
        jc_jti = uuid_str jti, jc_iat = now, jc_exp = now + minutes mins, jc_iss = issuer,
        jc_sid = map_option uuid_str sid\<rparr> secret)))"

text \<open>\<open>decode_access_token\<close>; \<open>None\<close> is \<open>jwt.InvalidTokenError\<close>.\<close>

definition falsy_str :: "string option \<Rightarrow> bool" where
  "falsy_str x = (x = None \<or> x = Some [])"

definition decode_access_token :: "lib \<Rightarrow> string \<Rightarrow> string \<Rightarrow> string \<Rightarrow> ('r, jwt_claims option) op" where
  "decode_access_token L token secret issuer =
     bindP now_utc (\<lambda>now.
     ret (case jwt_decode L token secret issuer now of
            None \<Rightarrow> None
          | Some c \<Rightarrow> if jc_type c \<noteq> Some ''access'' \<or> falsy_str (jc_sub c) then None else Some c))"

section \<open>Registration and login\<close>

definition new_user :: "uuid \<Rightarrow> string \<Rightarrow> string \<Rightarrow> string \<Rightarrow> time \<Rightarrow> user" where
  "new_user i email ph st t =
     \<lparr>u_id = i, u_email = Some email, u_password_hash = Some ph, u_timezone = ''Asia/Kolkata'',
      u_status = st, u_email_verified_at = None, u_failed_login_attempts = 0,
      u_locked_until = None, u_created_at = t, u_updated_at = t\<rparr>"

definition role_or_create :: "string \<Rightarrow> string \<Rightarrow> ('r, role) op" where
  "role_or_create name description =
     bindP (repo_role name) (\<lambda>r.
     (case r of Some x \<Rightarrow> ret x | None \<Rightarrow> repo_create_role name (Some description)))"

definition register :: "lib \<Rightarrow> settings \<Rightarrow> string \<Rightarrow> string \<Rightarrow> ('r, user) op" where
  "register L S email0 password =
     (let email = lower email0 in
      bindP (user_by_email email) (\<lambda>existing.
      if existing \<noteq> None then raise (App (err UserAlreadyExists))
      else
        bindP uuid4 (\<lambda>i.
        bindP now_utc (\<lambda>t.
        bindP (draw (\<lambda>_ n. n)) (\<lambda>salt.
        let u = new_user i email (pw_hash L salt password)
                  (if auth_email_verification_enabled S then ''pending_verification'' else ''active'') t in
        bindP (alter (\<lambda>d. d\<lparr>users := users d @ [u]\<rparr>)) (\<lambda>_.
        bindP flush_session (\<lambda>_.
        bindP (role_or_create (default_user_role S) ''Default user role'') (\<lambda>r.
        bindP (repo_assign_role i (ro_id r)) (\<lambda>_.
        bindP (case initial_admin_email S of
                 None \<Rightarrow> ret ()
               | Some a \<Rightarrow> whenP (a \<noteq> [] \<and> email = lower a)
                   (bindP (role_or_create ''admin'' ''Administrator role'') (\<lambda>ar.
                    repo_assign_role i (ro_id ar)))) (\<lambda>_.
        ret u))))))))))"

definition is_locked :: "settings \<Rightarrow> user \<Rightarrow> time \<Rightarrow> bool" where
  "is_locked S u now = (auth_account_lockout_enabled S
     \<and> (case u_locked_until u of None \<Rightarrow> False | Some t \<Rightarrow> t > now))"

definition credentials_ok :: "lib \<Rightarrow> settings \<Rightarrow> user \<Rightarrow> string \<Rightarrow> bool" where
  "credentials_ok L S u password =
     ((case u_password_hash u of None \<Rightarrow> False | Some h \<Rightarrow> pw_verify L password h)
      \<and> (u_status u = ''active''
         \<or> (auth_email_verification_enabled S \<and> u_status u = ''pending_verification'')))"

text \<open>The bookkeeping of a failed and of a successful login.\<close>

definition note_failure :: "settings \<Rightarrow> time \<Rightarrow> user \<Rightarrow> user" where
  "note_failure S now u =
     (let n = u_failed_login_attempts u + 1 in
      if n \<ge> auth_max_login_attempts S
      then u\<lparr>u_failed_login_attempts := n, u_locked_until := Some (now + minutes (auth_lockout_minutes S))\<rparr>
      else u\<lparr>u_failed_login_attempts := n\<rparr>)"

definition clear_failures :: "user \<Rightarrow> user" where
  "clear_failures u = u\<lparr>u_failed_login_attempts := 0, u_locked_until := None\<rparr>"

definition authenticate :: "lib \<Rightarrow> settings \<Rightarrow> string \<Rightarrow> string \<Rightarrow> ('r, user) op" where
  "authenticate L S email password =
     bindP (user_by_email (lower email)) (\<lambda>found.
     bindP now_utc (\<lambda>now.
     (case found of
        None \<Rightarrow> raise (App (err InvalidCredentials))
      | Some u \<Rightarrow>
          if is_locked S u now then raise (App (err AccountLocked))
          else if \<not> credentials_ok L S u password then
            bindP (whenP (auth_account_lockout_enabled S)
              (bindP (set_user (u_id u) (note_failure S now)) (\<lambda>_. commit_session)))
            (\<lambda>_. raise (App (err InvalidCredentials)))
          else if auth_email_verification_enabled S \<and> u_email_verified_at u = None then
            raise (App (err EmailVerificationRequired))
          else if auth_account_lockout_enabled S then
            bindP (set_user (u_id u) clear_failures) (\<lambda>_.
            bindP commit_session (\<lambda>_. ret (clear_failures u)))
          else ret u)))"

section \<open>Tokens\<close>

record session_metadata =
  sm_device_name :: "string option"
  sm_user_agent :: "string option"
  sm_ip_address :: "string option"

text \<open>A new tracked session when session management is on and no session is given.\<close>

definition open_session ::
  "settings \<Rightarrow> uuid \<Rightarrow> uuid option \<Rightarrow> session_metadata option \<Rightarrow> ('r, uuid option) op" where
  "open_session S uid sid md =
     (if auth_session_management_enabled S \<and> sid = None then
        bindP uuid4 (\<lambda>i.
        bindP now_utc (\<lambda>t.
        bindP (save_auth_session
          \<lparr>as_id = i, as_user_id = uid,
           as_device_name = (case md of None \<Rightarrow> None | Some m \<Rightarrow> sm_device_name m),
           as_user_agent = (case md of None \<Rightarrow> None | Some m \<Rightarrow> sm_user_agent m),
           as_ip_address = (case md of None \<Rightarrow> None | Some m \<Rightarrow> sm_ip_address m),
           as_created_at = t, as_last_used_at = t, as_revoked_at = None\<rparr>) (\<lambda>_.
        ret (Some i))))
      else ret sid)"

definition issue_tokens ::
  "lib \<Rightarrow> settings \<Rightarrow> user \<Rightarrow> uuid option \<Rightarrow> session_metadata option \<Rightarrow> ('r, string \<times> string) op" where
  "issue_tokens L S u sid0 md =
     bindP (repo_roles (u_id u)) (\<lambda>rls.
     bindP (open_session S (u_id u) sid0 md) (\<lambda>sid.
     bindP token_urlsafe (\<lambda>refresh.
     bindP uuid4 (\<lambda>family.
     bindP now_utc (\<lambda>now.
     bindP uuid4 (\<lambda>i.
     bindP (save_refresh_token
       \<lparr>rt_id = i, rt_user_id = u_id u, rt_session_id = sid, rt_token_hash = digest L refresh,
        rt_family_id = family, rt_expires_at = now + days (refresh_token_expire_days S),
        rt_revoked_at = None, rt_created_at = now\<rparr>) (\<lambda>_.
     bindP (create_access_token L (u_id u) (u_email u) rls (jwt_secret_key S)
              (access_token_expire_minutes S) (jwt_issuer S) sid) (\<lambda>access.
     ret (access, refresh)))))))))"

definition token_usable :: "time \<Rightarrow> refresh_token \<Rightarrow> bool" where
  "token_usable now t \<longleftrightarrow> rt_revoked_at t = None \<and> now < rt_expires_at t"

definition refresh :: "lib \<Rightarrow> settings \<Rightarrow> string \<Rightarrow> ('r, string \<times> string) op" where
  "refresh L S raw =
     bindP (repo_refresh_token (digest L raw)) (\<lambda>found.
     bindP now_utc (\<lambda>now.
     (case found of
        None \<Rightarrow> raise (App (err InvalidRefreshToken))
      | Some t \<Rightarrow>
          if \<not> token_usable now t then
            bindP (revoke_tokens (rt_family_id t) now) (\<lambda>_.
            bindP commit_session (\<lambda>_.
            raise (App (err (if rt_revoked_at t \<noteq> None then RefreshTokenReplay
                             else InvalidRefreshToken)))))
          else
            bindP (revoke_tokens (rt_family_id t) now) (\<lambda>_.
            bindP commit_session (\<lambda>_.
            bindP (get_user (rt_user_id t)) (\<lambda>owner.
            (case owner of
               None \<Rightarrow> raise (App (err InvalidRefreshToken))
             | Some u \<Rightarrow> if u_status u \<noteq> ''active'' then raise (App (err InvalidRefreshToken))
                         else issue_tokens L S u (rt_session_id t) None)))))))"

section \<open>Sessions\<close>

definition list_sessions :: "settings \<Rightarrow> uuid \<Rightarrow> ('r, auth_session list) op" where
  "list_sessions S uid =
     (if \<not> auth_session_management_enabled S then ret [] else repo_auth_sessions uid)"

definition revoke_session :: "settings \<Rightarrow> uuid \<Rightarrow> uuid \<Rightarrow> ('r, unit) op" where
  "revoke_session S uid sid =
     (if \<not> auth_session_management_enabled S then raise (App (err SessionManagementDisabled))
      else bindP now_utc (\<lambda>now.
           bindP (revoke_auth_session sid uid now) (\<lambda>done.
           if done then ret () else raise (App (err SessionNotFound)))))"

definition revoke_other_sessions :: "settings \<Rightarrow> uuid \<Rightarrow> uuid option \<Rightarrow> ('r, nat) op" where
  "revoke_other_sessions S uid current =
     (case current of
        None \<Rightarrow> raise (App (err CurrentSessionUnavailable))
      | Some cur \<Rightarrow>
          if \<not> auth_session_management_enabled S then raise (App (err SessionManagementDisabled))
          else bindP now_utc (\<lambda>now. revoke_other_auth_sessions uid cur now))"

section \<open>One-time codes\<close>

definition six_digits :: "nat \<Rightarrow> string" where
  "six_digits n = (let s = nat_to_base 10 n in replicate (6 - length s) (CHR ''0'') @ s)"

definition issue_code :: "lib \<Rightarrow> settings \<Rightarrow> string \<Rightarrow> string \<Rightarrow> ('r, string option) op" where
  "issue_code L S email purpose =
     bindP (user_by_email (lower email)) (\<lambda>found.
     (case found of
        None \<Rightarrow> ret None
      | Some u \<Rightarrow>
          bindP randbelow_million (\<lambda>n.
          bindP now_utc (\<lambda>now.
          bindP uuid4 (\<lambda>i.
          let code = six_digits n in
          bindP (save_verification_code
            \<lparr>vc_id = i, vc_user_id = u_id u, vc_purpose = purpose, vc_code_hash = digest L code,
             vc_expires_at = now + minutes (auth_otp_expire_minutes S), vc_consumed_at = None,
             vc_created_at = now\<rparr>) (\<lambda>_.
          bindP (modify (\<lambda>w. w\<lparr>auth_log := auth_log w @
                   [''auth_code_issued purpose='' @ purpose @ '' email='' @ lower email @
                    '' code='' @ code]\<rparr>)) (\<lambda>_.
          ret (Some code))))))))"

definition consume_code :: "uuid \<Rightarrow> time \<Rightarrow> ('r, unit) op" where
  "consume_code i now = alter (\<lambda>d. d\<lparr>verification_codes :=
     update_where (\<lambda>c. vc_id c = i) (\<lambda>c. c\<lparr>vc_consumed_at := Some now\<rparr>) (verification_codes d)\<rparr>)"

text \<open>
  The lookup both confirmations share: an account, an unconsumed code of the purpose with the
  digest, not expired. The three reasons to fail give the same error.
\<close>

definition checked_code :: "lib \<Rightarrow> string \<Rightarrow> string \<Rightarrow> string \<Rightarrow> ('r, user \<times> verification_code) op" where
  "checked_code L email purpose code =
     bindP (user_by_email (lower email)) (\<lambda>found.
     (case found of
        None \<Rightarrow> raise (App (err InvalidVerificationCode))
      | Some u \<Rightarrow>
          bindP (repo_verification_code (u_id u) purpose (digest L code)) (\<lambda>record.
          (case record of
             None \<Rightarrow> raise (App (err InvalidVerificationCode))
           | Some c \<Rightarrow> bindP now_utc (\<lambda>now.
               if vc_expires_at c \<le> now then raise (App (err InvalidVerificationCode))
               else ret (u, c))))))"

definition verify_email :: "lib \<Rightarrow> settings \<Rightarrow> string \<Rightarrow> string \<Rightarrow> ('r, unit) op" where
  "verify_email L S email code =
     (if \<not> auth_email_verification_enabled S then raise (App (err FeatureNotAvailable))
      else
        bindP (checked_code L email ''email_verification'' code) (\<lambda>(u, c).
        bindP now_utc (\<lambda>t1.
        bindP (consume_code (vc_id c) t1) (\<lambda>_.
        bindP now_utc (\<lambda>t2.
        bindP (set_user (u_id u) (\<lambda>x. x\<lparr>u_email_verified_at := Some t2, u_status := ''active''\<rparr>)) (\<lambda>_.
        commit_session))))))"

definition reset_password :: "lib \<Rightarrow> settings \<Rightarrow> string \<Rightarrow> string \<Rightarrow> string \<Rightarrow> ('r, unit) op" where
  "reset_password L S email code password =
     (if \<not> auth_password_reset_enabled S then raise (App (err FeatureNotAvailable))
      else
        bindP (checked_code L email ''password_reset'' code) (\<lambda>(u, c).
        bindP now_utc (\<lambda>t1.
        bindP (consume_code (vc_id c) t1) (\<lambda>_.
        bindP (draw (\<lambda>_ n. n)) (\<lambda>salt.
        bindP (set_user (u_id u) (\<lambda>x. x\<lparr>u_password_hash := Some (pw_hash L salt password)\<rparr>)) (\<lambda>_.
        bindP now_utc (\<lambda>t2.
        revoke_user_tokens (u_id u) t2)))))))"

section \<open>Claims and roles\<close>

definition service_claims :: "lib \<Rightarrow> settings \<Rightarrow> string \<Rightarrow> ('r, jwt_claims) op" where
  "service_claims L S token =
     bindP (decode_access_token L token (jwt_secret_key S) (jwt_issuer S)) (\<lambda>c.
     (case c of None \<Rightarrow> raise (App (err InvalidAccessToken)) | Some x \<Rightarrow> ret x))"

definition roles_for_user :: "uuid \<Rightarrow> ('r, string list) op" where
  "roles_for_user uid = repo_roles uid"

definition create_role :: "string \<Rightarrow> string option \<Rightarrow> ('r, role) op" where
  "create_role name description = repo_create_role name description"

definition assign_role :: "uuid \<Rightarrow> string \<Rightarrow> ('r, unit) op" where
  "assign_role uid role_name =
     bindP (get_user uid) (\<lambda>target.
     bindP (repo_role role_name) (\<lambda>r.
     (case (target, r) of
        (Some _, Some x) \<Rightarrow> repo_assign_role uid (ro_id x)
      | _ \<Rightarrow> raise (App (err UserOrRoleNotFound)))))"

end
