(* ===== verification/Samples.thy ===== *)
theory Samples
  imports Runtime
begin

text \<open>
  Concrete instances on which the properties are evaluated: third-party functions simple
  enough to compute with, an environment whose server never fails, and a world around a
  given database.
\<close>

definition lib_ex :: lib where
  "lib_ex = \<lparr>pw_hash = (\<lambda>salt p. ''h:'' @ p), pw_verify = (\<lambda>p h. h = ''h:'' @ p),
     digest = (\<lambda>s. CHR ''#'' # s), jwt_encode = (\<lambda>c s. s @ '':'' @ jc_jti c),
     jwt_decode = (\<lambda>t s i now. None),
     float_repr = (\<lambda>q. ''0.0'')\<rparr>"

definition env_ex :: env where
  "env_ex = \<lparr>clock = (\<lambda>n. seconds (int n)), uuid_source = (\<lambda>n. 1000 + n),
     token_source = (\<lambda>n. CHR ''t'' # nat_to_base 10 n), code_source = (\<lambda>n. 123456),
     db_fault = (\<lambda>n. None), http = (\<lambda>n url. Request_Error)\<rparr>"

definition world_ex :: "db \<Rightarrow> unit world" where
  "world_ex d = \<lparr>wenv = env_ex, tick = 0, committed = d, work = d, kv = (), queued = [],
     auth_log = [], archived = []\<rparr>"

definition settings_ex :: settings where
  "settings_ex = (default_settings ''postgresql'' ''redis'')
     \<lparr>auth_session_management_enabled := True, auth_password_reset_enabled := True,
      auth_account_lockout_enabled := True\<rparr>"

lemma settings_ex_simps [simp]:
  "auth_session_management_enabled settings_ex" "auth_password_reset_enabled settings_ex"
  "auth_account_lockout_enabled settings_ex" "\<not> auth_email_verification_enabled settings_ex"
  "auth_max_login_attempts settings_ex = 5" "auth_lockout_minutes settings_ex = 15"
  "default_user_role settings_ex = ''user''" "initial_admin_email settings_ex = None"
  by (simp_all add: settings_ex_def default_settings_def)

definition user_ex :: "uuid \<Rightarrow> string \<Rightarrow> user" where
  "user_ex i email = \<lparr>u_id = i, u_email = Some email, u_password_hash = Some ''h:secret'',
     u_timezone = ''Asia/Kolkata'', u_status = ''active'', u_email_verified_at = None,
     u_failed_login_attempts = 0, u_locked_until = None, u_created_at = 0, u_updated_at = 0\<rparr>"

definition session_ex :: "uuid \<Rightarrow> uuid \<Rightarrow> auth_session" where
  "session_ex i uid = \<lparr>as_id = i, as_user_id = uid, as_device_name = None, as_user_agent = None,
     as_ip_address = None, as_created_at = 0, as_last_used_at = 0, as_revoked_at = None\<rparr>"

definition token_ex :: "uuid \<Rightarrow> uuid \<Rightarrow> uuid option \<Rightarrow> string \<Rightarrow> refresh_token" where
  "token_ex i uid sid h = \<lparr>rt_id = i, rt_user_id = uid, rt_session_id = sid, rt_token_hash = h,
     rt_family_id = i, rt_expires_at = days 30, rt_revoked_at = None, rt_created_at = 0\<rparr>"

definition db_ex :: db where
  "db_ex = empty_db\<lparr>users := [user_ex 1 ''a@x'', user_ex 2 ''b@x''],
     auth_sessions := [session_ex 11 1, session_ex 12 1, session_ex 13 2],
     refresh_tokens := [token_ex 21 1 (Some 11) ''#seed'', token_ex 22 1 (Some 12) ''#other'',
                        token_ex 23 2 (Some 13) ''#zed'']\<rparr>"

lemma calm_world_ex [simp]: "calm (world_ex d)"
  by (simp add: world_ex_def env_ex_def calm_def)

lemma world_ex_simps [simp]:
  "wenv (world_ex d) = env_ex" "tick (world_ex d) = 0" "work (world_ex d) = d"
  "committed (world_ex d) = d" "kv (world_ex d) = ()" "auth_log (world_ex d) = []"
  "archived (world_ex d) = []" "queued (world_ex d) = []"
  by (simp_all add: world_ex_def)

lemmas sample_defs = env_ex_def lib_ex_def user_ex_def session_ex_def token_ex_def db_ex_def
  empty_db_def seconds_def minutes_def days_def

lemma db_ok_ex [simp]: "db_ok db_ex"
  by (simp add: db_ok_unfold sample_defs references_def references_opt_def)

end
