(* ===== verification/Auth_Facts.thy ===== *)
theory Auth_Facts
  imports Auth_Service Samples
begin

text \<open>
  What the authentication service guarantees: rotation and replay of refresh tokens, the
  lockout of an account, the conditions of a login, password reset and the isolation of
  sessions.
\<close>

section \<open>Helpers\<close>

definition session_known :: "db \<Rightarrow> uuid option \<Rightarrow> bool" where
  "session_known d sid \<longleftrightarrow> (\<forall>i. sid = Some i \<longrightarrow> i \<in> as_id ` set (auth_sessions d))"

text \<open>
  The random identifiers and tokens still to be drawn do not occur in the database, and
  differ from each other where the code relies on it.
\<close>

definition fresh_supply :: "lib \<Rightarrow> 'r world \<Rightarrow> bool" where
  "fresh_supply L w \<longleftrightarrow> (\<forall>k\<ge>tick w.
     uuid_source (wenv w) k \<notin> rt_id ` set (refresh_tokens (work w)) \<and>
     uuid_source (wenv w) k \<notin> rt_family_id ` set (refresh_tokens (work w)) \<and>
     uuid_source (wenv w) k \<notin> as_id ` set (auth_sessions (work w)) \<and>
     digest L (token_source (wenv w) k) \<notin> rt_token_hash ` set (refresh_tokens (work w)))"

lemma session_known_None [simp]: "session_known d None"
  by (simp add: session_known_def)

lemma session_known_cong: "auth_sessions d = auth_sessions e \<Longrightarrow> session_known d s = session_known e s"
  by (simp add: session_known_def)

lemma db_ok_add_session:
  assumes "db_ok d" "as_id s \<notin> as_id ` set (auth_sessions d)" "as_user_id s \<in> u_id ` set (users d)"
  shows "db_ok (d\<lparr>auth_sessions := auth_sessions d @ [s]\<rparr>)"
  using assms by (simp add: db_ok_unfold in_ids_opt_mono)

lemma db_ok_add_token:
  assumes "db_ok d" "rt_id t \<notin> rt_id ` set (refresh_tokens d)"
    "rt_token_hash t \<notin> rt_token_hash ` set (refresh_tokens d)"
    "rt_user_id t \<in> u_id ` set (users d)" "session_known d (rt_session_id t)"
  shows "db_ok (d\<lparr>refresh_tokens := refresh_tokens d @ [t]\<rparr>)"
  using assms by (simp add: db_ok_unfold session_known_def split: option.splits)

lemma session_known_db_ok:
  "db_ok d \<Longrightarrow> t \<in> set (refresh_tokens d) \<Longrightarrow> session_known d (rt_session_id t)"
  by (fastforce simp: db_ok_unfold references_opt_def session_known_def)

lemma revoke_tokens_where_images:
  "rt_id ` set (refresh_tokens (revoke_tokens_where P n d)) = rt_id ` set (refresh_tokens d)"
  "rt_family_id ` set (refresh_tokens (revoke_tokens_where P n d)) = rt_family_id ` set (refresh_tokens d)"
  "rt_token_hash ` set (refresh_tokens (revoke_tokens_where P n d)) = rt_token_hash ` set (refresh_tokens d)"
  by (metis list.set_map revoke_tokens_where_keys(2), metis list.set_map revoke_tokens_where_keys(3),
      metis list.set_map revoke_tokens_where_keys(1))

lemma fresh_supply_revoke:
  "fresh_supply L (w\<lparr>tick := k, committed := c, work := revoke_tokens_where P n d\<rparr>)
     = fresh_supply L (w\<lparr>tick := k, committed := c, work := d\<rparr>)"
  by (simp add: fresh_supply_def revoke_tokens_where_images)

lemma fresh_supply_later:
  "fresh_supply L w \<Longrightarrow> tick w \<le> k \<Longrightarrow> fresh_supply L (w\<lparr>tick := k, committed := c\<rparr>)"
  by (simp add: fresh_supply_def)

text \<open>No two draws of the random sources are the same.\<close>

definition distinct_draws :: "lib \<Rightarrow> 'r world \<Rightarrow> bool" where
  "distinct_draws L w \<longleftrightarrow> inj (uuid_source (wenv w)) \<and> inj (\<lambda>k. digest L (token_source (wenv w) k))"

section \<open>Issuing and rotating tokens\<close>

lemma open_session_ok:
  assumes "calm w" "db_ok (work w)" "fresh_supply L w" "uid \<in> u_id ` set (users (work w))"
    and "session_known (work w) sid"
  obtains sid' ss n where "open_session S uid sid md w =
        (Inr sid', w\<lparr>tick := tick w + n, work := (work w)\<lparr>auth_sessions := auth_sessions (work w) @ ss\<rparr>\<rparr>)"
    and "db_ok ((work w)\<lparr>auth_sessions := auth_sessions (work w) @ ss\<rparr>)"
    and "session_known ((work w)\<lparr>auth_sessions := auth_sessions (work w) @ ss\<rparr>) sid'"
    and "sid \<noteq> None \<Longrightarrow> sid' = sid"
    and "as_id ` set ss \<subseteq> uuid_source (wenv w) ` {tick w..<tick w + n}"
proof (cases "auth_session_management_enabled S \<and> sid = None")
  case True
  let ?s = "\<lparr>as_id = uuid_source (wenv w) (tick w), as_user_id = uid,
           as_device_name = (case md of None \<Rightarrow> None | Some m \<Rightarrow> sm_device_name m),
           as_user_agent = (case md of None \<Rightarrow> None | Some m \<Rightarrow> sm_user_agent m),
           as_ip_address = (case md of None \<Rightarrow> None | Some m \<Rightarrow> sm_ip_address m),
           as_created_at = clock (wenv w) (Suc (tick w)), as_last_used_at = clock (wenv w) (Suc (tick w)),
           as_revoked_at = None\<rparr>"
  have d: "db_ok ((work w)\<lparr>auth_sessions := auth_sessions (work w) @ [?s]\<rparr>)"
    using assms by (intro db_ok_add_session) (auto simp: fresh_supply_def)
  show ?thesis
    by (rule that [where sid' = "Some (uuid_source (wenv w) (tick w))" and n = 3 and ss = "[?s]"])
       (use True d assms(1) in
         \<open>simp_all add: open_session_def save_auth_session_def flush_calm prog_simps session_known_def\<close>)
next
  case False
  then have o: "open_session S uid sid md w = (Inr sid, w)" by (auto simp: open_session_def ret_def)
  show ?thesis
    by (rule that [where sid' = sid and n = 0 and ss = "[]"]) (use o assms(2,5) in simp_all)
qed

lemma issue_tokens_ok:
  assumes "calm w" "db_ok (work w)" "fresh_supply L w"
    and "u_id u \<in> u_id ` set (users (work w))" and "session_known (work w) sid"
  obtains a r w' t where "issue_tokens L S u sid md w = (Inr (a, r), w')"
    and "refresh_tokens (work w') = refresh_tokens (work w) @ [t]" "rt_token_hash t = digest L r"
    and "rt_user_id t = u_id u" "rt_revoked_at t = None"
    and "rt_family_id t \<notin> rt_family_id ` set (refresh_tokens (work w))"
    and "rt_token_hash t \<notin> rt_token_hash ` set (refresh_tokens (work w))"
    and "committed w' = work w'" "db_ok (work w')" "users (work w') = users (work w)"
    and "sid \<noteq> None \<Longrightarrow> rt_session_id t = sid" "calm w'" "wenv w' = wenv w" "tick w \<le> tick w'"
    and "\<And>s. session_known (work w) s \<Longrightarrow> session_known (work w') s"
    and "distinct_draws L w \<Longrightarrow> fresh_supply L w'"
proof -
  obtain sid' ss n where o: "open_session S (u_id u) sid md w =
        (Inr sid', w\<lparr>tick := tick w + n, work := (work w)\<lparr>auth_sessions := auth_sessions (work w) @ ss\<rparr>\<rparr>)"
    and ok: "db_ok ((work w)\<lparr>auth_sessions := auth_sessions (work w) @ ss\<rparr>)"
    and fk: "session_known ((work w)\<lparr>auth_sessions := auth_sessions (work w) @ ss\<rparr>) sid'"
    and same: "sid \<noteq> None \<Longrightarrow> sid' = sid"
    and drawn: "as_id ` set ss \<subseteq> uuid_source (wenv w) ` {tick w..<tick w + n}"
    using open_session_ok [OF assms] by blast
  let ?k = "tick w + n" and ?e = "wenv w"
  let ?t = "\<lparr>rt_id = uuid_source ?e (Suc (Suc (Suc ?k))), rt_user_id = u_id u, rt_session_id = sid',
     rt_token_hash = digest L (token_source ?e ?k), rt_family_id = uuid_source ?e (Suc ?k),
     rt_expires_at = clock ?e (Suc (Suc ?k)) + days (refresh_token_expire_days S),
     rt_revoked_at = None, rt_created_at = clock ?e (Suc (Suc ?k))\<rparr>"
  let ?d = "(work w)\<lparr>auth_sessions := auth_sessions (work w) @ ss\<rparr>"
  have d: "db_ok (?d\<lparr>refresh_tokens := refresh_tokens ?d @ [?t]\<rparr>)"
    using ok fk assms(3,4) by (intro db_ok_add_token) (auto simp: fresh_supply_def)
  let ?d' = "?d\<lparr>refresh_tokens := refresh_tokens ?d @ [?t]\<rparr>"
  let ?k' = "Suc (Suc (Suc (Suc (Suc (Suc (Suc ?k))))))"
  have "\<exists>a. issue_tokens L S u sid md w =
      (Inr (a, token_source ?e ?k), w\<lparr>tick := ?k', committed := ?d', work := ?d'\<rparr>)"
    using o d assms(1) by (simp add: issue_tokens_def repo_roles_def save_refresh_token_def
         create_access_token_def prog_simps commit_calm)
  then obtain a where run: "issue_tokens L S u sid md w =
      (Inr (a, token_source ?e ?k), w\<lparr>tick := ?k', committed := ?d', work := ?d'\<rparr>)" by blast
  have fresh: "fresh_supply L (w\<lparr>tick := ?k', committed := ?d', work := ?d'\<rparr>)" if "distinct_draws L w"
  proof -
    have "uuid_source ?e k \<notin> as_id ` set ss" if "k \<ge> ?k" for k
      using drawn that injD [of "uuid_source ?e"] \<open>distinct_draws L w\<close> by (fastforce simp: distinct_draws_def)
    moreover have "uuid_source ?e k = uuid_source ?e j \<longleftrightarrow> k = j"
      "digest L (token_source ?e k) = digest L (token_source ?e j) \<longleftrightarrow> k = j" for k j
      using that by (auto simp: distinct_draws_def inj_def)
    ultimately show ?thesis
      using assms(3) by (auto simp: fresh_supply_def image_Un)
  qed
  show ?thesis
    by (rule that [OF run, of ?t])
      (use d same fresh assms(1,3) in \<open>auto simp: fresh_supply_def session_known_def\<close>)
qed

text \<open>A token that is revoked or expired is refused, and its family is revoked.\<close>

lemma refresh_rejects:
  assumes "calm w" "db_ok (work w)"
    and "find (\<lambda>x. rt_token_hash x = digest L raw) (refresh_tokens (work w)) = Some t"
    and "\<not> token_usable (clock (wenv w) (tick w)) t"
  shows "refresh L S raw w =
    (Inl (App (err (if rt_revoked_at t \<noteq> None then RefreshTokenReplay else InvalidRefreshToken))),
     (let d = revoke_tokens_where (\<lambda>x. rt_family_id x = rt_family_id t) (clock (wenv w) (tick w)) (work w)
      in w\<lparr>tick := Suc (Suc (tick w)), committed := d, work := d\<rparr>))"
  using assms
  by (simp add: refresh_def repo_refresh_token_def revoke_tokens_def prog_simps commit_calm Let_def)

text \<open>The second half of \<open>refresh\<close>: what it does with the token it has read.\<close>

definition redeem :: "lib \<Rightarrow> settings \<Rightarrow> refresh_token option \<Rightarrow> ('r, string \<times> string) op" where
  "redeem L S found =
     bindP now_utc (\<lambda>now.
     (case found of
        None \<Rightarrow> raise (App (err InvalidRefreshToken))
      | Some t \<Rightarrow>
          if \<not> token_usable now t then
            bindP (revoke_tokens (rt_family_id t) now) (\<lambda>_.
            bindP commit_session (\<lambda>_.
            raise (App (err (if rt_revoked_at t \<noteq> None then RefreshTokenReplay
                             else InvalidRefreshToken)))))
          else
            bindP (revoke_tokens (rt_family_id t) now) (\<lambda>_.
            bindP commit_session (\<lambda>_.
            bindP (get_user (rt_user_id t)) (\<lambda>owner.
            (case owner of
               None \<Rightarrow> raise (App (err InvalidRefreshToken))
             | Some u \<Rightarrow> if u_status u \<noteq> ''active'' then raise (App (err InvalidRefreshToken))
                         else issue_tokens L S u (rt_session_id t) None))))))"

lemma refresh_redeem: "refresh L S raw = bindP (repo_refresh_token (digest L raw)) (redeem L S)"
  by (simp add: refresh_def redeem_def [abs_def])

text \<open>A usable token of an active owner is exchanged for a new one, also when it was read long before.\<close>

lemma redeem_accepts:
  assumes ok: "calm w" "db_ok (work w)" "fresh_supply L w"
    and t: "session_known (work w) (rt_session_id t)"
    and live: "token_usable (clock (wenv w) (tick w)) t"
    and u: "find (\<lambda>x. u_id x = rt_user_id t) (users (work w)) = Some u" "u_status u = ''active''"
  obtains a r w' t' where "redeem L S (Some t) w = (Inr (a, r), w')"
    and "refresh_tokens (work w') = refresh_tokens (revoke_tokens_where
           (\<lambda>x. rt_family_id x = rt_family_id t) (clock (wenv w) (tick w)) (work w)) @ [t']"
    and "rt_token_hash t' = digest L r" "rt_user_id t' = rt_user_id t" "rt_revoked_at t' = None"
    and "rt_family_id t' \<notin> rt_family_id ` set (refresh_tokens (work w))"
    and "rt_token_hash t' \<notin> rt_token_hash ` set (refresh_tokens (work w))"
    and "committed w' = work w'" "db_ok (work w')" "users (work w') = users (work w)"
    and "rt_session_id t \<noteq> None \<Longrightarrow> rt_session_id t' = rt_session_id t" "calm w'"
    and "wenv w' = wenv w" "\<And>s. session_known (work w) s \<Longrightarrow> session_known (work w') s"
    and "distinct_draws L w \<Longrightarrow> fresh_supply L w'"
proof -
  let ?d = "revoke_tokens_where (\<lambda>x. rt_family_id x = rt_family_id t) (clock (wenv w) (tick w)) (work w)"
  let ?w = "w\<lparr>tick := Suc (Suc (tick w)), committed := ?d, work := ?d\<rparr>"
  have uin: "u \<in> set (users (work w))" "u_id u = rt_user_id t" using u(1) by (auto dest: find_SomeD)
  have run: "redeem L S (Some t) w = issue_tokens L S u (rt_session_id t) None ?w"
    using ok live u by (simp add: redeem_def revoke_tokens_def get_user_def prog_simps commit_calm)
  have fresh: "fresh_supply L ?w"
  proof -
    have "fresh_supply L (w\<lparr>tick := Suc (Suc (tick w)), committed := ?d, work := work w\<rparr>)"
      using ok(3) by (simp add: fresh_supply_def)
    then show ?thesis by (simp only: fresh_supply_revoke)
  qed
  have keys: "rt_family_id ` set (refresh_tokens ?d) = rt_family_id ` set (refresh_tokens (work w))"
    "rt_token_hash ` set (refresh_tokens ?d) = rt_token_hash ` set (refresh_tokens (work w))"
    by (simp_all add: revoke_tokens_where_images)
  have known: "session_known ?d s = session_known (work w) s" for s
    by (simp add: session_known_def)
  have draws: "distinct_draws L ?w = distinct_draws L w" by (simp add: distinct_draws_def)
  obtain a r w' t' where "issue_tokens L S u (rt_session_id t) None ?w = (Inr (a, r), w')"
    and "refresh_tokens (work w') = refresh_tokens (work ?w) @ [t']" "rt_token_hash t' = digest L r"
    and "rt_user_id t' = u_id u" "rt_revoked_at t' = None"
    and "rt_family_id t' \<notin> rt_family_id ` set (refresh_tokens (work ?w))"
    and "rt_token_hash t' \<notin> rt_token_hash ` set (refresh_tokens (work ?w))"
    and "committed w' = work w'" "db_ok (work w')" "users (work w') = users (work ?w)"
    and "rt_session_id t \<noteq> None \<Longrightarrow> rt_session_id t' = rt_session_id t" "calm w'" "wenv w' = wenv ?w"
    and "\<And>s. session_known (work ?w) s \<Longrightarrow> session_known (work w') s"
    and "distinct_draws L ?w \<Longrightarrow> fresh_supply L w'"
    by (rule issue_tokens_ok [OF _ _ fresh, of u "rt_session_id t" S None])
      (use uin ok t known in \<open>auto intro: image_eqI [of _ _ u]\<close>)
  with run keys uin show ?thesis
    by (intro that [of a r w' t']) (simp_all add: known draws)
qed

lemma refresh_accepts:
  assumes "calm w" "db_ok (work w)" "fresh_supply L w"
    and t: "find (\<lambda>x. rt_token_hash x = digest L raw) (refresh_tokens (work w)) = Some t"
    and "token_usable (clock (wenv w) (tick w)) t"
    and "find (\<lambda>x. u_id x = rt_user_id t) (users (work w)) = Some u" "u_status u = ''active''"
  obtains a r w' t' where "refresh L S raw w = (Inr (a, r), w')"
    and "refresh_tokens (work w') = refresh_tokens (revoke_tokens_where
           (\<lambda>x. rt_family_id x = rt_family_id t) (clock (wenv w) (tick w)) (work w)) @ [t']"
    and "rt_token_hash t' = digest L r" "rt_user_id t' = rt_user_id t" "rt_revoked_at t' = None"
    and "rt_family_id t' \<notin> rt_family_id ` set (refresh_tokens (work w))"
    and "rt_token_hash t' \<notin> rt_token_hash ` set (refresh_tokens (work w))"
    and "committed w' = work w'" "db_ok (work w')" "users (work w') = users (work w)"
    and "rt_session_id t \<noteq> None \<Longrightarrow> rt_session_id t' = rt_session_id t" "calm w'"
proof -
  have "refresh L S raw w = redeem L S (Some t) w"
    using t by (simp add: refresh_redeem repo_refresh_token_def run_simps)
  moreover have "session_known (work w) (rt_session_id t)"
    using session_known_db_ok [OF assms(2)] find_SomeD [OF t] by blast
  ultimately show ?thesis
    using redeem_accepts [OF assms(1-3) _ assms(5-7), of S thesis] that by auto
qed

section \<open>Refresh tokens\<close>

lemma fresh_supply_ex: "fresh_supply lib_ex (world_ex db_ex)"
  by (auto simp: fresh_supply_def sample_defs)

lemma seed_token_ex:
  "find (\<lambda>x. rt_token_hash x = digest lib_ex ''seed'') (refresh_tokens (work (world_ex db_ex)))
     = Some (token_ex 21 1 (Some 11) ''#seed'')"
  "token_usable (clock (wenv (world_ex db_ex)) (tick (world_ex db_ex))) (token_ex 21 1 (Some 11) ''#seed'')"
  "find (\<lambda>x. u_id x = rt_user_id (token_ex 21 1 (Some 11) ''#seed'')) (users (work (world_ex db_ex)))
     = Some (user_ex 1 ''a@x'')"
  "u_status (user_ex 1 ''a@x'') = ''active''"
  by (simp_all add: sample_defs token_usable_def)

text \<open>
  C2. Rotation: a usable token of an active account is exchanged for a pair; the new refresh
  token is stored as a digest, unrevoked, for the same account and session, everything is
  committed, and no token of the presented token's family is live any more.
\<close>

theorem refresh_rotates:
  assumes "calm w" "db_ok (work w)" "fresh_supply L w"
    and "find (\<lambda>x. rt_token_hash x = digest L raw) (refresh_tokens (work w)) = Some t"
    and "token_usable (clock (wenv w) (tick w)) t"
    and "find (\<lambda>x. u_id x = rt_user_id t) (users (work w)) = Some u" "u_status u = ''active''"
  shows "\<exists>a r w'. refresh L S raw w = (Inr (a, r), w')
    \<and> committed w' = work w' \<and> db_ok (work w') \<and> users (work w') = users (work w)
    \<and> (\<forall>x\<in>set (refresh_tokens (work w')). rt_family_id x = rt_family_id t \<longrightarrow> rt_revoked_at x \<noteq> None)
    \<and> (\<exists>t'. find (\<lambda>x. rt_token_hash x = digest L r) (refresh_tokens (work w')) = Some t'
        \<and> rt_user_id t' = rt_user_id t \<and> rt_revoked_at t' = None
        \<and> (rt_session_id t \<noteq> None \<longrightarrow> rt_session_id t' = rt_session_id t))"
proof -
  let ?old = "revoke_tokens_where (\<lambda>x. rt_family_id x = rt_family_id t) (clock (wenv w) (tick w)) (work w)"
  obtain a r w' t' where run: "refresh L S raw w = (Inr (a, r), w')"
    and rows: "refresh_tokens (work w') = refresh_tokens ?old @ [t']" "rt_token_hash t' = digest L r"
    and t': "rt_user_id t' = rt_user_id t" "rt_revoked_at t' = None"
      "rt_family_id t' \<notin> rt_family_id ` set (refresh_tokens (work w))"
    and w': "committed w' = work w'" "db_ok (work w')" "users (work w') = users (work w)"
      "rt_session_id t \<noteq> None \<Longrightarrow> rt_session_id t' = rt_session_id t"
    by (rule refresh_accepts [OF assms, of S]) blast
  have "t' \<in> set (refresh_tokens (work w'))" using rows by simp
  from find_token_by_hash [OF w'(2) this] rows
  have found: "find (\<lambda>x. rt_token_hash x = digest L r) (refresh_tokens (work w')) = Some t'" by simp
  have fam: "rt_family_id t' \<noteq> rt_family_id t" using t'(3) assms(4) by (metis find_SomeD imageI)
  have "rt_revoked_at x \<noteq> None"
    if "x \<in> set (refresh_tokens (work w'))" "rt_family_id x = rt_family_id t" for x
    using that fam rows(1)
      revoke_tokens_where_selected [where P = "\<lambda>x. rt_family_id x = rt_family_id t" and t = x]
    by auto
  then show ?thesis using run w' found t' by blast
qed

theorem refresh_rotates_witness:
  "\<exists>a r w'. refresh lib_ex settings_ex ''seed'' (world_ex db_ex) = (Inr (a, r), w')
    \<and> committed w' = work w' \<and> db_ok (work w') \<and> users (work w') = users db_ex
    \<and> (\<forall>x\<in>set (refresh_tokens (work w')). rt_family_id x = 21 \<longrightarrow> rt_revoked_at x \<noteq> None)"
  using refresh_rotates [OF _ _ fresh_supply_ex seed_token_ex, of settings_ex]
  by (fastforce simp: token_ex_def)

text \<open>The presented token stays in the table, revoked.\<close>

lemma refresh_leaves_revoked:
  assumes "calm w" "db_ok (work w)" "fresh_supply L w"
    and "find (\<lambda>x. rt_token_hash x = digest L raw) (refresh_tokens (work w)) = Some t"
    and "token_usable (clock (wenv w) (tick w)) t"
    and "find (\<lambda>x. u_id x = rt_user_id t) (users (work w)) = Some u" "u_status u = ''active''"
    and run: "refresh L S raw w = (Inr (a, r), w')"
  obtains t1 t' where "calm w'" "db_ok (work w')"
    and "find (\<lambda>x. rt_token_hash x = digest L raw) (refresh_tokens (work w')) = Some t1"
    and "rt_revoked_at t1 \<noteq> None" "rt_family_id t1 = rt_family_id t"
    and "t' \<in> set (refresh_tokens (work w'))" "rt_token_hash t' = digest L r"
    and "rt_revoked_at t' = None" "rt_family_id t' \<noteq> rt_family_id t"
proof -
  let ?P = "\<lambda>x. rt_family_id x = rt_family_id t" and ?now = "clock (wenv w) (tick w)"
  obtain a' r' w1 t' where run': "refresh L S raw w = (Inr (a', r'), w1)"
    and rows: "refresh_tokens (work w1) = refresh_tokens (revoke_tokens_where ?P ?now (work w)) @ [t']"
      "rt_token_hash t' = digest L r'"
    and t': "rt_revoked_at t' = None" "rt_family_id t' \<notin> rt_family_id ` set (refresh_tokens (work w))"
    and w1: "db_ok (work w1)" "calm w1"
    by (rule refresh_accepts [OF assms(1-7), of S]) blast
  have tin: "t \<in> set (refresh_tokens (work w))" and h: "rt_token_hash t = digest L raw"
    and live: "rt_revoked_at t = None"
    using assms(4,5) by (auto dest: find_SomeD simp: token_usable_def)
  let ?t1 = "t\<lparr>rt_revoked_at := Some ?now\<rparr>"
  have "?t1 \<in> set (refresh_tokens (work w1))"
    using tin live rows(1) by (auto simp: revoke_tokens_where_def table_simps intro!: bexI [of _ t])
  from find_token_by_hash [OF w1(1) this] h
  have "find (\<lambda>x. rt_token_hash x = digest L raw) (refresh_tokens (work w1)) = Some ?t1" by simp
  moreover have "rt_family_id t' \<noteq> rt_family_id t" using t'(2) tin by (metis imageI)
  ultimately show ?thesis
    using run run' rows t' w1 by (intro that [of ?t1 t']) auto
qed

text \<open>
  C3. Replay: presenting a token a second time, after it was exchanged, is reported as a
  replay, whatever the clock says.
\<close>

theorem replay_detected:
  assumes "calm w" "db_ok (work w)" "fresh_supply L w"
    and "find (\<lambda>x. rt_token_hash x = digest L raw) (refresh_tokens (work w)) = Some t"
    and "token_usable (clock (wenv w) (tick w)) t"
    and "find (\<lambda>x. u_id x = rt_user_id t) (users (work w)) = Some u" "u_status u = ''active''"
    and "refresh L S raw w = (Inr p, w')"
  shows "fst (refresh L S raw w') = Inl (App (err RefreshTokenReplay))"
proof -
  obtain a r where p: "p = (a, r)" by fastforce
  obtain t1 where "calm w'" "db_ok (work w')"
    "find (\<lambda>x. rt_token_hash x = digest L raw) (refresh_tokens (work w')) = Some t1"
    "rt_revoked_at t1 \<noteq> None"
    by (rule refresh_leaves_revoked [OF assms(1-7) assms(8)[unfolded p]]) blast
  from refresh_rejects [OF this(1-3), of S] this(4) show ?thesis by (auto simp: token_usable_def)
qed

theorem replay_detected_witness:
  "fst (refresh lib_ex settings_ex ''seed''
     (snd (refresh lib_ex settings_ex ''seed'' (world_ex db_ex)))) = Inl (App (err RefreshTokenReplay))"
proof -
  obtain a r w' where run: "refresh lib_ex settings_ex ''seed'' (world_ex db_ex) = (Inr (a, r), w')"
    by (rule refresh_accepts [OF _ _ fresh_supply_ex seed_token_ex, of settings_ex]) simp_all
  show ?thesis using replay_detected [OF _ _ fresh_supply_ex seed_token_ex run] by (simp add: run)
qed

text \<open>
  C6. What a replay does not do: every exchange opens a new family, so revoking the family of
  the replayed token leaves the token it was exchanged for live.
\<close>

theorem successor_survives_replay:
  assumes "calm w" "db_ok (work w)" "fresh_supply L w"
    and "find (\<lambda>x. rt_token_hash x = digest L raw) (refresh_tokens (work w)) = Some t"
    and "token_usable (clock (wenv w) (tick w)) t"
    and "find (\<lambda>x. u_id x = rt_user_id t) (users (work w)) = Some u" "u_status u = ''active''"
    and "refresh L S raw w = (Inr (a, r), w1)" and "refresh L S raw w1 = (q, w2)"
  shows "\<exists>t'. find (\<lambda>x. rt_token_hash x = digest L r) (refresh_tokens (work w2)) = Some t'
           \<and> rt_revoked_at t' = None"
proof -
  obtain t1 t' where w1: "calm w1" "db_ok (work w1)"
    "find (\<lambda>x. rt_token_hash x = digest L raw) (refresh_tokens (work w1)) = Some t1"
    "rt_revoked_at t1 \<noteq> None" and fam: "rt_family_id t1 = rt_family_id t"
    and t': "t' \<in> set (refresh_tokens (work w1))" "rt_token_hash t' = digest L r"
      "rt_revoked_at t' = None" "rt_family_id t' \<noteq> rt_family_id t"
    by (rule refresh_leaves_revoked [OF assms(1-8)])
  let ?d = "revoke_tokens_where (\<lambda>x. rt_family_id x = rt_family_id t) (clock (wenv w1) (tick w1)) (work w1)"
  have "work w2 = ?d"
    using refresh_rejects [OF w1(1-3), of S] w1(4) fam assms(9) by (simp add: token_usable_def Let_def)
  moreover have "t' \<in> set (refresh_tokens ?d)" using t'(1,4) by (intro revoke_tokens_where_other)
  ultimately have "find (\<lambda>x. rt_token_hash x = rt_token_hash t') (refresh_tokens (work w2)) = Some t'"
    using w1(2) by (intro find_token_by_hash) simp_all
  with t'(2,3) show ?thesis by auto
qed

theorem successor_survives_replay_witness:
  "\<exists>a r w1 q w2 t'. refresh lib_ex settings_ex ''seed'' (world_ex db_ex) = (Inr (a, r), w1)
     \<and> refresh lib_ex settings_ex ''seed'' w1 = (q, w2)
     \<and> find (\<lambda>x. rt_token_hash x = digest lib_ex r) (refresh_tokens (work w2)) = Some t'
     \<and> rt_revoked_at t' = None"
proof -
  obtain a r w1 where run: "refresh lib_ex settings_ex ''seed'' (world_ex db_ex) = (Inr (a, r), w1)"
    by (rule refresh_accepts [OF _ _ fresh_supply_ex seed_token_ex, of settings_ex]) simp_all
  obtain q w2 where again: "refresh lib_ex settings_ex ''seed'' w1 = (q, w2)" by fastforce
  show ?thesis using successor_survives_replay [OF _ _ fresh_supply_ex seed_token_ex run again] run again by auto
qed

text \<open>
  A refresh that answers with tokens was given a stored token that is neither revoked nor
  expired, of an account that is active, also when the database fails on the way.
\<close>

theorem refresh_sound:
  assumes "refresh L S raw w = (Inr p, w')"
  shows "\<exists>t. find (\<lambda>x. rt_token_hash x = digest L raw) (refresh_tokens (work w)) = Some t
    \<and> token_usable (clock (wenv w) (tick w)) t
    \<and> (\<exists>u\<in>set (users (work w)). u_id u = rt_user_id t \<and> u_status u = ''active'')"
proof -
  let ?found = "find (\<lambda>x. rt_token_hash x = digest L raw) (refresh_tokens (work w))"
  obtain t where t: "?found = Some t" "token_usable (clock (wenv w) (tick w)) t"
    using assms by (cases ?found)
      (auto simp: refresh_def repo_refresh_token_def prog_simps split: if_splits prod.splits sum.splits)
  with assms obtain w1 u where "commit_session (w\<lparr>tick := Suc (tick w), work := revoke_tokens_where
          (\<lambda>x. rt_family_id x = rt_family_id t) (clock (wenv w) (tick w)) (work w)\<rparr>) = (Inr (), w1)"
    and u: "find (\<lambda>x. u_id x = rt_user_id t) (users (work w1)) = Some u" "u_status u = ''active''"
    by (auto simp: refresh_def repo_refresh_token_def revoke_tokens_def get_user_def prog_simps
        split: if_splits prod.splits sum.splits option.splits)
  from commit_session_cases [OF this(1)] have "users (work w1) = users (work w)" by auto
  with t u show ?thesis by (auto dest: find_SomeD)
qed

theorem refresh_sound_witness:
  "\<exists>t. find (\<lambda>x. rt_token_hash x = ''#seed'') (refresh_tokens db_ex) = Some t \<and> token_usable 0 t"
proof -
  obtain a r w1 where run: "refresh lib_ex settings_ex ''seed'' (world_ex db_ex) = (Inr (a, r), w1)"
    by (rule refresh_accepts [OF _ _ fresh_supply_ex seed_token_ex, of settings_ex]) simp_all
  show ?thesis using refresh_sound [OF run] by (auto simp: lib_ex_def env_ex_def seconds_def)
qed

section \<open>Overlapping exchanges\<close>

text \<open>
  Requests that have read the same token, each in a session of its own, and go on one after the
  other: nothing locks the row between the reading and the update.
\<close>

definition exchange_all :: "lib \<Rightarrow> settings \<Rightarrow> refresh_token option list \<Rightarrow> ('r, (string \<times> string) list) op" where
  "exchange_all L S founds = foldP (\<lambda>ps found.
     bindP session_rollback (\<lambda>_. bindP (redeem L S found) (\<lambda>p. ret (ps @ [p])))) [] founds"

definition live_token :: "lib \<Rightarrow> refresh_token \<Rightarrow> string \<Rightarrow> db \<Rightarrow> bool" where
  "live_token L t r d \<longleftrightarrow> (\<exists>t'\<in>set (refresh_tokens d). rt_token_hash t' = digest L r
     \<and> rt_user_id t' = rt_user_id t \<and> rt_revoked_at t' = None \<and> rt_family_id t' \<noteq> rt_family_id t)"

definition exchanging :: "lib \<Rightarrow> refresh_token \<Rightarrow> user \<Rightarrow> (string \<times> string) list \<Rightarrow> 'r world \<Rightarrow> bool" where
  "exchanging L t u ps w \<longleftrightarrow> calm w \<and> committed w = work w \<and> db_ok (work w) \<and> fresh_supply L w
     \<and> distinct_draws L w \<and> session_known (work w) (rt_session_id t)
     \<and> rt_revoked_at t = None \<and> (\<forall>k. clock (wenv w) k < rt_expires_at t)
     \<and> find (\<lambda>x. u_id x = rt_user_id t) (users (work w)) = Some u \<and> u_status u = ''active''
     \<and> rt_family_id t \<in> rt_family_id ` set (refresh_tokens (work w))
     \<and> (\<forall>p\<in>set ps. live_token L t (snd p) (work w)) \<and> distinct (map (digest L \<circ> snd) ps)"

lemma exchange_step:
  assumes "exchanging L t u ps w"
  obtains p w' where "bindP session_rollback (\<lambda>_. bindP (redeem L S (Some t)) (\<lambda>p. ret (ps @ [p]))) w = (Inr (ps @ [p]), w')"
    and "exchanging L t u (ps @ [p]) w'"
proof -
  let ?P = "\<lambda>x. rt_family_id x = rt_family_id t" and ?now = "clock (wenv w) (tick w)"
  have w: "w\<lparr>work := committed w\<rparr> = w" using assms by (simp add: exchanging_def)
  obtain a r w' t' where run: "redeem L S (Some t) w = (Inr (a, r), w')"
    and rows: "refresh_tokens (work w') = refresh_tokens (revoke_tokens_where ?P ?now (work w)) @ [t']"
    and t': "rt_token_hash t' = digest L r" "rt_user_id t' = rt_user_id t" "rt_revoked_at t' = None"
      "rt_family_id t' \<notin> rt_family_id ` set (refresh_tokens (work w))"
      "rt_token_hash t' \<notin> rt_token_hash ` set (refresh_tokens (work w))"
    and w': "committed w' = work w'" "db_ok (work w')" "users (work w') = users (work w)" "calm w'" "wenv w' = wenv w"
      "session_known (work w') (rt_session_id t)" "fresh_supply L w'"
    by (rule redeem_accepts [of w L t u S]) (use assms in \<open>auto simp: exchanging_def token_usable_def\<close>)
  have families: "rt_family_id t \<in> rt_family_id ` set (refresh_tokens (work w'))"
    and other: "rt_family_id t' \<noteq> rt_family_id t"
    using assms t'(4) by (auto simp: rows revoke_tokens_where_images image_Un exchanging_def)
  have kept: "live_token L t q (work w')" if "live_token L t q (work w)" for q
    using that by (auto simp: live_token_def rows intro: revoke_tokens_where_other)
  have new: "live_token L t r (work w')" using t' other by (auto simp: live_token_def rows)
  have "digest L r \<noteq> digest L (snd p)" if "p \<in> set ps" for p
    using assms that t'(1,5) by (auto simp: exchanging_def live_token_def) (metis imageI)
  then have "exchanging L t u (ps @ [(a, r)]) w'"
    using assms w' families kept new by (auto simp: exchanging_def distinct_draws_def)
  then show ?thesis
    by (intro that [of "(a, r)" w']) (simp_all add: session_rollback_def prog_simps w run)
qed

lemma exchange_many:
  assumes "exchanging L t u ps w"
  shows "\<exists>qs w'. foldP (\<lambda>ps found. bindP session_rollback (\<lambda>_. bindP (redeem L S found) (\<lambda>p. ret (ps @ [p]))))
       ps (replicate n (Some t)) w = (Inr qs, w') \<and> length qs = length ps + n \<and> exchanging L t u qs w'"
  using assms
proof (induction n arbitrary: ps w)
  case 0
  then show ?case by (simp add: ret_def)
next
  case (Suc n)
  obtain p w' where "bindP session_rollback (\<lambda>_. bindP (redeem L S (Some t)) (\<lambda>p. ret (ps @ [p]))) w = (Inr (ps @ [p]), w')"
    and "exchanging L t u (ps @ [p]) w'"
    by (rule exchange_step [OF Suc.prems])
  then show ?case using Suc.IH [of "ps @ [p]" w'] by (simp add: bindP_result [where m = "bindP session_rollback _"])
qed

text \<open>
  C7. Single use holds only for exchanges that follow each other: any number of requests that have read
  a usable refresh token before the first of them revokes it all succeed, and each leaves a live
  refresh token of its own for the account; none is reported as a replay.
\<close>

theorem overlapping_exchanges:
  assumes "calm w" "committed w = work w" "db_ok (work w)" "fresh_supply L w" "distinct_draws L w"
    and t: "find (\<lambda>x. rt_token_hash x = digest L raw) (refresh_tokens (work w)) = Some t"
    and "rt_revoked_at t = None" "\<forall>k. clock (wenv w) k < rt_expires_at t"
    and "find (\<lambda>x. u_id x = rt_user_id t) (users (work w)) = Some u" "u_status u = ''active''"
  shows "\<exists>ps w'. bindP (repo_refresh_token (digest L raw)) (\<lambda>found. exchange_all L S (replicate n found)) w = (Inr ps, w')
    \<and> length ps = n \<and> distinct (map (digest L \<circ> snd) ps)
    \<and> (\<forall>p\<in>set ps. \<exists>t'. find (\<lambda>x. rt_token_hash x = digest L (snd p)) (refresh_tokens (committed w')) = Some t'
         \<and> rt_user_id t' = rt_user_id t \<and> rt_revoked_at t' = None)"
proof -
  have "t \<in> set (refresh_tokens (work w))" using t by (auto dest: find_SomeD)
  then have "exchanging L t u [] w"
    using assms session_known_db_ok [OF assms(3)] by (simp add: exchanging_def)
  then obtain ps w' where run: "exchange_all L S (replicate n (Some t)) w = (Inr ps, w')" "length ps = n"
    and ex: "exchanging L t u ps w'"
    using exchange_many [of L t u "[]" w S n] by (auto simp: exchange_all_def)
  have "\<exists>t'. find (\<lambda>x. rt_token_hash x = digest L (snd p)) (refresh_tokens (committed w')) = Some t'
      \<and> rt_user_id t' = rt_user_id t \<and> rt_revoked_at t' = None" if "p \<in> set ps" for p
    using ex that find_token_by_hash [of "work w'"] unfolding exchanging_def live_token_def by metis
  with run ex show ?thesis
    by (simp add: repo_refresh_token_def run_simps t exchanging_def)
qed

theorem overlapping_exchanges_witness:
  "\<exists>p q w'. bindP (repo_refresh_token (digest lib_ex ''seed'')) (\<lambda>found. exchange_all lib_ex settings_ex [found, found])
       ((world_ex db_ex)\<lparr>wenv := env_ex\<lparr>clock := \<lambda>_. 0, token_source := \<lambda>n. CHR ''!'' # replicate n (CHR ''x'')\<rparr>\<rparr>) = (Inr [p, q], w')
     \<and> digest lib_ex (snd p) \<noteq> digest lib_ex (snd q)"
proof -
  let ?w = "(world_ex db_ex)\<lparr>wenv := env_ex\<lparr>clock := \<lambda>_. 0, token_source := \<lambda>n. CHR ''!'' # replicate n (CHR ''x'')\<rparr>\<rparr>"
  have "calm ?w" by (simp add: calm_def env_ex_def)
  moreover have "fresh_supply lib_ex ?w" by (auto simp: fresh_supply_def sample_defs)
  moreover have "distinct_draws lib_ex ?w"
    by (auto simp: distinct_draws_def inj_def env_ex_def lib_ex_def dest: arg_cong [where f = length])
  moreover have "find (\<lambda>x. rt_token_hash x = digest lib_ex ''seed'') (refresh_tokens (work ?w))
      = Some (token_ex 21 1 (Some 11) ''#seed'')"
    "find (\<lambda>x. u_id x = rt_user_id (token_ex 21 1 (Some 11) ''#seed'')) (users (work ?w)) = Some (user_ex 1 ''a@x'')"
    using seed_token_ex by simp_all
  ultimately show ?thesis
    using overlapping_exchanges [of ?w lib_ex "''seed''" "token_ex 21 1 (Some 11) ''#seed''" "user_ex 1 ''a@x''" settings_ex 2]
    by (auto simp: numeral_2_eq_2 length_Suc_conv token_ex_def user_ex_def days_def seconds_def)
qed

end
