(* ===== verification/Text_Formats.thy ===== *)
theory Text_Formats
  imports Py_Repr
begin

text \<open>
  The two text formats the program writes for other programs: JSON as \<open>json.dumps\<close> prints it and
  CSV as \<open>csv.writer\<close> does, with a reader of the latter. \<open>csv_read\<close> is the reader of Python's
  \<open>csv\<close> module in its default dialect, restricted to rows that end in \<open>\\r\\n\<close>: it is the
  specification the written rows are checked against.
\<close>

section \<open>JSON\<close>

text \<open>\<open>json.dumps\<close> escapes the quote, the backslash and everything outside the printable ASCII range.\<close>

definition json_char :: "char \<Rightarrow> string" where
  "json_char c = (let n = of_char c :: nat; b = char_of (92::nat) in
     if n = 34 \<or> n = 92 then [b, c]
     else if n = 10 then [b, CHR ''n''] else if n = 13 then [b, CHR ''r'']
     else if n = 9 then [b, CHR ''t''] else if n = 12 then [b, CHR ''f'']
     else if n = 8 then [b, CHR ''b'']
     else if n < 32 \<or> 126 < n then [b] @ ''u00'' @ hex2 n
     else [c])"

definition json_str :: "string \<Rightarrow> string" where
  "json_str s = [char_of (34::nat)] @ concat (map json_char s) @ [char_of (34::nat)]"

fun json_dumps :: "(rat \<Rightarrow> string) \<Rightarrow> json \<Rightarrow> string" where
  "json_dumps fr JNull = ''null''"
| "json_dumps fr (JBool b) = (if b then ''true'' else ''false'')"
| "json_dumps fr (JInt i) = str_int i"
| "json_dumps fr (JFloat x) = fr x"
| "json_dumps fr (JStr s) = json_str s"
| "json_dumps fr (JArr xs) = ''['' @ join '', '' (map (json_dumps fr) xs) @ '']''"
| "json_dumps fr (JObj kvs) =
     [CHR 0x7B] @ join '', '' (map (\<lambda>(k, v). json_str k @ '': '' @ json_dumps fr v) kvs) @ [CHR 0x7D]"

text \<open>\<open>json.dumps(d, indent=2)\<close> of a dictionary of scalars.\<close>

definition json_indented :: "(rat \<Rightarrow> string) \<Rightarrow> (string \<times> json) list \<Rightarrow> string" where
  "json_indented fr kvs =
     [CHR 0x7B, CHR 0x0A]
     @ join ('','' @ [CHR 0x0A]) (map (\<lambda>(k, v). ''  '' @ json_str k @ '': '' @ json_dumps fr v) kvs)
     @ [CHR 0x0A, CHR 0x7D]"

section \<open>Reading CSV\<close>

datatype csv_mode = Field_Start | Plain | Quoted | Quote_Seen | Row_End

definition dquote :: char where
  "dquote = char_of (34::nat)"

text \<open>\<open>csv_read m f r s\<close>: the rows of \<open>s\<close>, within a row whose fields so far are \<open>r\<close> and a field read as \<open>f\<close>.\<close>

fun csv_read :: "csv_mode \<Rightarrow> string \<Rightarrow> string list \<Rightarrow> string \<Rightarrow> string list list" where
  "csv_read m f r [] = (if m = Field_Start \<and> r = [] then [] else [r @ [f]])"
| "csv_read Field_Start f r (c # cs) =
     (if c = dquote then csv_read Quoted f r cs
      else if c = CHR '','' then csv_read Field_Start [] (r @ [f]) cs
      else if c = CHR 0x0D then csv_read Row_End f r cs
      else csv_read Plain (f @ [c]) r cs)"
| "csv_read Plain f r (c # cs) =
     (if c = CHR '','' then csv_read Field_Start [] (r @ [f]) cs
      else if c = CHR 0x0D then csv_read Row_End f r cs
      else csv_read Plain (f @ [c]) r cs)"
| "csv_read Quoted f r (c # cs) =
     (if c = dquote then csv_read Quote_Seen f r cs else csv_read Quoted (f @ [c]) r cs)"
| "csv_read Quote_Seen f r (c # cs) =
     (if c = dquote then csv_read Quoted (f @ [c]) r cs
      else if c = CHR '','' then csv_read Field_Start [] (r @ [f]) cs
      else if c = CHR 0x0D then csv_read Row_End f r cs
      else csv_read Plain (f @ [c]) r cs)"
| "csv_read Row_End f r (c # cs) =
     (if c = CHR 0x0A then (r @ [f]) # csv_read Field_Start [] [] cs else csv_read Plain (f @ [c]) r cs)"

definition csv_reader :: "string \<Rightarrow> string list list" where
  "csv_reader s = csv_read Field_Start [] [] s"

lemma special_chars [simp]: "dquote \<noteq> CHR '',''" "dquote \<noteq> CHR 0x0D" "CHR '','' \<noteq> dquote" "CHR 0x0D \<noteq> dquote"
  by (code_simp)+

text \<open>A field is over at a comma or at the end of the row.\<close>

definition ends_field :: "char \<Rightarrow> bool" where
  "ends_field c = (c = CHR '','' \<or> c = CHR 0x0D)"

definition after_field :: "string \<Rightarrow> string list \<Rightarrow> char \<Rightarrow> string \<Rightarrow> string list list" where
  "after_field f r c cs = (if c = CHR '','' then csv_read Field_Start [] (r @ [f]) cs else csv_read Row_End f r cs)"

lemma read_end:
  "ends_field c \<Longrightarrow> csv_read Field_Start f r (c # cs) = after_field f r c cs"
  "ends_field c \<Longrightarrow> csv_read Plain f r (c # cs) = after_field f r c cs"
  "ends_field c \<Longrightarrow> csv_read Quote_Seen f r (c # cs) = after_field f r c cs"
  by (auto simp: ends_field_def after_field_def)

lemma read_quoted:
  assumes "ends_field c"
  shows "csv_read Quoted f r (concat (map (\<lambda>c. if c = dquote then [dquote, dquote] else [c]) s) @ dquote # c # cs)
    = after_field (f @ s) r c cs"
proof (induction s arbitrary: f)
  case (Cons x s)
  then show ?case
    using Cons.IH [of "f @ [x]"] by simp
qed (simp add: read_end [OF assms] del: csv_read.simps(5))

lemma read_plain:
  assumes "ends_field c" "\<forall>x \<in> set s. x \<noteq> CHR '','' \<and> x \<noteq> CHR 0x0D"
  shows "csv_read Plain f r (s @ c # cs) = after_field (f @ s) r c cs"
  using assms(2)
proof (induction s arbitrary: f)
  case Nil
  then show ?case
    by (simp only: append_Nil append_Nil2 read_end(2) [OF assms(1)])
qed simp

lemma read_field:
  assumes "ends_field c"
  shows "csv_read Field_Start [] r (csv_field s @ c # cs) = after_field s r c cs"
proof (cases "\<exists>x\<in>set s. x = CHR '','' \<or> x = dquote \<or> x = CHR 0x0A \<or> x = CHR 0x0D")
  case True
  then show ?thesis
    using read_quoted [OF assms, of "[]" r s cs] by (simp add: csv_field_def Let_def dquote_def [symmetric])
next
  case False
  then have f: "csv_field s = s"
    by (auto simp: csv_field_def Let_def dquote_def [symmetric])
  show ?thesis
  proof (cases s)
    case Nil
    then show ?thesis
      using f by (simp only: append_Nil read_end(1) [OF assms])
  next
    case (Cons x xs)
    with False have x: "x \<noteq> dquote" "x \<noteq> CHR '',''" "x \<noteq> CHR 0x0D" "\<forall>y \<in> set xs. y \<noteq> CHR '','' \<and> y \<noteq> CHR 0x0D"
      by simp_all
    show ?thesis
      using f read_plain [OF assms x(4), of "[x]" r cs] x(1-3) by (simp add: Cons)
  qed
qed

lemma read_fields:
  "fs \<noteq> [] \<Longrightarrow> csv_read Field_Start [] r (csv_row fs @ cs) = (r @ fs) # csv_read Field_Start [] [] cs"
proof (induction fs arbitrary: r)
  case (Cons x fs)
  show ?case
  proof (cases fs)
    case Nil
    then show ?thesis
      using read_field [of "CHR 0x0D" r x "CHR 0x0A # cs"]
      by (simp add: csv_row_def ends_field_def after_field_def)
  next
    case (Cons y ys)
    have "csv_row (x # fs) @ cs = csv_field x @ CHR '','' # csv_row fs @ cs"
      by (simp add: csv_row_def Cons)
    then show ?thesis
      using Cons.IH [of "r @ [x]"] read_field [of "CHR '',''" r x "csv_row fs @ cs"] Cons
      by (simp add: ends_field_def after_field_def)
  qed
qed simp

text \<open>Rows written are the rows read, whatever their fields hold.\<close>

lemma csv_roundtrip: "\<forall>fs \<in> set rows. fs \<noteq> [] \<Longrightarrow> csv_reader (concat (map csv_row rows)) = rows"
  unfolding csv_reader_def
proof (induction rows)
  case (Cons fs rows)
  then show ?case
    using read_fields [of fs "[]" "concat (map csv_row rows)"] by simp
qed simp

end
