(* ===== verification/Doubles.thy ===== *)
theory Doubles
  imports Complex_Main "HOL-Library.Log_Nat"
begin

text \<open>
  Python floats as far as the score needs them: a positive float is a significand of 53 bits and
  a binary exponent, and \<open>round_quot a b\<close> is the float nearest to \<open>a / b\<close>, ties to even, which is
  what true division of integers gives. Overflow and the subnormal range are out of reach of the
  quotients the program forms (at least \<open>1 / n\<close>, at most 40).
\<close>

text \<open>\<open>(m, s)\<close> stands for \<open>m / 2 ^ s\<close>, where \<open>s\<close> may be negative.\<close>

type_synonym float = "int \<times> int"

definition float_val :: "float \<Rightarrow> rat" where
  "float_val x = of_int (fst x) * 2 powi (- snd x)"

definition round_div :: "int \<Rightarrow> int \<Rightarrow> int" where
  "round_div a b =
     (let q = a div b; r = a mod b in
      if 2 * r < b \<or> (2 * r = b \<and> even q) then q else q + 1)"

text \<open>The exponent of the leading bit of \<open>a / b\<close>.\<close>

definition at_least_pow2 :: "int \<Rightarrow> int \<Rightarrow> int \<Rightarrow> bool" where
  "at_least_pow2 a b e = (if e \<ge> 0 then 2 ^ nat e * b \<le> a else b \<le> 2 ^ nat (- e) * a)"

definition lead_exponent :: "int \<Rightarrow> int \<Rightarrow> int" where
  "lead_exponent a b = (let e = bitlen a - bitlen b in if at_least_pow2 a b e then e else e - 1)"

definition round_quot :: "int \<Rightarrow> int \<Rightarrow> float" where
  "round_quot a b =
     (if a \<le> 0 then (0, 0)
      else let s = 52 - lead_exponent a b in
        (if s \<ge> 0 then round_div (a * 2 ^ nat s) b else round_div a (b * 2 ^ nat (- s)), s))"

text \<open>\<open>x * k\<close> and \<open>int(x)\<close>.\<close>

definition float_times :: "float \<Rightarrow> int \<Rightarrow> float" where
  "float_times x k = (case x of (m, s) \<Rightarrow>
     if s \<ge> 0 then round_quot (m * k) (2 ^ nat s) else round_quot (m * k * 2 ^ nat (- s)) 1)"

definition float_floor :: "float \<Rightarrow> int" where
  "float_floor x = (case x of (m, s) \<Rightarrow> if s \<ge> 0 then m div 2 ^ nat s else m * 2 ^ nat (- s))"

section \<open>The rounding error\<close>

lemma round_div_error:
  assumes "b > 0"
  shows "\<bar>of_int (round_div a b) - of_int a / of_int b :: rat\<bar> \<le> 1 / 2"
proof -
  define q where "q = a div b"
  define r where "r = a mod b"
  have r: "0 \<le> r" "r < b" "a = q * b + r" using assms by (simp_all add: q_def r_def)
  have "\<bar>round_div a b * b - a\<bar> * 2 \<le> b"
    unfolding round_div_def q_def [symmetric] r_def [symmetric] Let_def
    using r by (auto simp: distrib_right)
  then have "\<bar>of_int (round_div a b * b - a) :: rat\<bar> * 2 \<le> of_int b" by linarith
  moreover have "of_int (round_div a b) - of_int a / of_int b =
      (of_int (round_div a b * b - a) / of_int b :: rat)"
    using assms by (simp add: field_simps)
  ultimately show ?thesis using assms by (simp add: abs_divide field_simps)
qed

lemma powi_nat: "(2::rat) powi e = (if e \<ge> 0 then 2 ^ nat e else 1 / 2 ^ nat (- e))"
  by (simp add: power_int_def field_simps)

lemma at_least_pow2_iff:
  assumes "b > 0"
  shows "at_least_pow2 a b e \<longleftrightarrow> 2 powi e \<le> (of_int a / of_int b :: rat)"
proof -
  have "2 ^ n * b \<le> a \<longleftrightarrow> 2 ^ n * of_int b \<le> (of_int a :: rat)"
    and "b \<le> 2 ^ n * a \<longleftrightarrow> of_int b \<le> 2 ^ n * (of_int a :: rat)" for n
    by (metis of_int_le_iff of_int_mult of_int_numeral of_int_power)+
  then show ?thesis using assms by (simp add: at_least_pow2_def powi_nat field_simps)
qed

lemma lead_exponent_le:
  assumes "a > 0" "b > 0"
  shows "2 powi lead_exponent a b \<le> (of_int a / of_int b :: rat)"
proof -
  let ?i = "bitlen a" and ?j = "bitlen b"
  have "2 ^ nat (?i - 1) \<le> a" "b < 2 ^ nat ?j"
    using bitlen_bounds assms by blast+
  then have "(2::rat) ^ nat (?i - 1) \<le> of_int a" "of_int b < (2::rat) ^ nat ?j"
    by (metis of_int_le_iff of_int_less_iff of_int_numeral of_int_power)+
  moreover have "?i \<ge> 1" "?j \<ge> 0"
    using assms by (simp_all add: bitlen_nonneg bitlen_eq_zero_iff int_one_le_iff_zero_less order_less_le)
  ultimately have le: "2 powi (?i - 1) \<le> (of_int a :: rat)" "of_int b \<le> (2::rat) powi ?j"
    by (simp_all add: power_int_def)
  have "(2::rat) powi (?i - ?j - 1) = 2 powi (?i - 1) / 2 powi ?j"
    by (simp add: power_int_diff [symmetric] algebra_simps)
  also have "\<dots> \<le> of_int a / of_int b"
    using le assms by (intro frac_le) simp_all
  finally show ?thesis
    unfolding lead_exponent_def Let_def by (simp add: at_least_pow2_iff assms(2))
qed

text \<open>The relative error is at most one part in \<open>2 ^ 53\<close>.\<close>

lemma round_quot_error:
  assumes "a \<ge> 0" "b > 0"
  shows "\<bar>float_val (round_quot a b) - of_int a / of_int b\<bar> \<le> of_int a / of_int b / 2 ^ 53"
proof (cases "a = 0")
  case False
  with assms(1) have a: "a > 0" by simp
  define s where "s = 52 - lead_exponent a b"
  define u where "u = (2::rat) powi (- s)"
  define x where "x = (of_int a / of_int b :: rat)"
  obtain m where m: "round_quot a b = (m, s)" "\<bar>of_int m - x / u\<bar> \<le> 1 / 2"
  proof (cases "s \<ge> 0")
    case True
    then have "x / u = of_int (a * 2 ^ nat s) / of_int b"
      by (simp add: x_def u_def powi_nat)
    with True a round_div_error [OF assms(2), of "a * 2 ^ nat s"] that show ?thesis
      by (simp add: round_quot_def s_def Let_def)
  next
    case False
    then have "x / u = of_int a / of_int (b * 2 ^ nat (- s))"
      by (simp add: x_def u_def powi_nat)
    with False a assms(2) round_div_error [of "b * 2 ^ nat (- s)" a] that show ?thesis
      by (simp add: round_quot_def s_def Let_def)
  qed
  have u: "u > 0" by (simp add: u_def)
  have "\<bar>of_int m * u - x\<bar> = \<bar>of_int m - x / u\<bar> * u"
    using u by (simp add: abs_mult [symmetric, of _ u, simplified] field_simps abs_mult)
  also have "\<dots> \<le> 1 / 2 * u"
    using m(2) u by (intro mult_right_mono) simp_all
  also have "\<dots> \<le> x / 2 ^ 53"
    using lead_exponent_le [OF a assms(2)] by (simp add: x_def u_def s_def power_int_diff)
  finally show ?thesis by (simp add: float_val_def m(1) u_def x_def)
qed (simp add: round_quot_def float_val_def)

lemma float_floor_val: "float_floor x = \<lfloor>float_val x\<rfloor>"
proof (cases x)
  case (Pair m s)
  show ?thesis
  proof (cases "s > 0")
    case True
    then have "float_val x = of_int m / of_int (2 ^ nat s)"
      by (simp add: Pair float_val_def powi_nat)
    then have "\<lfloor>float_val x\<rfloor> = m div 2 ^ nat s" by (simp only: floor_divide_of_int_eq)
    with True show ?thesis by (simp add: Pair float_floor_def)
  next
    case False
    then have "float_val x = of_int (m * 2 ^ nat (- s))"
      by (simp add: Pair float_val_def powi_nat)
    then have "\<lfloor>float_val x\<rfloor> = m * 2 ^ nat (- s)" by (simp only: floor_of_int)
    with False show ?thesis by (auto simp: Pair float_floor_def)
  qed
qed

lemma float_times_error:
  assumes "float_val x \<ge> 0" "k \<ge> 0"
  shows "\<bar>float_val (float_times x k) - float_val x * of_int k\<bar> \<le> float_val x * of_int k / 2 ^ 53"
proof (cases x)
  case (Pair m s)
  have "(2::rat) powi - s > 0" by simp
  then have m: "m \<ge> 0" using assms(1) by (simp add: Pair float_val_def zero_le_mult_iff not_le [symmetric])
  show ?thesis
  proof (cases "s \<ge> 0")
    case True
    then have v: "float_val x * of_int k = of_int (m * k) / of_int (2 ^ nat s)"
      by (simp add: Pair float_val_def powi_nat)
    have f: "float_times x k = round_quot (m * k) (2 ^ nat s)"
      using True by (simp add: Pair float_times_def)
    show ?thesis unfolding f v by (rule round_quot_error) (simp_all add: m assms(2))
  next
    case False
    then have v: "float_val x * of_int k = of_int (m * k * 2 ^ nat (- s)) / of_int 1"
      by (simp add: Pair float_val_def powi_nat)
    have f: "float_times x k = round_quot (m * k * 2 ^ nat (- s)) 1"
      using False by (simp add: Pair float_times_def)
    show ?thesis unfolding f v by (rule round_quot_error) (simp_all add: m assms(2))
  qed
qed

section \<open>The float depends on the quotient alone\<close>

lemma lead_exponent_less:
  assumes "a > 0" "b > 0"
  shows "(of_int a / of_int b :: rat) < 2 powi (lead_exponent a b + 1)"
proof -
  let ?i = "bitlen a" and ?j = "bitlen b"
  have "a < 2 ^ nat ?i" "2 ^ nat (?j - 1) \<le> b"
    using bitlen_bounds assms by blast+
  then have "of_int a < (2::rat) ^ nat ?i" "(2::rat) ^ nat (?j - 1) \<le> of_int b"
    by (metis of_int_le_iff of_int_less_iff of_int_numeral of_int_power)+
  moreover have "?i \<ge> 0" "?j \<ge> 1"
    using assms by (simp_all add: bitlen_nonneg bitlen_eq_zero_iff int_one_le_iff_zero_less order_less_le)
  ultimately have le: "of_int a < (2::rat) powi ?i" "2 powi (?j - 1) \<le> (of_int b :: rat)"
    by (simp_all add: power_int_def)
  have "of_int a / of_int b < (2::rat) powi ?i / 2 powi (?j - 1)"
    using le assms by (intro frac_less) simp_all
  also have "\<dots> = (2::rat) powi (?i - ?j + 1)"
    by (simp add: power_int_diff [symmetric] algebra_simps)
  finally show ?thesis
    unfolding lead_exponent_def Let_def by (simp add: at_least_pow2_iff assms(2) not_le)
qed

lemma lead_exponent_unique:
  assumes "a > 0" "b > 0" "2 powi e \<le> (of_int a / of_int b :: rat)"
    "(of_int a / of_int b :: rat) < 2 powi (e + 1)"
  shows "lead_exponent a b = e"
proof -
  have "(2::rat) powi e < 2 powi (lead_exponent a b + 1)"
    using assms(3) lead_exponent_less [OF assms(1,2)] by (rule le_less_trans)
  moreover have "(2::rat) powi lead_exponent a b < 2 powi (e + 1)"
    using lead_exponent_le [OF assms(1,2)] assms(4) by (rule le_less_trans)
  ultimately show ?thesis
    using power_int_increasing [of "e + 1" "lead_exponent a b" "2 :: rat"]
      power_int_increasing [of "lead_exponent a b + 1" e "2 :: rat"]
    by (metis leD linorder_neqE_linordered_idom one_le_numeral zless_imp_add1_zle)
qed

lemma round_div_scale: "c > 0 \<Longrightarrow> round_div (a * c) (b * c) = round_div a b"
  by (simp add: round_div_def Let_def mod_mult_mult2 flip: mult.assoc)

lemma round_div_cong:
  assumes "b > 0" "b' > 0" "a * b' = a' * b"
  shows "round_div a b = round_div a' b'"
proof -
  have "round_div a b = round_div (a * b') (b * b')" using assms(2) by (simp add: round_div_scale)
  also have "\<dots> = round_div (a' * b) (b' * b)" by (simp add: assms(3) mult.commute)
  also have "\<dots> = round_div a' b'" using assms(1) by (simp add: round_div_scale)
  finally show ?thesis .
qed

lemma round_quot_cong:
  assumes "a > 0" "b > 0" "a' > 0" "b' > 0" and eq: "a * b' = a' * b"
  shows "round_quot a b = round_quot a' b'"
proof -
  have "of_int (a * b') = (of_int (a' * b) :: rat)" by (simp only: eq)
  then have "(of_int a / of_int b :: rat) = of_int a' / of_int b'"
    using assms(2,4) by (simp add: field_simps)
  then have e: "lead_exponent a b = lead_exponent a' b'"
    using lead_exponent_unique [OF assms(1,2)] lead_exponent_le [OF assms(3,4)]
      lead_exponent_less [OF assms(3,4)] by metis
  have "round_div (a * 2 ^ n) b = round_div (a' * 2 ^ n) b'"
    and "round_div a (b * 2 ^ n) = round_div a' (b' * 2 ^ n)" for n
    using assms(2,4) eq by (auto intro!: round_div_cong simp: algebra_simps)
  with e assms(1,3) show ?thesis by (simp add: round_quot_def Let_def)
qed

section \<open>A share of 40 points\<close>

text \<open>\<open>int(k / n * 40)\<close>.\<close>

definition points :: "nat \<Rightarrow> nat \<Rightarrow> int" where
  "points k n = float_floor (float_times (round_quot (int k) (int n)) 40)"

lemma points_error:
  fixes x :: rat
  assumes "k \<le> n" "0 < n" and x: "x = of_nat k / of_nat n"
  shows "\<bar>float_val (float_times (round_quot (int k) (int n)) 40) - x * 40\<bar> \<le> 1 / 2 ^ 46"
proof -
  let ?f = "float_val (round_quot (int k) (int n))"
  have x01: "0 \<le> x" "x \<le> 1" using assms by simp_all
  have 1: "\<bar>?f - x\<bar> \<le> x / 2 ^ 53"
    using round_quot_error [of "int k" "int n"] assms(2) by (simp add: x)
  have "x / 2 ^ 53 \<le> x" "x / 2 ^ 53 \<le> 1 / 2 ^ 53"
    using x01 by (simp, intro divide_right_mono) simp_all
  with 1 x01 have f: "0 \<le> ?f" "?f \<le> 2" "\<bar>?f - x\<bar> \<le> 1 / 2 ^ 53"
    unfolding abs_le_iff by linarith+
  have "\<bar>float_val (float_times (round_quot (int k) (int n)) 40) - ?f * 40\<bar> \<le> ?f * 40 / 2 ^ 53"
    using float_times_error [OF f(1), of 40] by simp
  moreover have "?f * 40 / 2 ^ 53 \<le> 80 / 2 ^ 53" using f(2) by (intro divide_right_mono) simp_all
  moreover have "80 / 2 ^ 53 + 40 / 2 ^ 53 \<le> (1 / 2 ^ 46 :: rat)" by simp
  ultimately show ?thesis using f(3) unfolding abs_le_iff by linarith
qed

text \<open>
  The 41 quotients whose exact value is a whole number of points are evaluated; any other is
  further from a whole number than the error.
\<close>

lemma points_whole: "list_all (\<lambda>m. points m 40 = int m) [0..<41]"
  by code_simp

lemma between:
  fixes v :: rat
  assumes "\<bar>v - y\<bar> \<le> d" "y = m + r" "d < e" "e \<le> r" "r \<le> 1 - e"
  shows "m \<le> v" "v < m + 1"
  using assms by linarith+

lemma points_floor:
  assumes "k \<le> n" "0 < n" "n \<le> 2 ^ 40"
  shows "points k n = int (40 * k div n)"
proof -
  define m where "m = 40 * k div n"
  define r where "r = 40 * k mod n"
  have mr: "40 * k = m * n + r" "r < n" using assms(2) by (simp_all add: m_def r_def)
  show ?thesis
  proof (cases "k = 0 \<or> r = 0")
    case True
    then have "m * n = 40 * k" using mr by auto
    moreover have "m < 41" using assms by (simp add: m_def less_mult_imp_div_less)
    moreover have "round_quot (int k) (int n) = round_quot (int m) 40"
    proof (cases "k = 0")
      case True
      with \<open>m * n = 40 * k\<close> assms(2) show ?thesis by (simp add: round_quot_def)
    next
      case False
      with \<open>m * n = 40 * k\<close> have "0 < m" by (cases m) simp_all
      have "int (m * n) = int (40 * k)" by (simp only: \<open>m * n = 40 * k\<close>)
      then show ?thesis
        using False assms(2) \<open>0 < m\<close> by (intro round_quot_cong) simp_all
    qed
    ultimately have "points k n = points m 40" by (simp add: points_def)
    also have "\<dots> = int m"
      using points_whole \<open>m < 41\<close> by (simp only: list_all_iff set_upt) simp
    finally show ?thesis by (simp add: m_def)
  next
    case False
    let ?x = "of_nat k / of_nat n :: rat" and ?v = "float_val (float_times (round_quot (int k) (int n)) 40)"
    have "of_nat (40 * k) = (of_nat (m * n + r) :: rat)" by (simp only: mr(1))
    then have x: "?x * 40 = of_nat m + of_nat r / of_nat n"
      using assms(2) by (simp add: field_simps)
    have "(of_nat n :: rat) \<le> of_nat (2 ^ 40)" using assms(3) by (simp only: of_nat_le_iff)
    then have n: "1 / 2 ^ 40 \<le> (1 / of_nat n :: rat)"
      using assms(2) by (intro divide_left_mono) simp_all
    have "1 \<le> r" "r + 1 \<le> n" using False mr(2) by simp_all
    then have "of_nat 1 \<le> (of_nat r :: rat)" "of_nat (r + 1) \<le> (of_nat n :: rat)"
      by (simp_all only: of_nat_le_iff)
    then have "1 / of_nat n \<le> (of_nat r / of_nat n :: rat)"
      and "of_nat r / of_nat n \<le> (1 - 1 / of_nat n :: rat)"
      using assms(2) by (simp_all add: field_simps)
    moreover have "1 / 2 ^ 46 < (1 / of_nat n :: rat)"
      by (rule less_le_trans [OF _ n]) simp
    ultimately have "of_nat m \<le> ?v" "?v < of_nat m + 1"
      using between [OF points_error [OF assms(1,2) refl] x] by blast+
    then have "\<lfloor>?v\<rfloor> = int m" by (intro floor_unique) simp_all
    then show ?thesis by (simp only: points_def float_floor_val m_def)
  qed
qed

end
