(* ===== verification/Load_Check.thy ===== *)
theory Load_Check
  imports App_Errors Text_Formats Doubles
begin

text \<open>
  \<open>scripts/check_load_test.py\<close>: whether the figures of a load test keep two thresholds. The file is an
  argument; the result is the exit code, or the exception that ends the script. What it prints is left
  out, and so are numbers below the normal range of doubles.
\<close>

section \<open>Python's floats\<close>

datatype py_float = Not_A_Number | Infinite bool | Finite float

text \<open>The double nearest to \<open>n / d\<close>; from \<open>2 ^ 1024\<close> on it is infinite.\<close>

definition double :: "bool \<Rightarrow> int \<Rightarrow> int \<Rightarrow> py_float" where
  "double neg n d =
     (let (m, s) = round_quot n d
      in if s < - 971 \<or> (s = - 971 \<and> m \<ge> 2 ^ 53) then Infinite neg else Finite (if neg then - m else m, s))"

text \<open>The order of \<open>m / 2 ^ s\<close> and \<open>n / 2 ^ t\<close>.\<close>

definition float_less :: "float \<Rightarrow> float \<Rightarrow> bool" where
  "float_less x y = (let (m, s) = x; (n, t) = y; k = min s t in m * 2 ^ nat (t - k) < n * 2 ^ nat (s - k))"

lemma float_less_val: "float_less x y \<longleftrightarrow> float_val x < float_val y"
proof -
  obtain m s n t where xy: "x = (m, s)" "y = (n, t)" by fastforce
  define k where "k = min s t"
  have "(2::rat) powi (- s) = 2 ^ nat (t - k) * 2 powi (k - s - t)" "(2::rat) powi (- t) = 2 ^ nat (s - k) * 2 powi (k - s - t)"
    by (simp_all add: k_def power_int_add [symmetric] flip: power_int_of_nat)
  moreover have "m * 2 ^ nat (t - k) < n * 2 ^ nat (s - k)
      \<longleftrightarrow> rat_of_int (m * 2 ^ nat (t - k)) < rat_of_int (n * 2 ^ nat (s - k))"
    by (simp only: of_int_less_iff)
  ultimately show ?thesis
    by (simp add: float_less_def xy float_val_def k_def Let_def)
qed

text \<open>The sign, and what follows it.\<close>

definition signed :: "string \<Rightarrow> bool \<times> string" where
  "signed s = (case s of c # cs \<Rightarrow> if c = CHR ''-'' then (True, cs) else if c = CHR ''+'' then (False, cs) else (False, s)
     | [] \<Rightarrow> (False, s))"

definition digits_or_none :: "string \<Rightarrow> nat option" where
  "digits_or_none s = (if s = [] then Some 0 else parse_digits 10 s)"

text \<open>\<open>float(s)\<close> of a text: \<open>None\<close> is \<open>ValueError\<close>.\<close>

definition parse_float :: "string \<Rightarrow> py_float option" where
  "parse_float s =
     (let (neg, t) = signed (lower (strip s));
          (mantissa, has_exponent, ex) = partition_at (CHR ''e'') t;
          (whole, has_point, frac) = partition_at (CHR ''.'') mantissa;
          (down, ex_digits) = signed ex
      in if t = ''nan'' then Some Not_A_Number
         else if t = ''inf'' \<or> t = ''infinity'' then Some (Infinite neg)
         else if whole = [] \<and> frac = [] then None
         else (case (digits_or_none whole, digits_or_none frac, if has_exponent then parse_digits 10 ex_digits else Some 0) of
             (Some a, Some b, Some x) \<Rightarrow>
               (let k = length (filter (\<lambda>c. c \<noteq> CHR ''_'') frac);
                    n = int (a * 10 ^ k + b); e = (if down then - int x else int x) - int k
                in Some (if e \<ge> 0 then double neg (n * 10 ^ nat e) 1 else double neg n (10 ^ nat (- e))))
           | _ \<Rightarrow> None))"

definition exceeds :: "py_float \<Rightarrow> py_float \<Rightarrow> bool" where
  "exceeds x y = (case (x, y) of
       (Finite a, Finite b) \<Rightarrow> float_less b a
     | (Finite _, Infinite neg) \<Rightarrow> neg
     | (Infinite neg, Finite _) \<Rightarrow> \<not> neg
     | (Infinite neg, Infinite neg') \<Rightarrow> \<not> neg \<and> neg'
     | _ \<Rightarrow> False)"

section \<open>csv.DictReader\<close>

definition skip_newline :: "string \<Rightarrow> string" where
  "skip_newline s = (case s of c # cs \<Rightarrow> if c = CHR 0x0A then cs else s | [] \<Rightarrow> [])"

lemma skip_newline_length [simp]: "length (skip_newline s) < Suc (length s)"
  by (simp add: skip_newline_def split: list.split)

text \<open>Rows end at a line feed, a carriage return or both; an empty line is an empty row.\<close>

definition line_end :: "char \<Rightarrow> string \<Rightarrow> string option" where
  "line_end c cs = (if c = CHR 0x0A then Some cs else if c = CHR 0x0D then Some (skip_newline cs) else None)"

lemma line_end_length: "line_end c cs = Some s \<Longrightarrow> length s < Suc (length cs)"
  by (auto simp: line_end_def split: if_splits)

function (sequential) csv_rows :: "csv_mode \<Rightarrow> string \<Rightarrow> string list \<Rightarrow> string \<Rightarrow> string list list" where
  "csv_rows m f r [] = (if m = Field_Start \<and> r = [] then [] else [r @ [f]])"
| "csv_rows Quoted f r (c # cs) =
     (if c = dquote then csv_rows Quote_Seen f r cs else csv_rows Quoted (f @ [c]) r cs)"
| "csv_rows m f r (c # cs) =
     (case line_end c cs of
        Some rest \<Rightarrow> (if m = Field_Start \<and> r = [] then [] else r @ [f]) # csv_rows Field_Start [] [] rest
      | None \<Rightarrow>
          if c = CHR '','' then csv_rows Field_Start [] (r @ [f]) cs
          else if c = dquote \<and> m = Field_Start then csv_rows Quoted f r cs
          else if c = dquote \<and> m = Quote_Seen then csv_rows Quoted (f @ [c]) r cs
          else csv_rows Plain (f @ [c]) r cs)"
  by pat_completeness auto

termination csv_rows
  by (relation "measure (\<lambda>(m, f, r, s). length s)") (auto dest: line_end_length)

text \<open>A row as a dictionary: fields that are missing are \<open>None\<close>, and the last of equal names counts.\<close>

definition dict_rows :: "string list list \<Rightarrow> (string \<rightharpoonup> string option) list" where
  "dict_rows rows = (case rows of [] \<Rightarrow> []
     | names # rest \<Rightarrow> map (\<lambda>r. map_of (rev (zip names (map Some r @ replicate (length names) None))))
         (filter (\<lambda>r. r \<noteq> []) rest))"

section \<open>The script\<close>

definition to_float :: "string \<Rightarrow> exn + py_float" where
  "to_float s = (case parse_float s of None \<Rightarrow> Inl (ValueError ''could not convert string to float'') | Some x \<Rightarrow> Inr x)"

text \<open>\<open>float(row[name])\<close>.\<close>

definition figure :: "(string \<rightharpoonup> string option) \<Rightarrow> string \<Rightarrow> exn + py_float" where
  "figure row name = (case row name of
       None \<Rightarrow> Inl (KeyError name)
     | Some None \<Rightarrow> Inl (TypeError ''float() argument must be a string or a real number'')
     | Some (Some v) \<Rightarrow> to_float v)"

definition aggregated :: "string \<Rightarrow> (string \<rightharpoonup> string option) option" where
  "aggregated text = find (\<lambda>row. row ''Name'' = Some (Some ''Aggregated'')) (dict_rows (csv_rows Field_Start [] [] text))"

definition check_main :: "(string \<rightharpoonup> string) \<Rightarrow> string list \<Rightarrow> exn + int" where
  "check_main files argv =
     (case argv of
        [_, stats_path, failures_arg, p95_arg] \<Rightarrow>
          (case (to_float failures_arg, to_float p95_arg) of
             (Inl e, _) \<Rightarrow> Inl e
           | (Inr _, Inl e) \<Rightarrow> Inl e
           | (Inr max_failures, Inr max_p95) \<Rightarrow>
               (case files stats_path of
                  None \<Rightarrow> Inl (Foreign ''No such file or directory'' None False)
                | Some text \<Rightarrow>
                    (case aggregated text of
                       None \<Rightarrow> Inr 2
                     | Some row \<Rightarrow>
                         (case (figure row ''Failure%'', figure row ''95%'') of
                            (Inl e, _) \<Rightarrow> Inl e
                          | (Inr _, Inl e) \<Rightarrow> Inl e
                          | (Inr failures, Inr p95) \<Rightarrow>
                              Inr (if exceeds failures max_failures \<or> exceeds p95 max_p95 then 1 else 0)))))
      | _ \<Rightarrow> Inr 2)"

text \<open>The script passes exactly when there is a row of totals and neither figure exceeds its threshold.\<close>

lemma check_passes:
  "check_main files argv = Inr 0 \<longleftrightarrow> (\<exists>prog path a b x y text row p q.
     argv = [prog, path, a, b] \<and> to_float a = Inr x \<and> to_float b = Inr y \<and> files path = Some text
     \<and> aggregated text = Some row \<and> figure row ''Failure%'' = Inr p \<and> figure row ''95%'' = Inr q
     \<and> \<not> exceeds p x \<and> \<not> exceeds q y)"
  by (auto simp: check_main_def split: list.splits sum.splits option.splits if_splits)

text \<open>A figure or a threshold that is not a number never fails the check.\<close>

lemma not_a_number_passes: "\<not> exceeds Not_A_Number y" "\<not> exceeds x Not_A_Number"
  by (simp_all add: exceeds_def split: py_float.splits)

lemma check_example:
  "check_main [''stats.csv'' \<mapsto> ''Name,Failure%,95%'' @ [CHR 0x0A] @ ''Aggregated,0.0,250'' @ [CHR 0x0A]]
     [''check_load_test.py'', ''stats.csv'', ''0'', ''500''] = Inr 0"
  "check_main [''stats.csv'' \<mapsto> ''Name,Failure%,95%'' @ [CHR 0x0A] @ ''Aggregated,0.0,250'' @ [CHR 0x0A]]
     [''check_load_test.py'', ''stats.csv'', ''0'', ''100''] = Inr 1"
  "check_main (\<lambda>_. None) [''check_load_test.py''] = Inr 2"
  by code_simp+

text \<open>The statistics file of Locust names its columns otherwise; the script then ends with a \<open>KeyError\<close>.\<close>

lemma locust_columns_not_read:
  assumes "to_float a = Inr x" "to_float b = Inr y" "files path = Some text"
    and "aggregated text = Some row" "row ''Failure%'' = None"
  shows "check_main files [prog, path, a, b] = Inl (KeyError ''Failure%'')"
  using assms by (simp add: check_main_def figure_def)

end
