(* ===== verification/Login_Facts.thy ===== *)
theory Login_Facts
  imports Auth_Service Samples
begin

text \<open>
  Login with lockout, password reset, revocation of sessions and registration: what
  \<open>app/domain/auth/service.py\<close> guarantees for accounts.
\<close>

section \<open>Login\<close>

definition account :: "db \<Rightarrow> string \<Rightarrow> user option" where
  "account d email = find (\<lambda>u. u_email u = Some (lower (lower email))) (users d)"

lemma user_by_email_account: "user_by_email (lower email) w = (Inr (account (work w) email), w)"
  by (simp add: user_by_email_def account_def prog_simps)

lemma account_ex: "account db_ex ''a@x'' = Some (user_ex 1 ''a@x'')"
  by (simp add: account_def sample_defs lower_def lower_char_def)

lemma user_by_email_run:
  "bindP (user_by_email (lower email)) k w = k (account (work w) email) w"
  by (simp add: bindP_def user_by_email_account)



section \<open>Lockout\<close>

lemma account_update:
  assumes "\<And>u. u_email (f u) = u_email u"
  shows "account (d\<lparr>users := update_where P f (users d)\<rparr>) email
       = map_option (\<lambda>u. if P u then f u else u) (account d email)"
  using assms by (simp add: account_def find_update_where)

lemma note_failure_simps [simp]:
  "u_id (note_failure S t u) = u_id u" "u_email (note_failure S t u) = u_email u"
  "u_failed_login_attempts (note_failure S t u) = u_failed_login_attempts u + 1"
  "u_password_hash (note_failure S t u) = u_password_hash u"
  "u_status (note_failure S t u) = u_status u"
  "u_locked_until (note_failure S t u) =
     (if u_failed_login_attempts u + 1 \<ge> auth_max_login_attempts S
      then Some (t + minutes (auth_lockout_minutes S)) else u_locked_until u)"
  "note_failure S t u \<noteq> u"
  by (auto simp: note_failure_def Let_def dest: arg_cong [where f = u_failed_login_attempts])

lemma credentials_ok_note_failure [simp]:
  "credentials_ok L S (note_failure S t u) p = credentials_ok L S u p"
  "credentials_ok L S (u\<lparr>u_updated_at := x\<rparr>) p = credentials_ok L S u p"
  by (simp_all add: credentials_ok_def)

text \<open>One login with a wrong password on an unlocked account.\<close>

lemma wrong_password_step:
  assumes ok: "calm w" "db_ok (work w)" and S: "auth_account_lockout_enabled S"
    and u: "account (work w) email = Some u" "\<not> is_locked S u (clock (wenv w) (tick w))"
    and wrong: "\<not> credentials_ok L S u password"
  obtains w' where "authenticate L S email password w = (Inl (App (err InvalidCredentials)), w')"
    and "calm w'" "db_ok (work w')" "committed w' = work w'" "wenv w' = wenv w"
    and "tick w' = tick w + 3"
    and "account (work w') email =
           Some ((note_failure S (clock (wenv w) (tick w)) u)\<lparr>u_updated_at := clock (wenv w) (Suc (tick w))\<rparr>)"
proof -
  let ?f = "\<lambda>x. (note_failure S (clock (wenv w) (tick w)) x)\<lparr>u_updated_at := clock (wenv w) (Suc (tick w))\<rparr>"
  let ?d = "(work w)\<lparr>users := update_where (\<lambda>x. u_id x = u_id u) ?f (users (work w))\<rparr>"
  have d: "db_ok ?d" using ok(2) by (simp add: db_ok_update_user)
  have "account ?d email = Some (?f u)" using u(1) by (simp add: account_update)
  then show ?thesis
    using ok S u wrong d
    by (intro that [of "w\<lparr>tick := tick w + 3, committed := ?d, work := ?d\<rparr>"])
      (simp_all add: authenticate_def bindP_def user_by_email_account now_utc_def draw_def whenP_def
        set_user_def alter_def commit_calm raise_def eval_nat_numeral)
qed

primrec login_attempts ::
  "lib \<Rightarrow> settings \<Rightarrow> string \<Rightarrow> string \<Rightarrow> nat \<Rightarrow> 'r world \<Rightarrow> 'r world" where
  "login_attempts L S email password 0 w = w"
| "login_attempts L S email password (Suc n) w =
     snd (authenticate L S email password (login_attempts L S email password n w))"

lemma login_attempts_counted:
  assumes "calm w" "db_ok (work w)" "auth_account_lockout_enabled S"
    and "account (work w) email = Some u" "u_locked_until u = None"
    and "\<not> credentials_ok L S u password"
    and "u_failed_login_attempts u + int n < auth_max_login_attempts S"
  shows "\<exists>v. let w' = login_attempts L S email password n w in
     calm w' \<and> db_ok (work w') \<and> wenv w' = wenv w \<and> tick w' = tick w + 3 * n
     \<and> account (work w') email = Some v \<and> u_locked_until v = None
     \<and> u_failed_login_attempts v = u_failed_login_attempts u + int n
     \<and> \<not> credentials_ok L S v password"
  using assms(7)
proof (induction n)
  case 0
  with assms show ?case by (simp add: Let_def)
next
  case (Suc n)
  let ?w = "login_attempts L S email password n w"
  from Suc obtain v where v: "calm ?w" "db_ok (work ?w)" "wenv ?w = wenv w" "tick ?w = tick w + 3 * n"
    "account (work ?w) email = Some v" "u_locked_until v = None"
    "u_failed_login_attempts v = u_failed_login_attempts u + int n" "\<not> credentials_ok L S v password"
    by (auto simp: Let_def)
  have "\<not> is_locked S v (clock (wenv ?w) (tick ?w))" using v(6) by (simp add: is_locked_def)
  from wrong_password_step [OF v(1,2) assms(3) v(5) this v(8)] obtain w' where
    "authenticate L S email password ?w = (Inl (App (err InvalidCredentials)), w')"
    "calm w'" "db_ok (work w')" "wenv w' = wenv ?w" "tick w' = tick ?w + 3"
    "account (work w') email = Some ((note_failure S (clock (wenv ?w) (tick ?w)) v)
        \<lparr>u_updated_at := clock (wenv ?w) (Suc (tick ?w))\<rparr>)" by blast
  then show ?case using v Suc.prems by (simp add: Let_def)
qed



section \<open>Password reset\<close>

text \<open>The code a confirmation looks for: unconsumed, of the purpose, with the digest.\<close>

definition open_code :: "db \<Rightarrow> uuid \<Rightarrow> string \<Rightarrow> string \<Rightarrow> verification_code option" where
  "open_code d uid purpose h = find (\<lambda>c. vc_user_id c = uid \<and> vc_purpose c = purpose
     \<and> vc_code_hash c = h \<and> vc_consumed_at c = None) (verification_codes d)"

lemma checked_code_ok:
  assumes "account (work w) email = Some u" "open_code (work w) (u_id u) p (digest L code) = Some c"
    and "clock (wenv w) (tick w) < vc_expires_at c"
  shows "checked_code L email p code w = (Inr (u, c), w\<lparr>tick := Suc (tick w)\<rparr>)"
  using assms
  by (simp add: checked_code_def bindP_def user_by_email_account repo_verification_code_def query_def
      open_code_def now_utc_def draw_def ret_def)

definition reset_effect :: "uuid \<Rightarrow> uuid \<Rightarrow> string \<Rightarrow> (nat \<Rightarrow> time) \<Rightarrow> nat \<Rightarrow> db \<Rightarrow> db" where
  "reset_effect uid cid h clk k d =
     revoke_sessions_where (\<lambda>s. as_user_id s = uid \<and> as_revoked_at s = None) (clk (k + 4)) (clk (k + 5))
     (revoke_tokens_where (\<lambda>t. rt_user_id t = uid) (clk (k + 4))
      (d\<lparr>verification_codes := update_where (\<lambda>c. vc_id c = cid)
            (\<lambda>c. c\<lparr>vc_consumed_at := Some (clk (k + 1))\<rparr>) (verification_codes d),
          users := update_where (\<lambda>u. u_id u = uid \<and> u\<lparr>u_password_hash := Some h\<rparr> \<noteq> u)
            (\<lambda>u. u\<lparr>u_password_hash := Some h, u_updated_at := clk (k + 3)\<rparr>) (users d)\<rparr>))"

lemma reset_effect_ok: "db_ok d \<Longrightarrow> db_ok (reset_effect uid cid h clk k d)"
  by (simp add: reset_effect_def) (simp add: db_ok_unfold map_update_where_key present_update_where
      references_update_where)

lemma reset_password_run:
  assumes "calm w" "db_ok (work w)" "auth_password_reset_enabled S"
    and "account (work w) email = Some u"
    and "open_code (work w) (u_id u) ''password_reset'' (digest L code) = Some c"
    and "clock (wenv w) (tick w) < vc_expires_at c"
  shows "reset_password L S email code pw w =
    (let d = reset_effect (u_id u) (vc_id c) (pw_hash L (tick w + 2) pw) (clock (wenv w)) (tick w) (work w)
     in (Inr (), w\<lparr>tick := tick w + 7, committed := d, work := d\<rparr>))"
  using assms reset_effect_ok [OF assms(2)]
  by (simp add: reset_password_def bindP_def checked_code_ok consume_code_def alter_def now_utc_def
      draw_def set_user_def revoke_user_tokens_def commit_calm reset_effect_def Let_def eval_nat_numeral)

text \<open>
  C14. Password reset: with a valid code the account gets the new password, every refresh token
  and every session of it is revoked, the tokens of other accounts are as before, all of it is
  committed, and the code cannot be used again.
\<close>

theorem reset_password_effect:
  assumes "calm w" "db_ok (work w)" "auth_password_reset_enabled S"
    and "\<And>salt p. pw_verify L p (pw_hash L salt p)"
    and "account (work w) email = Some u"
    and "open_code (work w) (u_id u) ''password_reset'' (digest L code) = Some c"
    and "clock (wenv w) (tick w) < vc_expires_at c"
  shows "\<exists>w' u' h. reset_password L S email code pw w = (Inr (), w') \<and> committed w' = work w'
    \<and> account (work w') email = Some u' \<and> u_password_hash u' = Some h \<and> pw_verify L pw h
    \<and> (\<forall>t\<in>set (refresh_tokens (work w')). rt_user_id t = u_id u \<longrightarrow> rt_revoked_at t \<noteq> None)
    \<and> (\<forall>s\<in>set (auth_sessions (work w')). as_user_id s = u_id u \<longrightarrow> as_revoked_at s \<noteq> None)
    \<and> (\<forall>t\<in>set (refresh_tokens (work w)). rt_user_id t \<noteq> u_id u \<longrightarrow> t \<in> set (refresh_tokens (work w')))
    \<and> (\<forall>x\<in>set (verification_codes (work w')). vc_id x = vc_id c \<longrightarrow> vc_consumed_at x \<noteq> None)"
proof -
  let ?h = "pw_hash L (tick w + 2) pw"
  let ?d = "reset_effect (u_id u) (vc_id c) ?h (clock (wenv w)) (tick w) (work w)"
  have run: "reset_password L S email code pw w = (Inr (), w\<lparr>tick := tick w + 7, committed := ?d, work := ?d\<rparr>)"
    using reset_password_run [OF assms(1-3,5-7)] by (simp add: Let_def)
  have "\<exists>u'. account ?d email = Some u' \<and> u_password_hash u' = Some ?h"
    using assms(5) by (auto simp: account_def reset_effect_def find_update_where)
  moreover have "rt_revoked_at t \<noteq> None" if "t \<in> set (refresh_tokens ?d)" "rt_user_id t = u_id u" for t
    using that revoke_tokens_where_selected [where P = "\<lambda>t. rt_user_id t = u_id u" and t = t]
    by (auto simp: reset_effect_def)
  moreover have "as_revoked_at s \<noteq> None" if "s \<in> set (auth_sessions ?d)" "as_user_id s = u_id u" for s
    using that revoke_sessions_where_selected
      [where P = "\<lambda>s. as_user_id s = u_id u \<and> as_revoked_at s = None" and s = s]
    by (auto simp: reset_effect_def)
  moreover have "t \<in> set (refresh_tokens ?d)" if "t \<in> set (refresh_tokens (work w))" "rt_user_id t \<noteq> u_id u" for t
    unfolding reset_effect_def revoke_sessions_where_fields
    using that by (intro revoke_tokens_where_other) simp_all
  moreover have "vc_consumed_at x \<noteq> None" if "x \<in> set (verification_codes ?d)" "vc_id x = vc_id c" for x
    using that by (auto simp: reset_effect_def elim: update_where_selected)
  ultimately show ?thesis using run assms(4) by fastforce
qed

definition code_ex :: verification_code where
  "code_ex = \<lparr>vc_id = 31, vc_user_id = 1, vc_purpose = ''password_reset'', vc_code_hash = ''#007007'',
     vc_expires_at = minutes 10, vc_consumed_at = None, vc_created_at = 0\<rparr>"

lemma reset_ex:
  "db_ok (db_ex\<lparr>verification_codes := [code_ex]\<rparr>)"
  "account (db_ex\<lparr>verification_codes := [code_ex]\<rparr>) ''a@x'' = Some (user_ex 1 ''a@x'')"
  "open_code (db_ex\<lparr>verification_codes := [code_ex]\<rparr>) (u_id (user_ex 1 ''a@x'')) ''password_reset''
     (digest lib_ex ''007007'') = Some code_ex"
  using account_ex
  by (simp_all add: db_ok_unfold sample_defs references_def references_opt_def code_ex_def
      account_def open_code_def)

theorem reset_password_effect_witness:
  "\<exists>w'. reset_password lib_ex settings_ex ''a@x'' ''007007'' ''new'' (world_ex (db_ex\<lparr>verification_codes := [code_ex]\<rparr>))
     = (Inr (), w') \<and> (\<forall>s\<in>set (auth_sessions (work w')). as_user_id s = 1 \<longrightarrow> as_revoked_at s \<noteq> None)"
proof -
  let ?w = "world_ex (db_ex\<lparr>verification_codes := [code_ex]\<rparr>)"
  have "pw_verify lib_ex p (pw_hash lib_ex salt p)" for salt p by (simp add: lib_ex_def)
  then show ?thesis
    using reset_password_effect [of ?w settings_ex lib_ex "''a@x''" "user_ex 1 ''a@x''" "''007007''" code_ex "''new''"]
      reset_ex by (fastforce simp: code_ex_def env_ex_def minutes_def seconds_def user_ex_def)
qed

section \<open>E-mail verification\<close>

definition verify_effect :: "uuid \<Rightarrow> uuid \<Rightarrow> (nat \<Rightarrow> time) \<Rightarrow> nat \<Rightarrow> db \<Rightarrow> db" where
  "verify_effect uid cid clk k d =
     d\<lparr>verification_codes := update_where (\<lambda>c. vc_id c = cid)
          (\<lambda>c. c\<lparr>vc_consumed_at := Some (clk (k + 1))\<rparr>) (verification_codes d),
        users := update_where (\<lambda>u. u_id u = uid
            \<and> u\<lparr>u_email_verified_at := Some (clk (k + 2)), u_status := ''active''\<rparr> \<noteq> u)
          (\<lambda>u. u\<lparr>u_email_verified_at := Some (clk (k + 2)), u_status := ''active'', u_updated_at := clk (k + 3)\<rparr>)
          (users d)\<rparr>"

lemma verify_effect_ok: "db_ok d \<Longrightarrow> db_ok (verify_effect uid cid clk k d)"
  by (simp add: verify_effect_def db_ok_unfold map_update_where_key present_update_where references_update_where)

lemma verify_email_run:
  assumes "calm w" "db_ok (work w)" "auth_email_verification_enabled S"
    and "account (work w) email = Some u"
    and "open_code (work w) (u_id u) ''email_verification'' (digest L code) = Some c"
    and "clock (wenv w) (tick w) < vc_expires_at c"
  shows "verify_email L S email code w =
    (let d = verify_effect (u_id u) (vc_id c) (clock (wenv w)) (tick w) (work w)
     in (Inr (), w\<lparr>tick := tick w + 5, committed := d, work := d\<rparr>))"
  using assms verify_effect_ok [OF assms(2)]
  by (simp add: verify_email_def bindP_def checked_code_ok consume_code_def alter_def now_utc_def
      draw_def set_user_def commit_calm verify_effect_def Let_def eval_nat_numeral)

text \<open>
  C15. Verification of an address: with a valid code the account is verified and active, whatever its
  status was before, so a disabled account that can read its mail is active again; its password and
  the other accounts stay as they are, and the code cannot be used again.
\<close>

theorem verify_email_effect:
  assumes "calm w" "db_ok (work w)" "auth_email_verification_enabled S"
    and "account (work w) email = Some u"
    and "open_code (work w) (u_id u) ''email_verification'' (digest L code) = Some c"
    and "clock (wenv w) (tick w) < vc_expires_at c"
  shows "\<exists>w' u'. verify_email L S email code w = (Inr (), w') \<and> committed w' = work w'
    \<and> account (work w') email = Some u' \<and> u_id u' = u_id u \<and> u_status u' = ''active''
    \<and> u_email_verified_at u' \<noteq> None \<and> u_password_hash u' = u_password_hash u
    \<and> (\<forall>v\<in>set (users (work w)). u_id v \<noteq> u_id u \<longrightarrow> v \<in> set (users (work w')))
    \<and> (\<forall>x\<in>set (verification_codes (work w')). vc_id x = vc_id c \<longrightarrow> vc_consumed_at x \<noteq> None)"
proof -
  let ?d = "verify_effect (u_id u) (vc_id c) (clock (wenv w)) (tick w) (work w)"
  have run: "verify_email L S email code w = (Inr (), w\<lparr>tick := tick w + 5, committed := ?d, work := ?d\<rparr>)"
    using verify_email_run [OF assms] by (simp add: Let_def)
  have set_fields: "u_status x = ''active'' \<and> u_email_verified_at x = Some t"
    if "x\<lparr>u_email_verified_at := Some t, u_status := ''active''\<rparr> = x" for x :: user and t
    using that by (cases x) simp
  have "\<exists>u'. account ?d email = Some u' \<and> u_id u' = u_id u \<and> u_status u' = ''active''
      \<and> u_email_verified_at u' \<noteq> None \<and> u_password_hash u' = u_password_hash u"
    using assms(4) by (auto simp: account_def verify_effect_def find_update_where dest: set_fields)
  moreover have "v \<in> set (users ?d)" if "v \<in> set (users (work w))" "u_id v \<noteq> u_id u" for v
    using that by (simp add: verify_effect_def update_where_other)
  moreover have "vc_consumed_at x \<noteq> None" if "x \<in> set (verification_codes ?d)" "vc_id x = vc_id c" for x
    using that by (auto simp: verify_effect_def elim: update_where_selected)
  ultimately show ?thesis using run by fastforce
qed

definition disabled_db_ex :: db where
  "disabled_db_ex = db_ex\<lparr>users := [(user_ex 1 ''a@x'')\<lparr>u_status := ''disabled''\<rparr>, user_ex 2 ''b@x''],
     verification_codes := [code_ex\<lparr>vc_purpose := ''email_verification''\<rparr>]\<rparr>"

theorem verify_email_effect_witness:
  "\<exists>w' u'. verify_email lib_ex (settings_ex\<lparr>auth_email_verification_enabled := True\<rparr>) ''a@x'' ''007007''
       (world_ex disabled_db_ex) = (Inr (), w')
     \<and> account (work w') ''a@x'' = Some u' \<and> u_status u' = ''active''"
proof -
  let ?u = "(user_ex 1 ''a@x'')\<lparr>u_status := ''disabled''\<rparr>" and ?c = "code_ex\<lparr>vc_purpose := ''email_verification''\<rparr>"
  have "db_ok disabled_db_ex"
    by (simp add: db_ok_unfold disabled_db_ex_def sample_defs references_def references_opt_def code_ex_def)
  moreover have "account disabled_db_ex ''a@x'' = Some ?u"
    by (simp add: account_def disabled_db_ex_def sample_defs lower_def lower_char_def)
  moreover have "open_code disabled_db_ex (u_id ?u) ''email_verification'' (digest lib_ex ''007007'') = Some ?c"
    by (simp add: open_code_def disabled_db_ex_def sample_defs code_ex_def)
  ultimately show ?thesis
    using verify_email_effect [of "world_ex disabled_db_ex" "settings_ex\<lparr>auth_email_verification_enabled := True\<rparr>"
      "''a@x''" ?u lib_ex "''007007''" ?c]
    by (auto simp: code_ex_def env_ex_def minutes_def seconds_def)
qed

section \<open>Sessions\<close>

lemma revoke_session_run:
  assumes "calm w" "db_ok (work w)" "auth_session_management_enabled S"
    and "find (\<lambda>s. as_id s = sid \<and> as_user_id s = uid) (auth_sessions (work w)) = Some s"
    and "as_revoked_at s = None"
  shows "revoke_session S uid sid w =
    (let now = clock (wenv w) (tick w);
         d = revoke_tokens_where (\<lambda>x. rt_session_id x = Some sid) now
               (revoke_sessions_where (\<lambda>x. as_id x = sid) now (clock (wenv w) (Suc (tick w))) (work w))
     in (Inr (), w\<lparr>tick := tick w + 3, committed := d, work := d\<rparr>))"
  using assms
  by (simp add: revoke_session_def revoke_auth_session_def repo_auth_session_def bindP_def query_def
      now_utc_def draw_def alter_def commit_calm ret_def Let_def eval_nat_numeral)

text \<open>
  Revoking a session: the caller's own live session is revoked with every token bound to
  it, and no other session or token changes; a session that is not the caller's, or not live,
  is reported as not found and nothing is written.
\<close>

theorem revoke_session_isolated:
  assumes "calm w" "db_ok (work w)" "auth_session_management_enabled S"
    and "revoke_session S uid sid w = (r, w')"
  shows "if \<exists>s\<in>set (auth_sessions (work w)). as_id s = sid \<and> as_user_id s = uid \<and> as_revoked_at s = None
    then r = Inr () \<and> committed w' = work w'
      \<and> (\<forall>s\<in>set (auth_sessions (work w')). as_id s = sid \<longrightarrow> as_revoked_at s \<noteq> None)
      \<and> (\<forall>t\<in>set (refresh_tokens (work w')). rt_session_id t = Some sid \<longrightarrow> rt_revoked_at t \<noteq> None)
      \<and> (\<forall>s\<in>set (auth_sessions (work w)). as_id s \<noteq> sid \<longrightarrow> s \<in> set (auth_sessions (work w')))
      \<and> (\<forall>t\<in>set (refresh_tokens (work w)). rt_session_id t \<noteq> Some sid \<longrightarrow> t \<in> set (refresh_tokens (work w')))
    else r = Inl (App (err SessionNotFound)) \<and> work w' = work w \<and> committed w' = committed w"
proof (cases "\<exists>s\<in>set (auth_sessions (work w)). as_id s = sid \<and> as_user_id s = uid \<and> as_revoked_at s = None")
  case True
  then obtain s where s: "s \<in> set (auth_sessions (work w))" "as_id s = sid" "as_user_id s = uid" "as_revoked_at s = None"
    by blast
  have "find (\<lambda>s. as_id s = sid \<and> as_user_id s = uid) (auth_sessions (work w)) = Some s"
    using s assms(2) by (intro find_unique_key [where k = as_id]) (auto simp: db_ok_unfold)
  note run = revoke_session_run [OF assms(1-3) this s(4)]
  let ?now = "clock (wenv w) (tick w)"
  let ?d = "revoke_sessions_where (\<lambda>x. as_id x = sid) ?now (clock (wenv w) (Suc (tick w))) (work w)"
  have w': "r = Inr ()" "committed w' = work w'" "work w' = revoke_tokens_where (\<lambda>x. rt_session_id x = Some sid) ?now ?d"
    using run assms(4) by (auto simp: Let_def)
  have "rt_revoked_at t \<noteq> None" if "t \<in> set (refresh_tokens (work w'))" "rt_session_id t = Some sid" for t
    using that w'(3) revoke_tokens_where_selected [where P = "\<lambda>x. rt_session_id x = Some sid" and t = t] by auto
  moreover have "t \<in> set (refresh_tokens (work w'))"
    if "t \<in> set (refresh_tokens (work w))" "rt_session_id t \<noteq> Some sid" for t
    unfolding w'(3) using that by (intro revoke_tokens_where_other) simp_all
  moreover have "as_revoked_at x \<noteq> None" if "x \<in> set (auth_sessions (work w'))" "as_id x = sid" for x
    using that w'(3) revoke_sessions_where_selected [where P = "\<lambda>x. as_id x = sid" and s = x] by auto
  moreover have "x \<in> set (auth_sessions (work w'))" if "x \<in> set (auth_sessions (work w))" "as_id x \<noteq> sid" for x
    unfolding w'(3) revoke_tokens_where_fields using that by (intro revoke_sessions_where_other)
  ultimately have "r = Inr () \<and> committed w' = work w'
      \<and> (\<forall>s\<in>set (auth_sessions (work w')). as_id s = sid \<longrightarrow> as_revoked_at s \<noteq> None)
      \<and> (\<forall>t\<in>set (refresh_tokens (work w')). rt_session_id t = Some sid \<longrightarrow> rt_revoked_at t \<noteq> None)
      \<and> (\<forall>s\<in>set (auth_sessions (work w)). as_id s \<noteq> sid \<longrightarrow> s \<in> set (auth_sessions (work w')))
      \<and> (\<forall>t\<in>set (refresh_tokens (work w)). rt_session_id t \<noteq> Some sid \<longrightarrow> t \<in> set (refresh_tokens (work w')))"
    using w'(1,2) by blast
  then show ?thesis unfolding if_P [OF True] .
next
  case False
  then have "case find (\<lambda>s. as_id s = sid \<and> as_user_id s = uid) (auth_sessions (work w)) of
      None \<Rightarrow> True | Some s \<Rightarrow> as_revoked_at s \<noteq> None"
    by (auto split: option.split dest: find_SomeD)
  with assms(3,4) False show ?thesis
    by (auto simp: revoke_session_def revoke_auth_session_def repo_auth_session_def bindP_def query_def
        now_utc_def draw_def ret_def raise_def split: option.splits)
qed

theorem revoke_session_isolated_witness:
  "fst (revoke_session settings_ex 1 13 (world_ex db_ex)) = Inl (App (err SessionNotFound))
   \<and> fst (revoke_session settings_ex 2 13 (world_ex db_ex)) = Inr ()"
proof -
  have "(\<exists>s\<in>set (auth_sessions (work (world_ex db_ex))). as_id s = 13 \<and> as_user_id s = 1 \<and> as_revoked_at s = None) = False"
    "(\<exists>s\<in>set (auth_sessions (work (world_ex db_ex))). as_id s = 13 \<and> as_user_id s = 2 \<and> as_revoked_at s = None) = True"
    by (simp_all add: sample_defs)
  note own = this
  have "fst (revoke_session settings_ex 1 13 (world_ex db_ex)) = Inl (App (err SessionNotFound))"
    using revoke_session_isolated [of "world_ex db_ex" settings_ex 1 13, OF _ _ _ prod.collapse [symmetric],
      unfolded own if_False] by simp
  moreover have "fst (revoke_session settings_ex 2 13 (world_ex db_ex)) = Inr ()"
    using revoke_session_isolated [of "world_ex db_ex" settings_ex 2 13, OF _ _ _ prod.collapse [symmetric],
      unfolded own if_True] by simp
  ultimately show ?thesis ..
qed

section \<open>Registration\<close>

lemma repo_assign_role_done:
  assumes "repo_assign_role uid rid w = (Inr x, w')"
  obtains urs where "work w' = (work w)\<lparr>user_roles := user_roles (work w) @ urs\<rparr>"
    and "set urs \<subseteq> {\<lparr>ur_user_id = uid, ur_role_id = rid\<rparr>}"
    and "\<lparr>ur_user_id = uid, ur_role_id = rid\<rparr> \<in> set (user_roles (work w'))"
    and "db_ok (work w) \<Longrightarrow> db_ok (work w')"
proof (cases "find (\<lambda>ur. ur_user_id ur = uid \<and> ur_role_id ur = rid) (user_roles (work w))")
  case None
  with assms have "commit_session (w\<lparr>work := (work w)\<lparr>user_roles := user_roles (work w) @
      [\<lparr>ur_user_id = uid, ur_role_id = rid\<rparr>]\<rparr>\<rparr>) = (Inr x, w')"
    by (simp add: repo_assign_role_def prog_simps)
  from commit_session_cases [OF this] show ?thesis
    by (intro that [of "[\<lparr>ur_user_id = uid, ur_role_id = rid\<rparr>]"]) auto
next
  case (Some ur)
  then have "\<lparr>ur_user_id = uid, ur_role_id = rid\<rparr> \<in> set (user_roles (work w))"
    by (cases ur) (auto dest: find_SomeD)
  with Some assms show ?thesis
    by (intro that [of "[]"]) (auto simp: repo_assign_role_def prog_simps)
qed

lemma role_or_create_done:
  assumes "role_or_create name descr w = (Inr r, w')"
  obtains rs where "work w' = (work w)\<lparr>roles := roles (work w) @ rs\<rparr>" and "ro_name r = name"
    and "r \<in> set (roles (work w'))" and "db_ok (work w) \<Longrightarrow> db_ok (work w')"
proof (cases "find (\<lambda>r. ro_name r = name) (roles (work w))")
  case None
  let ?r = "\<lparr>ro_id = uuid_source (wenv w) (tick w), ro_name = name, ro_description = Some descr, ro_is_active = True\<rparr>"
  from None assms have "bindP commit_session (\<lambda>_. bindP refresh_session (\<lambda>_. ret ?r))
      (w\<lparr>tick := Suc (tick w), work := (work w)\<lparr>roles := roles (work w) @ [?r]\<rparr>\<rparr>) = (Inr r, w')"
    by (simp add: role_or_create_def repo_role_def repo_create_role_def query_def alter_def
        uuid4_def draw_def bindP_def Let_def)
  then obtain y z w1 w2 where "commit_session (w\<lparr>tick := Suc (tick w), work := (work w)\<lparr>roles := roles (work w) @ [?r]\<rparr>\<rparr>) = (Inr y, w1)"
    "refresh_session w1 = (Inr z, w2)" "w' = w2" "r = ?r"
    by (auto simp: bindP_Inr_iff ret_def)
  then show ?thesis
    using commit_session_cases refresh_session_cases by (intro that [of "[?r]"]) fastforce+
next
  case (Some x)
  with assms show ?thesis
    by (intro that [of "[]"])
      (auto simp: role_or_create_def repo_role_def query_def bindP_def ret_def dest: find_SomeD)
qed

definition registered :: "lib \<Rightarrow> settings \<Rightarrow> string \<Rightarrow> string \<Rightarrow> 'r world \<Rightarrow> user" where
  "registered L S email password w =
     new_user (uuid_source (wenv w) (tick w)) (lower email) (pw_hash L (tick w + 2) password)
       (if auth_email_verification_enabled S then ''pending_verification'' else ''active'')
       (clock (wenv w) (Suc (tick w)))"

lemma registered_simps [simp]:
  "u_id (registered L S email password w) = uuid_source (wenv w) (tick w)"
  "u_email (registered L S email password w) = Some (lower email)"
  "u_password_hash (registered L S email password w) = Some (pw_hash L (tick w + 2) password)"
  by (simp_all add: registered_def new_user_def)

lemma new_user_id: "u_id (new_user i e h st t) = i"
  by (simp add: new_user_def)

text \<open>The part of a registration after the account is built.\<close>

lemma register_steps:
  "register L S email password w =
     (if account (work w) email \<noteq> None then (Inl (App (err UserAlreadyExists)), w)
      else let u = registered L S email password w in
        bindP flush_session (\<lambda>_.
        bindP (role_or_create (default_user_role S) ''Default user role'') (\<lambda>r.
        bindP (repo_assign_role (uuid_source (wenv w) (tick w)) (ro_id r)) (\<lambda>_.
        bindP (case initial_admin_email S of None \<Rightarrow> ret ()
               | Some a \<Rightarrow> whenP (a \<noteq> [] \<and> lower email = lower a)
                   (bindP (role_or_create ''admin'' ''Administrator role'') (\<lambda>ar.
                    repo_assign_role (uuid_source (wenv w) (tick w)) (ro_id ar)))) (\<lambda>_. ret u))))
        (w\<lparr>tick := tick w + 3, work := (work w)\<lparr>users := users (work w) @ [u]\<rparr>\<rparr>))"
  by (simp add: register_def user_by_email_run registered_def new_user_id Let_def run_simps eval_nat_numeral)

text \<open>
  Registration: the address was not taken, the stored account has the lower-cased address
  and the hash of the password, it holds the default role, and it holds the admin role only if
  its address is the configured one for the first administrator.
\<close>

theorem register_sound:
  assumes "register L S email password w = (Inr u, w')" and "db_ok (work w)"
    and "default_user_role S \<noteq> ''admin''"
  shows "account (work w) email = None \<and> u \<in> set (users (work w'))
    \<and> u_email u = Some (lower email) \<and> (\<exists>salt. u_password_hash u = Some (pw_hash L salt password))
    \<and> (\<exists>r\<in>set (roles (work w')). ro_name r = default_user_role S
        \<and> \<lparr>ur_user_id = u_id u, ur_role_id = ro_id r\<rparr> \<in> set (user_roles (work w')))
    \<and> ((\<exists>r\<in>set (roles (work w')). ro_name r = ''admin''
        \<and> \<lparr>ur_user_id = u_id u, ur_role_id = ro_id r\<rparr> \<in> set (user_roles (work w')))
       \<longrightarrow> (\<exists>a. initial_admin_email S = Some a \<and> a \<noteq> [] \<and> lower email = lower a))"
proof -
  let ?admin = "\<lambda>a. a \<noteq> [] \<and> lower email = lower a"
  let ?u = "registered L S email password w" and ?i = "uuid_source (wenv w) (tick w)"
  obtain x1 w1 x2 w2 r w3 x3 w4 where none: "account (work w) email = None" and u: "u = ?u"
    and flush: "flush_session (w\<lparr>tick := tick w + 3, work := (work w)\<lparr>users := users (work w) @ [?u]\<rparr>\<rparr>) = (Inr x1, w1)"
    and role: "role_or_create (default_user_role S) ''Default user role'' w1 = (Inr r, w2)"
    and assign: "repo_assign_role (?i) (ro_id r) w2 = (Inr x2, w3)"
    and adm: "(case initial_admin_email S of None \<Rightarrow> ret () | Some a \<Rightarrow> whenP (?admin a)
         (bindP (role_or_create ''admin'' ''Administrator role'') (\<lambda>ar. repo_assign_role (?i) (ro_id ar)))) w3
         = (Inr x3, w4)" and "w' = w4"
    using assms(1) unfolding register_steps Let_def
    by (auto simp: bindP_Inr_iff ret_def split: if_splits)
  have d1: "work w1 = (work w)\<lparr>users := users (work w) @ [u]\<rparr>" "db_ok (work w1)"
    using flush_session_cases [OF flush] u by auto
  have i: "?i = u_id u" by (simp add: u)
  note assign = assign [unfolded i] and adm = adm [unfolded i]
  obtain rs where w2: "work w2 = (work w1)\<lparr>roles := roles (work w1) @ rs\<rparr>" "ro_name r = default_user_role S"
    "r \<in> set (roles (work w2))" "db_ok (work w2)"
    by (rule role_or_create_done [OF role]) (use d1 in blast)
  obtain urs where w3: "work w3 = (work w2)\<lparr>user_roles := user_roles (work w2) @ urs\<rparr>"
    "set urs \<subseteq> {\<lparr>ur_user_id = u_id u, ur_role_id = ro_id r\<rparr>}"
    "\<lparr>ur_user_id = u_id u, ur_role_id = ro_id r\<rparr> \<in> set (user_roles (work w3))" "db_ok (work w3)"
    by (rule repo_assign_role_done [OF assign]) (use w2 in blast)
  have new: "\<lparr>ur_user_id = u_id u, ur_role_id = k\<rparr> \<notin> set (user_roles (work w))" for k
    using assms(2) d1 by (force simp: db_ok_unfold references_def)
  have noadmin: "\<not> (\<exists>x\<in>set (roles (work w3)). ro_name x = ''admin''
        \<and> \<lparr>ur_user_id = u_id u, ur_role_id = ro_id x\<rparr> \<in> set (user_roles (work w3)))"
  proof
    assume "\<exists>x\<in>set (roles (work w3)). ro_name x = ''admin''
        \<and> \<lparr>ur_user_id = u_id u, ur_role_id = ro_id x\<rparr> \<in> set (user_roles (work w3))"
    then obtain x where x: "x \<in> set (roles (work w3))" "ro_name x = ''admin''" "ro_id x = ro_id r"
      using new w2(1) w3(1,2) d1(1) by auto
    then have "x = r" using w2(3) w3(1,4) by (intro in_set_distinct_key [of ro_id]) (auto simp: db_ok_unfold)
    then show False using x(2) w2(2) assms(3) by simp
  qed
  show ?thesis
  proof (cases "\<exists>a. initial_admin_email S = Some a \<and> ?admin a")
    case False
    then have "w' = w3" using adm \<open>w' = w4\<close> by (auto simp: ret_def whenP_def split: option.splits)
    then show ?thesis using none u d1 w2 w3 noadmin by auto
  next
    case True
    then obtain ar w5 where "role_or_create ''admin'' ''Administrator role'' w3 = (Inr ar, w5)"
      "repo_assign_role (u_id u) (ro_id ar) w5 = (Inr x3, w')"
      using adm \<open>w' = w4\<close> by (auto simp: whenP_def bindP_Inr_iff)
    then obtain rs' urs' where "work w' = (work w3)\<lparr>roles := roles (work w3) @ rs', user_roles := user_roles (work w3) @ urs'\<rparr>"
      by (elim role_or_create_done repo_assign_role_done) simp
    then show ?thesis using none u d1 w2 w3 True by auto
  qed
qed

theorem register_sound_witness:
  "\<exists>u w'. register lib_ex settings_ex ''n@x'' ''secret'' (world_ex db_ex) = (Inr u, w')
     \<and> u_email u = Some (lower ''n@x'')
     \<and> (\<exists>r\<in>set (roles (work w')). ro_name r = ''user'')"
proof -
  have "\<exists>u w'. register lib_ex settings_ex ''n@x'' ''secret'' (world_ex db_ex) = (Inr u, w')"
    by (simp add: register_steps) (simp add: account_def role_or_create_def repo_role_def repo_create_role_def
        repo_assign_role_def run_simps Let_def db_ok_unfold sample_defs commit_calm
        references_def references_opt_def lower_def lower_char_def registered_def new_user_def)
  then obtain u w' where run: "register lib_ex settings_ex ''n@x'' ''secret'' (world_ex db_ex) = (Inr u, w')"
    by blast
  show ?thesis using register_sound [OF run] run by auto
qed

end
