(* ===== verification/Auth_Access.thy ===== *)
theory Auth_Access
  imports Login_Facts
begin

text \<open>
  \<open>app/dependencies/auth.py\<close>: who the caller of a request is. FastAPI's \<open>HTTPBearer\<close> has
  already split the header; its result is the optional pair of scheme and credentials.
\<close>

type_synonym credentials = "(string \<times> string) option"

definition local_user_id :: uuid where
  "local_user_id = 1"

definition local_user :: "time \<Rightarrow> user" where
  "local_user t =
     \<lparr>u_id = local_user_id, u_email = Some ''local@example.com'', u_password_hash = None,
      u_timezone = ''Asia/Kolkata'', u_status = ''active'', u_email_verified_at = None,
      u_failed_login_attempts = 0, u_locked_until = None, u_created_at = t, u_updated_at = t\<rparr>"

text \<open>Without a token, where none is required: the local account, made on first use.\<close>

definition anonymous_user :: "('r, user) op" where
  "anonymous_user =
     bindP (get_user local_user_id) (\<lambda>found.
     (case found of
        Some u \<Rightarrow> ret u
      | None \<Rightarrow>
          bindP now_utc (\<lambda>t.
          bindP (alter (\<lambda>d. d\<lparr>users := users d @ [local_user t]\<rparr>)) (\<lambda>_.
          bindP commit_session (\<lambda>_. ret (local_user t))))))"

text \<open>
  The identifiers a token names: the subject must be a UUID, and so must the session claim
  when it is there and not empty.
\<close>

definition token_ids :: "jwt_claims \<Rightarrow> (uuid \<times> uuid option) option" where
  "token_ids c =
     (case jc_sub c of
        None \<Rightarrow> None
      | Some sub \<Rightarrow>
          (case uuid_parse sub of
             None \<Rightarrow> None
           | Some uid \<Rightarrow>
               (case jc_sid c of
                  None \<Rightarrow> Some (uid, None)
                | Some sid \<Rightarrow> if sid = [] then Some (uid, None)
                              else map_option (\<lambda>s. (uid, Some s)) (uuid_parse sid))))"

text \<open>
  The session check: with session management on, the token must name a session of the user that
  is not revoked; its identifier is put on the request.
\<close>

definition check_session :: "settings \<Rightarrow> uuid \<Rightarrow> uuid option \<Rightarrow> ('r, uuid option) op" where
  "check_session S uid sid =
     (if \<not> auth_session_management_enabled S then ret None
      else
        bindP (case sid of None \<Rightarrow> ret None | Some s \<Rightarrow> repo_auth_session s uid) (\<lambda>found.
        (case found of
           None \<Rightarrow> raise (App (err SessionRevoked))
         | Some s \<Rightarrow> if as_revoked_at s \<noteq> None then raise (App (err SessionRevoked))
                     else ret (Some (as_id s)))))"

text \<open>\<open>get_current_user\<close>: the user, and the session identifier for \<open>request.state\<close>.\<close>

definition get_current_user ::
  "lib \<Rightarrow> settings \<Rightarrow> credentials \<Rightarrow> ('r, user \<times> uuid option) op" where
  "get_current_user L S cred =
     (let authorization = map_option (\<lambda>(scheme, tok). scheme @ '' '' @ tok) cred in
      if authorization = None \<and> \<not> auth_require_token S then
        bindP anonymous_user (\<lambda>u. ret (u, None))
      else
        (case authorization of
           None \<Rightarrow> raise (App (err AuthenticationRequired))
         | Some a \<Rightarrow>
             if \<not> startswith a ''Bearer '' then raise (App (err AuthenticationRequired))
             else
               bindP (decode_access_token L (drop 7 a) (jwt_secret_key S) (jwt_issuer S)) (\<lambda>claims.
               (case (case claims of None \<Rightarrow> None | Some c \<Rightarrow> token_ids c) of
                  None \<Rightarrow> raise (App (err InvalidAccessToken))
                | Some (uid, sid) \<Rightarrow>
                    bindP (get_user uid) (\<lambda>found.
                    bindP (check_session S uid sid) (\<lambda>sess.
                    (case found of
                       None \<Rightarrow> raise (App (err InvalidAccessToken))
                     | Some u \<Rightarrow> if u_status u \<noteq> ''active'' then raise (App (err InvalidAccessToken))
                                 else ret (u, sess))))))))"

text \<open>\<open>user_id_from_current_user\<close>: the header \<open>X-User-ID\<close> names any user where no token is required.\<close>

definition user_id_from_current_user :: "settings \<Rightarrow> request \<Rightarrow> user \<Rightarrow> ('r, uuid) op" where
  "user_id_from_current_user S rq u =
     (case header (rq_headers rq) ''x-user-id'' of
        None \<Rightarrow> ret (u_id u)
      | Some h \<Rightarrow>
          if h = [] \<or> auth_require_token S then ret (u_id u)
          else (case uuid_parse h of
                  None \<Rightarrow> raise (App (err InvalidUserIdentifier))
                | Some i \<Rightarrow> ret i))"

text \<open>The identity a route acts for: the dependencies in the order FastAPI resolves them.\<close>

definition request_user_id :: "lib \<Rightarrow> settings \<Rightarrow> credentials \<Rightarrow> request \<Rightarrow> ('r, uuid) op" where
  "request_user_id L S cred rq =
     bindP (get_current_user L S cred) (\<lambda>(u, sess). user_id_from_current_user S rq u)"

definition require_role :: "lib \<Rightarrow> settings \<Rightarrow> credentials \<Rightarrow> string \<Rightarrow> ('r, user) op" where
  "require_role L S cred name =
     bindP (get_current_user L S cred) (\<lambda>(u, sess).
     bindP (repo_roles (u_id u)) (\<lambda>rls.
     if name \<notin> set rls then raise (App (err PermissionDenied)) else ret u))"

section \<open>Properties\<close>

definition resolve_user :: "settings \<Rightarrow> uuid \<Rightarrow> uuid option \<Rightarrow> ('r, user \<times> uuid option) op" where
  "resolve_user S uid sid =
     bindP (get_user uid) (\<lambda>found.
     bindP (check_session S uid sid) (\<lambda>sess.
     (case found of
        None \<Rightarrow> raise (App (err InvalidAccessToken))
      | Some u \<Rightarrow> if u_status u \<noteq> ''active'' then raise (App (err InvalidAccessToken))
                  else ret (u, sess))))"

definition token_claims :: "lib \<Rightarrow> settings \<Rightarrow> string \<Rightarrow> time \<Rightarrow> jwt_claims option" where
  "token_claims L S a now =
     (case jwt_decode L (drop 7 a) (jwt_secret_key S) (jwt_issuer S) now of
        None \<Rightarrow> None
      | Some c \<Rightarrow> if jc_type c \<noteq> Some ''access'' \<or> falsy_str (jc_sub c) then None else Some c)"

lemma get_current_user_bearer:
  assumes "startswith (scheme @ '' '' @ tok) ''Bearer ''"
  shows "get_current_user L S (Some (scheme, tok)) w =
    (case token_claims L S (scheme @ '' '' @ tok) (clock (wenv w) (tick w)) of
       None \<Rightarrow> (Inl (App (err InvalidAccessToken)), w\<lparr>tick := Suc (tick w)\<rparr>)
     | Some c \<Rightarrow>
         (case token_ids c of
            None \<Rightarrow> (Inl (App (err InvalidAccessToken)), w\<lparr>tick := Suc (tick w)\<rparr>)
          | Some (uid, sid) \<Rightarrow> resolve_user S uid sid (w\<lparr>tick := Suc (tick w)\<rparr>)))"
  using assms
  by (simp add: get_current_user_def decode_access_token_def token_claims_def resolve_user_def
      Let_def run_simps split: option.split)

lemma resolve_user_done:
  assumes "resolve_user S uid sid w = (Inr (u, sess), w')"
  shows "w' = w" "u \<in> set (users (work w))" "u_id u = uid" "u_status u = ''active''"
    and "auth_session_management_enabled S \<Longrightarrow> \<exists>s\<in>set (auth_sessions (work w)).
        sess = Some (as_id s) \<and> sid = sess \<and> as_user_id s = uid \<and> as_revoked_at s = None"
proof -
  have u: "find (\<lambda>x. u_id x = uid) (users (work w)) = Some u" "u_status u = ''active''"
    and sess: "check_session S uid sid w = (Inr sess, w')"
    using assms
    by (auto simp: resolve_user_def get_user_def run_simps bindP_Inr_iff raise_def ret_def
        split: option.splits if_splits)
  from u show "u \<in> set (users (work w))" "u_id u = uid" "u_status u = ''active''"
    by (auto dest: find_SomeD)
  from sess show "w' = w" "auth_session_management_enabled S \<Longrightarrow> \<exists>s\<in>set (auth_sessions (work w)).
        sess = Some (as_id s) \<and> sid = sess \<and> as_user_id s = uid \<and> as_revoked_at s = None"
    by (auto simp: check_session_def repo_auth_session_def run_simps bindP_Inr_iff raise_def ret_def
        split: option.splits if_splits dest!: find_SomeD)
qed

text \<open>
  C18. Access: where tokens are required, a request is let through only with a bearer token that
  decodes to an access token of an existing active user, and with session management on only
  while the session it names is a live session of that user; nothing is written on the way.
\<close>

theorem current_user_sound:
  assumes "get_current_user L S cred w = (Inr (u, sess), w')" and "auth_require_token S"
  shows "\<exists>scheme tok c sid. cred = Some (scheme, tok) \<and> startswith (scheme @ '' '' @ tok) ''Bearer ''
    \<and> jwt_decode L (drop 7 (scheme @ '' '' @ tok)) (jwt_secret_key S) (jwt_issuer S)
        (clock (wenv w) (tick w)) = Some c
    \<and> jc_type c = Some ''access'' \<and> token_ids c = Some (u_id u, sid)
    \<and> u \<in> set (users (work w)) \<and> u_status u = ''active''
    \<and> (auth_session_management_enabled S \<longrightarrow>
        (\<exists>s\<in>set (auth_sessions (work w)). sess = Some (as_id s) \<and> sid = sess
           \<and> as_user_id s = u_id u \<and> as_revoked_at s = None))
    \<and> work w' = work w \<and> committed w' = committed w"
proof -
  obtain scheme tok where cred: "cred = Some (scheme, tok)"
    and b: "startswith (scheme @ '' '' @ tok) ''Bearer ''"
    using assms by (auto simp: get_current_user_def raise_def Let_def split: option.splits if_splits)
  let ?a = "scheme @ '' '' @ tok" and ?w = "w\<lparr>tick := Suc (tick w)\<rparr>"
  note run = get_current_user_bearer [OF b, of L S w]
  obtain c where c: "token_claims L S ?a (clock (wenv w) (tick w)) = Some c"
    using assms(1) run cred by (cases "token_claims L S ?a (clock (wenv w) (tick w))") auto
  obtain uid sid where ids: "token_ids c = Some (uid, sid)"
    using assms(1) run cred c by (cases "token_ids c") auto
  have fin: "resolve_user S uid sid ?w = (Inr (u, sess), w')"
    using assms(1) run cred c ids by simp
  have c': "jwt_decode L (drop 7 ?a) (jwt_secret_key S) (jwt_issuer S) (clock (wenv w) (tick w)) = Some c"
    "jc_type c = Some ''access''"
    using c by (auto simp: token_claims_def split: option.splits if_splits)
  show ?thesis
    using resolve_user_done [OF fin] cred b c' ids by auto
qed

definition claims_ex :: jwt_claims where
  "claims_ex = \<lparr>jc_sub = Some (uuid_str 1), jc_email = None, jc_roles = [], jc_type = Some ''access'',
     jc_jti = [], jc_iat = 0, jc_exp = minutes 15, jc_iss = ''job-radar-agent'', jc_sid = Some (uuid_str 11)\<rparr>"

definition access_lib_ex :: lib where
  "access_lib_ex = lib_ex\<lparr>jwt_decode := (\<lambda>t s i now. if t = ''tok'' then Some claims_ex else None)\<rparr>"

lemma token_ids_ex: "token_ids claims_ex = Some (1, Some 11)"
  by (simp add: token_ids_def claims_ex_def uuid_parse_str uuid_str_nonempty)

lemma bearer_ex: "startswith (''Bearer'' @ '' '' @ ''tok'') ''Bearer ''"
  by (simp add: startswith_def)

lemma claims_read_ex: "token_claims access_lib_ex S (''Bearer'' @ '' '' @ ''tok'') now = Some claims_ex"
  by (simp add: token_claims_def access_lib_ex_def claims_ex_def falsy_str_def uuid_str_nonempty)

lemma resolve_ex: "resolve_user S 1 (Some 11) (world_ex db_ex\<lparr>tick := k\<rparr>) =
   (Inr (user_ex 1 ''a@x'', if auth_session_management_enabled S then Some 11 else None),
    world_ex db_ex\<lparr>tick := k\<rparr>)"
  by (simp add: resolve_user_def get_user_def check_session_def repo_auth_session_def run_simps)
    (simp add: sample_defs run_simps)

theorem current_user_sound_witness:
  "\<exists>c. jwt_decode access_lib_ex ''tok'' (jwt_secret_key settings_ex) (jwt_issuer settings_ex) 0 = Some c
     \<and> token_ids c = Some (1, Some 11)"
proof -
  let ?S = "settings_ex\<lparr>auth_require_token := True\<rparr>"
  have "get_current_user access_lib_ex ?S (Some (''Bearer'', ''tok'')) (world_ex db_ex) =
     (Inr (user_ex 1 ''a@x'', Some 11), world_ex db_ex\<lparr>tick := Suc 0\<rparr>)"
    unfolding get_current_user_bearer [OF bearer_ex] claims_read_ex option.case token_ids_ex prod.case
    by (simp only: resolve_ex) simp
  from current_user_sound [OF this] show ?thesis
    by (auto simp: env_ex_def seconds_def settings_ex_def user_ex_def)
qed

text \<open>
  Revocation is immediate: once a session has been revoked, an access token that names it is
  refused, although the token itself has not expired.
\<close>

theorem revoked_session_refused:
  assumes "calm w" "db_ok (work w)" "auth_session_management_enabled S"
    and "revoke_session S uid sid w = (Inr (), w')"
    and "startswith (scheme @ '' '' @ tok) ''Bearer ''"
    and "token_claims L S (scheme @ '' '' @ tok) (clock (wenv w') (tick w')) = Some c"
    and "token_ids c = Some (uid, Some sid)"
  shows "fst (get_current_user L S (Some (scheme, tok)) w') = Inl (App (err SessionRevoked))"
proof -
  obtain s where s: "find (\<lambda>s. as_id s = sid \<and> as_user_id s = uid) (auth_sessions (work w)) = Some s"
    "as_revoked_at s = None"
    using assms(3,4)
    by (auto simp: revoke_session_def revoke_auth_session_def repo_auth_session_def run_simps
        split: option.splits if_splits)
  let ?f = "\<lambda>x t. x\<lparr>as_revoked_at := Some (clock (wenv w) (tick w)), as_last_used_at := t\<rparr>"
  obtain t where "auth_sessions (work w') = update_where (\<lambda>x. as_id x = sid) (\<lambda>x. ?f x t) (auth_sessions (work w))"
    using revoke_session_run [OF assms(1-3) s] assms(4) by (auto simp: Let_def revoke_sessions_where_def)
  then have "find (\<lambda>s. as_id s = sid \<and> as_user_id s = uid) (auth_sessions (work w')) = Some (?f s t)"
    using s by (auto simp: find_update_where dest: find_SomeD)
  then have "fst (resolve_user S uid (Some sid) (w'\<lparr>tick := Suc (tick w')\<rparr>)) = Inl (App (err SessionRevoked))"
    using assms(3)
    by (simp add: resolve_user_def get_user_def check_session_def repo_auth_session_def run_simps)
  then show ?thesis using assms(6,7) by (simp add: get_current_user_bearer [OF assms(5)])
qed

theorem revoked_session_refused_witness:
  "fst (get_current_user access_lib_ex settings_ex (Some (''Bearer'', ''tok''))
     (snd (revoke_session settings_ex 1 11 (world_ex db_ex)))) = Inl (App (err SessionRevoked))"
proof -
  let ?w = "world_ex db_ex"
  have "find (\<lambda>s. as_id s = 11 \<and> as_user_id s = 1) (auth_sessions (work ?w)) = Some (session_ex 11 1)"
    "as_revoked_at (session_ex 11 1) = None"
    by (simp_all add: sample_defs)
  from revoke_session_run [OF _ _ _ this, of settings_ex]
  have run: "revoke_session settings_ex 1 11 ?w = (Inr (), snd (revoke_session settings_ex 1 11 ?w))"
    by (simp add: Let_def)
  show ?thesis
    by (rule revoked_session_refused [OF _ _ _ run bearer_ex claims_read_ex token_ids_ex]) simp_all
qed

end
