(* ===== verification/Paging.thy ===== *)
theory Paging
  imports Main
begin

text \<open>
  The contract of a paged query: a search answers the window \<open>offset\<close>/\<open>limit\<close> of one fixed
  list and the count is the length of that list. It is provided by the audit trail and by the
  job list; both services turn a page number into an offset the same way.
\<close>

definition window :: "nat \<Rightarrow> nat \<Rightarrow> 'a list \<Rightarrow> 'a list" where
  "window off lim xs = take lim (drop off xs)"

locale paged_query =
  fixes rows :: "'d \<Rightarrow> 'f \<Rightarrow> 'row list"
    and search :: "'d \<Rightarrow> 'f \<Rightarrow> nat \<Rightarrow> nat \<Rightarrow> 'row list"
    and total_count :: "'d \<Rightarrow> 'f \<Rightarrow> nat"
  assumes search_window: "search d f off lim = window off lim (rows d f)"
    and count_rows: "total_count d f = length (rows d f)"
begin

lemma page_length: "length (search d f off lim) \<le> lim"
  by (simp add: search_window window_def)

lemma page_rows: "set (search d f off lim) \<subseteq> set (rows d f)"
  by (auto simp: search_window window_def dest: in_set_takeD in_set_dropD)

lemma pages_concat:
  "concat (map (\<lambda>p. search d f (p * n) n) [0..<k]) = take (k * n) (rows d f)"
proof (induction k)
  case 0
  show ?case by simp
next
  case (Suc k)
  then show ?case
    by (simp add: search_window window_def take_add [symmetric] add.commute)
qed

text \<open>Reading the pages in turn until the count is covered reads every row exactly once.\<close>

lemma pages_cover:
  assumes "total_count d f \<le> k * n"
  shows "concat (map (\<lambda>p. search d f (p * n) n) [0..<k]) = rows d f"
  using assms by (simp add: pages_concat count_rows)

lemma beyond_last_page: "total_count d f \<le> off \<Longrightarrow> search d f off lim = []"
  by (simp add: search_window window_def count_rows)

end

end
