(* ===== verification/Audit_Trail.thy ===== *)
theory Audit_Trail
  imports Samples Paging "HOL-Library.Product_Lexorder"
begin

text \<open>
  The audit trail: \<open>app/repositories/audit.py\<close>, \<open>app/domain/audit/service.py\<close>,
  \<open>app/domain/audit/schemas.py\<close> and the retention command \<open>app/audit_admin.py\<close>.
\<close>

section \<open>Filters and queries (repositories/audit.py)\<close>

record audit_filter =
  af_actor :: "uuid option"
  af_action :: "string option"
  af_resource_type :: "string option"
  af_resource_id :: "string option"
  af_success :: "bool option"
  af_after :: "time option"
  af_before :: "time option"

definition no_filter :: audit_filter where
  "no_filter = \<lparr>af_actor = None, af_action = None, af_resource_type = None,
     af_resource_id = None, af_success = None, af_after = None, af_before = None\<rparr>"

text \<open>A text filter applies when it is neither absent nor empty.\<close>

definition text_matches :: "string option \<Rightarrow> string option \<Rightarrow> bool" where
  "text_matches f x = (f = None \<or> f = Some [] \<or> x = f)"

definition audit_query :: "audit_filter \<Rightarrow> audit_event \<Rightarrow> bool" where
  "audit_query f e \<longleftrightarrow>
     (af_actor f = None \<or> ev_actor_user_id e = af_actor f)
     \<and> text_matches (af_action f) (Some (ev_action e))
     \<and> text_matches (af_resource_type f) (Some (ev_resource_type e))
     \<and> text_matches (af_resource_id f) (ev_resource_id e)
     \<and> (case af_success f of None \<Rightarrow> True | Some b \<Rightarrow> ev_success e = b)
     \<and> (case af_after f of None \<Rightarrow> True | Some t \<Rightarrow> t \<le> ev_created_at e)
     \<and> (case af_before f of None \<Rightarrow> True | Some t \<Rightarrow> ev_created_at e \<le> t)"

text \<open>\<open>ORDER BY created_at DESC, id DESC\<close>.\<close>

definition newest_first :: "audit_event list \<Rightarrow> audit_event list" where
  "newest_first = sort_key (\<lambda>e. (- ev_created_at e, - int (ev_id e)))"

definition audit_rows :: "db \<Rightarrow> audit_filter \<Rightarrow> audit_event list" where
  "audit_rows d f = newest_first (filter (audit_query f) (audit_events d))"

definition audit_window :: "db \<Rightarrow> audit_filter \<Rightarrow> nat \<Rightarrow> nat \<Rightarrow> audit_event list" where
  "audit_window d f off n = window off n (audit_rows d f)"

definition audit_count :: "db \<Rightarrow> audit_filter \<Rightarrow> nat" where
  "audit_count d f = length (filter (audit_query f) (audit_events d))"

definition create_event :: "audit_event \<Rightarrow> ('r, audit_event) op" where
  "create_event e =
     bindP (alter (\<lambda>d. d\<lparr>audit_events := audit_events d @ [e]\<rparr>)) (\<lambda>_.
     bindP commit_session (\<lambda>_.
     bindP refresh_session (\<lambda>_. ret e)))"

definition events_before :: "time \<Rightarrow> ('r, audit_event list) op" where
  "events_before cutoff = query (\<lambda>d. sort_key ev_created_at
     (filter (\<lambda>e. ev_created_at e < cutoff) (audit_events d)))"

definition delete_before :: "time \<Rightarrow> ('r, nat) op" where
  "delete_before cutoff =
     bindP (query (\<lambda>d. length (filter (\<lambda>e. ev_created_at e < cutoff) (audit_events d)))) (\<lambda>n.
     bindP (alter (\<lambda>d. d\<lparr>audit_events :=
              delete_where (\<lambda>e. ev_created_at e < cutoff) (audit_events d)\<rparr>)) (\<lambda>_.
     bindP commit_session (\<lambda>_. ret n)))"

section \<open>The service (domain/audit/service.py)\<close>

record audit_entry =
  ae_action :: string
  ae_resource_type :: string
  ae_resource_id :: "string option"
  ae_actor :: "uuid option"
  ae_success :: bool
  ae_ip_address :: "string option"
  ae_user_agent :: "string option"
  ae_request_id :: "string option"
  ae_metadata :: "(string \<times> json) list"

text \<open>The identifier and the creation time are set by the flush and by the server.\<close>

definition record_event :: "audit_entry \<Rightarrow> ('r, audit_event) op" where
  "record_event a =
     bindP uuid4 (\<lambda>i.
     bindP now_utc (\<lambda>t.
     create_event
       \<lparr>ev_id = i, ev_actor_user_id = ae_actor a, ev_action = ae_action a,
        ev_resource_type = ae_resource_type a, ev_resource_id = ae_resource_id a,
        ev_success = ae_success a, ev_ip_address = ae_ip_address a,
        ev_user_agent = ae_user_agent a, ev_request_id = ae_request_id a,
        ev_metadata = ae_metadata a, ev_created_at = t\<rparr>))"

definition search_events ::
  "nat \<Rightarrow> nat \<Rightarrow> audit_filter \<Rightarrow> ('r, audit_event list \<times> nat) op" where
  "search_events page page_size f =
     bindP (query (\<lambda>d. audit_window d f ((page - 1) * page_size) page_size)) (\<lambda>es.
     bindP (query (\<lambda>d. audit_count d f)) (\<lambda>k. ret (es, k)))"

definition export_events :: "nat \<Rightarrow> audit_filter \<Rightarrow> ('r, audit_event list) op" where
  "export_events page_size f = query (\<lambda>d. audit_window d f 0 page_size)"

text \<open>The line of the archive an event becomes.\<close>

definition archive_json :: "audit_event \<Rightarrow> json" where
  "archive_json e = JObj
     [(''id'', JStr (uuid_str (ev_id e))),
      (''actor_user_id'', jstr_opt (map_option uuid_str (ev_actor_user_id e))),
      (''action'', JStr (ev_action e)), (''resource_type'', JStr (ev_resource_type e)),
      (''resource_id'', jstr_opt (ev_resource_id e)), (''success'', JBool (ev_success e)),
      (''ip_address'', jstr_opt (ev_ip_address e)), (''user_agent'', jstr_opt (ev_user_agent e)),
      (''request_id'', jstr_opt (ev_request_id e)), (''metadata'', JObj (ev_metadata e)),
      (''created_at'', JStr (isoformat (ev_created_at e)))]"

record retention_result =
  rr_cutoff :: time
  rr_archived :: nat
  rr_deleted :: nat
  rr_archive_path :: "string option"

definition archive_file :: "string \<Rightarrow> time \<Rightarrow> string" where
  "archive_file dir cutoff = dir @ ''/audit-'' @ iso_date cutoff @ ''.jsonl''"

definition apply_retention :: "int \<Rightarrow> bool \<Rightarrow> string \<Rightarrow> ('r, retention_result) op" where
  "apply_retention retention_days archive_enabled dir =
     bindP now_utc (\<lambda>now.
     let cutoff = now - days retention_days in
     bindP (events_before cutoff) (\<lambda>es.
     let path = (if archive_enabled \<and> es \<noteq> [] then Some (archive_file dir cutoff) else None) in
     bindP (modify (\<lambda>w. case path of None \<Rightarrow> w
              | Some p \<Rightarrow> w\<lparr>archived := archived w @ map (\<lambda>e. (p, archive_json e)) es\<rparr>)) (\<lambda>_.
     bindP (delete_before cutoff) (\<lambda>n.
     ret \<lparr>rr_cutoff = cutoff, rr_archived = (if archive_enabled then length es else 0),
          rr_deleted = n, rr_archive_path = path\<rparr>))))"

text \<open>\<open>app/audit_admin.py\<close>: the settings of the deployment, in a session of its own.\<close>

definition retention_command :: "settings \<Rightarrow> ('r, retention_result) op" where
  "retention_command S = session_scope
     (apply_retention (audit_retention_days S) (audit_archive_enabled S) (audit_archive_dir S))"

section \<open>Responses (domain/audit/schemas.py)\<close>

text \<open>\<open>AuditEventResponse.from_model\<close> in JSON mode; Pydantic writes UTC as \<open>Z\<close>.\<close>

definition iso_z :: "time \<Rightarrow> string" where
  "iso_z t = iso_date t @ ''T'' @ iso_clock t @ ''Z''"

definition event_fields :: "audit_event \<Rightarrow> (string \<times> json) list" where
  "event_fields e =
     [(''id'', JStr (uuid_str (ev_id e))),
      (''actor_user_id'', jstr_opt (map_option uuid_str (ev_actor_user_id e))),
      (''action'', JStr (ev_action e)), (''resource_type'', JStr (ev_resource_type e)),
      (''resource_id'', jstr_opt (ev_resource_id e)), (''success'', JBool (ev_success e)),
      (''ip_address'', jstr_opt (ev_ip_address e)), (''user_agent'', jstr_opt (ev_user_agent e)),
      (''request_id'', jstr_opt (ev_request_id e)), (''metadata'', JObj (ev_metadata e)),
      (''created_at'', JStr (iso_z (ev_created_at e)))]"

section \<open>Facts\<close>

interpretation audit_pages: paged_query audit_rows audit_window audit_count
  by unfold_locales
    (simp_all add: audit_window_def audit_count_def audit_rows_def newest_first_def)

lemma set_audit_rows: "set (audit_rows d f) = {e \<in> set (audit_events d). audit_query f e}"
  by (auto simp: audit_rows_def newest_first_def)

lemma audit_rows_sorted: "sorted (map (\<lambda>e. (- ev_created_at e, - int (ev_id e))) (audit_rows d f))"
  by (simp add: audit_rows_def newest_first_def)

lemma db_ok_audit_delete:
  "db_ok d \<Longrightarrow> db_ok (d\<lparr>audit_events := delete_where P (audit_events d)\<rparr>)"
  by (simp add: db_ok_unfold)

lemma db_ok_audit_add:
  "db_ok d \<Longrightarrow> ev_id e \<notin> ev_id ` set (audit_events d) \<Longrightarrow>
     (case ev_actor_user_id e of None \<Rightarrow> True | Some u \<Rightarrow> u \<in> u_id ` set (users d)) \<Longrightarrow>
     db_ok (d\<lparr>audit_events := audit_events d @ [e]\<rparr>)"
  by (auto simp: db_ok_unfold split: option.splits)

section \<open>Properties\<close>


definition event_ex :: "uuid \<Rightarrow> time \<Rightarrow> audit_event" where
  "event_ex i t = \<lparr>ev_id = i, ev_actor_user_id = None, ev_action = ''user.logged_in'',
     ev_resource_type = ''user'', ev_resource_id = None, ev_success = True, ev_ip_address = None,
     ev_user_agent = None, ev_request_id = None, ev_metadata = [], ev_created_at = t\<rparr>"


text \<open>
  Paging: the pages of a search, read in turn up to the reported total, are together the
  matching events newest first, each once; a page has at most the requested size.
\<close>

theorem audit_pages_complete:
  assumes "0 < n" and "snd (projr (fst (search_events 1 n f w))) \<le> k * n"
  shows "concat (map (\<lambda>p. fst (projr (fst (search_events (Suc p) n f w)))) [0..<k])
       = audit_rows (work w) f
    \<and> (\<forall>p. length (fst (projr (fst (search_events p n f w)))) \<le> n)
    \<and> set (audit_rows (work w) f) = {e \<in> set (audit_events (work w)). audit_query f e}
    \<and> sorted (map (\<lambda>e. (- ev_created_at e, - int (ev_id e))) (audit_rows (work w) f))"
  using assms audit_pages.pages_cover audit_pages.page_length
  by (simp add: search_events_def run_simps set_audit_rows audit_rows_sorted)

theorem audit_pages_complete_witness:
  "concat (map (\<lambda>p. fst (projr (fst (search_events (Suc p) 2 no_filter
       (world_ex (empty_db\<lparr>audit_events := [event_ex 1 5, event_ex 2 7, event_ex 3 6]\<rparr>)))))) [0..<2])
   = [event_ex 2 7, event_ex 3 6, event_ex 1 5]"
proof -
  let ?w = "world_ex (empty_db\<lparr>audit_events := [event_ex 1 5, event_ex 2 7, event_ex 3 6]\<rparr>)"
  have rows: "audit_rows (work ?w) no_filter = [event_ex 2 7, event_ex 3 6, event_ex 1 5]"
    by (simp add: audit_rows_def newest_first_def audit_query_def no_filter_def text_matches_def event_ex_def)
  have "snd (projr (fst (search_events 1 2 no_filter ?w))) \<le> 2 * 2"
    by (simp add: search_events_def run_simps audit_count_def audit_query_def no_filter_def text_matches_def)
  from audit_pages_complete [OF _ this] rows show ?thesis by simp
qed

end
