(* ===== verification/Auth_Api.thy ===== *)
theory Auth_Api
  imports Auth_Access Audit_Trail
begin

text \<open>
  \<open>app/api/v1/auth.py\<close> with the input schemas of \<open>app/auth/schemas.py\<close>, and the response
  factories the routers share. A route is a program that answers the status and the body, or
  raises what the exception handlers of \<open>App_Errors\<close> turn into an error response. The body
  arguments are the values Pydantic has accepted: \<open>EmailStr\<close> is checked by a third-party
  package, the other bounds are the predicates below.
\<close>

section \<open>Inputs (auth/schemas.py)\<close>

definition password_ok :: "string \<Rightarrow> bool" where
  "password_ok p = (12 \<le> length p)"

definition refresh_input_ok :: "string \<Rightarrow> bool" where
  "refresh_input_ok t = (20 \<le> length t)"

definition is_digit :: "char \<Rightarrow> bool" where
  "is_digit c = (let n = of_char c :: nat in 48 \<le> n \<and> n \<le> 57)"

definition is_lower :: "char \<Rightarrow> bool" where
  "is_lower c = (let n = of_char c :: nat in 97 \<le> n \<and> n \<le> 122)"

definition code_input_ok :: "string \<Rightarrow> bool" where
  "code_input_ok c = (length c = 6 \<and> list_all is_digit c)"

text \<open>The pattern \<open>^[a-z][a-z0-9_-]*$\<close>, one to 64 characters.\<close>

definition role_name_ok :: "string \<Rightarrow> bool" where
  "role_name_ok s = (1 \<le> length s \<and> length s \<le> 64 \<and>
     (case s of [] \<Rightarrow> False
      | c # cs \<Rightarrow> is_lower c \<and>
          list_all (\<lambda>x. is_lower x \<or> is_digit x \<or> x = CHR ''_'' \<or> x = CHR ''-'') cs))"

section \<open>Shared parts of the routes\<close>

type_synonym 'r route = "('r, int \<times> json) op"

text \<open>A body in the success envelope, with a status.\<close>

definition answer :: "int \<Rightarrow> request \<Rightarrow> json \<Rightarrow> 'r route" where
  "answer st rq body =
     (case success_response body (Some rq) ''v1'' None None None of
        None \<Rightarrow> raise (ValueError ''ResponseMeta'')
      | Some b \<Rightarrow> ret (st, b))"

definition answer_page :: "request \<Rightarrow> json \<Rightarrow> int \<Rightarrow> int \<Rightarrow> int \<Rightarrow> 'r route" where
  "answer_page rq body page per n =
     (case success_response body (Some rq) ''v1'' (Some page) (Some per) (Some n) of
        None \<Rightarrow> raise (ValueError ''ResponseMeta'')
      | Some b \<Rightarrow> ret (200, b))"

definition no_content :: "'r route" where
  "no_content = ret (204, JNull)"

text \<open>\<open>record_audit\<close>: who called, with what agent, under which request identifier.\<close>

definition record_audit ::
  "request \<Rightarrow> string \<Rightarrow> string \<Rightarrow> string option \<Rightarrow> uuid option \<Rightarrow> bool \<Rightarrow> (string \<times> json) list \<Rightarrow>
   ('r, audit_event) op" where
  "record_audit rq action rtype rid actor ok meta =
     record_event
       \<lparr>ae_action = action, ae_resource_type = rtype, ae_resource_id = rid, ae_actor = actor,
        ae_success = ok, ae_ip_address = rq_client rq,
        ae_user_agent = header (rq_headers rq) ''User-Agent'',
        ae_request_id = rq_request_id rq, ae_metadata = meta\<rparr>"

text \<open>\<open>except C as error: record the failure; raise\<close>.\<close>

definition audited_failure ::
  "app_class \<Rightarrow> request \<Rightarrow> string \<Rightarrow> string \<Rightarrow> ('r, 'a) op \<Rightarrow> ('r, 'a) op" where
  "audited_failure c rq action rtype m =
     catchP m (\<lambda>e. case e of
        App a \<Rightarrow>
          if isinstance (ae_class a) c then
            bindP (record_audit rq action rtype None None False [(''reason'', JStr (ae_message a))])
              (\<lambda>_. raise e)
          else raise e
      | _ \<Rightarrow> raise e)"

definition user_response :: "user \<Rightarrow> ('r, json) op" where
  "user_response u =
     bindP (roles_for_user (u_id u)) (\<lambda>rls.
     ret (JObj [(''id'', JStr (uuid_str (u_id u))),
                (''email'', JStr (case u_email u of None \<Rightarrow> [] | Some e \<Rightarrow> e)),
                (''roles'', jstrs rls)]))"

definition token_response :: "string \<times> string \<Rightarrow> json" where
  "token_response p = JObj [(''access_token'', JStr (fst p)), (''refresh_token'', JStr (snd p)),
     (''token_type'', JStr ''bearer'')]"

section \<open>The routes\<close>

definition register_route :: "lib \<Rightarrow> settings \<Rightarrow> request \<Rightarrow> string \<Rightarrow> string \<Rightarrow> 'r route" where
  "register_route L S rq email password =
     bindP (audited_failure UserAlreadyExists rq ''user.registration.failed'' ''user''
              (register L S email password)) (\<lambda>u.
     bindP (if auth_email_verification_enabled S
            then bindP (issue_code L S email ''email_verification'') (\<lambda>_. ret ()) else ret ()) (\<lambda>_.
     bindP (record_audit rq ''user.registered'' ''user'' (Some (uuid_str (u_id u))) (Some (u_id u)) True []) (\<lambda>_.
     bindP (user_response u) (\<lambda>b. answer 201 rq b))))"

definition login_metadata :: "request \<Rightarrow> session_metadata" where
  "login_metadata rq = \<lparr>sm_device_name = header (rq_headers rq) ''X-Device-Name'',
     sm_user_agent = header (rq_headers rq) ''User-Agent'', sm_ip_address = rq_client rq\<rparr>"

definition login_route :: "lib \<Rightarrow> settings \<Rightarrow> request \<Rightarrow> string \<Rightarrow> string \<Rightarrow> 'r route" where
  "login_route L S rq email password =
     bindP (audited_failure AuthenticationError rq ''user.login.failed'' ''user''
       (bindP (authenticate L S email password) (\<lambda>u.
        bindP (issue_tokens L S u None (Some (login_metadata rq))) (\<lambda>p. ret (u, p))))) (\<lambda>(u, p).
     bindP (record_audit rq ''user.logged_in'' ''user'' (Some (uuid_str (u_id u))) (Some (u_id u)) True []) (\<lambda>_.
     answer 200 rq (token_response p)))"

definition refresh_route :: "lib \<Rightarrow> settings \<Rightarrow> request \<Rightarrow> string \<Rightarrow> 'r route" where
  "refresh_route L S rq raw =
     bindP (audited_failure AuthenticationError rq ''auth.token.refresh_failed'' ''refresh_token''
              (refresh L S raw)) (\<lambda>p.
     bindP (record_audit rq ''auth.token.refreshed'' ''refresh_token'' None None True []) (\<lambda>_.
     answer 200 rq (token_response p)))"

definition message_body :: "string \<Rightarrow> json" where
  "message_body m = JObj [(''message'', JStr m)]"

definition request_password_reset_route :: "lib \<Rightarrow> settings \<Rightarrow> request \<Rightarrow> string \<Rightarrow> 'r route" where
  "request_password_reset_route L S rq email =
     bindP (if auth_password_reset_enabled S
            then bindP (issue_code L S email ''password_reset'') (\<lambda>_. ret ()) else ret ()) (\<lambda>_.
     bindP (record_audit rq ''user.password_reset.requested'' ''user'' None None True
              [(''email'', JStr (lower email))]) (\<lambda>_.
     answer 202 rq (message_body ''If the account exists, a reset code has been sent'')))"

definition confirm_password_reset_route ::
  "lib \<Rightarrow> settings \<Rightarrow> request \<Rightarrow> string \<Rightarrow> string \<Rightarrow> string \<Rightarrow> 'r route" where
  "confirm_password_reset_route L S rq email code password =
     bindP (audited_failure InvalidVerificationCode rq ''user.password_reset.failed'' ''user''
              (reset_password L S email code password)) (\<lambda>_.
     bindP (record_audit rq ''user.password_reset.completed'' ''user'' None None True
              [(''email'', JStr (lower email))]) (\<lambda>_.
     no_content))"

definition verify_email_route :: "lib \<Rightarrow> settings \<Rightarrow> request \<Rightarrow> string \<Rightarrow> string \<Rightarrow> 'r route" where
  "verify_email_route L S rq email code =
     bindP (audited_failure InvalidVerificationCode rq ''user.email_verification.failed'' ''user''
              (verify_email L S email code)) (\<lambda>_.
     bindP (record_audit rq ''user.email_verified'' ''user'' None None True
              [(''email'', JStr (lower email))]) (\<lambda>_.
     no_content))"

definition resend_route :: "lib \<Rightarrow> settings \<Rightarrow> request \<Rightarrow> string \<Rightarrow> 'r route" where
  "resend_route L S rq email =
     bindP (if auth_email_verification_enabled S
            then bindP (issue_code L S email ''email_verification'') (\<lambda>_. ret ()) else ret ()) (\<lambda>_.
     answer 202 rq (message_body ''If the account exists, a verification code has been sent''))"

definition logout_route :: "lib \<Rightarrow> settings \<Rightarrow> string \<Rightarrow> 'r route" where
  "logout_route L S raw =
     bindP (repo_refresh_token (digest L raw)) (\<lambda>found.
     (case found of
        None \<Rightarrow> no_content
      | Some t \<Rightarrow>
          bindP now_utc (\<lambda>now.
          bindP (revoke_tokens (rt_family_id t) now) (\<lambda>_.
          bindP (case rt_session_id t of
                   None \<Rightarrow> ret ()
                 | Some s \<Rightarrow> whenP (auth_session_management_enabled S)
                     (bindP now_utc (\<lambda>t2.
                      bindP (revoke_auth_session s (rt_user_id t) t2) (\<lambda>_. ret ())))) (\<lambda>_.
          bindP commit_session (\<lambda>_. no_content))))))"

definition session_json :: "uuid option \<Rightarrow> auth_session \<Rightarrow> json" where
  "session_json current s = JObj
     [(''id'', JStr (uuid_str (as_id s))), (''device_name'', jstr_opt (as_device_name s)),
      (''user_agent'', jstr_opt (as_user_agent s)), (''ip_address'', jstr_opt (as_ip_address s)),
      (''created_at'', JStr (isoformat (as_created_at s))),
      (''last_used_at'', JStr (isoformat (as_last_used_at s))),
      (''current'', JBool (Some (as_id s) = current))]"

definition sessions_route :: "lib \<Rightarrow> settings \<Rightarrow> credentials \<Rightarrow> request \<Rightarrow> 'r route" where
  "sessions_route L S cred rq =
     bindP (get_current_user L S cred) (\<lambda>(u, current).
     bindP (list_sessions S (u_id u)) (\<lambda>ss.
     answer 200 rq (JArr (map (session_json current) ss))))"

definition revoke_other_sessions_route :: "lib \<Rightarrow> settings \<Rightarrow> credentials \<Rightarrow> 'r route" where
  "revoke_other_sessions_route L S cred =
     bindP (get_current_user L S cred) (\<lambda>(u, current).
     bindP (revoke_other_sessions S (u_id u) current) (\<lambda>_. no_content))"

definition revoke_session_route :: "lib \<Rightarrow> settings \<Rightarrow> credentials \<Rightarrow> uuid \<Rightarrow> 'r route" where
  "revoke_session_route L S cred sid =
     bindP (get_current_user L S cred) (\<lambda>(u, _).
     bindP (revoke_session S (u_id u) sid) (\<lambda>_. no_content))"

definition me_route :: "lib \<Rightarrow> settings \<Rightarrow> credentials \<Rightarrow> request \<Rightarrow> 'r route" where
  "me_route L S cred rq =
     bindP (get_current_user L S cred) (\<lambda>(u, _).
     bindP (user_response u) (\<lambda>b. answer 200 rq b))"

definition create_role_route ::
  "lib \<Rightarrow> settings \<Rightarrow> credentials \<Rightarrow> request \<Rightarrow> string \<Rightarrow> string option \<Rightarrow> 'r route" where
  "create_role_route L S cred rq name description =
     bindP (require_role L S cred ''admin'') (\<lambda>_.
     bindP (create_role name description) (\<lambda>r.
     answer 201 rq (JObj [(''id'', JStr (uuid_str (ro_id r))), (''name'', JStr (ro_name r)),
                          (''description'', jstr_opt (ro_description r))])))"

definition assign_role_route :: "lib \<Rightarrow> settings \<Rightarrow> credentials \<Rightarrow> uuid \<Rightarrow> string \<Rightarrow> 'r route" where
  "assign_role_route L S cred uid role_name =
     bindP (require_role L S cred ''admin'') (\<lambda>_.
     bindP (assign_role uid role_name) (\<lambda>_. no_content))"

section \<open>Facts\<close>

lemma answer_run: "answer st rq b w =
   (Inr (st, JObj [(''success'', JBool True), (''data'', b),
     (''meta'', JObj [(''request_id'', JStr (request_id_or_unknown rq)), (''api_version'', JStr ''v1''),
        (''page'', JNull), (''page_size'', JNull), (''total'', JNull)])]), w)"
  by (simp add: answer_def success_response_def Let_def meta_ok_def at_least_def meta_json_def
      jint_opt_def ret_def)

lemma record_audit_calm:
  assumes "calm w" "db_ok (work w)" "uuid_source (wenv w) (tick w) \<notin> ev_id ` set (audit_events (work w))"
    and "\<forall>u. actor = Some u \<longrightarrow> u \<in> u_id ` set (users (work w))"
  obtains e w' where "record_audit rq action rtype rid actor ok md w = (Inr e, w')"
    and "audit_events (work w') = audit_events (work w) @ [e]" "committed w' = work w'"
    and "ev_action e = action" "ev_success e = ok" "ev_actor_user_id e = actor"
    and "ev_ip_address e = rq_client rq" "ev_request_id e = rq_request_id rq" "ev_metadata e = md"
proof -
  let ?e = "\<lparr>ev_id = uuid_source (wenv w) (tick w), ev_actor_user_id = actor, ev_action = action,
     ev_resource_type = rtype, ev_resource_id = rid, ev_success = ok, ev_ip_address = rq_client rq,
     ev_user_agent = header (rq_headers rq) ''User-Agent'', ev_request_id = rq_request_id rq,
     ev_metadata = md, ev_created_at = clock (wenv w) (Suc (tick w))\<rparr>"
  let ?d = "(work w)\<lparr>audit_events := audit_events (work w) @ [?e]\<rparr>"
  have "db_ok ?d" using assms(2-4) by (intro db_ok_audit_add) (auto split: option.splits)
  then show ?thesis
    using assms(1)
    by (intro that [of ?e "w\<lparr>tick := tick w + 4, committed := ?d, work := ?d\<rparr>"])
      (simp_all add: record_audit_def record_event_def create_event_def run_simps eval_nat_numeral)
qed

section \<open>Properties\<close>

text \<open>
  C19. Asking for a password reset tells nothing about the account: every request that is
  answered at all gets the same status and body, whether the address is known or not.
\<close>

theorem reset_request_reveals_nothing:
  assumes "request_password_reset_route L S rq email w = (Inr a, w')"
    and "request_password_reset_route L S rq email' v = (Inr b, v')"
  shows "a = b \<and> fst a = 202"
  using assms by (auto simp: request_password_reset_route_def bindP_Inr_iff answer_run)

definition request_ex :: request where
  "request_ex = \<lparr>rq_method = ''POST'', rq_path = ''/api/v1/auth/password-reset/request'',
     rq_headers = [(''User-Agent'', ''test'')], rq_cookies = [], rq_client = Some ''10.0.0.1'',
     rq_request_id = Some ''r1'', rq_session_id = None\<rparr>"

lemma reset_request_ex:
  assumes "email \<in> {''a@x'', ''nobody@x''}"
  shows "\<exists>a w'. request_password_reset_route lib_ex settings_ex request_ex email (world_ex db_ex) = (Inr a, w')"
proof -
  have "account db_ex ''nobody@x'' = None"
    by (simp add: account_def sample_defs lower_def lower_char_def)
  moreover have "db_ok (db_ex\<lparr>verification_codes := verification_codes db_ex @ [c], audit_events := audit_events db_ex @ [e]\<rparr>)"
    if "vc_user_id c = 1" "ev_actor_user_id e = None" for c e
    using that by (simp add: db_ok_unfold sample_defs references_def references_opt_def)
  moreover have "db_ok (db_ex\<lparr>verification_codes := verification_codes db_ex @ [c]\<rparr>)"
    if "vc_user_id c = 1" for c
    using that by (simp add: db_ok_unfold sample_defs references_def references_opt_def)
  moreover have "db_ok (db_ex\<lparr>audit_events := audit_events db_ex @ [e]\<rparr>)"
    if "ev_actor_user_id e = None" for e
    using that by (simp add: db_ok_unfold sample_defs references_def references_opt_def)
  ultimately show ?thesis
    using assms account_ex
    by (auto simp: request_password_reset_route_def issue_code_def user_by_email_run randbelow_million_def
        save_verification_code_def record_audit_def record_event_def create_event_def run_simps Let_def
        answer_run user_ex_def)
qed

theorem reset_request_reveals_nothing_witness:
  "\<exists>a w1 b w2. request_password_reset_route lib_ex settings_ex request_ex ''a@x'' (world_ex db_ex) = (Inr a, w1)
     \<and> request_password_reset_route lib_ex settings_ex request_ex ''nobody@x'' (world_ex db_ex) = (Inr b, w2)
     \<and> a = b \<and> fst a = 202"
proof -
  obtain a w1 where a: "request_password_reset_route lib_ex settings_ex request_ex ''a@x'' (world_ex db_ex) = (Inr a, w1)"
    using reset_request_ex [of "''a@x''"] by blast
  obtain b w2 where b: "request_password_reset_route lib_ex settings_ex request_ex ''nobody@x'' (world_ex db_ex) = (Inr b, w2)"
    using reset_request_ex [of "''nobody@x''"] by blast
  show ?thesis using a b reset_request_reveals_nothing [OF a b] by blast
qed

text \<open>
  Failed logins leave a trace: when the login is refused, the caller gets the same error and
  the committed trail has an event that says so, with the reason.
\<close>

theorem failed_login_audited:
  assumes "authenticate L S email password w = (Inl (App a), w1)" "isinstance (ae_class a) AuthenticationError"
    and "calm w1" "db_ok (work w1)" "uuid_source (wenv w1) (tick w1) \<notin> ev_id ` set (audit_events (work w1))"
  shows "\<exists>w'. login_route L S rq email password w = (Inl (App a), w')
    \<and> (\<exists>e\<in>set (audit_events (committed w')). ev_action e = ''user.login.failed'' \<and> \<not> ev_success e
        \<and> ev_ip_address e = rq_client rq \<and> ev_request_id e = rq_request_id rq
        \<and> ev_metadata e = [(''reason'', JStr (ae_message a))])"
proof -
  obtain e w' where rec: "record_audit rq ''user.login.failed'' ''user'' None None False
      [(''reason'', JStr (ae_message a))] w1 = (Inr e, w')"
    and e: "audit_events (work w') = audit_events (work w1) @ [e]" "committed w' = work w'"
      "ev_action e = ''user.login.failed''" "ev_success e = False"
      "ev_ip_address e = rq_client rq" "ev_request_id e = rq_request_id rq"
      "ev_metadata e = [(''reason'', JStr (ae_message a))]"
    by (rule record_audit_calm [OF assms(3-5)]) auto
  have "login_route L S rq email password w = (Inl (App a), w')"
    using assms(1,2) rec by (simp add: login_route_def audited_failure_def bindP_def catchP_def raise_def)
  then show ?thesis using e by auto
qed

theorem failed_login_audited_witness:
  "\<exists>w'. login_route lib_ex settings_ex request_ex ''nobody@x'' ''secret'' (world_ex db_ex)
      = (Inl (App (err InvalidCredentials)), w')
    \<and> (\<exists>e\<in>set (audit_events (committed w')). ev_action e = ''user.login.failed'')"
proof -
  let ?w = "(world_ex db_ex)\<lparr>tick := Suc 0\<rparr>"
  have "account db_ex ''nobody@x'' = None"
    by (simp add: account_def sample_defs lower_def lower_char_def)
  then have fail: "authenticate lib_ex settings_ex ''nobody@x'' ''secret'' (world_ex db_ex) =
      (Inl (App (err InvalidCredentials)), ?w)"
    by (simp add: authenticate_def user_by_email_run run_simps)
  have cls: "isinstance (ae_class (err InvalidCredentials)) AuthenticationError"
    by (simp add: isinstance_simps [of InvalidCredentials] isinstance_simps [of AuthenticationError])
  have "uuid_source (wenv ?w) (tick ?w) \<notin> ev_id ` set (audit_events (work ?w))"
    by (simp add: sample_defs)
  from failed_login_audited [OF fail cls _ _ this, of request_ex] show ?thesis by auto
qed

lemma anonymous_user_keeps:
  assumes "anonymous_user w = (r, w1)" "committed w = work w"
  shows "user_roles (work w1) = user_roles (work w)"
proof (cases "find (\<lambda>u. u_id u = local_user_id) (users (work w))")
  case None
  let ?w = "w\<lparr>tick := Suc (tick w), work := (work w)\<lparr>users := users (work w) @ [local_user (clock (wenv w) (tick w))]\<rparr>\<rparr>"
  obtain q w2 where c: "commit_session ?w = (q, w2)" by fastforce
  have "w1 = w2"
    using None assms(1) bindP_ret_result [where m = commit_session and f = "\<lambda>_. local_user (clock (wenv w) (tick w))", OF c]
    by (simp add: anonymous_user_def get_user_def run_world)
  then show ?thesis using commit_session_cases [OF c] assms(2) by auto
next
  case (Some u)
  then show ?thesis using assms by (auto simp: anonymous_user_def get_user_def run_simps)
qed

lemma resolve_user_keeps: "snd (resolve_user S uid sid w) = w"
  by (auto simp: resolve_user_def get_user_def check_session_def repo_auth_session_def bindP_def run_simps
      split: option.split sum.split prod.split)

lemma get_current_user_keeps:
  assumes "get_current_user L S cred w = (r, w1)" "committed w = work w"
  shows "user_roles (work w1) = user_roles (work w)"
proof (cases cred)
  case None
  obtain q w2 where a: "anonymous_user w = (q, w2)" by fastforce
  have "auth_require_token S \<Longrightarrow> w1 = w" "\<not> auth_require_token S \<Longrightarrow> w1 = w2"
    using None assms(1) bindP_ret_result [where m = anonymous_user and f = "\<lambda>u. (u, None :: uuid option)", OF a]
    by (simp_all add: get_current_user_def raise_def)
  then show ?thesis using anonymous_user_keeps [OF a assms(2)] by auto
next
  case (Some c)
  then obtain scheme tok where c: "cred = Some (scheme, tok)" by (cases c) auto
  show ?thesis
  proof (cases "startswith (scheme @ '' '' @ tok) ''Bearer ''")
    case True
    have "snd (get_current_user L S cred w) = w\<lparr>tick := Suc (tick w)\<rparr>"
      unfolding c get_current_user_bearer [OF True]
      by (simp add: resolve_user_keeps split: option.split prod.split)
    then show ?thesis using assms(1) by simp
  next
    case False
    then show ?thesis using assms(1) c by (simp add: get_current_user_def run_simps Let_def)
  qed
qed

text \<open>
  Only administrators hand out roles: in a request whose session starts from the committed
  data, the assignments of roles change only if the caller holds the role \<open>admin\<close>.
\<close>

theorem only_admins_assign_roles:
  assumes "assign_role_route L S cred uid name w = (r, w')" "committed w = work w"
    and "user_roles (work w') \<noteq> user_roles (work w)"
  shows "\<exists>u s w1. get_current_user L S cred w = (Inr (u, s), w1)
    \<and> ''admin'' \<in> set (roles_in (work w1) (u_id u))"
proof -
  obtain q w1 where g: "get_current_user L S cred w = (q, w1)" by fastforce
  note same = get_current_user_keeps [OF g assms(2)]
  show ?thesis
  proof (cases q)
    case (Inl e)
    then have "w' = w1"
      using assms(1) g by (simp add: assign_role_route_def require_role_def bindP_def)
    with same assms(3) show ?thesis by simp
  next
    case (Inr p)
    obtain u s where p: "p = (u, s)" by fastforce
    have "''admin'' \<in> set (roles_in (work w1) (u_id u))"
    proof (rule ccontr)
      assume "''admin'' \<notin> set (roles_in (work w1) (u_id u))"
      then have "w' = w1"
        using assms(1) g Inr p
        by (simp add: assign_role_route_def require_role_def bindP_def repo_roles_def query_def raise_def)
      with same assms(3) show False by simp
    qed
    then show ?thesis using g Inr p by blast
  qed
qed

definition role_db_ex :: db where
  "role_db_ex = db_ex\<lparr>
     roles := [\<lparr>ro_id = 41, ro_name = ''admin'', ro_description = None, ro_is_active = True\<rparr>,
               \<lparr>ro_id = 42, ro_name = ''user'', ro_description = None, ro_is_active = True\<rparr>],
     user_roles := [\<lparr>ur_user_id = 1, ur_role_id = 41\<rparr>]\<rparr>"

theorem only_admins_assign_roles_witness:
  "\<exists>u s w1. get_current_user lib_ex settings_ex None (world_ex role_db_ex) = (Inr (u, s), w1)
    \<and> ''admin'' \<in> set (roles_in (work w1) (u_id u))"
proof -
  let ?w = "world_ex role_db_ex"
  let ?d = "role_db_ex\<lparr>user_roles := user_roles role_db_ex @ [\<lparr>ur_user_id = 2, ur_role_id = 42\<rparr>]\<rparr>"
  have u: "get_current_user lib_ex settings_ex None ?w = (Inr (user_ex 1 ''a@x'', None), ?w)"
    by (simp add: get_current_user_def anonymous_user_def get_user_def run_simps)
      (simp add: sample_defs role_db_ex_def local_user_id_def settings_ex_def default_settings_def run_simps)
  have "''admin'' \<in> set (roles_in role_db_ex 1)"
    by (simp add: roles_in_def role_db_ex_def)
  moreover have "db_ok ?d"
    by (simp add: db_ok_unfold role_db_ex_def sample_defs references_def references_opt_def)
  moreover have "find (\<lambda>u. u_id u = 2) (users role_db_ex) = Some (user_ex 2 ''b@x'')"
    "find (\<lambda>r. ro_name r = ''user'') (roles role_db_ex)
       = Some \<lparr>ro_id = 42, ro_name = ''user'', ro_description = None, ro_is_active = True\<rparr>"
    "find (\<lambda>ur. ur_user_id ur = 2 \<and> ur_role_id ur = 42) (user_roles role_db_ex) = None"
    by (simp_all add: role_db_ex_def sample_defs)
  ultimately have "\<exists>r. assign_role_route lib_ex settings_ex None 2 ''user'' ?w =
      (r, ?w\<lparr>tick := Suc 0, committed := ?d, work := ?d\<rparr>)"
    by (simp add: assign_role_route_def require_role_def bindP_assoc bindP_result [where m = "get_current_user lib_ex settings_ex None", OF u] repo_roles_def
        assign_role_def get_user_def repo_role_def repo_assign_role_def no_content_def run_simps user_ex_def)
  then obtain r where run: "assign_role_route lib_ex settings_ex None 2 ''user'' ?w =
      (r, ?w\<lparr>tick := Suc 0, committed := ?d, work := ?d\<rparr>)" by blast
  show ?thesis by (rule only_admins_assign_roles [OF run]) (simp_all)
qed

end
