(* ===== verification/Audit_Api.thy ===== *)
theory Audit_Api
  imports Auth_Api Text_Formats
begin

text \<open>
  \<open>app/api/v1/audit.py\<close>: the search and the export of the audit trail, for administrators. An
  export is streamed, so its answer is the list of the chunks sent.
\<close>

section \<open>Routes\<close>

definition search_audit_route ::
  "lib \<Rightarrow> settings \<Rightarrow> credentials \<Rightarrow> request \<Rightarrow> nat \<Rightarrow> nat \<Rightarrow> audit_filter \<Rightarrow> 'r route" where
  "search_audit_route L S cred rq page page_size f =
     bindP (require_role L S cred ''admin'') (\<lambda>_.
     bindP (search_events page page_size f) (\<lambda>(es, n).
     answer_page rq (JArr (map (\<lambda>e. JObj (event_fields e)) es)) (int page) (int page_size) (int n)))"

record streamed =
  st_chunks :: "string list"
  st_media_type :: string
  st_disposition :: string

datatype export_format = Export_Json | Export_Csv

definition fieldnames :: "(string \<times> json) list list \<Rightarrow> string list" where
  "fieldnames rows = (case rows of [] \<Rightarrow> [''id'', ''action'', ''success'', ''created_at'']
     | row # _ \<Rightarrow> map fst row)"

text \<open>\<open>DictWriter.writerow\<close>: the values in the order of the field names.\<close>

definition dict_row :: "(rat \<Rightarrow> string) \<Rightarrow> string list \<Rightarrow> (string \<times> json) list \<Rightarrow> string" where
  "dict_row fr names row =
     csv_row (map (\<lambda>k. case map_of row k of None \<Rightarrow> [] | Some v \<Rightarrow> csv_value fr v) names)"

definition csv_chunks :: "(rat \<Rightarrow> string) \<Rightarrow> (string \<times> json) list list \<Rightarrow> string list" where
  "csv_chunks fr rows = csv_row (fieldnames rows) # map (dict_row fr (fieldnames rows)) rows"

definition json_chunks :: "(rat \<Rightarrow> string) \<Rightarrow> (string \<times> json) list list \<Rightarrow> string list" where
  "json_chunks fr rows = [json_dumps fr (JArr (map JObj rows))]"

definition export_audit_route ::
  "lib \<Rightarrow> settings \<Rightarrow> credentials \<Rightarrow> export_format \<Rightarrow> audit_filter \<Rightarrow> ('r, streamed) op" where
  "export_audit_route L S cred fmt f =
     bindP (require_role L S cred ''admin'') (\<lambda>_.
     bindP (export_events 1000 f) (\<lambda>es.
     let rows = map event_fields es in
     ret (case fmt of
       Export_Csv \<Rightarrow> \<lparr>st_chunks = csv_chunks (float_repr L) rows, st_media_type = ''text/csv'',
         st_disposition = ''attachment; filename=audit-events.csv''\<rparr>
     | Export_Json \<Rightarrow> \<lparr>st_chunks = json_chunks (float_repr L) rows, st_media_type = ''application/json'',
         st_disposition = ''attachment; filename=audit-events.json''\<rparr>)))"

section \<open>Properties\<close>

text \<open>What a reader of the exported file gets for an event.\<close>

definition event_texts :: "(rat \<Rightarrow> string) \<Rightarrow> audit_event \<Rightarrow> string list" where
  "event_texts fr e = map (\<lambda>(k, v). csv_value fr v) (event_fields e)"

lemma dict_row_event:
  "dict_row fr (map fst (event_fields e')) (event_fields e) = csv_row (event_texts fr e)"
  by (simp add: dict_row_def event_texts_def event_fields_def)

lemma csv_chunks_events:
  "csv_chunks fr (map event_fields es) =
     map csv_row (fieldnames (map event_fields es) # map (event_texts fr) es)"
  by (cases es) (auto simp: csv_chunks_def fieldnames_def dict_row_event)

text \<open>
  C32. An exported CSV file, read back, is the header and one row for each event exported, with the
  text of every field, whatever characters the fields hold. The events are the newest 1000 that
  match the filter: an export of a longer trail is cut without notice.
\<close>

theorem export_roundtrip:
  assumes "export_audit_route L S cred Export_Csv f w = (Inr out, w')"
  shows "\<exists>u w1. require_role L S cred ''admin'' w = (Inr u, w1)
    \<and> csv_reader (concat (st_chunks out)) =
        (if audit_rows (work w1) f = [] then [''id'', ''action'', ''success'', ''created_at'']
         else [''id'', ''actor_user_id'', ''action'', ''resource_type'', ''resource_id'', ''success'',
           ''ip_address'', ''user_agent'', ''request_id'', ''metadata'', ''created_at''])
        # map (event_texts (float_repr L)) (take 1000 (audit_rows (work w1) f))"
proof -
  obtain u w1 where u: "require_role L S cred ''admin'' w = (Inr u, w1)"
    and out: "export_events 1000 f w1 = (Inr (take 1000 (audit_rows (work w1) f)), w1)"
    using assms by (cases "require_role L S cred ''admin'' w")
      (auto simp: export_audit_route_def export_events_def audit_window_def window_def bindP_def query_def split: sum.splits)
  define es where "es = take 1000 (audit_rows (work w1) f)"
  have "st_chunks out = map csv_row (fieldnames (map event_fields es) # map (event_texts (float_repr L)) es)"
    using assms by (simp add: export_audit_route_def bindP_result [where m = "require_role L S cred ''admin''", OF u]
        bindP_result [where m = "export_events 1000 f", OF out] es_def Let_def ret_def csv_chunks_events) auto
  then have "csv_reader (concat (st_chunks out)) =
      fieldnames (map event_fields es) # map (event_texts (float_repr L)) es"
    by (simp only:, intro csv_roundtrip) (auto simp: fieldnames_def event_texts_def event_fields_def split: list.splits)
  then show ?thesis
    using u by (cases "audit_rows (work w1) f") (auto simp: es_def fieldnames_def event_fields_def)
qed

text \<open>An event whose text holds the separator, the quote and a line break.\<close>

definition awkward_event :: audit_event where
  "awkward_event = (event_ex 7 0)\<lparr>ev_action := ''a,'' @ [dquote, CHR 0x0D, CHR 0x0A]\<rparr>"

definition awkward_db_ex :: db where
  "awkward_db_ex = role_db_ex\<lparr>audit_events := [awkward_event]\<rparr>"

theorem export_roundtrip_witness:
  "\<exists>out w'. export_audit_route lib_ex settings_ex None Export_Csv no_filter (world_ex awkward_db_ex) = (Inr out, w')
     \<and> length (csv_reader (concat (st_chunks out))) = 2
     \<and> (csv_reader (concat (st_chunks out)) ! 1) ! 2 = ''a,'' @ [dquote, CHR 0x0D, CHR 0x0A]"
proof -
  have role: "require_role lib_ex settings_ex None ''admin'' (world_ex awkward_db_ex)
      = (Inr (user_ex 1 ''a@x''), world_ex awkward_db_ex)"
    by (simp add: require_role_def get_current_user_def anonymous_user_def get_user_def repo_roles_def run_simps
        awkward_db_ex_def role_db_ex_def sample_defs local_user_id_def settings_ex_def default_settings_def roles_in_def)
  then obtain out w' where run: "export_audit_route lib_ex settings_ex None Export_Csv no_filter (world_ex awkward_db_ex) = (Inr out, w')"
    by (auto simp: export_audit_route_def export_events_def run_simps bindP_result [where m = "require_role lib_ex settings_ex None ''admin''", OF role] Let_def)
  have rows: "audit_rows awkward_db_ex no_filter = [awkward_event]"
    by (simp add: awkward_db_ex_def audit_rows_def newest_first_def audit_query_def no_filter_def text_matches_def)
  have "event_texts (float_repr lib_ex) awkward_event ! 2 = ''a,'' @ [dquote, CHR 0x0D, CHR 0x0A]"
    by (simp add: event_texts_def event_fields_def csv_value_def py_str_def awkward_event_def)
  then show ?thesis
    using export_roundtrip [OF run] role run by (auto simp: rows)
qed

end
