(* ===== verification/Retry.thy ===== *)
theory Retry
  imports Prelude App_Errors
begin

text \<open>
  The contract of a retry loop: the operation runs again only after an error worth another try and
  while attempts are left. The source adapters and the notification worker have a loop each, with
  their own idea of such an error and of what the last error becomes.
\<close>

text \<open>The state after \<open>k\<close> runs of an operation.\<close>

primrec after_runs :: "(exn, 's, 'a) prog \<Rightarrow> nat \<Rightarrow> 's \<Rightarrow> 's" where
  "after_runs op 0 s = s"
| "after_runs op (Suc k) s = after_runs op k (snd (op s))"

locale retry_loop =
  fixes again :: "exn \<Rightarrow> bool"
    and loop :: "nat \<Rightarrow> nat \<Rightarrow> (exn, 's, 'a) prog \<Rightarrow> (exn, 's, 'b) prog"
    and good :: "'a \<Rightarrow> 'b"
    and stop :: "nat \<Rightarrow> exn \<Rightarrow> exn + 'b"
  assumes loop_step: "loop n (Suc left) op s = (case op s of (res, s') \<Rightarrow>
     (case res of Inr x \<Rightarrow> (Inr (good x), s')
      | Inl e \<Rightarrow> if \<not> again e \<or> left = 0 then (stop (Suc n) e, s') else loop (Suc n) left op s'))"
begin

text \<open>
  With \<open>left\<close> attempts the operation runs \<open>k + 1\<close> times, at most \<open>left\<close>; all runs but the last
  ended in an error worth another try, and the last one succeeded, or failed for good, or was the
  last one allowed.
\<close>

lemma loop_runs:
  assumes "loop n left op s = (r, s')" "0 < left"
  shows "\<exists>k<left. (\<forall>i<k. \<exists>e. fst (op (after_runs op i s)) = Inl e \<and> again e)
    \<and> s' = after_runs op (Suc k) s
    \<and> (case fst (op (after_runs op k s)) of
         Inr x \<Rightarrow> r = Inr (good x)
       | Inl e \<Rightarrow> (\<not> again e \<or> Suc k = left) \<and> r = stop (Suc (n + k)) e)"
  using assms
proof (induction left arbitrary: n s)
  case (Suc left)
  obtain res s1 where op: "op s = (res, s1)" by fastforce
  show ?case
  proof (cases "\<exists>e. res = Inl e \<and> again e \<and> left \<noteq> 0")
    case False
    then show ?thesis
      using Suc.prems(1) op by (intro exI [of _ 0]) (auto simp: loop_step split: sum.splits if_splits)
  next
    case True
    then obtain e where e: "res = Inl e" "again e" "0 < left" by auto
    then have "loop (Suc n) left op s1 = (r, s')" using Suc.prems(1) op by (simp add: loop_step)
    from Suc.IH [OF this e(3)] obtain k where k: "k < left"
      "\<forall>i<k. \<exists>e. fst (op (after_runs op i s1)) = Inl e \<and> again e" "s' = after_runs op (Suc k) s1"
      "case fst (op (after_runs op k s1)) of Inr x \<Rightarrow> r = Inr (good x)
         | Inl e \<Rightarrow> (\<not> again e \<or> Suc k = left) \<and> r = stop (Suc (Suc n + k)) e"
      by blast
    have "\<exists>e. fst (op (after_runs op i s)) = Inl e \<and> again e" if "i < Suc k" for i
      using that k(2) op e by (cases i) auto
    then show ?thesis
      using k op e by (intro exI [of _ "Suc k"]) (auto split: sum.splits)
  qed
qed simp

end

end
