(* ===== verification/Adapters.thy ===== *)
theory Adapters
  imports Samples Py_Repr Retry
begin

text \<open>
  \<open>app/ingestion/base.py\<close> and the two source adapters. An adapter is an asynchronous generator:
  what it has yielded before an exception has already been handed to its consumer, so it is
  modelled by an operation that answers the records it yielded, the number of malformed entries
  it counted and the exception that ended it, if any. A generator suspended at a \<open>yield\<close> never
  sees an exception of the consumer, which only appends to a list.
\<close>

section \<open>The shared HTTP policy (base.py)\<close>

text \<open>The fields of a raw record are whatever JSON the source sent; only the identifier is text.\<close>

record raw_record =
  rw_external_id :: string
  rw_title :: json
  rw_description :: json
  rw_url :: json
  rw_location :: json
  rw_payload :: "(string \<times> json) list"

text \<open>
  \<open>with_retries\<close>, by the number of attempts left: an \<open>AdapterError\<close> is raised when it is not retryable
  or the attempt was the last, anything else at once.
\<close>

definition retryable :: "exn \<Rightarrow> bool" where
  "retryable e = (case e of Adapter _ b \<Rightarrow> b | _ \<Rightarrow> False)"

fun with_retries :: "nat \<Rightarrow> (exn, 's, 'a) prog \<Rightarrow> (exn, 's, 'a) prog" where
  "with_retries 0 m = raise (Foreign ''retry operation exhausted'' None False)"
| "with_retries (Suc left) m =
     catchP m (\<lambda>e. if \<not> retryable e \<or> left = 0 then raise e else with_retries left m)"

interpretation retries: retry_loop retryable "\<lambda>n. with_retries" "\<lambda>x. x" "\<lambda>n. Inl"
  by unfold_locales (simp add: prog_simps split: prod.split sum.split)

text \<open>A number in Python's sense: the limiter compares the interval with 0.\<close>

definition is_number :: "json \<Rightarrow> bool" where
  "is_number v = (case v of JInt _ \<Rightarrow> True | JFloat _ \<Rightarrow> True | JBool _ \<Rightarrow> True | _ \<Rightarrow> False)"

definition limiter_wait :: "json \<Rightarrow> ('r, unit) op" where
  "limiter_wait interval = (if is_number interval then ret ()
     else raise (TypeError ''unorderable interval''))"

definition retry_suffix :: "string option \<Rightarrow> string" where
  "retry_suffix h = (case h of None \<Rightarrow> [] | Some v \<Rightarrow> if v = [] then [] else ''; retry-after='' @ v)"

definition get_json :: "string \<Rightarrow> json \<Rightarrow> ('r, json) op" where
  "get_json url interval =
     bindP (limiter_wait interval) (\<lambda>_.
     bindP (http_get url) (\<lambda>res.
     (case res of
        Request_Error \<Rightarrow> raise (Adapter ''source request failed'' True)
      | Http_Response st ra body \<Rightarrow>
          if st = 429 \<or> st \<ge> 500 then
            raise (Adapter (''source returned HTTP '' @ str_int st @ retry_suffix ra) True)
          else if st \<ge> 400 then raise (Adapter (''source returned HTTP '' @ str_int st) False)
          else (case body of None \<Rightarrow> raise (ValueError ''Expecting value'') | Some j \<Rightarrow> ret j))))"

section \<open>Configuration values\<close>

type_synonym config = "(string \<times> json) list"

text \<open>The arguments of \<open>range\<close>: integers (a \<open>bool\<close> is one).\<close>

definition int_arg :: "json \<Rightarrow> int option" where
  "int_arg v = (case v of JInt i \<Rightarrow> Some i | JBool b \<Rightarrow> Some (if b then 1 else 0) | _ \<Rightarrow> None)"

text \<open>\<open>x.get(k, d)\<close> where \<open>x\<close> must be a dictionary.\<close>

definition dict_get :: "json \<Rightarrow> string \<Rightarrow> json \<Rightarrow> exn + json" where
  "dict_get x k d = (case x of JObj kvs \<Rightarrow> Inr (jget kvs k d)
     | _ \<Rightarrow> Inl (AttributeError ''object has no attribute get''))"

section \<open>Entries\<close>

text \<open>
  One entry of a page: a record, a malformed entry (\<open>KeyError\<close> or \<open>TypeError\<close>, which the
  adapters count), or an exception they do not catch.
\<close>

datatype entry = Record raw_record | Malformed | Escapes exn

definition greenhouse_entry :: "(rat \<Rightarrow> string) \<Rightarrow> json \<Rightarrow> entry" where
  "greenhouse_entry fr j =
     (case j of
        JObj kvs \<Rightarrow>
          (let loc = jget kvs ''location'' JNull in
           (case dict_get (if truthy loc then loc else JObj []) ''name'' JNull of
              Inl e \<Rightarrow> Escapes e
            | Inr name \<Rightarrow>
                (case (map_of kvs ''id'', map_of kvs ''title'') of
                   (Some i, Some t) \<Rightarrow> Record
                     \<lparr>rw_external_id = py_str fr i, rw_title = t,
                      rw_description = jget kvs ''content'' (JStr []),
                      rw_url = jget kvs ''absolute_url'' (JStr []), rw_location = name,
                      rw_payload = kvs\<rparr>
                 | _ \<Rightarrow> Malformed)))
      | _ \<Rightarrow> Escapes (AttributeError ''object has no attribute get''))"

definition lever_entry :: "(rat \<Rightarrow> string) \<Rightarrow> json \<Rightarrow> entry" where
  "lever_entry fr j =
     (case j of
        JObj kvs \<Rightarrow>
          (let categories = jget kvs ''categories'' (JObj []) in
           (case (map_of kvs ''id'', map_of kvs ''text'') of
              (Some i, Some t) \<Rightarrow>
                (case dict_get categories ''location'' JNull of
                   Inl e \<Rightarrow> Escapes e
                 | Inr loc \<Rightarrow> Record
                     \<lparr>rw_external_id = py_str fr i, rw_title = t,
                      rw_description = jget kvs ''descriptionPlain'' (jget kvs ''description'' (JStr [])),
                      rw_url = jget kvs ''hostedUrl'' (JStr []), rw_location = loc,
                      rw_payload = kvs\<rparr>)
            | _ \<Rightarrow> Malformed))
      | _ \<Rightarrow> Escapes (AttributeError ''object has no attribute get''))"

text \<open>The entries of a page in order, up to the first exception that escapes.\<close>

record yielded =
  yl_records :: "raw_record list"
  yl_malformed :: nat
  yl_error :: "exn option"

fun run_entries :: "entry list \<Rightarrow> yielded" where
  "run_entries [] = \<lparr>yl_records = [], yl_malformed = 0, yl_error = None\<rparr>"
| "run_entries (Record r # es) = (let y = run_entries es in y\<lparr>yl_records := r # yl_records y\<rparr>)"
| "run_entries (Malformed # es) = (let y = run_entries es in y\<lparr>yl_malformed := Suc (yl_malformed y)\<rparr>)"
| "run_entries (Escapes e # es) = \<lparr>yl_records = [], yl_malformed = 0, yl_error = Some e\<rparr>"

text \<open>Yields of one part of a generator followed by the rest, which does not run after an error.\<close>

definition then_yield :: "yielded \<Rightarrow> ('r, yielded) op \<Rightarrow> ('r, yielded) op" where
  "then_yield y rest =
     (if yl_error y \<noteq> None then ret y
      else bindP rest (\<lambda>z. ret \<lparr>yl_records = yl_records y @ yl_records z,
             yl_malformed = yl_malformed y + yl_malformed z, yl_error = yl_error z\<rparr>))"

definition no_yield :: "exn option \<Rightarrow> yielded" where
  "no_yield e = \<lparr>yl_records = [], yl_malformed = 0, yl_error = e\<rparr>"

text \<open>An exception inside a generator ends it.\<close>

definition ending :: "('r, yielded) op \<Rightarrow> ('r, yielded) op" where
  "ending m = catchP m (\<lambda>e. ret (no_yield (Some e)))"

section \<open>The adapters\<close>

text \<open>What iterating over a JSON value gives: the keys of an object, the characters of a text.\<close>

definition iterate_json :: "json \<Rightarrow> exn + json list" where
  "iterate_json j = (case j of
     JArr xs \<Rightarrow> Inr xs
   | JObj kvs \<Rightarrow> Inr (map (JStr \<circ> fst) kvs)
   | JStr s \<Rightarrow> Inr (map (\<lambda>c. JStr [c]) s)
   | _ \<Rightarrow> Inl (TypeError ''object is not iterable''))"

fun greenhouse_pages ::
  "(rat \<Rightarrow> string) \<Rightarrow> string \<Rightarrow> json \<Rightarrow> nat list \<Rightarrow> ('r, yielded) op" where
  "greenhouse_pages fr url interval [] = ret (no_yield None)"
| "greenhouse_pages fr url interval (p # ps) =
     ending (bindP (get_json (url @ ''?page='' @ nat_to_base 10 p) interval) (\<lambda>payload.
       (case dict_get payload ''jobs'' (JArr []) of
          Inl e \<Rightarrow> raise e
        | Inr found \<Rightarrow>
            if \<not> truthy found then ret (no_yield None)
            else (case iterate_json found of
                    Inl e \<Rightarrow> raise e
                  | Inr js \<Rightarrow> then_yield (run_entries (map (greenhouse_entry fr) js))
                               (greenhouse_pages fr url interval ps)))))"

fun lever_pages ::
  "(rat \<Rightarrow> string) \<Rightarrow> string \<Rightarrow> json \<Rightarrow> nat list \<Rightarrow> ('r, yielded) op" where
  "lever_pages fr url interval [] = ret (no_yield None)"
| "lever_pages fr url interval (p # ps) =
     ending (bindP (get_json (url @ ''&page='' @ nat_to_base 10 p) interval) (\<lambda>payload.
       if \<not> truthy payload then ret (no_yield None)
       else (case iterate_json payload of
               Inl e \<Rightarrow> raise e
             | Inr js \<Rightarrow> then_yield (run_entries (map (lever_entry fr) js))
                          (lever_pages fr url interval ps))))"

definition url_arg :: "json \<Rightarrow> exn + string" where
  "url_arg v = (case v of JStr s \<Rightarrow> Inr s | _ \<Rightarrow> Inl (TypeError ''unsupported operand type(s) for +''))"

definition greenhouse_fetch :: "(rat \<Rightarrow> string) \<Rightarrow> config \<Rightarrow> ('r, yielded) op" where
  "greenhouse_fetch fr cfg =
     (case map_of cfg ''board'' of
        None \<Rightarrow> ret (no_yield (Some (KeyError ''board'')))
      | Some board \<Rightarrow>
          (let url = jget cfg ''url''
                 (JStr (''https://boards-api.greenhouse.io/v1/boards/'' @ py_str fr board @ ''/jobs''));
               interval = jget cfg ''rate_limit_seconds'' (JFloat 0)
           in (case int_arg (jget cfg ''max_pages'' (JInt 1)) of
                 None \<Rightarrow> ret (no_yield (Some (TypeError ''range'')))
               | Some n \<Rightarrow>
                   if n < 1 then ret (no_yield None)
                   else (case url_arg url of
                           Inl e \<Rightarrow> ret (no_yield (Some e))
                         | Inr u \<Rightarrow> greenhouse_pages fr u interval [1..<Suc (nat n)]))))"

definition lever_fetch :: "(rat \<Rightarrow> string) \<Rightarrow> config \<Rightarrow> ('r, yielded) op" where
  "lever_fetch fr cfg =
     (case map_of cfg ''account'' of
        None \<Rightarrow> ret (no_yield (Some (KeyError ''account'')))
      | Some account \<Rightarrow>
          (let url = jget cfg ''url''
                 (JStr (''https://api.lever.co/v0/postings/'' @ py_str fr account @ ''?mode=json''));
               interval = jget cfg ''rate_limit_seconds'' (JFloat 0)
           in (case int_arg (jget cfg ''max_pages'' (JInt 1)) of
                 None \<Rightarrow> ret (no_yield (Some (TypeError ''range'')))
               | Some n \<Rightarrow>
                   if n < 1 then ret (no_yield None)
                   else (case url_arg url of
                           Inl e \<Rightarrow> ret (no_yield (Some e))
                         | Inr u \<Rightarrow> lever_pages fr u interval [0..<nat n]))))"

end
