(* ===== verification/Preferences.thy ===== *)
theory Preferences
  imports Audit_Trail "HOL-Library.List_Lexorder" "HOL-Library.Char_ord"
begin

text \<open>
  \<open>app/domain/preferences/schemas.py\<close>: the preference document, its validation and its JSON
  form. A document is a record; \<open>validate\<close> is what Pydantic's field validators do to one whose
  fields have their declared types, and \<open>load\<close> reads one from JSON. Errors are the messages of
  all failing fields, in the order of the fields. A JSON value of another type than declared is
  an error here; Pydantic's conversions between JSON types are not modelled.
\<close>

section \<open>The document\<close>

record preferences =
  pf_titles :: "string list"
  pf_must_have :: "string list"
  pf_nice_to_have :: "string list"
  pf_locations :: "string list"
  pf_work_mode :: "string list"
  pf_experience_min :: "int option"
  pf_experience_max :: "int option"
  pf_minimum_lpa :: "rat option"
  pf_companies :: "string list"
  pf_exclusions :: "string list"
  pf_minimum_score :: int

definition default_weights :: "(string \<times> int) list" where
  "default_weights = [(''skills'', 40), (''experience'', 20), (''location'', 15), (''role'', 10),
     (''salary'', 10), (''company'', 5)]"

definition default_preferences :: preferences where
  "default_preferences = \<lparr>pf_titles = [], pf_must_have = [], pf_nice_to_have = [],
     pf_locations = [], pf_work_mode = [], pf_experience_min = None, pf_experience_max = None,
     pf_minimum_lpa = None, pf_companies = [], pf_exclusions = [], pf_minimum_score = 75\<rparr>"

section \<open>Validation\<close>

text \<open>\<open>_clean_values\<close>.\<close>

definition clean_values :: "string list \<Rightarrow> string \<Rightarrow> string + string list" where
  "clean_values vs field =
     (let cleaned = map strip vs in
      if [] \<in> set cleaned then Inl (field @ '' cannot contain empty values'')
      else if length (remdups (map casefold cleaned)) \<noteq> length cleaned
      then Inl (field @ '' cannot contain duplicates'')
      else Inr cleaned)"

definition supported_modes :: "string list" where
  "supported_modes = [''remote'', ''hybrid'', ''onsite'']"

definition validate_work_modes :: "string list \<Rightarrow> string + string list" where
  "validate_work_modes vs =
     (let invalid = sort (remdups (filter (\<lambda>v. v \<notin> set supported_modes) vs)) in
      if invalid \<noteq> [] then Inl (''unsupported work modes: '' @ join '', '' invalid) else Inr vs)"

definition clean_work_mode :: "string list \<Rightarrow> string + string list" where
  "clean_work_mode vs = (case clean_values vs ''work_mode'' of
     Inl e \<Rightarrow> Inl e | Inr ws \<Rightarrow> validate_work_modes ws)"

definition clean_experience :: "int option \<Rightarrow> int option \<Rightarrow> string list" where
  "clean_experience lo hi =
     (let bad = (\<lambda>x. case x of None \<Rightarrow> [] | Some i \<Rightarrow>
            if (i::int) < 0 then [''Input should be greater than or equal to 0''] else []);
          es = bad lo @ bad hi in
      if es \<noteq> [] then es
      else (case (lo, hi) of
              (Some a, Some b) \<Rightarrow>
                if a > b then [''experience.min cannot be greater than experience.max''] else []
            | _ \<Rightarrow> []))"

definition errors_of :: "'e + 'a \<Rightarrow> 'e list" where
  "errors_of r = (case r of Inl e \<Rightarrow> [e] | Inr _ \<Rightarrow> [])"

definition ge_zero :: "rat option \<Rightarrow> string list" where
  "ge_zero x = (case x of None \<Rightarrow> [] | Some q \<Rightarrow>
     if q < 0 then [''Input should be greater than or equal to 0''] else [])"

definition score_errors :: "int \<Rightarrow> string list" where
  "score_errors k =
     (if k < 0 then [''Input should be greater than or equal to 0'']
      else if k > 100 then [''Input should be less than or equal to 100''] else [])"

definition validation_errors :: "preferences \<Rightarrow> string list" where
  "validation_errors p =
     errors_of (clean_values (pf_titles p) ''titles'')
     @ errors_of (clean_values (pf_must_have p) ''must_have'')
     @ errors_of (clean_values (pf_nice_to_have p) ''nice_to_have'')
     @ errors_of (clean_values (pf_locations p) ''preferred locations'')
     @ errors_of (clean_work_mode (pf_work_mode p))
     @ clean_experience (pf_experience_min p) (pf_experience_max p)
     @ ge_zero (pf_minimum_lpa p)
     @ errors_of (clean_values (pf_companies p) ''preferred companies'')
     @ errors_of (clean_values (pf_exclusions p) ''exclusions'')
     @ score_errors (pf_minimum_score p)"

definition validate :: "preferences \<Rightarrow> string list + preferences" where
  "validate p =
     (if validation_errors p \<noteq> [] then Inl (validation_errors p)
      else Inr (p\<lparr>pf_titles := projr (clean_values (pf_titles p) ''titles''),
         pf_must_have := projr (clean_values (pf_must_have p) ''must_have''),
         pf_nice_to_have := projr (clean_values (pf_nice_to_have p) ''nice_to_have''),
         pf_locations := projr (clean_values (pf_locations p) ''preferred locations''),
         pf_work_mode := projr (clean_work_mode (pf_work_mode p)),
         pf_companies := projr (clean_values (pf_companies p) ''preferred companies''),
         pf_exclusions := projr (clean_values (pf_exclusions p) ''exclusions'')\<rparr>))"

section \<open>The JSON form\<close>

text \<open>\<open>normalize_preferences\<close>: \<open>model_dump(mode="json")\<close>.\<close>

definition jrat_opt :: "rat option \<Rightarrow> json" where
  "jrat_opt x = (case x of None \<Rightarrow> JNull | Some q \<Rightarrow> JFloat q)"

definition dump_fields :: "preferences \<Rightarrow> (string \<times> json) list" where
  "dump_fields p =
     [(''titles'', jstrs (pf_titles p)),
      (''skills'', JObj [(''must_have'', jstrs (pf_must_have p)),
                         (''nice_to_have'', jstrs (pf_nice_to_have p))]),
      (''locations'', JObj [(''preferred'', jstrs (pf_locations p))]),
      (''work_mode'', jstrs (pf_work_mode p)),
      (''experience'', JObj [(''min'', jint_opt (pf_experience_min p)),
                             (''max'', jint_opt (pf_experience_max p))]),
      (''salary'', JObj [(''minimum_lpa'', jrat_opt (pf_minimum_lpa p))]),
      (''companies'', JObj [(''preferred'', jstrs (pf_companies p))]),
      (''exclusions'', jstrs (pf_exclusions p)),
      (''matching'', JObj [(''minimum_score'', JInt (pf_minimum_score p))])]"

definition normalize_preferences :: "preferences \<Rightarrow> json" where
  "normalize_preferences p = JObj (dump_fields p)"

text \<open>Reading a typed field: absent means the default, the wrong type means no value.\<close>

primrec str_of_json :: "json \<Rightarrow> string option" where
  "str_of_json (JStr s) = Some s"
| "str_of_json JNull = None"
| "str_of_json (JBool b) = None"
| "str_of_json (JInt i) = None"
| "str_of_json (JFloat q) = None"
| "str_of_json (JArr xs) = None"
| "str_of_json (JObj kvs) = None"

fun all_some :: "'a option list \<Rightarrow> 'a list option" where
  "all_some [] = Some []"
| "all_some (None # xs) = None"
| "all_some (Some x # xs) = map_option ((#) x) (all_some xs)"

definition strs_of_json :: "json \<Rightarrow> string list option" where
  "strs_of_json j = (case j of JArr xs \<Rightarrow> all_some (map str_of_json xs) | _ \<Rightarrow> None)"

definition int_opt_of_json :: "json \<Rightarrow> int option option" where
  "int_opt_of_json j = (case j of JNull \<Rightarrow> Some None | JInt i \<Rightarrow> Some (Some i) | _ \<Rightarrow> None)"

definition rat_opt_of_json :: "json \<Rightarrow> rat option option" where
  "rat_opt_of_json j = (case j of JNull \<Rightarrow> Some None | JInt i \<Rightarrow> Some (Some (of_int i))
     | JFloat q \<Rightarrow> Some (Some q) | _ \<Rightarrow> None)"

definition int_of_json :: "json \<Rightarrow> int option" where
  "int_of_json j = (case j of JInt i \<Rightarrow> Some i | _ \<Rightarrow> None)"

definition obj_of_json :: "json \<Rightarrow> (string \<times> json) list option" where
  "obj_of_json j = (case j of JObj kvs \<Rightarrow> Some kvs | _ \<Rightarrow> None)"

definition field :: "(json \<Rightarrow> 'a option) \<Rightarrow> 'a \<Rightarrow> (string \<times> json) list \<Rightarrow> string \<Rightarrow> 'a option" where
  "field rd dflt kvs k = (case map_of kvs k of None \<Rightarrow> Some dflt | Some j \<Rightarrow> rd j)"

definition sub_field ::
  "(json \<Rightarrow> 'a option) \<Rightarrow> 'a \<Rightarrow> (string \<times> json) list \<Rightarrow> string \<Rightarrow> string \<Rightarrow> 'a option" where
  "sub_field rd dflt kvs k k' =
     (case field obj_of_json [] kvs k of None \<Rightarrow> None | Some sub \<Rightarrow> field rd dflt sub k')"

definition allowed_keys :: "string list" where
  "allowed_keys = [''titles'', ''skills'', ''locations'', ''work_mode'', ''experience'', ''salary'',
     ''companies'', ''exclusions'', ''matching'']"

text \<open>The fields with their types; unknown top-level keys are forbidden.\<close>

definition parse_fields :: "(string \<times> json) list \<Rightarrow> preferences option" where
  "parse_fields kvs =
     (if \<exists>k\<in>set (map fst kvs). k \<notin> set allowed_keys then None
      else (case (field strs_of_json [] kvs ''titles'', sub_field strs_of_json [] kvs ''skills'' ''must_have'',
                  sub_field strs_of_json [] kvs ''skills'' ''nice_to_have'',
                  sub_field strs_of_json [] kvs ''locations'' ''preferred'',
                  field strs_of_json [] kvs ''work_mode'',
                  sub_field int_opt_of_json None kvs ''experience'' ''min'',
                  sub_field int_opt_of_json None kvs ''experience'' ''max'') of
              (Some t, Some m, Some n, Some l, Some w, Some lo, Some hi) \<Rightarrow>
                (case (sub_field rat_opt_of_json None kvs ''salary'' ''minimum_lpa'',
                       sub_field strs_of_json [] kvs ''companies'' ''preferred'',
                       field strs_of_json [] kvs ''exclusions'',
                       sub_field int_of_json 75 kvs ''matching'' ''minimum_score'') of
                   (Some s, Some c, Some e, Some k) \<Rightarrow>
                     Some \<lparr>pf_titles = t, pf_must_have = m, pf_nice_to_have = n, pf_locations = l,
                           pf_work_mode = w, pf_experience_min = lo, pf_experience_max = hi,
                           pf_minimum_lpa = s, pf_companies = c, pf_exclusions = e,
                           pf_minimum_score = k\<rparr>
                 | _ \<Rightarrow> None)
            | _ \<Rightarrow> None))"

text \<open>\<open>PreferenceInput.model_validate\<close>.\<close>

definition load :: "json \<Rightarrow> string list + preferences" where
  "load j =
     (case obj_of_json j of
        None \<Rightarrow> Inl [''Input should be a valid dictionary'']
      | Some kvs \<Rightarrow>
          (case parse_fields kvs of
             None \<Rightarrow> Inl [''Input should be of the declared type'']
           | Some p \<Rightarrow> validate p))"

section \<open>What validation accepts\<close>

definition clean :: "string list \<Rightarrow> bool" where
  "clean vs \<longleftrightarrow> (\<forall>v\<in>set vs. v \<noteq> [] \<and> strip v = v) \<and> distinct (map casefold vs)"

definition prefs_ok :: "preferences \<Rightarrow> bool" where
  "prefs_ok p \<longleftrightarrow> clean (pf_titles p) \<and> clean (pf_must_have p) \<and> clean (pf_nice_to_have p)
     \<and> clean (pf_locations p) \<and> clean (pf_work_mode p) \<and> set (pf_work_mode p) \<subseteq> set supported_modes
     \<and> clean (pf_companies p) \<and> clean (pf_exclusions p)
     \<and> (\<forall>a. pf_experience_min p = Some a \<longrightarrow> 0 \<le> a) \<and> (\<forall>b. pf_experience_max p = Some b \<longrightarrow> 0 \<le> b)
     \<and> (\<forall>a b. pf_experience_min p = Some a \<longrightarrow> pf_experience_max p = Some b \<longrightarrow> a \<le> b)
     \<and> (\<forall>q. pf_minimum_lpa p = Some q \<longrightarrow> 0 \<le> q)
     \<and> 0 \<le> pf_minimum_score p \<and> pf_minimum_score p \<le> 100"

lemma length_remdups_map: "length (remdups (map f xs)) = length xs \<longleftrightarrow> distinct (map f xs)"
  using length_remdups_eq [of "map f xs"] by (simp add: remdups_id_iff_distinct)

lemma clean_values_eq:
  "clean (map strip vs) \<Longrightarrow> clean_values vs f = Inr (map strip vs)"
  "\<not> clean (map strip vs) \<Longrightarrow> \<exists>e. clean_values vs f = Inl e"
proof -
  have e: "[] \<in> set (map strip vs) \<longleftrightarrow> (\<exists>v\<in>set vs. strip v = [])" by force
  show "clean (map strip vs) \<Longrightarrow> clean_values vs f = Inr (map strip vs)"
    unfolding clean_values_def Let_def e by (simp add: clean_def length_remdups_map)
  show "\<not> clean (map strip vs) \<Longrightarrow> \<exists>e. clean_values vs f = Inl e"
    unfolding clean_values_def Let_def e by (auto simp: clean_def length_remdups_map strip_idem)
qed

lemma errors_clean_values: "errors_of (clean_values vs f) = [] \<longleftrightarrow> clean (map strip vs)"
  using clean_values_eq [of vs f] by (cases "clean (map strip vs)") (auto simp: errors_of_def)

lemma validate_work_modes_eq:
  "validate_work_modes vs = Inr vs \<longleftrightarrow> set vs \<subseteq> set supported_modes"
  "errors_of (validate_work_modes vs) = [] \<longleftrightarrow> set vs \<subseteq> set supported_modes"
proof -
  have "sort (remdups (filter (\<lambda>v. v \<notin> set supported_modes) vs)) = [] \<longleftrightarrow> set vs \<subseteq> set supported_modes"
    by (simp add: filter_empty_conv flip: set_empty) auto
  then show "validate_work_modes vs = Inr vs \<longleftrightarrow> set vs \<subseteq> set supported_modes"
    "errors_of (validate_work_modes vs) = [] \<longleftrightarrow> set vs \<subseteq> set supported_modes"
    by (simp_all add: validate_work_modes_def Let_def errors_of_def)
qed

lemma errors_clean_work_mode:
  "errors_of (clean_work_mode vs) = [] \<longleftrightarrow>
     clean (map strip vs) \<and> set (map strip vs) \<subseteq> set supported_modes"
proof (cases "clean (map strip vs)")
  case True
  then show ?thesis by (simp add: clean_work_mode_def clean_values_eq(1) validate_work_modes_eq(2))
next
  case False
  with clean_values_eq(2) [OF False, of "''work_mode''"] show ?thesis
    by (auto simp: clean_work_mode_def errors_of_def)
qed

lemma clean_work_mode_eq:
  "clean (map strip vs) \<Longrightarrow> set (map strip vs) \<subseteq> set supported_modes \<Longrightarrow>
     clean_work_mode vs = Inr (map strip vs)"
  by (simp add: clean_work_mode_def clean_values_eq(1) validate_work_modes_eq(1) [THEN iffD2])

lemma clean_experience_Nil:
  "clean_experience lo hi = [] \<longleftrightarrow> (\<forall>a. lo = Some a \<longrightarrow> 0 \<le> a) \<and> (\<forall>b. hi = Some b \<longrightarrow> 0 \<le> b)
     \<and> (\<forall>a b. lo = Some a \<longrightarrow> hi = Some b \<longrightarrow> a \<le> b)"
  by (auto simp: clean_experience_def Let_def split: option.split)

lemma other_errors_Nil:
  "ge_zero x = [] \<longleftrightarrow> (\<forall>q. x = Some q \<longrightarrow> 0 \<le> q)"
  "score_errors k = [] \<longleftrightarrow> 0 \<le> k \<and> k \<le> 100"
  by (auto simp: ge_zero_def score_errors_def split: option.split)

text \<open>A document with the space around its entries removed.\<close>

definition stripped :: "preferences \<Rightarrow> preferences" where
  "stripped p = p\<lparr>pf_titles := map strip (pf_titles p), pf_must_have := map strip (pf_must_have p),
     pf_nice_to_have := map strip (pf_nice_to_have p), pf_locations := map strip (pf_locations p),
     pf_work_mode := map strip (pf_work_mode p), pf_companies := map strip (pf_companies p),
     pf_exclusions := map strip (pf_exclusions p)\<rparr>"

lemma validation_errors_Nil: "validation_errors p = [] \<longleftrightarrow> prefs_ok (stripped p)"
  by (simp add: validation_errors_def errors_clean_values errors_clean_work_mode clean_experience_Nil
      other_errors_Nil prefs_ok_def stripped_def conj_ac)

lemma validate_eq:
  "validate p = (if prefs_ok (stripped p) then Inr (stripped p) else Inl (validation_errors p))"
proof (cases "prefs_ok (stripped p)")
  case True
  then have "validation_errors p = []" by (simp add: validation_errors_Nil)
  with True show ?thesis
    by (simp add: validate_def prefs_ok_def stripped_def clean_values_eq(1) clean_work_mode_eq)
next
  case False
  then show ?thesis by (simp add: validate_def validation_errors_Nil)
qed

lemma stripped_ok: "prefs_ok p \<Longrightarrow> stripped p = p"
  by (simp add: stripped_def prefs_ok_def clean_def map_idI)

lemma all_some_map: "all_some (map Some xs) = Some xs"
  by (induction xs) auto

lemma strs_of_json_jstrs: "strs_of_json (jstrs xs) = Some xs"
  by (simp add: strs_of_json_def jstrs_def comp_def all_some_map)

lemma opt_of_json [simp]:
  "int_opt_of_json (jint_opt x) = Some x" "rat_opt_of_json (jrat_opt y) = Some y"
  by (simp_all add: int_opt_of_json_def jint_opt_def rat_opt_of_json_def jrat_opt_def split: option.split)

lemma parse_dump: "parse_fields (dump_fields p) = Some p"
  by (simp add: parse_fields_def dump_fields_def allowed_keys_def sub_field_def field_def obj_of_json_def
      strs_of_json_jstrs int_of_json_def)

text \<open>
  C20. The stored form of a document is read back as the same document: whatever validation
  accepts is in normal form, validating it again changes nothing, and loading its JSON gives it
  back.
\<close>

theorem preferences_roundtrip:
  assumes "validate p = Inr q"
  shows "prefs_ok q \<and> validate q = Inr q \<and> load (normalize_preferences q) = Inr q"
proof -
  have ok: "prefs_ok q" using assms by (auto simp: validate_eq split: if_splits)
  then show ?thesis
    by (simp add: validate_eq stripped_ok load_def normalize_preferences_def obj_of_json_def parse_dump)
qed

definition preferences_ex :: preferences where
  "preferences_ex = default_preferences\<lparr>pf_titles := [''  Engineer ''], pf_must_have := [''Python'', ''SQL''],
     pf_work_mode := [''remote''], pf_experience_min := Some 2, pf_experience_max := Some 5\<rparr>"

definition normal_ex :: preferences where
  "normal_ex = preferences_ex\<lparr>pf_titles := [''Engineer'']\<rparr>"

lemma validate_ex: "validate preferences_ex = Inr normal_ex"
  by code_simp

theorem preferences_roundtrip_witness:
  "load (normalize_preferences normal_ex) = Inr normal_ex"
  using preferences_roundtrip [OF validate_ex] by simp

text \<open>
  C21. What validation rejects: a document is refused exactly when a list has a blank entry or
  two entries that differ only in case and surrounding space, a work mode is unknown, or a
  number is out of its range.
\<close>

theorem validation_exact:
  "(\<exists>es. validate p = Inl es \<and> es \<noteq> []) \<longleftrightarrow> \<not> prefs_ok (stripped p)"
  by (auto simp: validate_eq validation_errors_Nil)

end
