(* ===== verification/Preference_Store.thy ===== *)
theory Preference_Store
  imports Preferences Auth_Api
begin

text \<open>
  Preference profiles in the database: \<open>app/repositories/preferences.py\<close>, the services of both
  API versions, account deletion, and the routes of \<open>api/v1/preferences.py\<close>,
  \<open>api/v2/preferences.py\<close> and \<open>api/v1/users.py\<close>. The two versions share the contract
  \<open>profile_publisher\<close>, which both interpret.
\<close>

section \<open>The repository\<close>

definition bare_user :: "uuid \<Rightarrow> time \<Rightarrow> user" where
  "bare_user i t =
     \<lparr>u_id = i, u_email = None, u_password_hash = None, u_timezone = ''Asia/Kolkata'',
      u_status = ''active'', u_email_verified_at = None, u_failed_login_attempts = 0,
      u_locked_until = None, u_created_at = t, u_updated_at = t\<rparr>"

definition ensure_user :: "uuid \<Rightarrow> ('r, unit) op" where
  "ensure_user i =
     bindP (get_user i) (\<lambda>found.
     whenP (found = None)
       (bindP now_utc (\<lambda>t.
        bindP (alter (\<lambda>d. d\<lparr>users := users d @ [bare_user i t]\<rparr>)) (\<lambda>_.
        flush_session))))"

definition active_profiles :: "db \<Rightarrow> uuid \<Rightarrow> preference_profile list" where
  "active_profiles d i = filter (\<lambda>p. pp_user_id p = i \<and> pp_is_active p) (preference_profiles d)"

text \<open>\<open>scalar_one_or_none\<close> raises when there is more than one row.\<close>

definition repo_get_active :: "uuid \<Rightarrow> ('r, preference_profile option) op" where
  "repo_get_active i =
     bindP (query (\<lambda>d. active_profiles d i)) (\<lambda>ps.
     (case ps of [] \<Rightarrow> ret None | [p] \<Rightarrow> ret (Some p)
      | _ \<Rightarrow> raise (Foreign ''Multiple rows were found when one or none was required'' None False)))"

definition latest_version :: "db \<Rightarrow> uuid \<Rightarrow> int" where
  "latest_version d i =
     (let vs = map pp_version (filter (\<lambda>p. pp_user_id p = i) (preference_profiles d))
      in if vs = [] then 0 else Max (set vs))"

definition get_latest_version :: "uuid \<Rightarrow> ('r, int) op" where
  "get_latest_version i = query (\<lambda>d. latest_version d i)"

definition deactivated :: "uuid \<Rightarrow> preference_profile list \<Rightarrow> preference_profile list" where
  "deactivated i ps = update_where (\<lambda>p. pp_user_id p = i \<and> pp_is_active p) (\<lambda>p. p\<lparr>pp_is_active := False\<rparr>) ps"

definition deactivate_active :: "uuid \<Rightarrow> ('r, unit) op" where
  "deactivate_active i = alter (\<lambda>d. d\<lparr>preference_profiles := deactivated i (preference_profiles d)\<rparr>)"

definition create_profile ::
  "uuid \<Rightarrow> int \<Rightarrow> json \<Rightarrow> (string \<times> int) list \<Rightarrow> ('r, preference_profile) op" where
  "create_profile uid version config weights =
     bindP uuid4 (\<lambda>i.
     bindP now_utc (\<lambda>t.
     let p = \<lparr>pp_id = i, pp_user_id = uid, pp_version = version, pp_config = config,
              pp_matching_weights = weights, pp_is_active = True, pp_created_at = t\<rparr> in
     bindP (alter (\<lambda>d. d\<lparr>preference_profiles := preference_profiles d @ [p]\<rparr>)) (\<lambda>_.
     bindP commit_session (\<lambda>_.
     bindP refresh_session (\<lambda>_. ret p)))))"

section \<open>The services\<close>

record preference_response =
  pr_preferences :: preferences
  pr_version :: int
  pr_is_active :: bool
  pr_weights :: "(string \<times> int) list"

text \<open>A response is built from the stored document, which is validated again.\<close>

definition loaded :: "json \<Rightarrow> ('r, preferences) op" where
  "loaded j = (case load j of Inl es \<Rightarrow> raise (ValueError (join ''; '' es)) | Inr p \<Rightarrow> ret p)"

definition v1_response :: "preference_profile \<Rightarrow> ('r, preference_response) op" where
  "v1_response p = bindP (loaded (pp_config p)) (\<lambda>c.
     ret \<lparr>pr_preferences = c, pr_version = pp_version p, pr_is_active = pp_is_active p,
          pr_weights = pp_matching_weights p\<rparr>)"

definition v1_get_active :: "uuid \<Rightarrow> ('r, preference_response) op" where
  "v1_get_active uid =
     bindP (repo_get_active uid) (\<lambda>found.
     (case found of None \<Rightarrow> raise (App (err ActivePreferenceNotFound)) | Some p \<Rightarrow> v1_response p))"

definition v1_update :: "uuid \<Rightarrow> preferences \<Rightarrow> ('r, preference_response) op" where
  "v1_update uid prefs =
     bindP (ensure_user uid) (\<lambda>_.
     bindP (get_latest_version uid) (\<lambda>latest.
     bindP (deactivate_active uid) (\<lambda>_.
     bindP (create_profile uid (latest + 1) (normalize_preferences prefs) default_weights) v1_response)))"

record v2_response =
  v2_profile_id :: uuid
  v2_version :: int
  v2_status :: string
  v2_preferences :: preferences
  v2_weights :: "(string \<times> int) list"
  v2_created_at :: time

definition to_v2_response :: "preference_profile \<Rightarrow> ('r, v2_response) op" where
  "to_v2_response p = bindP (loaded (pp_config p)) (\<lambda>c.
     ret \<lparr>v2_profile_id = pp_id p, v2_version = pp_version p,
          v2_status = (if pp_is_active p then ''active'' else ''inactive''), v2_preferences = c,
          v2_weights = pp_matching_weights p, v2_created_at = pp_created_at p\<rparr>)"

definition v2_get_active :: "uuid \<Rightarrow> ('r, v2_response) op" where
  "v2_get_active uid =
     bindP (repo_get_active uid) (\<lambda>found.
     (case found of None \<Rightarrow> raise (App (err ActivePreferenceNotFound)) | Some p \<Rightarrow> to_v2_response p))"

definition v2_update :: "uuid \<Rightarrow> preferences \<Rightarrow> ('r, v2_response) op" where
  "v2_update uid prefs =
     bindP (ensure_user uid) (\<lambda>_.
     bindP (get_latest_version uid) (\<lambda>latest.
     bindP (deactivate_active uid) (\<lambda>_.
     bindP (create_profile uid (latest + 1) (normalize_preferences prefs) default_weights) to_v2_response)))"

section \<open>Account deletion (deletion_service.py)\<close>

text \<open>
  \<open>DELETE FROM users\<close> with the foreign keys of the models: every row that refers to the account
  goes with it, and what refers to those rows; audit events stay without their actor.
\<close>

definition delete_user_cascade :: "uuid \<Rightarrow> db \<Rightarrow> db" where
  "delete_user_cascade i d =
     (let gone_sessions = map as_id (filter (\<lambda>s. as_user_id s = i) (auth_sessions d));
          gone_profiles = map pp_id (filter (\<lambda>p. pp_user_id p = i) (preference_profiles d));
          gone_sources = map so_id (filter (\<lambda>s. so_user_id s = i) (sources d))
      in d\<lparr>users := delete_where (\<lambda>u. u_id u = i) (users d),
           user_roles := delete_where (\<lambda>x. ur_user_id x = i) (user_roles d),
           refresh_tokens := delete_where (\<lambda>t. rt_user_id t = i
               \<or> (\<exists>s\<in>set gone_sessions. rt_session_id t = Some s)) (refresh_tokens d),
           auth_sessions := delete_where (\<lambda>s. as_user_id s = i) (auth_sessions d),
           verification_codes := delete_where (\<lambda>c. vc_user_id c = i) (verification_codes d),
           audit_events := update_where (\<lambda>e. ev_actor_user_id e = Some i)
               (\<lambda>e. e\<lparr>ev_actor_user_id := None\<rparr>) (audit_events d),
           preference_profiles := delete_where (\<lambda>p. pp_user_id p = i) (preference_profiles d),
           sources := delete_where (\<lambda>s. so_user_id s = i) (sources d),
           ingestion_runs := delete_where (\<lambda>r. ir_source_id r \<in> set gone_sources) (ingestion_runs d),
           job_source_records := delete_where (\<lambda>r. sr_source_id r \<in> set gone_sources) (job_source_records d),
           job_feedbacks := delete_where (\<lambda>f. jf_user_id f = i) (job_feedbacks d),
           match_results := delete_where (\<lambda>m. mr_preference_profile_id m \<in> set gone_profiles) (match_results d),
           notification_deliveries := delete_where (\<lambda>n. nd_user_id n = i
               \<or> nd_profile_id n \<in> set gone_profiles) (notification_deliveries d)\<rparr>)"

definition delete_user :: "uuid \<Rightarrow> ('r, bool) op" where
  "delete_user i =
     bindP (get_user i) (\<lambda>found.
     (case found of
        None \<Rightarrow> raise (App (err UserNotFound))
      | Some _ \<Rightarrow>
          bindP (alter (delete_user_cascade i)) (\<lambda>_.
          bindP commit_session (\<lambda>_. ret True))))"

section \<open>The routes\<close>

definition weights_json :: "(string \<times> int) list \<Rightarrow> json" where
  "weights_json ws = JObj (map (\<lambda>(k, v). (k, JInt v)) ws)"

definition v1_json :: "preference_response \<Rightarrow> json" where
  "v1_json r = JObj (dump_fields (pr_preferences r) @
     [(''version'', JInt (pr_version r)), (''is_active'', JBool (pr_is_active r)),
      (''weights'', weights_json (pr_weights r))])"

definition v2_json :: "v2_response \<Rightarrow> json" where
  "v2_json r = JObj
     [(''api_version'', JStr ''v2''), (''profile_id'', JStr (uuid_str (v2_profile_id r))),
      (''version'', JInt (v2_version r)), (''status'', JStr (v2_status r)),
      (''preferences'', normalize_preferences (v2_preferences r)),
      (''matching_weights'', weights_json (v2_weights r)),
      (''created_at'', JStr (iso_z (v2_created_at r)))]"

definition answer_v2 :: "int \<Rightarrow> request \<Rightarrow> json \<Rightarrow> 'r route" where
  "answer_v2 st rq body =
     (case success_response body (Some rq) ''v2'' None None None of
        None \<Rightarrow> raise (ValueError ''ResponseMeta'')
      | Some b \<Rightarrow> ret (st, b))"

definition get_preferences_route :: "lib \<Rightarrow> settings \<Rightarrow> credentials \<Rightarrow> request \<Rightarrow> 'r route" where
  "get_preferences_route L S cred rq =
     bindP (request_user_id L S cred rq) (\<lambda>uid.
     bindP (v1_get_active uid) (\<lambda>r. answer 200 rq (v1_json r)))"

definition validate_preferences_route :: "request \<Rightarrow> preferences \<Rightarrow> 'r route" where
  "validate_preferences_route rq prefs = answer 200 rq (normalize_preferences prefs)"

definition update_preferences_route ::
  "lib \<Rightarrow> settings \<Rightarrow> credentials \<Rightarrow> request \<Rightarrow> preferences \<Rightarrow> 'r route" where
  "update_preferences_route L S cred rq prefs =
     bindP (request_user_id L S cred rq) (\<lambda>uid.
     bindP (v1_update uid prefs) (\<lambda>r. answer 201 rq (v1_json r)))"

definition get_preferences_v2_route :: "lib \<Rightarrow> settings \<Rightarrow> credentials \<Rightarrow> request \<Rightarrow> 'r route" where
  "get_preferences_v2_route L S cred rq =
     bindP (request_user_id L S cred rq) (\<lambda>uid.
     bindP (v2_get_active uid) (\<lambda>r. answer_v2 200 rq (v2_json r)))"

definition update_preferences_v2_route ::
  "lib \<Rightarrow> settings \<Rightarrow> credentials \<Rightarrow> request \<Rightarrow> preferences \<Rightarrow> 'r route" where
  "update_preferences_v2_route L S cred rq prefs =
     bindP (request_user_id L S cred rq) (\<lambda>uid.
     bindP (v2_update uid prefs) (\<lambda>r. answer_v2 201 rq (v2_json r)))"

definition delete_me_route :: "lib \<Rightarrow> settings \<Rightarrow> credentials \<Rightarrow> request \<Rightarrow> 'r route" where
  "delete_me_route L S cred rq =
     bindP (request_user_id L S cred rq) (\<lambda>uid.
     bindP (delete_user uid) (\<lambda>_. no_content))"

section \<open>Publishing a profile\<close>

definition profile_supply :: "'r world \<Rightarrow> bool" where
  "profile_supply w \<longleftrightarrow> inj (uuid_source (wenv w))
     \<and> (\<forall>k\<ge>tick w. uuid_source (wenv w) k \<notin> pp_id ` set (preference_profiles (work w)))"

text \<open>What publishing a document does to the profiles, and to the accounts.\<close>

definition published :: "uuid \<Rightarrow> preferences \<Rightarrow> db \<Rightarrow> preference_profile \<Rightarrow> db \<Rightarrow> bool" where
  "published uid q d p d' \<longleftrightarrow>
     pp_user_id p = uid \<and> pp_version p = latest_version d uid + 1
     \<and> pp_config p = normalize_preferences q \<and> pp_is_active p
     \<and> preference_profiles d' = deactivated uid (preference_profiles d) @ [p]
     \<and> (\<exists>us. users d' = users d @ us) \<and> uid \<in> u_id ` set (users d')"

lemma latest_version_ge:
  "p \<in> set (preference_profiles d) \<Longrightarrow> pp_user_id p = i \<Longrightarrow> pp_version p \<le> latest_version d i"
  by (auto simp: latest_version_def Let_def filter_empty_conv intro: Max_ge)

lemma deactivated_maps [simp]:
  "map pp_id (deactivated i ps) = map pp_id ps"
  "map (\<lambda>p. (pp_user_id p, pp_version p)) (deactivated i ps) = map (\<lambda>p. (pp_user_id p, pp_version p)) ps"
  "references pp_user_id (deactivated i ps) ids = references pp_user_id ps ids"
  by (simp_all add: deactivated_def map_update_where_key references_update_where)

lemma deactivated_active:
  "filter pp_is_active (deactivated i ps) = filter (\<lambda>p. pp_user_id p \<noteq> i) (filter pp_is_active ps)"
  "filter (\<lambda>p. pp_user_id p = i \<and> pp_is_active p) (deactivated i ps) = []"
  by (induction ps) (auto simp: deactivated_def)

lemma deactivated_other:
  "j \<noteq> i \<Longrightarrow> filter (\<lambda>p. pp_user_id p = j) (deactivated i ps) = filter (\<lambda>p. pp_user_id p = j) ps"
  by (induction ps) (auto simp: deactivated_def)

lemma deactivated_versions:
  "map pp_version (filter (\<lambda>p. pp_user_id p = j) (deactivated i ps)) =
     map pp_version (filter (\<lambda>p. pp_user_id p = j) ps)"
  by (induction ps) (auto simp: deactivated_def)

lemma deactivated_ids: "pp_id ` set (deactivated i ps) = pp_id ` set ps"
  by (metis deactivated_maps(1) list.set_map)

lemma db_ok_publish:
  assumes "db_ok d" "pp_id p \<notin> pp_id ` set (preference_profiles d)"
    and "pp_version p = latest_version d (pp_user_id p) + 1" "pp_user_id p \<in> u_id ` set (users d)"
  shows "db_ok (d\<lparr>preference_profiles := deactivated (pp_user_id p) (preference_profiles d) @ [p]\<rparr>)"
proof -
  have "(pp_user_id p, pp_version p) \<notin> (\<lambda>p. (pp_user_id p, pp_version p)) ` set (preference_profiles d)"
    using latest_version_ge [of _ d "pp_user_id p"] assms(3) by fastforce
  moreover have "(\<lambda>p. (pp_user_id p, pp_version p)) ` set (deactivated (pp_user_id p) (preference_profiles d))
      = (\<lambda>p. (pp_user_id p, pp_version p)) ` set (preference_profiles d)"
    by (metis deactivated_maps(2) list.set_map)
  moreover have "distinct (map pp_user_id (filter (\<lambda>x. pp_is_active x \<and> pp_user_id x \<noteq> pp_user_id p) (preference_profiles d)))"
    using assms(1) distinct_map_filter [of pp_user_id "filter pp_is_active (preference_profiles d)"]
    by (simp add: db_ok_unfold)
  moreover have "pp_user_id p \<notin> pp_user_id ` {x \<in> set (preference_profiles d). pp_is_active x \<and> pp_user_id x \<noteq> pp_user_id p}"
    by auto
  ultimately show ?thesis
    using assms by (simp add: db_ok_unfold deactivated_active deactivated_ids in_ids_mono)
qed

lemma db_ok_bare_user:
  "db_ok d \<Longrightarrow> uid \<notin> u_id ` set (users d) \<Longrightarrow> db_ok (d\<lparr>users := users d @ [bare_user uid t]\<rparr>)"
  by (simp add: db_ok_unfold bare_user_def in_ids_mono in_ids_opt_mono)

lemma ensure_user_run:
  assumes "calm w" "db_ok (work w)"
  obtains us n where "ensure_user uid w = (Inr (), w\<lparr>tick := tick w + n, work := (work w)\<lparr>users := users (work w) @ us\<rparr>\<rparr>)"
    and "db_ok ((work w)\<lparr>users := users (work w) @ us\<rparr>)" "uid \<in> u_id ` set (users (work w) @ us)"
proof (cases "find (\<lambda>u. u_id u = uid) (users (work w))")
  case None
  then have "uid \<notin> u_id ` set (users (work w))" by (auto simp: find_None_iff_all)
  from db_ok_bare_user [OF assms(2) this] show ?thesis
    using None assms
    by (intro that [where us = "[bare_user uid (clock (wenv w) (tick w))]" and n = 2])
      (simp_all add: ensure_user_def get_user_def run_simps whenP_def flush_calm, simp add: bare_user_def)
next
  case (Some u)
  then have "uid \<in> u_id ` set (users (work w))" by (auto dest!: find_SomeD)
  with Some assms show ?thesis
    by (intro that [where us = "[]" and n = 0]) (simp_all add: ensure_user_def get_user_def run_simps whenP_def)
qed

lemma publish_core:
  assumes "calm w" "db_ok (work w)" "profile_supply w"
  obtains p w' where "bindP (ensure_user uid) (\<lambda>_. bindP (get_latest_version uid) (\<lambda>latest.
      bindP (deactivate_active uid) (\<lambda>_. bindP (create_profile uid (latest + 1) (normalize_preferences q) wts) k))) w
      = k p w'"
    and "published uid q (work w) p (work w')" "committed w' = work w'" "db_ok (work w')" "calm w'"
    and "profile_supply w'"
proof -
  obtain us n where e: "ensure_user uid w = (Inr (), w\<lparr>tick := tick w + n, work := (work w)\<lparr>users := users (work w) @ us\<rparr>\<rparr>)"
    and ok: "db_ok ((work w)\<lparr>users := users (work w) @ us\<rparr>)" and uid: "uid \<in> u_id ` set (users (work w) @ us)"
    by (rule ensure_user_run [OF assms(1,2)])
  let ?p = "\<lparr>pp_id = uuid_source (wenv w) (tick w + n), pp_user_id = uid, pp_version = latest_version (work w) uid + 1,
    pp_config = normalize_preferences q, pp_matching_weights = wts, pp_is_active = True,
    pp_created_at = clock (wenv w) (Suc (tick w + n))\<rparr>"
  let ?d = "(work w)\<lparr>users := users (work w) @ us, preference_profiles := deactivated uid (preference_profiles (work w)) @ [?p]\<rparr>"
  let ?w = "w\<lparr>tick := tick w + n + 4, committed := ?d, work := ?d\<rparr>"
  have lv: "latest_version ((work w)\<lparr>users := users (work w) @ us\<rparr>) uid = latest_version (work w) uid"
    by (simp add: latest_version_def)
  have "db_ok ?d"
    using db_ok_publish [OF ok, of ?p] assms(3) uid lv by (simp add: profile_supply_def)
  moreover have "published uid q (work w) ?p ?d" using uid by (simp add: published_def)
  moreover have "profile_supply ?w"
    using assms(3) by (auto simp: profile_supply_def deactivated_ids dest: injD)
  ultimately show ?thesis
    using assms(1) lv
    by (intro that [of ?p ?w])
      (simp_all add: bindP_result [where m = "ensure_user uid", OF e] get_latest_version_def deactivate_active_def
        create_profile_def run_simps Let_def eval_nat_numeral)
qed

locale profile_publisher =
  fixes publish :: "uuid \<Rightarrow> preferences \<Rightarrow> ('r, 'a) op"
    and shown_version :: "'a \<Rightarrow> int"
    and shown_preferences :: "'a \<Rightarrow> preferences"
  assumes publish_done: "calm w \<Longrightarrow> db_ok (work w) \<Longrightarrow> profile_supply w \<Longrightarrow> prefs_ok q \<Longrightarrow>
     \<exists>a p w'. publish uid q w = (Inr a, w') \<and> published uid q (work w) p (work w')
       \<and> committed w' = work w' \<and> db_ok (work w') \<and> calm w' \<and> profile_supply w'
       \<and> shown_version a = pp_version p \<and> shown_preferences a = q"
begin

lemma publish_effect:
  assumes "calm w" "db_ok (work w)" "profile_supply w" "prefs_ok q"
  shows "\<exists>a p w'. publish uid q w = (Inr a, w') \<and> shown_preferences a = q
    \<and> shown_version a = latest_version (work w) uid + 1
    \<and> active_profiles (work w') uid = [p] \<and> pp_config p = normalize_preferences q
    \<and> pp_version p = shown_version a \<and> latest_version (work w') uid = shown_version a
    \<and> (\<forall>j. j \<noteq> uid \<longrightarrow> active_profiles (work w') j = active_profiles (work w) j)
    \<and> length (preference_profiles (work w')) = Suc (length (preference_profiles (work w)))
    \<and> committed w' = work w' \<and> db_ok (work w') \<and> calm w' \<and> profile_supply w'"
proof -
  from publish_done [OF assms, of uid] obtain a p w' where run: "publish uid q w = (Inr a, w')"
    and p: "published uid q (work w) p (work w')" and w': "committed w' = work w'" "db_ok (work w')" "calm w'"
      "profile_supply w'" "shown_version a = pp_version p" "shown_preferences a = q" by blast
  have rows: "preference_profiles (work w') = deactivated uid (preference_profiles (work w)) @ [p]"
    and fields: "pp_user_id p = uid" "pp_is_active p" "pp_version p = latest_version (work w) uid + 1"
      "pp_config p = normalize_preferences q"
    using p by (simp_all add: published_def)
  have "active_profiles (work w') uid = [p]"
    using rows fields by (simp add: active_profiles_def deactivated_active)
  moreover have "active_profiles (work w') j = active_profiles (work w) j" if "j \<noteq> uid" for j
    using rows fields that deactivated_other [OF that, of "preference_profiles (work w)"]
    by (simp add: active_profiles_def flip: filter_filter)
  moreover have "latest_version (work w') uid = pp_version p"
  proof -
    have "Max (insert (pp_version p) (pp_version ` set (filter (\<lambda>x. pp_user_id x = uid) (preference_profiles (work w)))))
        = pp_version p"
      using fields(3) latest_version_ge [of _ "work w" uid] by (intro Max_eqI) force+
    then show ?thesis
      using rows fields(1) deactivated_versions [of uid uid "preference_profiles (work w)"]
      by (simp add: latest_version_def Let_def)
  qed
  ultimately show ?thesis using run rows fields w' by (auto simp: deactivated_def)
qed

end

lemma loaded_published: "prefs_ok q \<Longrightarrow> loaded (normalize_preferences q) = ret q"
  by (simp add: loaded_def load_def normalize_preferences_def obj_of_json_def parse_dump validate_eq stripped_ok)

interpretation v1: profile_publisher v1_update pr_version pr_preferences
proof (unfold_locales, goal_cases)
  case (1 w q uid)
  obtain p w' where "v1_update uid q w = v1_response p w'"
    and p: "published uid q (work w) p (work w')" "committed w' = work w'" "db_ok (work w')" "calm w'" "profile_supply w'"
    unfolding v1_update_def by (rule publish_core [OF 1(1-3)])
  then have "v1_update uid q w = (Inr \<lparr>pr_preferences = q, pr_version = pp_version p, pr_is_active = True,
      pr_weights = pp_matching_weights p\<rparr>, w')"
    using 1(4) by (simp add: v1_response_def published_def loaded_published run_prog)
  with p show ?case by fastforce
qed

interpretation v2: profile_publisher v2_update v2_version v2_preferences
proof (unfold_locales, goal_cases)
  case (1 w q uid)
  obtain p w' where "v2_update uid q w = to_v2_response p w'"
    and p: "published uid q (work w) p (work w')" "committed w' = work w'" "db_ok (work w')" "calm w'" "profile_supply w'"
    unfolding v2_update_def by (rule publish_core [OF 1(1-3)])
  then have "v2_update uid q w = (Inr \<lparr>v2_profile_id = pp_id p, v2_version = pp_version p, v2_status = ''active'',
      v2_preferences = q, v2_weights = pp_matching_weights p, v2_created_at = pp_created_at p\<rparr>, w')"
    using 1(4) by (simp add: to_v2_response_def published_def loaded_published run_prog)
  with p show ?case by fastforce
qed

section \<open>Properties\<close>

text \<open>
  Updating preferences: the new document becomes the one active profile of the user, with
  the next version number; the earlier profiles stay, inactive, the profiles of other users are
  untouched, and both API versions then serve exactly the document that was stored.
\<close>

theorem preference_update_effect:
  assumes "calm w" "db_ok (work w)" "profile_supply w" "prefs_ok q"
  shows "\<exists>r p w'. v1_update uid q w = (Inr r, w') \<and> pr_version r = latest_version (work w) uid + 1
    \<and> active_profiles (work w') uid = [p] \<and> pp_version p = pr_version r
    \<and> length (preference_profiles (work w')) = Suc (length (preference_profiles (work w)))
    \<and> (\<forall>j. j \<noteq> uid \<longrightarrow> active_profiles (work w') j = active_profiles (work w) j)
    \<and> committed w' = work w' \<and> db_ok (work w')
    \<and> (\<exists>r1. v1_get_active uid w' = (Inr r1, w') \<and> pr_preferences r1 = q)
    \<and> (\<exists>r2. v2_get_active uid w' = (Inr r2, w') \<and> v2_preferences r2 = q \<and> v2_status r2 = ''active'')"
proof -
  obtain r p w' where run: "v1_update uid q w = (Inr r, w')" "pr_version r = latest_version (work w) uid + 1"
    and p: "active_profiles (work w') uid = [p]" "pp_config p = normalize_preferences q" "pp_version p = pr_version r"
    and w': "\<forall>j. j \<noteq> uid \<longrightarrow> active_profiles (work w') j = active_profiles (work w) j"
      "length (preference_profiles (work w')) = Suc (length (preference_profiles (work w)))"
      "committed w' = work w'" "db_ok (work w')"
    using v1.publish_effect [OF assms] by blast
  have "pp_is_active p" using arg_cong [where f = set, OF p(1)] by (auto simp: active_profiles_def)
  then have "\<exists>r1. v1_get_active uid w' = (Inr r1, w') \<and> pr_preferences r1 = q"
    "\<exists>r2. v2_get_active uid w' = (Inr r2, w') \<and> v2_preferences r2 = q \<and> v2_status r2 = ''active''"
    using p assms(4)
    by (simp_all add: loaded_published v1_get_active_def v2_get_active_def repo_get_active_def v1_response_def to_v2_response_def run_simps)
  then show ?thesis using run p(1,3) w' by blast
qed

lemma profile_supply_ex: "profile_supply (world_ex db_ex)"
  by (auto simp: profile_supply_def sample_defs inj_def)

theorem preference_update_effect_witness:
  "\<exists>r w'. v1_update 1 normal_ex (world_ex db_ex) = (Inr r, w') \<and> pr_version r = 1
     \<and> (\<exists>r2. v2_get_active 1 w' = (Inr r2, w') \<and> v2_preferences r2 = normal_ex)"
proof -
  have "prefs_ok normal_ex" using validate_ex by (auto simp: validate_eq split: if_splits)
  moreover have "latest_version db_ex 1 = 0" by (simp add: latest_version_def sample_defs)
  ultimately show ?thesis
    using preference_update_effect [of "world_ex db_ex" normal_ex 1] profile_supply_ex by auto
qed

text \<open>A sequence of updates through either API version.\<close>

definition publish_by :: "bool \<Rightarrow> uuid \<Rightarrow> preferences \<Rightarrow> 'r world \<Rightarrow> 'r world" where
  "publish_by v2 uid q w = (if v2 then snd (v2_update uid q w) else snd (v1_update uid q w))"

text \<open>
  History: any sequence of updates of one user, through both API versions in any order, adds
  one profile per update, numbers them without gaps, and leaves exactly the last one active.
\<close>

theorem preference_history:
  assumes "calm w" "db_ok (work w)" "profile_supply w"
    and "\<forall>(v, q)\<in>set us. prefs_ok q" and "us \<noteq> []"
    and "w' = fold (\<lambda>(v, q). publish_by v uid q) us w"
  shows "latest_version (work w') uid = latest_version (work w) uid + int (length us)
    \<and> length (preference_profiles (work w')) = length (preference_profiles (work w)) + length us
    \<and> (\<exists>p. active_profiles (work w') uid = [p] \<and> pp_config p = normalize_preferences (snd (last us))
         \<and> pp_version p = latest_version (work w') uid)"
  using assms
proof (induction us arbitrary: w)
  case Nil
  then show ?case by simp
next
  case (Cons u us)
  obtain v q where u: "u = (v, q)" by fastforce
  let ?w = "publish_by v uid q w"
  have q: "prefs_ok q" using Cons.prems(4) u by simp
  have step: "calm ?w \<and> db_ok (work ?w) \<and> profile_supply ?w
      \<and> latest_version (work ?w) uid = latest_version (work w) uid + 1
      \<and> length (preference_profiles (work ?w)) = Suc (length (preference_profiles (work w)))
      \<and> (\<exists>p. active_profiles (work ?w) uid = [p] \<and> pp_config p = normalize_preferences q
           \<and> pp_version p = latest_version (work ?w) uid)"
    using v1.publish_effect [OF Cons.prems(1-3) q, of uid] v2.publish_effect [OF Cons.prems(1-3) q, of uid]
    by (cases v) (auto simp: publish_by_def)
  show ?case
  proof (cases "us = []")
    case True
    then show ?thesis using step Cons.prems(6) u by auto
  next
    case False
    then show ?thesis using Cons.IH [of ?w] step Cons.prems(4,6) u by auto
  qed
qed

theorem preference_history_witness:
  "let w' = fold (\<lambda>(v, q). publish_by v 1 q) [(False, normal_ex), (True, default_preferences)] (world_ex db_ex)
   in latest_version (work w') 1 = 2 \<and> length (preference_profiles (work w')) = 2"
proof -
  have ok: "\<forall>(v, q)\<in>set [(False, normal_ex), (True, default_preferences)]. prefs_ok q"
    using validate_ex by (auto simp: validate_eq prefs_ok_def default_preferences_def clean_def split: if_splits)
  have "latest_version db_ex 1 = 0" "preference_profiles db_ex = []"
    by (simp_all add: latest_version_def sample_defs)
  then show ?thesis
    using preference_history [OF _ _ profile_supply_ex ok _ refl, of 1] by (simp add: Let_def)
qed

section \<open>Deleting an account\<close>

text \<open>Deleting parents together with the children that refer to them keeps a foreign key.\<close>

lemma references_delete:
  assumes "references f xs (map k ys)" "\<And>x y. \<not> Q x \<Longrightarrow> f x = k y \<Longrightarrow> y \<in> set ys \<Longrightarrow> \<not> P y"
  shows "references f (delete_where Q xs) (map k (delete_where P ys))"
  using assms by (fastforce simp: references_def)

lemma references_opt_delete:
  assumes "references_opt f xs (map k ys)"
    and "\<And>x y. \<not> Q x \<Longrightarrow> f x = Some (k y) \<Longrightarrow> y \<in> set ys \<Longrightarrow> \<not> P y"
  shows "references_opt f (delete_where Q xs) (map k (delete_where P ys))"
  using assms by (fastforce simp: references_opt_def split: option.splits)

lemma audit_actor_delete:
  assumes "references_opt ev_actor_user_id es (map u_id us)"
  shows "references_opt ev_actor_user_id
      (update_where (\<lambda>e. ev_actor_user_id e = Some i) (\<lambda>e. e\<lparr>ev_actor_user_id := None\<rparr>) es)
      (map u_id (delete_where (\<lambda>u. u_id u = i) us))"
  using assms by (induction es) (auto split: option.splits)

lemma distinct_present_delete: "distinct (present f xs) \<Longrightarrow> distinct (present f (delete_where P xs))"
  by (induction xs) (auto simp: delete_where_def set_present split: option.splits)

lemma distinct_filter_delete:
  "distinct (map k (filter Q xs)) \<Longrightarrow> distinct (map k (filter Q (delete_where P xs)))"
  by (induction xs) (auto simp: delete_where_def)

lemma distinct_delete: "distinct xs \<Longrightarrow> distinct (delete_where P xs)"
  by (simp add: delete_where_def)

lemma db_ok_delete_user_cascade:
  assumes "db_ok d"
  shows "db_ok (delete_user_cascade i d)"
  using assms unfolding db_ok_unfold delete_user_cascade_def Let_def
  by (simp add: distinct_present_delete distinct_filter_delete distinct_delete map_update_where_key
      audit_actor_delete)
    (intro conjI; (rule references_delete references_opt_delete; force)?)



end
