(* ===== verification/Ingest_Repo.thy ===== *)
theory Ingest_Repo
  imports Adapters Preference_Store
begin

text \<open>
  \<open>app/domain/jobs/normalizer.py\<close>, \<open>app/repositories/jobs.py\<close> and
  \<open>app/repositories/sources.py\<close>: turning raw records into job candidates, and the tables of
  sources, runs, jobs and source records.
\<close>

section \<open>Normalisation\<close>

record candidate =
  ca_title :: string
  ca_company_name :: string
  ca_company_normalized :: string
  ca_description :: string
  ca_description_hash :: string
  ca_locations :: "json list"
  ca_url :: json
  ca_external_id :: string
  ca_payload :: "(string \<times> json) list"

text \<open>\<open>re.sub(r"[^a-z0-9]+", " ", value.casefold()).strip()\<close>.\<close>

definition is_slug_char :: "char \<Rightarrow> bool" where
  "is_slug_char c = (let n = of_char c :: nat in (48 \<le> n \<and> n \<le> 57) \<or> (97 \<le> n \<and> n \<le> 122))"

fun slug :: "bool \<Rightarrow> string \<Rightarrow> string" where
  "slug gap [] = []"
| "slug gap (c # cs) =
     (if is_slug_char c then c # slug False cs
      else if gap then slug True cs else CHR '' '' # slug True cs)"

definition normalize_company :: "string \<Rightarrow> string" where
  "normalize_company v = strip (slug False (casefold v))"

text \<open>The digest of the stripped description; only text can be stripped.\<close>

definition description_hash :: "lib \<Rightarrow> string \<Rightarrow> string" where
  "description_hash L d = digest L (strip d)"

definition normalize_record :: "lib \<Rightarrow> raw_record \<Rightarrow> string \<Rightarrow> exn + candidate" where
  "normalize_record L r company =
     (let d = (if truthy (rw_description r) then rw_description r else JStr []) in
      (case (rw_title r, d) of
         (JStr t, JStr ds) \<Rightarrow> Inr
           \<lparr>ca_title = join '' '' (split_ws t), ca_company_name = strip company,
            ca_company_normalized = normalize_company company, ca_description = ds,
            ca_description_hash = description_hash L ds,
            ca_locations = (if truthy (rw_location r) then [rw_location r] else []),
            ca_url = rw_url r, ca_external_id = rw_external_id r, ca_payload = rw_payload r\<rparr>
       | (JStr t, _) \<Rightarrow> Inl (AttributeError ''object has no attribute strip'')
       | _ \<Rightarrow> Inl (AttributeError ''object has no attribute split'')))"

section \<open>Jobs (repositories/jobs.py)\<close>

definition get_job :: "uuid \<Rightarrow> ('r, job option) op" where
  "get_job i = query (\<lambda>d. find (\<lambda>j. j_id j = i) (jobs d))"

text \<open>The first job a record of the source with the external identifier points to.\<close>

definition source_match :: "db \<Rightarrow> uuid \<Rightarrow> string \<Rightarrow> job option" where
  "source_match d sid ext = find (\<lambda>j. \<exists>r\<in>set (job_source_records d).
     sr_job_id r = j_id j \<and> sr_source_id r = sid \<and> sr_external_id r = ext) (jobs d)"

definition identity_match :: "db \<Rightarrow> string \<Rightarrow> string \<Rightarrow> job option" where
  "identity_match d url company =
     find (\<lambda>j. j_application_url j = url \<and> j_company_normalized j = company) (jobs d)"

text \<open>A parameter of the wrong type is refused by the driver when the statement is sent.\<close>

definition data_error :: sql_error where
  "data_error = \<lparr>sq_class = Dbapi, sq_diag_constraint = None, sq_orig_constraint = None,
     sq_sqlstate = None, sq_pgcode = None, sq_message = ''invalid input for query argument'',
     sq_invalidated = False\<rparr>"

definition not_null_error :: sql_error where
  "not_null_error = \<lparr>sq_class = Integrity, sq_diag_constraint = None, sq_orig_constraint = None,
     sq_sqlstate = Some ''23502'', sq_pgcode = None, sq_message = ''null value in column'',
     sq_invalidated = False\<rparr>"

definition find_existing :: "uuid \<Rightarrow> candidate \<Rightarrow> ('r, job option) op" where
  "find_existing sid c =
     bindP (query (\<lambda>d. source_match d sid (ca_external_id c))) (\<lambda>found.
     (case found of
        Some j \<Rightarrow> ret (Some j)
      | None \<Rightarrow>
          (case ca_url c of
             JStr url \<Rightarrow> query (\<lambda>d. identity_match d url (ca_company_normalized c))
           | JNull \<Rightarrow> ret None
           | _ \<Rightarrow> raise (Sql data_error))))"

text \<open>The text of the URL for a column that must not be null; a flush reports the other cases.\<close>

definition url_text :: "json \<Rightarrow> ('r, string) op" where
  "url_text v = (case v of JStr s \<Rightarrow> ret s
     | JNull \<Rightarrow> raise_database_error not_null_error
     | _ \<Rightarrow> raise_database_error data_error)"

definition new_job :: "uuid \<Rightarrow> candidate \<Rightarrow> string \<Rightarrow> time \<Rightarrow> job" where
  "new_job i c url t =
     \<lparr>j_id = i, j_title = ca_title c, j_company_name = ca_company_name c,
      j_company_normalized = ca_company_normalized c, j_description = ca_description c,
      j_description_hash = ca_description_hash c, j_locations = ca_locations c,
      j_work_mode = ''unknown'', j_experience_min = None, j_experience_max = None,
      j_salary_min = None, j_salary_max = None, j_salary_currency = None, j_salary_unit = None,
      j_extracted_skills = [], j_application_url = url, j_last_seen_at = t, j_status = ''active''\<rparr>"

definition revised :: "candidate \<Rightarrow> job \<Rightarrow> job" where
  "revised c j = j\<lparr>j_title := ca_title c, j_description := ca_description c,
     j_description_hash := ca_description_hash c, j_locations := ca_locations c\<rparr>"

text \<open>The record of this sighting, which every upsert adds, and the end of the transaction.\<close>

definition add_source_record :: "lib \<Rightarrow> uuid \<Rightarrow> uuid \<Rightarrow> candidate \<Rightarrow> ('r, unit) op" where
  "add_source_record L jid sid c =
     bindP uuid4 (\<lambda>i.
     bindP now_utc (\<lambda>t.
     bindP (url_text (ca_url c)) (\<lambda>url.
     bindP (alter (\<lambda>d. d\<lparr>job_source_records := job_source_records d @
       [\<lparr>sr_id = i, sr_job_id = jid, sr_source_id = sid, sr_external_id = ca_external_id c,
         sr_source_url = url, sr_raw_payload = Some (JObj (ca_payload c)),
         sr_raw_payload_hash = digest L (py_repr (float_repr L) (JObj (ca_payload c))),
         sr_first_seen_at = t, sr_last_seen_at = t\<rparr>]\<rparr>)) (\<lambda>_.
     bindP commit_session (\<lambda>_. refresh_session)))))"

text \<open>\<open>upsert\<close> answers the job's identifier and the flags \<open>created\<close> and \<open>changed\<close>.\<close>

definition upsert :: "lib \<Rightarrow> uuid \<Rightarrow> candidate \<Rightarrow> ('r, uuid \<times> bool \<times> bool) op" where
  "upsert L sid c =
     bindP (find_existing sid c) (\<lambda>found.
     (case found of
        None \<Rightarrow>
          bindP uuid4 (\<lambda>i.
          bindP now_utc (\<lambda>t.
          bindP (url_text (ca_url c)) (\<lambda>url.
          bindP (alter (\<lambda>d. d\<lparr>jobs := jobs d @ [new_job i c url t]\<rparr>)) (\<lambda>_.
          bindP flush_session (\<lambda>_.
          bindP (add_source_record L i sid c) (\<lambda>_. ret (i, True, False)))))))
      | Some j \<Rightarrow>
          bindP (whenP (j_description_hash j \<noteq> ca_description_hash c)
            (alter (\<lambda>d. d\<lparr>jobs := update_where (\<lambda>x. j_id x = j_id j) (revised c) (jobs d)\<rparr>))) (\<lambda>_.
          bindP (add_source_record L (j_id j) sid c) (\<lambda>_.
          ret (j_id j, False, j_description_hash j \<noteq> ca_description_hash c)))))"

section \<open>Sources and runs (repositories/sources.py)\<close>

record source_input =
  si_kind :: string
  si_name :: string
  si_config :: config
  si_schedule :: "string option"
  si_enabled :: bool

text \<open>\<open>SourceInput\<close>: the kinds of the \<open>Literal\<close> and a name that is not empty.\<close>

definition source_input_ok :: "source_input \<Rightarrow> bool" where
  "source_input_ok s = (si_kind s \<in> {''greenhouse'', ''lever''} \<and> 1 \<le> length (si_name s))"

definition repo_create_source :: "uuid \<Rightarrow> source_input \<Rightarrow> ('r, source) op" where
  "repo_create_source uid s =
     bindP (ensure_user uid) (\<lambda>_.
     bindP uuid4 (\<lambda>i.
     let row = \<lparr>so_id = i, so_user_id = uid, so_kind = si_kind s, so_name = si_name s,
                so_config = si_config s, so_credentials_ref = None, so_schedule = si_schedule s,
                so_enabled = si_enabled s, so_last_success_at = None, so_last_error_at = None\<rparr> in
     bindP (alter (\<lambda>d. d\<lparr>sources := sources d @ [row]\<rparr>)) (\<lambda>_.
     bindP commit_session (\<lambda>_.
     bindP refresh_session (\<lambda>_. ret row)))))"

definition repo_get_source :: "uuid \<Rightarrow> ('r, source option) op" where
  "repo_get_source i = query (\<lambda>d. find (\<lambda>s. so_id s = i) (sources d))"

definition repo_get_source_for_user :: "uuid \<Rightarrow> uuid \<Rightarrow> ('r, source option) op" where
  "repo_get_source_for_user i uid =
     query (\<lambda>d. find (\<lambda>s. so_id s = i \<and> so_user_id s = uid) (sources d))"

definition repo_create_run :: "uuid \<Rightarrow> ('r, ingestion_run) op" where
  "repo_create_run sid =
     bindP uuid4 (\<lambda>i.
     bindP now_utc (\<lambda>t.
     let run = \<lparr>ir_id = i, ir_source_id = sid, ir_status = ''running'', ir_started_at = t,
                ir_completed_at = None, ir_fetched_count = 0, ir_normalized_count = 0,
                ir_created_count = 0, ir_updated_count = 0, ir_duplicate_count = 0,
                ir_error_count = 0, ir_error_summary = []\<rparr> in
     bindP (alter (\<lambda>d. d\<lparr>ingestion_runs := ingestion_runs d @ [run]\<rparr>)) (\<lambda>_.
     bindP commit_session (\<lambda>_.
     bindP refresh_session (\<lambda>_. ret run)))))"

definition active_runs :: "db \<Rightarrow> uuid \<Rightarrow> ingestion_run list" where
  "active_runs d sid = sort_key (\<lambda>r. - ir_started_at r)
     (filter (\<lambda>r. ir_source_id r = sid \<and> ir_status r = ''running'') (ingestion_runs d))"

definition repo_get_active_run :: "uuid \<Rightarrow> ('r, ingestion_run option) op" where
  "repo_get_active_run sid =
     query (\<lambda>d. case active_runs d sid of [] \<Rightarrow> None | r # _ \<Rightarrow> Some r)"

definition repo_get_run :: "uuid \<Rightarrow> ('r, ingestion_run option) op" where
  "repo_get_run i = query (\<lambda>d. find (\<lambda>r. ir_id r = i) (ingestion_runs d))"

definition repo_get_run_for_user :: "uuid \<Rightarrow> uuid \<Rightarrow> ('r, ingestion_run option) op" where
  "repo_get_run_for_user i uid = query (\<lambda>d. find (\<lambda>r. ir_id r = i \<and>
     (\<exists>s\<in>set (sources d). so_id s = ir_source_id r \<and> so_user_id s = uid)) (ingestion_runs d))"

record run_result =
  rn_status :: string
  rn_fetched :: int
  rn_errors :: int
  rn_summary :: "(string \<times> json) list"
  rn_created :: int
  rn_updated :: int
  rn_duplicates :: int

definition finished :: "run_result \<Rightarrow> time \<Rightarrow> ingestion_run \<Rightarrow> ingestion_run" where
  "finished v t r = r\<lparr>ir_status := rn_status v, ir_completed_at := Some t,
     ir_fetched_count := rn_fetched v, ir_normalized_count := rn_fetched v,
     ir_error_count := rn_errors v, ir_error_summary := rn_summary v,
     ir_created_count := rn_created v, ir_updated_count := rn_updated v,
     ir_duplicate_count := rn_duplicates v\<rparr>"

definition finish_run :: "uuid \<Rightarrow> run_result \<Rightarrow> ('r, unit) op" where
  "finish_run i v =
     bindP now_utc (\<lambda>t.
     bindP (alter (\<lambda>d. d\<lparr>ingestion_runs :=
              update_where (\<lambda>r. ir_id r = i) (finished v t) (ingestion_runs d)\<rparr>)) (\<lambda>_.
     bindP commit_session (\<lambda>_. refresh_session)))"

definition repo_list_sources :: "uuid \<Rightarrow> ('r, source list) op" where
  "repo_list_sources uid = query (\<lambda>d. filter (\<lambda>s. so_user_id s = uid) (sources d))"

end
