(* ===== verification/Ingestion.thy ===== *)
theory Ingestion
  imports Ingest_Repo
begin

text \<open>
  Ingestion runs: \<open>app/domain/jobs/ingestion_service.py\<close> and \<open>source_service.py\<close>, the worker
  boundary (\<open>app/workers\<close>), the scheduler (\<open>app/scheduler\<close>, \<open>app/processes/scheduler.py\<close>) and
  the routes of \<open>api/v1/sources.py\<close> and \<open>api/v1/runs.py\<close>. The API builds its service without
  Redis (\<open>None\<close>), the scheduler and the workers with it.
\<close>

section \<open>The service\<close>

definition lock_key :: "uuid \<Rightarrow> string" where
  "lock_key sid = ''ingestion:source:'' @ uuid_str sid"

text \<open>The adapters of \<open>build_ingestion_service\<close>.\<close>

definition adapter_for :: "lib \<Rightarrow> string \<Rightarrow> (config \<Rightarrow> ('r, yielded) op) option" where
  "adapter_for L kind =
     (if kind = ''greenhouse'' then Some (greenhouse_fetch (float_repr L))
      else if kind = ''lever'' then Some (lever_fetch (float_repr L)) else None)"

definition supported_kinds :: "string list" where
  "supported_kinds = [''greenhouse'', ''lever'']"

text \<open>\<open>start_run\<close>: the run, and whether it was running already.\<close>

definition start_run ::
  "'r redis option \<Rightarrow> uuid \<Rightarrow> uuid option \<Rightarrow> ('r, ingestion_run \<times> bool) op" where
  "start_run R sid uid =
     bindP (case uid of Some u \<Rightarrow> repo_get_source_for_user sid u | None \<Rightarrow> repo_get_source sid) (\<lambda>found.
     (case found of
        None \<Rightarrow> raise (App (err SourceNotFound))
      | Some s \<Rightarrow>
          if so_kind s \<notin> set supported_kinds then raise (App (err UnsupportedSourceKind))
          else
            bindP (repo_get_active_run sid) (\<lambda>active.
            (case active of
               Some r \<Rightarrow> ret (r, True)
             | None \<Rightarrow>
                 bindP (case R of
                          None \<Rightarrow> ret True
                        | Some rd \<Rightarrow> redis_call (r_set_nx_ex rd (lock_key sid) 900)) (\<lambda>lock.
                 if \<not> lock then raise (App (err IngestionAlreadyRunning))
                 else bindP (repo_create_run sid) (\<lambda>r. ret (r, False)))))))"

definition service_get_run :: "uuid \<Rightarrow> uuid \<Rightarrow> ('r, ingestion_run) op" where
  "service_get_run rid uid =
     bindP (repo_get_run_for_user rid uid) (\<lambda>found.
     (case found of None \<Rightarrow> raise (App (err RunNotFound)) | Some r \<Rightarrow> ret r))"

text \<open>
  One attempt at collecting: the records go to the list \<open>fetched\<close>, which the attempts share, and
  the adapter's count of malformed entries is the one of the last attempt.
\<close>

type_synonym 'r collecting = "'r world \<times> raw_record list \<times> nat"

definition collect :: "('r, yielded) op \<Rightarrow> (exn, 'r collecting, unit) prog" where
  "collect fetch = (\<lambda>(w, fetched, malformed).
     (case fetch w of (res, w') \<Rightarrow>
        (case res of
           Inl e \<Rightarrow> (Inl e, (w', fetched, malformed))
         | Inr y \<Rightarrow>
             ((case yl_error y of None \<Rightarrow> Inr () | Some e \<Rightarrow> Inl e),
              (w', fetched @ yl_records y, yl_malformed y)))))"

text \<open>The loop over the fetched records, with the counters \<open>created\<close>, \<open>updated\<close>, \<open>duplicate\<close>.\<close>

type_synonym counters = "int \<times> int \<times> int"

definition count_upsert :: "bool \<Rightarrow> bool \<Rightarrow> counters \<Rightarrow> counters" where
  "count_upsert created changed k = (case k of (a, b, c) \<Rightarrow>
     (a + of_bool created, b + of_bool changed, c + of_bool (\<not> created \<and> \<not> changed)))"

definition ingest_record ::
  "lib \<Rightarrow> uuid \<Rightarrow> string \<Rightarrow> counters \<Rightarrow> raw_record \<Rightarrow> ('r, counters) op" where
  "ingest_record L sid company k r =
     (case normalize_record L r company of
        Inl e \<Rightarrow> raise e
      | Inr c \<Rightarrow> bindP (upsert L sid c) (\<lambda>(_, created, changed). ret (count_upsert created changed k)))"

definition ingest_all :: "lib \<Rightarrow> uuid option \<Rightarrow> string option \<Rightarrow> raw_record list \<Rightarrow> ('r, counters) op" where
  "ingest_all L sid company rs =
     (case (sid, company) of
        (Some s, Some n) \<Rightarrow> foldP (ingest_record L s n) (0, 0, 0) rs
      | _ \<Rightarrow> ret (0, 0, 0))"

definition success_result :: "nat \<Rightarrow> nat \<Rightarrow> counters \<Rightarrow> run_result" where
  "success_result n malformed k = (case k of (a, b, c) \<Rightarrow>
     \<lparr>rn_status = (if malformed \<noteq> 0 then ''partial'' else ''succeeded''), rn_fetched = int n,
      rn_errors = int malformed,
      rn_summary = (if malformed \<noteq> 0 then [(''malformed_records'', JInt (int malformed))] else []),
      rn_created = a, rn_updated = b, rn_duplicates = c\<rparr>)"

definition failure_result :: "nat \<Rightarrow> string \<Rightarrow> run_result" where
  "failure_result n msg = \<lparr>rn_status = ''failed'', rn_fetched = int n, rn_errors = 1,
     rn_summary = [(''message'', JStr msg)], rn_created = 0, rn_updated = 0, rn_duplicates = 0\<rparr>"

definition complete_run ::
  "lib \<Rightarrow> uuid \<Rightarrow> uuid option \<Rightarrow> string option \<Rightarrow> raw_record list \<Rightarrow> nat \<Rightarrow> ('r, unit) op" where
  "complete_run L rid sid company fetched malformed =
     bindP (repo_get_run rid) (\<lambda>found.
     (case found of
        None \<Rightarrow> ret ()
      | Some _ \<Rightarrow>
          bindP (ingest_all L sid company fetched) (\<lambda>k.
          finish_run rid (success_result (length fetched) malformed k))))"

definition fail_run :: "uuid \<Rightarrow> nat \<Rightarrow> exn \<Rightarrow> ('r, unit) op" where
  "fail_run rid n e =
     bindP (repo_get_run rid) (\<lambda>found.
     bindP (case found of None \<Rightarrow> ret () | Some _ \<Rightarrow> finish_run rid (failure_result n (exn_str e))) (\<lambda>_.
     raise e))"

definition release_lock :: "'r redis option \<Rightarrow> uuid option \<Rightarrow> ('r, unit) op" where
  "release_lock R sid =
     (case (R, sid) of
        (Some rd, Some s) \<Rightarrow> bindP (redis_call (r_delete rd (lock_key s))) (\<lambda>_. ret ())
      | _ \<Rightarrow> ret ())"

definition run_body ::
  "lib \<Rightarrow> ('r, yielded) op \<Rightarrow> uuid \<Rightarrow> uuid option \<Rightarrow> string option \<Rightarrow> ('r, unit) op" where
  "run_body L fetch rid sid company = (\<lambda>w.
     (case with_retries 3 (collect fetch) (w, [], 0) of (res, w', fetched, malformed) \<Rightarrow>
        (case res of
           Inr _ \<Rightarrow> complete_run L rid sid company fetched malformed w'
         | Inl (Adapter m b) \<Rightarrow> fail_run rid (length fetched) (Adapter m b) w'
         | Inl e \<Rightarrow> (Inl e, w'))))"

definition execute_run ::
  "lib \<Rightarrow> 'r redis option \<Rightarrow> uuid \<Rightarrow> config \<Rightarrow> string \<Rightarrow> uuid option \<Rightarrow> string option \<Rightarrow> ('r, unit) op" where
  "execute_run L R rid cfg kind sid company =
     (case adapter_for L kind of
        None \<Rightarrow> raise (KeyError kind)
      | Some fetch \<Rightarrow> finallyP (run_body L (fetch cfg) rid sid company) (release_lock R sid))"

section \<open>Sources (source_service.py)\<close>

definition source_json :: "uuid \<Rightarrow> source_input \<Rightarrow> json" where
  "source_json i s = JObj
     [(''kind'', JStr (si_kind s)), (''name'', JStr (si_name s)), (''config'', JObj (si_config s)),
      (''schedule'', jstr_opt (si_schedule s)), (''enabled'', JBool (si_enabled s)),
      (''id'', JStr (uuid_str i))]"

definition service_create_source :: "uuid \<Rightarrow> source_input \<Rightarrow> ('r, json) op" where
  "service_create_source uid s = bindP (repo_create_source uid s) (\<lambda>row. ret (source_json (so_id row) s))"

definition stored_source :: "source \<Rightarrow> source_input" where
  "stored_source s = \<lparr>si_kind = so_kind s, si_name = so_name s, si_config = so_config s,
     si_schedule = so_schedule s, si_enabled = so_enabled s\<rparr>"

definition service_list_sources :: "uuid \<Rightarrow> ('r, json list) op" where
  "service_list_sources uid = bindP (repo_list_sources uid) (\<lambda>ss.
     ret (map (\<lambda>s. source_json (so_id s) (stored_source s)) ss))"

section \<open>Workers (app/workers)\<close>

definition execute_ingestion_run ::
  "lib \<Rightarrow> 'r redis option \<Rightarrow> source \<Rightarrow> uuid \<Rightarrow> uuid \<Rightarrow> ('r, unit) op" where
  "execute_ingestion_run L R s rid sid =
     execute_run L R rid (so_config s) (so_kind s) (Some sid) (Some (so_name s))"

text \<open>\<open>dispatch_ingestion_run\<close> swallows every exception of the run.\<close>

definition dispatch_ingestion_run :: "lib \<Rightarrow> 'r redis option \<Rightarrow> uuid \<Rightarrow> uuid \<Rightarrow> ('r, unit) op" where
  "dispatch_ingestion_run L R sid rid = session_scope
     (bindP (repo_get_source sid) (\<lambda>found.
      (case found of
         None \<Rightarrow> ret ()
       | Some s \<Rightarrow> catchP (execute_ingestion_run L R s rid sid) (\<lambda>_. ret ()))))"

text \<open>The Celery task; \<open>None\<close> is the result \<open>skipped\<close>, \<open>Some\<close> the completed run.\<close>

definition run_ingestion :: "lib \<Rightarrow> 'r redis option \<Rightarrow> uuid \<Rightarrow> uuid \<Rightarrow> ('r, uuid option) op" where
  "run_ingestion L R sid rid = session_scope
     (bindP (repo_get_source sid) (\<lambda>found.
      (case found of
         None \<Rightarrow> ret None
       | Some s \<Rightarrow> bindP (execute_ingestion_run L R s rid sid) (\<lambda>_. ret (Some rid)))))"

text \<open>\<open>run_ingestion.delay\<close>: the message goes to the broker's queue.\<close>

definition delay :: "uuid \<Rightarrow> uuid \<Rightarrow> ('r, unit) op" where
  "delay sid rid = modify (\<lambda>w. w\<lparr>queued := queued w @ [(uuid_str sid, uuid_str rid)]\<rparr>)"

text \<open>The stages of a workflow, in order; later ones only when they are given.\<close>

definition run_source_workflow ::
  "source \<Rightarrow> (source \<Rightarrow> ('r, json) op) \<Rightarrow> (source \<Rightarrow> ('r, json) op) option \<Rightarrow>
   (source \<Rightarrow> ('r, json) op) option \<Rightarrow> ('r, (string \<times> json) list) op" where
  "run_source_workflow s ingest match notify =
     bindP (ingest s) (\<lambda>a.
     bindP (case match of None \<Rightarrow> ret [] | Some m \<Rightarrow> bindP (m s) (\<lambda>b. ret [(''matching'', b)])) (\<lambda>bs.
     bindP (case notify of None \<Rightarrow> ret [] | Some m \<Rightarrow> bindP (m s) (\<lambda>c. ret [(''notifications'', c)])) (\<lambda>cs.
     ret ([(''source_id'', JStr (uuid_str (so_id s))), (''ingestion'', a)] @ bs @ cs))))"

section \<open>The scheduler\<close>

definition interval_seconds :: "string option \<Rightarrow> int option" where
  "interval_seconds schedule =
     (case schedule of
        None \<Rightarrow> None
      | Some s \<Rightarrow>
          if s = [] \<or> \<not> startswith s ''interval:'' then None
          else (case parse_int 10 (drop 9 s) of
                  None \<Rightarrow> None
                | Some n \<Rightarrow> if n > 0 then Some n else None))"

definition is_due :: "source \<Rightarrow> time \<Rightarrow> bool" where
  "is_due s now =
     (case interval_seconds (so_schedule s) of
        None \<Rightarrow> False
      | Some n \<Rightarrow> so_enabled s \<and>
          (case so_last_success_at s of None \<Rightarrow> True | Some prev \<Rightarrow> now \<ge> prev + seconds n))"

definition skips_source :: "exn \<Rightarrow> bool" where
  "skips_source e = (case e of App a \<Rightarrow>
       isinstance (ae_class a) IngestionAlreadyRunning \<or> isinstance (ae_class a) SourceNotFound
       \<or> isinstance (ae_class a) UnsupportedSourceKind
     | _ \<Rightarrow> False)"

definition schedule_source :: "'r redis option \<Rightarrow> nat \<Rightarrow> source \<Rightarrow> ('r, nat) op" where
  "schedule_source R scheduled s =
     bindP now_utc (\<lambda>now.
     if \<not> is_due s now then ret scheduled
     else
       bindP (catchP (bindP (start_run R (so_id s) (Some (so_user_id s))) (\<lambda>r. ret (Some r)))
                (\<lambda>e. if skips_source e then ret None else raise e)) (\<lambda>started.
       (case started of
          None \<Rightarrow> ret scheduled
        | Some (run, already) \<Rightarrow>
            if already then ret scheduled
            else bindP (delay (so_id s) (ir_id run)) (\<lambda>_. ret (Suc scheduled)))))"

definition schedule_due_sources :: "'r redis option \<Rightarrow> ('r, nat) op" where
  "schedule_due_sources R = session_scope
     (bindP (query (\<lambda>d. filter so_enabled (sources d))) (\<lambda>ss. foldP (schedule_source R) 0 ss))"

section \<open>The routes\<close>

definition create_source_route ::
  "lib \<Rightarrow> settings \<Rightarrow> credentials \<Rightarrow> request \<Rightarrow> source_input \<Rightarrow> 'r route" where
  "create_source_route L S cred rq s =
     bindP (request_user_id L S cred rq) (\<lambda>uid.
     bindP (service_create_source uid s) (\<lambda>b. answer 201 rq b))"

definition list_sources_route :: "lib \<Rightarrow> settings \<Rightarrow> credentials \<Rightarrow> request \<Rightarrow> 'r route" where
  "list_sources_route L S cred rq =
     bindP (request_user_id L S cred rq) (\<lambda>uid.
     bindP (service_list_sources uid) (\<lambda>bs. answer 200 rq (JArr bs)))"

definition run_source_route :: "lib \<Rightarrow> settings \<Rightarrow> credentials \<Rightarrow> request \<Rightarrow> uuid \<Rightarrow> 'r route" where
  "run_source_route L S cred rq sid =
     bindP (request_user_id L S cred rq) (\<lambda>uid.
     bindP (start_run None sid (Some uid)) (\<lambda>(run, already).
     bindP (whenP (\<not> already) (delay sid (ir_id run))) (\<lambda>_.
     answer 202 rq (JObj [(''run_id'', JStr (uuid_str (ir_id run))), (''status'', JStr (ir_status run))]))))"

definition run_json :: "ingestion_run \<Rightarrow> json" where
  "run_json r = JObj
     [(''id'', JStr (uuid_str (ir_id r))), (''source_id'', JStr (uuid_str (ir_source_id r))),
      (''status'', JStr (ir_status r)), (''fetched_count'', JInt (ir_fetched_count r)),
      (''normalized_count'', JInt (ir_normalized_count r)), (''error_count'', JInt (ir_error_count r)),
      (''error_summary'', JObj (ir_error_summary r)), (''started_at'', JStr (iso_z (ir_started_at r))),
      (''completed_at'', jstr_opt (map_option iso_z (ir_completed_at r)))]"

definition get_run_route :: "lib \<Rightarrow> settings \<Rightarrow> credentials \<Rightarrow> request \<Rightarrow> uuid \<Rightarrow> 'r route" where
  "get_run_route L S cred rq rid =
     bindP (request_user_id L S cred rq) (\<lambda>uid.
     bindP (service_get_run rid uid) (\<lambda>r. answer 200 rq (run_json r)))"

end
