(* ===== verification/Operations.thy ===== *)
theory Operations
  imports Ingestion Auth_Api Text_Formats
begin

text \<open>
  The operational parts of the program: the health, version and metrics routes
  (\<open>app/api/v1/health.py\<close>, \<open>version.py\<close>, \<open>metrics.py\<close>, \<open>app/api/v2/health.py\<close>), the counters of
  \<open>observability/metrics.py\<close>, the switches of \<open>observability/telemetry.py\<close>, one pass of
  \<open>SchedulerService\<close> and the retries Celery makes of an ingestion task.
\<close>

section \<open>Health and version\<close>

definition check_redis :: "'r redis \<Rightarrow> ('r, bool) op" where
  "check_redis R = catchP (redis_call (r_ping R)) (\<lambda>_. ret False)"

definition live_route :: "'r route" where
  "live_route = ret (200, JObj [(''status'', JStr ''ok'')])"

definition live_v2_route :: "'r route" where
  "live_v2_route = ret (200, JObj [(''status'', JStr ''ok''), (''api_version'', JStr ''v2'')])"

definition ready_route :: "'r redis \<Rightarrow> request \<Rightarrow> 'r route" where
  "ready_route R rq =
     bindP check_postgres (\<lambda>postgres_ok.
     bindP (check_redis R) (\<lambda>redis_ok.
     if postgres_ok \<and> redis_ok then ret (200, JObj [(''status'', JStr ''ok'')])
     else ret (503, JObj [(''error'', JObj [(''code'', JStr ''DEPENDENCY_UNAVAILABLE''),
       (''message'', JStr ''One or more dependencies are unavailable''),
       (''details'', JObj [(''postgres'', JBool postgres_ok), (''redis'', JBool redis_ok)]),
       (''request_id'', JStr (request_id_or_unknown rq))])])))"

definition version_route :: "settings \<Rightarrow> request \<Rightarrow> 'r route" where
  "version_route S rq = (let m = runtime_metadata_of S in
     answer 200 rq (JObj [(''application'', JStr (rm_application m)), (''version'', JStr (rm_version m)),
       (''commit_sha'', JStr (rm_commit_sha m)), (''build_timestamp'', JStr (rm_build_timestamp m)),
       (''environment'', JStr (rm_environment m))]))"

section \<open>Counters (observability/metrics.py)\<close>

type_synonym counters = "(string \<times> int) list"

definition increment :: "string \<Rightarrow> int \<Rightarrow> counters \<Rightarrow> counters" where
  "increment name v m =
     (case map_of m name of None \<Rightarrow> m @ [(name, v)]
      | Some n \<Rightarrow> map (\<lambda>(k, x). (k, if k = name then x + v else x)) m)"

text \<open>The text of \<open>/metrics\<close>: the program's counters in the order of their names, then the library's own.\<close>

definition prometheus :: "string \<Rightarrow> counters \<Rightarrow> string" where
  "prometheus latest m =
     (let custom = join [CHR 0x0A] (map (\<lambda>(k, v). ''jobradar_'' @ k @ '' '' @ str_int v)
            (sort_key (\<lambda>(k, v). map (of_char :: char \<Rightarrow> nat) k) m))
      in custom @ (if custom = [] then [] else [CHR 0x0A]) @ latest)"

text \<open>A request counts for its method, route and status, and again among the errors from 500 on.\<close>

definition record_http_request ::
  "string \<Rightarrow> string \<Rightarrow> int \<Rightarrow> (string \<times> string \<times> string \<Rightarrow> nat) \<times> (string \<times> string \<times> string \<Rightarrow> nat) \<Rightarrow>
   (string \<times> string \<times> string \<Rightarrow> nat) \<times> (string \<times> string \<times> string \<Rightarrow> nat)" where
  "record_http_request m route status c =
     (let labels = (m, route, str_int status); (requests, errors) = c
      in (requests(labels := requests labels + 1),
          if status \<ge> 500 then errors(labels := errors labels + 1) else errors))"

section \<open>Telemetry switches (observability/telemetry.py)\<close>

text \<open>The module's flags, and the calls made to the instrumentation packages, in order.\<close>

datatype instrumented = Tracer_Provider | Redis_Client | Httpx_Client | Celery_Client

record telemetry =
  tm_configured :: bool
  tm_redis :: bool
  tm_httpx :: bool
  tm_celery :: bool
  tm_calls :: "instrumented list"

definition configure_telemetry :: "settings \<Rightarrow> telemetry \<Rightarrow> telemetry" where
  "configure_telemetry S m =
     (if \<not> otel_enabled S \<or> tm_configured m then m
      else m\<lparr>tm_configured := True, tm_calls := tm_calls m @ [Tracer_Provider]\<rparr>)"

definition instrument_clients :: "settings \<Rightarrow> telemetry \<Rightarrow> telemetry" where
  "instrument_clients S m =
     (if \<not> otel_enabled S then m
      else
        let m1 = (if tm_redis m then m else m\<lparr>tm_redis := True, tm_calls := tm_calls m @ [Redis_Client]\<rparr>);
            m2 = (if tm_httpx m1 then m1 else m1\<lparr>tm_httpx := True, tm_calls := tm_calls m1 @ [Httpx_Client]\<rparr>)
        in (if tm_celery m2 then m2 else m2\<lparr>tm_celery := True, tm_calls := tm_calls m2 @ [Celery_Client]\<rparr>))"

definition flag :: "instrumented \<Rightarrow> telemetry \<Rightarrow> bool" where
  "flag x m = (case x of Tracer_Provider \<Rightarrow> tm_configured m | Redis_Client \<Rightarrow> tm_redis m
     | Httpx_Client \<Rightarrow> tm_httpx m | Celery_Client \<Rightarrow> tm_celery m)"

text \<open>Nothing is instrumented twice, however often the processes call the set-up.\<close>

definition once_each :: "telemetry \<Rightarrow> bool" where
  "once_each m = (distinct (tm_calls m) \<and> (\<forall>x \<in> set (tm_calls m). flag x m))"

lemma set_up_once:
  "once_each m \<Longrightarrow> once_each (configure_telemetry S m)" "once_each m \<Longrightarrow> once_each (instrument_clients S m)"
  by (auto simp: once_each_def configure_telemetry_def instrument_clients_def flag_def Let_def split: instrumented.splits)

section \<open>A pass of SchedulerService\<close>

text \<open>
  The source service and the runner are the constructor's arguments. Each due source is run, and an
  exception of the runner is its result.
\<close>

definition tick_scheduler ::
  "(uuid \<Rightarrow> ('r, source list) op) \<Rightarrow> (source \<Rightarrow> ('r, 'a) op) \<Rightarrow> uuid \<Rightarrow> time option \<Rightarrow> ('r, (exn + 'a) list) op" where
  "tick_scheduler sources_of runner uid now =
     bindP (sources_of uid) (\<lambda>ss.
     foldP (\<lambda>acc s.
       bindP (case now of None \<Rightarrow> now_utc | Some t \<Rightarrow> ret t) (\<lambda>t.
       if is_due s t then
         bindP (catchP (bindP (runner s) (\<lambda>r. ret (Inr r))) (\<lambda>e. ret (Inl e))) (\<lambda>r. ret (acc @ [r]))
       else ret acc)) [] ss)"

text \<open>With a given instant, every due source is run once, in order, also after a failure.\<close>

lemma tick_results:
  assumes "\<And>s v. runner s v = (q s, v)" "sources_of uid w = (Inr ss, w)"
  shows "tick_scheduler sources_of runner uid (Some t) w = (Inr (map q (filter (\<lambda>s. is_due s t) ss)), w)"
proof -
  have "foldP (\<lambda>acc s. if is_due s t then
       bindP (catchP (bindP (runner s) (\<lambda>r. ret (Inr r))) (\<lambda>e. ret (Inl e))) (\<lambda>r. ret (acc @ [r]))
     else ret acc) acc ss w = (Inr (acc @ map q (filter (\<lambda>s. is_due s t) ss)), w)" for acc
    by (induction ss arbitrary: acc) (auto simp: prog_simps assms(1) split: sum.splits)
  then show ?thesis
    by (simp add: tick_scheduler_def bindP_result [where m = "sources_of uid", OF assms(2)])
qed

section \<open>Retries of the ingestion task (workers/tasks/ingestion.py)\<close>

text \<open>
  \<open>autoretry_for\<close> and \<open>max_retries\<close>: Celery runs the task again after one of the listed exceptions,
  three times at most, and the last exception is the task's failure. The waiting time is not modelled.
\<close>

definition retried_exn :: "exn \<Rightarrow> bool" where
  "retried_exn e = (case e of TimeoutError _ \<Rightarrow> True | ConnectionError _ \<Rightarrow> True
     | App a \<Rightarrow> isinstance (ae_class a) DatabaseUnavailable | _ \<Rightarrow> False)"

fun celery_loop :: "nat \<Rightarrow> ('r, 'a) op \<Rightarrow> ('r, 'a) op" where
  "celery_loop left m w = (case m w of (r, w') \<Rightarrow>
     (case r of Inr x \<Rightarrow> (Inr x, w')
      | Inl e \<Rightarrow> (case left of 0 \<Rightarrow> (Inl e, w')
          | Suc n \<Rightarrow> if retried_exn e then celery_loop n m w' else (Inl e, w'))))"

definition ingestion_task :: "lib \<Rightarrow> 'r redis option \<Rightarrow> uuid \<Rightarrow> uuid \<Rightarrow> ('r, uuid option) op" where
  "ingestion_task L R sid rid = celery_loop 3 (run_ingestion L R sid rid)"

interpretation task_retries: retry_loop retried_exn "\<lambda>n left m. celery_loop (left - 1) m" "\<lambda>x. x" "\<lambda>n. Inl"
  by unfold_locales (case_tac left; simp split: prod.split sum.split)

text \<open>
  The task runs at most four times; all runs but the last ended in an exception worth another try,
  and the outcome is that of the last one.
\<close>

lemma task_attempts:
  assumes "ingestion_task L R sid rid w = (r, w')"
  shows "\<exists>k<4. (\<forall>i<k. \<exists>e. fst (run_ingestion L R sid rid (after_runs (run_ingestion L R sid rid) i w)) = Inl e \<and> retried_exn e)
    \<and> w' = after_runs (run_ingestion L R sid rid) (Suc k) w
    \<and> r = fst (run_ingestion L R sid rid (after_runs (run_ingestion L R sid rid) k w))"
  using task_retries.loop_runs [where left = 4 and op = "run_ingestion L R sid rid" and s = w] assms
  by (fastforce simp: ingestion_task_def split: sum.splits)

end
