(* ===== verification/Middleware.thy ===== *)
theory Middleware
  imports Auth_Api
begin

text \<open>
  \<open>app/observability/rate_limit.py\<close>, \<open>security.py\<close>, the request identifier of \<open>logging.py\<close> and
  their order in \<open>app/main.py\<close>. An application is a function from a request to an operation that
  answers a response. The routes are a parameter, and so is Starlette's CORS middleware, which stands
  between the CSRF check and the exception layer. Log lines and Prometheus counters are not modelled:
  no response depends on them.
\<close>

type_synonym 'r app = "request \<Rightarrow> ('r, response) op"

section \<open>The fixed-window limiter\<close>

record rate_limit_result =
  rl_allowed :: bool
  rl_limit :: int
  rl_remaining :: int
  rl_retry_after :: int
  rl_reset_at :: int

definition rate_key :: "string \<Rightarrow> int \<Rightarrow> string" where
  "rate_key k bucket = ''rate-limit:'' @ k @ '':'' @ str_int bucket"

text \<open>\<open>RateLimiter.check\<close>; the clock is read in whole seconds.\<close>

definition rate_result :: "int \<Rightarrow> int \<Rightarrow> int \<Rightarrow> int \<Rightarrow> rate_limit_result" where
  "rate_result limit win now count =
     (let reset = (now div win + 1) * win in
      \<lparr>rl_allowed = count \<le> limit, rl_limit = limit, rl_remaining = max 0 (limit - count),
       rl_retry_after = max 1 (reset - now), rl_reset_at = reset\<rparr>)"

definition rate_check :: "'r redis \<Rightarrow> string \<Rightarrow> int \<Rightarrow> int \<Rightarrow> ('r, rate_limit_result) op" where
  "rate_check R k limit win =
     bindP now_utc (\<lambda>t.
     let now = t div 1000000; key = rate_key k (now div win) in
     bindP (redis_call (r_incr R key)) (\<lambda>count.
     bindP (whenP (count = 1) (bindP (redis_call (r_expire R key win)) (\<lambda>_. ret ()))) (\<lambda>_.
     ret (rate_result limit win now count))))"

text \<open>Whom a request counts for: the bearer token, or the address behind trusted proxies.\<close>

definition trusted_proxies :: "settings \<Rightarrow> string list" where
  "trusted_proxies S = filter (\<lambda>x. x \<noteq> []) (map strip (split_on (CHR '','') (trusted_proxy_ips S)))"

definition header_or_empty :: "request \<Rightarrow> string \<Rightarrow> string" where
  "header_or_empty rq k = (case header (rq_headers rq) k of None \<Rightarrow> [] | Some v \<Rightarrow> v)"

definition client_ip :: "settings \<Rightarrow> request \<Rightarrow> string" where
  "client_ip S rq =
     (let peer = (case rq_client rq of None \<Rightarrow> ''unknown'' | Some h \<Rightarrow> h);
          forwarded = strip (takeWhile (\<lambda>c. c \<noteq> CHR '','') (header_or_empty rq ''X-Forwarded-For''))
      in if peer \<in> set (trusted_proxies S) \<and> forwarded \<noteq> [] then forwarded else peer)"

definition identity_key :: "lib \<Rightarrow> settings \<Rightarrow> request \<Rightarrow> string" where
  "identity_key L S rq =
     (let a = header_or_empty rq ''Authorization'' in
      if startswith (lower a) ''bearer '' \<and> drop 7 a \<noteq> []
      then ''token:'' @ take 24 (digest L (drop 7 a)) else ''ip:'' @ client_ip S rq)"

definition is_auth_path :: "string \<Rightarrow> bool" where
  "is_auth_path p = (startswith p ''/api/v1/auth/'' \<or> startswith p ''/api/v2/auth/'')"

definition is_exempt :: "string \<Rightarrow> bool" where
  "is_exempt p = (startswith p ''/health'' \<or>
     p \<in> {''/metrics'', ''/docs'', ''/openapi.json'', ''/redoc''})"

definition rate_headers :: "rate_limit_result \<Rightarrow> (string \<times> string) list" where
  "rate_headers r =
     [(''X-RateLimit-Limit'', str_int (rl_limit r)), (''X-RateLimit-Remaining'', str_int (rl_remaining r)),
      (''X-RateLimit-Reset'', str_int (rl_reset_at r)), (''Retry-After'', str_int (rl_retry_after r))]"

definition error_content :: "request \<Rightarrow> string \<Rightarrow> string \<Rightarrow> json" where
  "error_content rq code msg = build_error_payload code msg (request_id_or_unknown rq) []"

text \<open>The limiter's answer, or \<open>None\<close> when Redis failed; other exceptions pass.\<close>

definition checked :: "('r, rate_limit_result) op \<Rightarrow> ('r, rate_limit_result option) op" where
  "checked m = catchP (bindP m (\<lambda>r. ret (Some r)))
     (\<lambda>e. case e of RedisError _ \<Rightarrow> ret None | _ \<Rightarrow> raise e)"

definition rate_limit_middleware :: "lib \<Rightarrow> settings \<Rightarrow> 'r redis \<Rightarrow> 'r app \<Rightarrow> 'r app" where
  "rate_limit_middleware L S R call_next rq =
     (if \<not> rate_limit_enabled S \<or> \<not> startswith (rq_path rq) ''/api/'' \<or> is_exempt (rq_path rq)
      then call_next rq
      else
        (let is_auth = is_auth_path (rq_path rq);
             limit = (if is_auth then rate_limit_auth_requests S else rate_limit_general_requests S)
         in bindP (checked (rate_check R (identity_key L S rq) limit (rate_limit_window_seconds S))) (\<lambda>res.
            (case res of
               None \<Rightarrow>
                 if rate_limit_fail_open S \<and> \<not> is_auth then call_next rq
                 else ret (json_response 503
                        (error_content rq ''RATE_LIMIT_UNAVAILABLE'' ''rate limiting unavailable'') [])
             | Some r \<Rightarrow>
                 if \<not> rl_allowed r then
                   ret (json_response 429 (error_content rq ''RATE_LIMIT_EXCEEDED'' ''too many requests'')
                     (rate_headers r))
                 else bindP (call_next rq) (\<lambda>resp.
                   ret (fold (\<lambda>(n, v). set_header n v) (rate_headers r) resp))))))"

section \<open>CSRF and security headers (security.py)\<close>

definition unsafe_methods :: "string list" where
  "unsafe_methods = [''POST'', ''PUT'', ''PATCH'', ''DELETE'']"

definition cookie :: "request \<Rightarrow> string \<Rightarrow> string option" where
  "cookie rq k = map_of (rq_cookies rq) k"

definition present_cookie :: "request \<Rightarrow> string \<Rightarrow> bool" where
  "present_cookie rq k = (case cookie rq k of None \<Rightarrow> False | Some v \<Rightarrow> v \<noteq> [])"

definition csrf_rejects :: "settings \<Rightarrow> request \<Rightarrow> bool" where
  "csrf_rejects S rq =
     (csrf_enabled S \<and> rq_method rq \<in> set unsafe_methods
      \<and> (present_cookie rq ''access_token'' \<or> present_cookie rq ''refresh_token'')
      \<and> (\<not> present_cookie rq ''csrf_token''
         \<or> header (rq_headers rq) ''X-CSRF-Token'' \<noteq> cookie rq ''csrf_token''))"

definition csrf_middleware :: "settings \<Rightarrow> 'r app \<Rightarrow> 'r app" where
  "csrf_middleware S call_next rq =
     (if csrf_rejects S rq
      then ret (json_response 403 (error_content rq ''CSRF_VALIDATION_FAILED'' ''CSRF validation failed'') [])
      else call_next rq)"

definition quoted :: "string \<Rightarrow> string" where
  "quoted s = [CHR 0x27] @ s @ [CHR 0x27]"

definition docs_policy :: string where
  "docs_policy =
     ''default-src '' @ quoted ''self'' @ ''; script-src '' @ quoted ''self''
       @ '' https://cdn.jsdelivr.net '' @ quoted ''unsafe-inline'' @ ''; style-src '' @ quoted ''self''
       @ '' https://cdn.jsdelivr.net '' @ quoted ''unsafe-inline'' @ ''; img-src '' @ quoted ''self''
       @ '' data: https://fastapi.tiangolo.com; frame-ancestors '' @ quoted ''none''"

definition api_policy :: string where
  "api_policy = ''default-src '' @ quoted ''self'' @ ''; frame-ancestors '' @ quoted ''none''"

definition security_headers :: "settings \<Rightarrow> request \<Rightarrow> (string \<times> string) list" where
  "security_headers S rq =
     (if \<not> security_headers_enabled S then []
      else [(''X-Content-Type-Options'', ''nosniff''), (''X-Frame-Options'', ''DENY''),
            (''Referrer-Policy'', ''strict-origin-when-cross-origin''),
            (''Permissions-Policy'', ''camera=(), microphone=(), geolocation=()''),
            (''Content-Security-Policy'',
               (if rq_path rq \<in> {''/docs'', ''/redoc''} then docs_policy else api_policy))]
           @ (if hsts_enabled S
              then [(''Strict-Transport-Security'', ''max-age=31536000; includeSubDomains'')] else []))"

definition security_headers_middleware :: "settings \<Rightarrow> 'r app \<Rightarrow> 'r app" where
  "security_headers_middleware S call_next rq =
     bindP (call_next rq) (\<lambda>resp. ret (fold (\<lambda>(n, v). set_header n v) (security_headers S rq) resp))"

section \<open>The request identifier (logging.py) and the stack (main.py)\<close>

definition choose_request_id :: "request \<Rightarrow> ('r, string) op" where
  "choose_request_id rq =
     (case header (rq_headers rq) ''X-Request-ID'' of
        Some (c # cs) \<Rightarrow> ret (c # cs)
      | _ \<Rightarrow> bindP uuid4 (\<lambda>i. ret (uuid_str i)))"

definition request_id_middleware :: "string \<Rightarrow> 'r app \<Rightarrow> 'r app" where
  "request_id_middleware i call_next rq =
     bindP (call_next (rq\<lparr>rq_request_id := Some i\<rparr>)) (\<lambda>resp.
     ret (set_header ''X-Request-ID'' i resp))"

text \<open>
  The innermost layer answers the program's own errors, the outermost one every other exception;
  that handler sees the identifier the middleware stored in the state of the request.
\<close>

definition exception_layer :: "'r app \<Rightarrow> 'r app" where
  "exception_layer router rq =
     catchP (router rq) (\<lambda>e. case e of App a \<Rightarrow> ret (handle_raised rq (RaisedExn (App a))) | _ \<Rightarrow> raise e)"

definition server_error_layer :: "string \<Rightarrow> 'r app \<Rightarrow> 'r app" where
  "server_error_layer i app rq =
     catchP (app rq) (\<lambda>e. ret (handle_raised (rq\<lparr>rq_request_id := Some i\<rparr>) (RaisedExn e)))"

definition http_stack :: "lib \<Rightarrow> settings \<Rightarrow> 'r redis \<Rightarrow> ('r app \<Rightarrow> 'r app) \<Rightarrow> 'r app \<Rightarrow> 'r app" where
  "http_stack L S R cors router rq =
     bindP (choose_request_id rq) (\<lambda>i.
     server_error_layer i
       (request_id_middleware i
         (rate_limit_middleware L S R
           (security_headers_middleware S
             (csrf_middleware S (cors (exception_layer router)))))) rq)"

end
