(* ===== verification/Middleware_Facts.thy ===== *)
theory Middleware_Facts
  imports Middleware
begin

text \<open>
  What the middlewares guarantee whatever the application behind them does: the limiter's count
  is exact within a window, authentication fails closed without Redis, a request without its CSRF
  token never reaches a route, and every request is answered.
\<close>

section \<open>The limiter\<close>

text \<open>
  What the limiter relies on in Redis, in terms of the counter and the expiry that \<open>c\<close> reads from
  the server's state. A counter past its expiry counts as 0. A failing INCR may have been carried
  out before its answer was lost, and so may a failing EXPIRE; neither touches another key.
\<close>

type_synonym 'r counters = "'r \<Rightarrow> string \<Rightarrow> (int \<times> time option) option"

definition live :: "time \<Rightarrow> (int \<times> time option) option \<Rightarrow> (int \<times> time option) option" where
  "live t x = (case x of Some (n, Some e) \<Rightarrow> if t < e then x else None | _ \<Rightarrow> x)"

definition bumped :: "(int \<times> time option) option \<Rightarrow> int \<times> time option" where
  "bumped x = (case x of None \<Rightarrow> (1, None) | Some (n, e) \<Rightarrow> (n + 1, e))"

definition incr_law :: "'r redis \<Rightarrow> 'r counters \<Rightarrow> bool" where
  "incr_law R c = (\<forall>k t s q s'. r_incr R k t s = (q, s') \<longrightarrow>
     (\<forall>k'. k' \<noteq> k \<longrightarrow> c s' k' = c s k') \<and>
     (case q of Inr n \<Rightarrow> n = fst (bumped (live t (c s k))) \<and> c s' k = Some (bumped (live t (c s k)))
      | Inl _ \<Rightarrow> c s' k = c s k \<or> c s' k = Some (bumped (live t (c s k)))))"

definition expire_law :: "'r redis \<Rightarrow> 'r counters \<Rightarrow> bool" where
  "expire_law R c = (\<forall>k secs t s q s'. r_expire R k secs t s = (q, s') \<longrightarrow>
     (\<forall>k'. k' \<noteq> k \<longrightarrow> c s' k' = c s k') \<and>
     (c s' k = c s k \<or> c s' k = map_option (\<lambda>(n, _). (n, Some (t + secs * 1000000))) (c s k)))"

text \<open>Consecutive checks: each of a client with its limit. A check that Redis failed gives \<open>None\<close>.\<close>

fun check_all :: "'r redis \<Rightarrow> int \<Rightarrow> (string \<times> int) list \<Rightarrow> ('r, rate_limit_result option list) op" where
  "check_all R win [] = ret []"
| "check_all R win ((k, l) # cs) =
     bindP (checked (rate_check R k l win)) (\<lambda>r. bindP (check_all R win cs) (\<lambda>rs. ret (r # rs)))"

text \<open>The instants of the window number \<open>b\<close>.\<close>

definition in_window :: "int \<Rightarrow> int \<Rightarrow> env \<Rightarrow> bool" where
  "in_window win b e = (\<forall>n. b * win * 1000000 \<le> clock e n \<and> clock e n < (b + 1) * win * 1000000)"

text \<open>Between the answered (\<open>a\<close>) and the attempted (\<open>m\<close>) checks of every client, and alive until \<open>x\<close>.\<close>

fun entry_ok :: "time \<Rightarrow> (int \<times> time option) option \<Rightarrow> int \<Rightarrow> int \<Rightarrow> bool" where
  "entry_ok x None a m = (a = 0 \<and> 0 \<le> m)"
| "entry_ok x (Some (n, None)) a m = (0 \<le> a \<and> a \<le> n \<and> n \<le> m)"
| "entry_ok x (Some (n, Some e)) a m = (0 \<le> a \<and> a \<le> n \<and> n \<le> m \<and> x \<le> e)"

definition counted ::
  "time \<Rightarrow> int \<Rightarrow> (string \<Rightarrow> (int \<times> time option) option) \<Rightarrow> (string \<Rightarrow> int) \<Rightarrow> (string \<Rightarrow> int) \<Rightarrow> bool" where
  "counted x b c a m = (\<forall>k. entry_ok x (c (rate_key k b)) (a k) (m k))"

lemma entry_cases:
  obtains "e = None" | n where "e = Some (n, None)" | n y where "e = Some (n, Some (y :: time))"
  by (metis option.exhaust surj_pair)

lemma entry_alive: "entry_ok x e a m \<Longrightarrow> t < x \<Longrightarrow> live t e = e"
  by (cases e rule: entry_cases) (auto simp: live_def)

lemma entry_bump:
  assumes "entry_ok x e a m"
  shows "entry_ok x (Some (bumped e)) (a + 1) (m + 1)" "entry_ok x (Some (bumped e)) a (m + 1)"
    "a + 1 \<le> fst (bumped e)" "fst (bumped e) \<le> m + 1" "entry_ok x e a (m + 1)"
  using assms by (cases e rule: entry_cases; simp add: bumped_def)+

lemma entry_expiry:
  "entry_ok x e a m \<Longrightarrow> x \<le> y \<Longrightarrow> entry_ok x (map_option (\<lambda>(n, _). (n, Some y)) e) a m"
  by (cases e rule: entry_cases) auto

lemma entry_forget: "entry_ok x e (a + 1) m \<Longrightarrow> 0 \<le> a \<Longrightarrow> entry_ok x e a m"
  by (cases e rule: entry_cases) auto

lemma entry_nonneg: "entry_ok x e a m \<Longrightarrow> 0 \<le> a"
  by (cases e rule: entry_cases) auto

lemma rate_key_inject [simp]: "rate_key k b = rate_key k' b \<longleftrightarrow> k = k'"
  by (simp add: rate_key_def)

lemma div_million: "p * 1000000 \<le> x \<Longrightarrow> p \<le> x div (1000000::int)"
  using div_mult_mod_eq [of x 1000000] pos_mod_bound [of 1000000 x] by linarith

lemma div_million_less: "x < q * 1000000 \<Longrightarrow> x div 1000000 < (q::int)"
  using div_mult_mod_eq [of x 1000000] pos_mod_sign [of 1000000 x] by linarith

lemma window_number:
  assumes "in_window win b e"
  shows "clock e n div 1000000 div win = b"
proof -
  define y where "y = clock e n div 1000000"
  have "b * win \<le> y" "y < (b + 1) * win"
    using assms div_million div_million_less by (simp_all add: in_window_def y_def)
  then have "y div win = b"
    by (intro int_div_pos_eq [where r = "y - b * win"]) (simp_all add: algebra_simps)
  then show ?thesis
    by (simp add: y_def)
qed

lemma counted_alive: "counted x b c a m \<Longrightarrow> t < x \<Longrightarrow> live t (c (rate_key k b)) = c (rate_key k b)"
  using entry_alive by (fastforce simp: counted_def)

lemma counted_forget:
  assumes "counted x b c (a(k := a k + 1)) m" "0 \<le> a k"
  shows "counted x b c a m"
  unfolding counted_def
proof (intro allI)
  fix k'
  show "entry_ok x (c (rate_key k' b)) (a k') (m k')"
    using assms(1) [unfolded counted_def, rule_format, of k'] entry_forget assms(2)
    by (cases "k' = k") auto
qed

lemma counted_update:
  assumes "counted x b c a m" "\<forall>k'. k' \<noteq> rate_key k b \<longrightarrow> c' k' = c k'"
    and "entry_ok x (c' (rate_key k b)) (a' k) (m' k)" "\<forall>k'. k' \<noteq> k \<longrightarrow> a' k' = a k' \<and> m' k' = m k'"
  shows "counted x b c' a' m'"
  unfolding counted_def
proof (intro allI)
  fix k'
  show "entry_ok x (c' (rate_key k' b)) (a' k') (m' k')"
    using assms by (cases "k' = k") (simp_all add: counted_def)
qed

text \<open>One check, from the instants it reads and what Redis answers.\<close>

lemma incr_step:
  assumes law: "incr_law R c" and i: "r_incr R (rate_key k b) t s = (q, s')"
    and inv: "counted x b (c s) a m" and t: "t < x"
  shows "case q of Inl _ \<Rightarrow> counted x b (c s') a (m(k := m k + 1))
    | Inr n \<Rightarrow> counted x b (c s') (a(k := a k + 1)) (m(k := m k + 1)) \<and> a k + 1 \<le> n \<and> n \<le> m k + 1"
proof -
  let ?e = "c s (rate_key k b)"
  have e: "entry_ok x ?e (a k) (m k)"
    using inv by (simp add: counted_def)
  have l: "(\<forall>k'. k' \<noteq> rate_key k b \<longrightarrow> c s' k' = c s k')"
    "case q of Inr n \<Rightarrow> n = fst (bumped ?e) \<and> c s' (rate_key k b) = Some (bumped ?e)
      | Inl _ \<Rightarrow> c s' (rate_key k b) = ?e \<or> c s' (rate_key k b) = Some (bumped ?e)"
    using law [unfolded incr_law_def, rule_format, OF i] counted_alive [OF inv t, of k]
    by (simp_all split: sum.splits)
  show ?thesis
  proof (cases q)
    case (Inl y)
    have "entry_ok x (c s' (rate_key k b)) (a k) (m k + 1)"
      using l(2) entry_bump [OF e] by (auto simp: Inl)
    then show ?thesis
      by (simp add: Inl) (rule counted_update [OF inv l(1)], simp_all)
  next
    case (Inr n)
    have "counted x b (c s') (a(k := a k + 1)) (m(k := m k + 1))"
      by (rule counted_update [OF inv l(1)]) (use l(2) entry_bump [OF e] in \<open>simp_all add: Inr\<close>)
    then show ?thesis
      using l(2) entry_bump [OF e] by (simp add: Inr)
  qed
qed

lemma expire_step:
  assumes law: "expire_law R c" and i: "r_expire R (rate_key k b) secs t s = (q, s')"
    and inv: "counted x b (c s) a m" and t: "x \<le> t + secs * 1000000"
  shows "counted x b (c s') a m"
proof -
  let ?e = "c s (rate_key k b)"
  have e: "entry_ok x ?e (a k) (m k)"
    using inv by (simp add: counted_def)
  have l: "(\<forall>k'. k' \<noteq> rate_key k b \<longrightarrow> c s' k' = c s k')"
    "c s' (rate_key k b) = ?e
      \<or> c s' (rate_key k b) = map_option (\<lambda>(n, _). (n, Some (t + secs * 1000000))) ?e"
    using law [unfolded expire_law_def, rule_format, OF i] by blast+
  have "entry_ok x (c s' (rate_key k b)) (a k) (m k)"
    using l(2) e entry_expiry [OF e t] by auto
  then show ?thesis
    by (rule counted_update [OF inv l(1)]) simp
qed

text \<open>What the client is told when its count lies between \<open>lo\<close> and \<open>hi\<close>.\<close>

definition fair :: "int \<Rightarrow> int \<Rightarrow> int \<Rightarrow> int \<Rightarrow> int \<Rightarrow> rate_limit_result \<Rightarrow> bool" where
  "fair win b l lo hi r = (rl_limit r = l \<and> rl_reset_at r = (b + 1) * win
     \<and> (rl_allowed r \<longrightarrow> lo \<le> l) \<and> (\<not> rl_allowed r \<longrightarrow> l < hi)
     \<and> max 0 (l - hi) \<le> rl_remaining r \<and> rl_remaining r \<le> max 0 (l - lo)
     \<and> 1 \<le> rl_retry_after r \<and> rl_retry_after r \<le> win)"

lemma fair_result:
  assumes "in_window win b e" "1 \<le> win" "lo \<le> n" "n \<le> hi"
  shows "fair win b l lo hi (rate_result l win (clock e t div 1000000) n)"
proof -
  have "b * win \<le> clock e t div 1000000"
    using assms(1) div_million by (simp add: in_window_def)
  moreover have "(b + 1) * win = b * win + win"
    by (simp add: algebra_simps)
  ultimately show ?thesis
    using window_number [OF assms(1), of t] assms(2-4)
    by (auto simp: fair_def rate_result_def Let_def)
qed

definition told :: "int \<Rightarrow> int \<Rightarrow> int \<Rightarrow> int \<Rightarrow> int \<Rightarrow> rate_limit_result option \<Rightarrow> bool" where
  "told win b l lo hi r = (case r of None \<Rightarrow> True | Some x \<Rightarrow> fair win b l lo hi x)"

definition bump :: "bool \<Rightarrow> string \<Rightarrow> (string \<Rightarrow> int) \<Rightarrow> (string \<Rightarrow> int)" where
  "bump yes k f = (if yes then f(k := f k + 1) else f)"

lemma rate_check_step:
  assumes laws: "incr_law R c" "expire_law R c" and win: "in_window win b (wenv w)" "1 \<le> win"
    and inv: "counted ((b + 1) * win * 1000000) b (c (kv w)) a m"
  obtains r w' where "checked (rate_check R k l win) w = (Inr r, w')" "wenv w' = wenv w"
    "counted ((b + 1) * win * 1000000) b (c (kv w')) (bump (r \<noteq> None) k a) (bump True k m)"
    "told win b l (a k + 1) (m k + 1) r"
proof -
  define now where "now = clock (wenv w) (tick w) div 1000000"
  define x where "x = (b + 1) * win * 1000000"
  define t where "t = clock (wenv w) (Suc (tick w))"
  define t2 where "t2 = clock (wenv w) (Suc (Suc (tick w)))"
  have key: "rate_key k (now div win) = rate_key k b"
    using window_number [OF win(1)] by (simp add: now_def)
  have now': "clock (wenv w) (tick w) div 1000000 = now"
    by (simp add: now_def)
  obtain q s where i: "r_incr R (rate_key k b) t (kv w) = (q, s)"
    by fastforce
  have t: "t < x" "x \<le> t2 + win * 1000000"
    using win by (simp_all add: in_window_def t_def t2_def x_def algebra_simps)
  note step = incr_step [OF laws(1) i inv [folded x_def] t(1)]
  obtain q2 s2 where e: "r_expire R (rate_key k b) win t2 s = (q2, s2)"
    by fastforce
  have a0: "0 \<le> a k"
    using inv entry_nonneg by (fastforce simp: counted_def)
  note run = rate_check_def checked_def prog_simps redis_call_def Let_def now' key i [unfolded t_def] e [unfolded t2_def]
  show thesis
  proof (cases q)
    case (Inl y)
    show thesis
      by (rule that [of None "w\<lparr>tick := Suc (Suc (tick w)), kv := s\<rparr>"])
        (use step in \<open>simp_all add: run Inl told_def bump_def x_def\<close>)
  next
    case (Inr n)
    then have n: "counted x b (c s) (a(k := a k + 1)) (m(k := m k + 1))" "a k + 1 \<le> n" "n \<le> m k + 1"
      using step by simp_all
    note res = fair_result [OF win n(2,3), of l "tick w", unfolded now']
    show thesis
    proof (cases "n = 1")
      case False
      show thesis
        by (rule that [of "Some (rate_result l win now n)" "w\<lparr>tick := Suc (Suc (tick w)), kv := s\<rparr>"])
          (use n res False in \<open>simp_all add: run Inr told_def bump_def x_def\<close>)
    next
      case True
      note after = expire_step [OF laws(2) e n(1) t(2)]
      show thesis
      proof (cases q2)
        case (Inl y)
        have "counted x b (c s2) a (m(k := m k + 1))"
          by (rule counted_forget [OF after a0])
        then show thesis
          by (intro that [of None "w\<lparr>tick := Suc (Suc (Suc (tick w))), kv := s2\<rparr>"])
            (simp_all add: run Inr \<open>q = Inr n\<close> True Inl told_def bump_def x_def)
      next
        case (Inr y)
        show thesis
          by (rule that [of "Some (rate_result l win now n)" "w\<lparr>tick := Suc (Suc (Suc (tick w))), kv := s2\<rparr>"])
            (use after res in \<open>simp_all add: run Inr \<open>q = Inr n\<close> True told_def bump_def x_def fun_upd_def\<close>)
      qed
    qed
  qed
qed

text \<open>Answered and attempted checks of a client.\<close>

definition attempts :: "string \<Rightarrow> (string \<times> int) list \<Rightarrow> int" where
  "attempts k cs = int (length (filter (\<lambda>c. fst c = k) cs))"

definition answered :: "string \<Rightarrow> (string \<times> int) list \<Rightarrow> rate_limit_result option list \<Rightarrow> int" where
  "answered k cs rs = int (length (filter (\<lambda>(c, r). fst c = k \<and> r \<noteq> None) (zip cs rs)))"

lemma tally_Cons [simp]:
  "attempts k (c # cs) = (if fst c = k then 1 else 0) + attempts k cs"
  "answered k (c # cs) (r # rs) = (if fst c = k \<and> r \<noteq> None then 1 else 0) + answered k cs rs"
  "attempts k [] = 0" "answered k [] rs = 0"
  by (simp_all add: attempts_def answered_def)

lemma check_all_told:
  assumes laws: "incr_law R c" "expire_law R c" and win: "1 \<le> win"
  shows "in_window win b (wenv w) \<Longrightarrow> counted ((b + 1) * win * 1000000) b (c (kv w)) a m \<Longrightarrow>
    \<exists>rs w'. check_all R win cs w = (Inr rs, w') \<and> length rs = length cs \<and>
      (\<forall>i < length cs. told win b (snd (cs ! i))
         (a (fst (cs ! i)) + answered (fst (cs ! i)) (take (Suc i) cs) (take (Suc i) rs))
         (m (fst (cs ! i)) + attempts (fst (cs ! i)) (take (Suc i) cs)) (rs ! i))"
proof (induction cs arbitrary: w a m)
  case Nil
  then show ?case
    by (simp add: prog_simps)
next
  case (Cons kl cs)
  obtain k l where kl: "kl = (k, l)"
    by fastforce
  obtain r w1 where one: "checked (rate_check R k l win) w = (Inr r, w1)" "wenv w1 = wenv w"
    "counted ((b + 1) * win * 1000000) b (c (kv w1)) (bump (r \<noteq> None) k a) (bump True k m)"
    "told win b l (a k + 1) (m k + 1) r"
    by (rule rate_check_step [OF laws Cons.prems(1) win Cons.prems(2), of k l])
  obtain rs w' where rest: "check_all R win cs w1 = (Inr rs, w')" "length rs = length cs"
    and told: "\<And>i. i < length cs \<Longrightarrow> told win b (snd (cs ! i))
         (bump (r \<noteq> None) k a (fst (cs ! i)) + answered (fst (cs ! i)) (take (Suc i) cs) (take (Suc i) rs))
         (bump True k m (fst (cs ! i)) + attempts (fst (cs ! i)) (take (Suc i) cs)) (rs ! i)"
    using Cons.IH [OF _ one(3)] Cons.prems(1) one(2) by auto
  have "told win b (snd ((kl # cs) ! i))
         (a (fst ((kl # cs) ! i)) + answered (fst ((kl # cs) ! i)) (take (Suc i) (kl # cs)) (take (Suc i) (r # rs)))
         (m (fst ((kl # cs) ! i)) + attempts (fst ((kl # cs) ! i)) (take (Suc i) (kl # cs))) ((r # rs) ! i)"
    if "i < Suc (length cs)" for i
  proof (cases i)
    case 0
    then show ?thesis
      using one(4) by (cases r) (simp_all add: kl told_def)
  next
    case (Suc j)
    then show ?thesis
      using told [of j] that by (auto simp: kl bump_def algebra_simps split: if_splits)
  qed
  then show ?case
    using one(1) rest by (auto simp: kl prog_simps)
qed

text \<open>
  C29. Within a window the limiter counts exactly, per client, whatever fails in Redis: among any
  sequence of checks, a check is allowed only when the client's answered checks, this one included,
  are within its limit, and it is refused only when the client's attempted checks exceed it. The
  answer names the limit, the end of the window as the reset, between 1 second and the window as the
  waiting time, and a remaining number between the same two counts. A client has one counter for all
  its limits, so authentication and general requests use up each other's limit.
\<close>

theorem limiter_exact:
  assumes "incr_law R c" "expire_law R c" "1 \<le> win" "in_window win b (wenv w)"
    and "\<forall>k. c (kv w) (rate_key k b) = None"
  shows "\<exists>rs w'. check_all R win cs w = (Inr rs, w') \<and> length rs = length cs \<and>
    (\<forall>i k l r. i < length cs \<and> cs ! i = (k, l) \<and> rs ! i = Some r \<longrightarrow>
      (let lo = answered k (take (Suc i) cs) (take (Suc i) rs); hi = attempts k (take (Suc i) cs)
       in (rl_allowed r \<longrightarrow> lo \<le> l) \<and> (\<not> rl_allowed r \<longrightarrow> l < hi)
          \<and> max 0 (l - hi) \<le> rl_remaining r \<and> rl_remaining r \<le> max 0 (l - lo)
          \<and> 1 \<le> rl_retry_after r \<and> rl_retry_after r \<le> win
          \<and> rl_limit r = l \<and> rl_reset_at r = (b + 1) * win))"
proof -
  have "counted ((b + 1) * win * 1000000) b (c (kv w)) (\<lambda>_. 0) (\<lambda>_. 0)"
    using assms(5) by (simp add: counted_def)
  from check_all_told [OF assms(1,2,3,4) this, of cs] obtain rs w' where
    run: "check_all R win cs w = (Inr rs, w')" "length rs = length cs" and
    told: "\<And>i. i < length cs \<Longrightarrow> told win b (snd (cs ! i))
      (0 + answered (fst (cs ! i)) (take (Suc i) cs) (take (Suc i) rs))
      (0 + attempts (fst (cs ! i)) (take (Suc i) cs)) (rs ! i)"
    by blast
  show ?thesis
    by (intro exI conjI, rule run(1), rule run(2))
      (use told in \<open>fastforce simp: told_def fair_def Let_def\<close>)
qed

text \<open>A Redis server that never fails, whose state is its counters with their expiry.\<close>

definition counting_redis :: "(string \<Rightarrow> (int \<times> time option) option) redis" where
  "counting_redis = \<lparr>r_set_nx_ex = (\<lambda>k secs t s. (Inl ''unused'', s)),
     r_delete = (\<lambda>k t s. (Inr (case s k of None \<Rightarrow> 0 | Some _ \<Rightarrow> 1), s(k := None))),
     r_incr = (\<lambda>k t s. (Inr (fst (bumped (live t (s k)))), s(k := Some (bumped (live t (s k)))))),
     r_expire = (\<lambda>k secs t s. (Inr (s k \<noteq> None),
        s(k := map_option (\<lambda>(n, _). (n, Some (t + secs * 1000000))) (s k)))),
     r_ping = (\<lambda>t s. (Inr True, s))\<rparr>"

definition still_world :: "'r \<Rightarrow> 'r world" where
  "still_world r = \<lparr>wenv = env_ex\<lparr>clock := (\<lambda>n. seconds 130)\<rparr>, tick = 0, committed = db_ex,
     work = db_ex, kv = r, queued = [], auth_log = [], archived = []\<rparr>"

theorem limiter_exact_witness:
  "\<exists>rs w'. check_all counting_redis 60 [(''a'', 2), (''b'', 2), (''a'', 1)] (still_world (\<lambda>_. None)) = (Inr rs, w')
     \<and> length rs = 3 \<and> (\<forall>r. rs ! 1 = Some r \<longrightarrow> rl_allowed r \<and> rl_reset_at r = 180)"
proof -
  let ?cs = "[(''a'', 2), (''b'', 2), (''a'', 1 :: int)]"
  have "incr_law counting_redis (\<lambda>s. s)" "expire_law counting_redis (\<lambda>s. s)"
    by (auto simp: incr_law_def expire_law_def counting_redis_def)
  moreover have "in_window 60 2 (wenv (still_world (\<lambda>_::string. None :: (int \<times> time option) option)))"
    by (simp add: in_window_def still_world_def seconds_def)
  ultimately obtain rs w' where
    run: "check_all counting_redis 60 ?cs (still_world (\<lambda>_. None)) = (Inr rs, w')" "length rs = length ?cs" and
    told: "\<And>r. rs ! 1 = Some r \<Longrightarrow>
      (let lo = answered ''b'' (take 2 ?cs) (take 2 rs); hi = attempts ''b'' (take 2 ?cs)
       in (rl_allowed r \<longrightarrow> lo \<le> 2) \<and> (\<not> rl_allowed r \<longrightarrow> 2 < hi) \<and> rl_reset_at r = 180)"
    using limiter_exact [where R = counting_redis and c = "\<lambda>s. s" and win = 60 and b = 2 and cs = ?cs
        and w = "still_world (\<lambda>_. None)"]
    by (fastforce simp: still_world_def Let_def numeral_2_eq_2)
  show ?thesis
    by (intro exI conjI, rule run(1)) (use run(2) told in \<open>auto simp: Let_def numeral_2_eq_2\<close>)
qed

section \<open>The stack\<close>

definition same_data :: "'r world \<Rightarrow> 'r world \<Rightarrow> bool" where
  "same_data w w' = (committed w' = committed w \<and> work w' = work w \<and> auth_log w' = auth_log w
     \<and> queued w' = queued w \<and> archived w' = archived w \<and> wenv w' = wenv w)"

lemma same_dataD:
  "same_data w w' \<Longrightarrow> committed w' = committed w" "same_data w w' \<Longrightarrow> work w' = work w"
  "same_data w w' \<Longrightarrow> auth_log w' = auth_log w"
  by (simp_all add: same_data_def)

lemma same_data_simps [simp]:
  "same_data w w" "same_data w (w'\<lparr>tick := t\<rparr>) = same_data w w'" "same_data w (w'\<lparr>kv := k\<rparr>) = same_data w w'"
  by (simp_all add: same_data_def)

lemma choose_request_id_same: "choose_request_id rq w = (q, w') \<Longrightarrow> same_data w w'"
  by (auto simp: choose_request_id_def prog_simps split: option.splits list.splits)

lemma choose_request_id_runs:
  obtains i w' where "choose_request_id rq w = (Inr i, w')" "same_data w w'"
proof -
  have "\<exists>i w'. choose_request_id rq w = (Inr i, w')"
    by (auto simp: choose_request_id_def prog_simps split: option.split list.split)
  then show thesis
    using that choose_request_id_same by blast
qed

lemma checked_runs:
  obtains r w' where "checked (rate_check R k l win) w = (Inr r, w')" "same_data w w'"
proof -
  have "\<exists>r w'. checked (rate_check R k l win) w = (Inr r, w') \<and> same_data w w'"
    by (auto simp: checked_def rate_check_def redis_call_def prog_simps Let_def split: prod.splits sum.splits)
  then show thesis
    using that by blast
qed

text \<open>The limiter either answers itself or runs the application and adds headers.\<close>

definition add_headers :: "(string \<times> string) list \<Rightarrow> response \<Rightarrow> response" where
  "add_headers hs resp = fold (\<lambda>(n, v). set_header n v) hs resp"

lemma add_headers_fields [simp]:
  "rs_status (add_headers hs r) = rs_status r" "rs_body (add_headers hs r) = rs_body r" "add_headers [] r = r"
proof -
  have "rs_status (add_headers hs r) = rs_status r \<and> rs_body (add_headers hs r) = rs_body r"
    unfolding add_headers_def by (induction hs arbitrary: r) auto
  then show "rs_status (add_headers hs r) = rs_status r" "rs_body (add_headers hs r) = rs_body r"
    by simp_all
qed (simp add: add_headers_def)

lemma rate_limit_cases:
  obtains (runs) w' hs where "same_data w w'"
      "\<And>app. rate_limit_middleware L S R app rq w = bindP (app rq) (\<lambda>x. ret (add_headers hs x)) w'"
  | (answers) w' resp code msg where "same_data w w'" "rs_status resp \<in> {429, 503}"
      "rs_body resp = error_content rq code msg"
      "\<And>app. rate_limit_middleware L S R app rq w = (Inr resp, w')"
proof (cases "\<not> rate_limit_enabled S \<or> \<not> startswith (rq_path rq) ''/api/'' \<or> is_exempt (rq_path rq)")
  case True
  then show thesis
    by (intro runs [of w "[]"]) (simp_all add: rate_limit_middleware_def)
next
  case False
  define is_auth where "is_auth = is_auth_path (rq_path rq)"
  obtain r w' where c: "checked (rate_check R (identity_key L S rq)
      (if is_auth then rate_limit_auth_requests S else rate_limit_general_requests S)
      (rate_limit_window_seconds S)) w = (Inr r, w')" "same_data w w'"
    by (rule checked_runs)
  have step: "rate_limit_middleware L S R app rq w = (case r of
       None \<Rightarrow>
         if rate_limit_fail_open S \<and> \<not> is_auth then app rq
         else ret (json_response 503
                (error_content rq ''RATE_LIMIT_UNAVAILABLE'' ''rate limiting unavailable'') [])
     | Some r \<Rightarrow>
         if \<not> rl_allowed r then
           ret (json_response 429 (error_content rq ''RATE_LIMIT_EXCEEDED'' ''too many requests'')
             (rate_headers r))
         else bindP (app rq) (\<lambda>resp. ret (add_headers (rate_headers r) resp))) w'" for app
    using False c(1) by (cases r) (simp_all add: rate_limit_middleware_def Let_def is_auth_def bindP_def add_headers_def)
  consider "r = None" "rate_limit_fail_open S \<and> \<not> is_auth" | "r = None" "\<not> (rate_limit_fail_open S \<and> \<not> is_auth)"
    | x where "r = Some x" "rl_allowed x" | x where "r = Some x" "\<not> rl_allowed x"
    by (cases r) auto
  then show thesis
  proof cases
    case 1
    then show thesis by (intro runs [OF c(2), of "[]"]) (simp add: step)
  next
    case 2
    then show thesis
      by (intro answers [OF c(2)]) (auto simp: step ret_def json_response_def)
  next
    case (3 x)
    then show thesis by (intro runs [OF c(2), of "rate_headers x"]) (simp add: step)
  next
    case (4 x)
    then show thesis
      by (intro answers [OF c(2)]) (auto simp: step ret_def json_response_def)
  qed
qed

lemma startswith_iff: "startswith s p \<longleftrightarrow> (\<exists>v. s = p @ v)"
  by (metis append_eq_conv_conj append_take_drop_id startswith_def)

lemma auth_path_limited:
  assumes "is_auth_path p"
  shows "startswith p ''/api/''" "\<not> is_exempt p"
  using assms by (auto simp: is_auth_path_def is_exempt_def startswith_iff)

lemma rate_limit_cong:
  assumes "app rq = app' rq"
  shows "rate_limit_middleware L S R app rq = rate_limit_middleware L (S\<lparr>csrf_enabled := v\<rparr>) R app' rq"
proof -
  have "identity_key L (S\<lparr>csrf_enabled := v\<rparr>) rq = identity_key L S rq"
    by (simp add: identity_key_def client_ip_def trusted_proxies_def Let_def)
  then show ?thesis
    unfolding rate_limit_middleware_def assms by (simp add: Let_def)
qed

lemma present_cookie_iff: "present_cookie rq k \<longleftrightarrow> (\<exists>c cs. cookie rq k = Some (c # cs))"
  by (auto simp: present_cookie_def neq_Nil_conv split: option.splits)

lemma cookie_request_id [simp]: "cookie (rq\<lparr>rq_request_id := i\<rparr>) k = cookie rq k"
  by (simp add: cookie_def)

text \<open>
  When Redis fails, a request of an authentication path is answered 503 without reaching the
  application, with the data as they were and with its request identifier, also when the limiter is
  configured to fail open.
\<close>

theorem auth_fails_closed:
  assumes down: "\<forall>k t s. \<exists>m s'. r_incr R k t s = (Inl m, s')"
    and on: "rate_limit_enabled S" and auth: "is_auth_path (rq_path rq)"
    and i: "choose_request_id rq w = (Inr i, w1)"
  shows "\<exists>resp w'. http_stack L S R cors router rq w = (Inr resp, w')
    \<and> rs_status resp = 503 \<and> header (rs_headers resp) ''X-Request-ID'' = Some i
    \<and> rs_body resp = build_error_payload ''RATE_LIMIT_UNAVAILABLE'' ''rate limiting unavailable'' i []
    \<and> committed w' = committed w \<and> work w' = work w \<and> auth_log w' = auth_log w"
proof -
  note same = same_dataD [OF choose_request_id_same [OF i]]
  obtain m s' where r: "r_incr R (rate_key (identity_key L S (rq\<lparr>rq_request_id := Some i\<rparr>))
      (clock (wenv w1) (tick w1) div 1000000 div rate_limit_window_seconds S))
      (clock (wenv w1) (Suc (tick w1))) (kv w1) = (Inl m, s')"
    using down by blast
  show ?thesis
    using same by (auto simp: http_stack_def i server_error_layer_def request_id_middleware_def
        rate_limit_middleware_def on auth_path_limited [OF auth] auth checked_def rate_check_def redis_call_def r prog_simps Let_def
        json_response_def error_content_def request_id_or_unknown_def header_set_header)
qed

definition downed_redis :: "unit redis" where
  "downed_redis = \<lparr>r_set_nx_ex = (\<lambda>k s t r. (Inl ''down'', r)), r_delete = (\<lambda>k t r. (Inl ''down'', r)),
     r_incr = (\<lambda>k t r. (Inl ''down'', r)), r_expire = (\<lambda>k s t r. (Inl ''down'', r)),
     r_ping = (\<lambda>t r. (Inl ''down'', r))\<rparr>"

definition request_ex :: "string \<Rightarrow> (string \<times> string) list \<Rightarrow> (string \<times> string) list \<Rightarrow> request" where
  "request_ex path hs cs = \<lparr>rq_method = ''POST'', rq_path = path, rq_headers = hs, rq_cookies = cs,
     rq_client = Some ''10.0.0.1'', rq_request_id = None, rq_session_id = None\<rparr>"

theorem auth_fails_closed_witness:
  "\<exists>resp w'. http_stack lib_ex settings_ex downed_redis (\<lambda>app. app) (\<lambda>rq. ret (json_response 200 JNull []))
       (request_ex ''/api/v1/auth/login'' [(''X-Request-ID'', ''r1'')] []) (still_world ()) = (Inr resp, w')
     \<and> rs_status resp = 503"
proof -
  let ?rq = "request_ex ''/api/v1/auth/login'' [(''X-Request-ID'', ''r1'')] []"
  have "choose_request_id ?rq (still_world ()) = (Inr ''r1'', still_world ())"
    by (simp add: choose_request_id_def request_ex_def prog_simps)
  moreover have "\<forall>k t s. \<exists>m s'. r_incr downed_redis k t s = (Inl m, s')"
    by (simp add: downed_redis_def)
  moreover have "rate_limit_enabled settings_ex" "is_auth_path (rq_path ?rq)"
    by (simp_all add: settings_ex_def default_settings_def is_auth_path_def request_ex_def startswith_def)
  ultimately show ?thesis
    using auth_fails_closed [of downed_redis settings_ex ?rq "still_world ()" "''r1''" "still_world ()" lib_ex "\<lambda>app. app"
        "\<lambda>rq. ret (json_response 200 JNull [])"] by blast
qed

text \<open>
  C30. Cookies alone never authorise a change: with CSRF protection on, a POST, PUT, PATCH or DELETE
  that carries a session cookie and no header equal to a non-empty CSRF cookie is answered 403, 429
  or 503 whatever the routes are, with the data as they were; one whose header equals the cookie is
  served as if the protection were off.
\<close>

theorem csrf_protects:
  assumes on: "csrf_enabled S" and m: "rq_method rq \<in> {''POST'', ''PUT'', ''PATCH'', ''DELETE''}"
    and cookies: "cookie rq ''access_token'' = Some (a # as) \<or> cookie rq ''refresh_token'' = Some (a # as)"
  shows "if \<exists>c cs. cookie rq ''csrf_token'' = Some (c # cs) \<and> header (rq_headers rq) ''X-CSRF-Token'' = Some (c # cs)
    then http_stack L S R cors router rq w = http_stack L (S\<lparr>csrf_enabled := False\<rparr>) R cors router rq w
    else \<exists>resp w'. (\<forall>cors router. http_stack L S R cors router rq w = (Inr resp, w'))
      \<and> rs_status resp \<in> {403, 429, 503} \<and> committed w' = committed w \<and> work w' = work w"
proof (cases "\<exists>c cs. cookie rq ''csrf_token'' = Some (c # cs) \<and> header (rq_headers rq) ''X-CSRF-Token'' = Some (c # cs)")
  case True
  have "csrf_middleware S app (rq\<lparr>rq_request_id := Some i\<rparr>)
      = csrf_middleware (S\<lparr>csrf_enabled := False\<rparr>) app (rq\<lparr>rq_request_id := Some i\<rparr>)" for app :: "'a app" and i
    using True by (auto simp: csrf_middleware_def csrf_rejects_def present_cookie_def cookie_def)
  then have "security_headers_middleware S (csrf_middleware S app) (rq\<lparr>rq_request_id := Some i\<rparr>)
      = security_headers_middleware (S\<lparr>csrf_enabled := False\<rparr>) (csrf_middleware (S\<lparr>csrf_enabled := False\<rparr>) app)
          (rq\<lparr>rq_request_id := Some i\<rparr>)" for app :: "'a app" and i
    by (simp add: security_headers_middleware_def security_headers_def)
  then have "rate_limit_middleware L S R (security_headers_middleware S (csrf_middleware S app)) (rq\<lparr>rq_request_id := Some i\<rparr>)
      = rate_limit_middleware L (S\<lparr>csrf_enabled := False\<rparr>) R (security_headers_middleware (S\<lparr>csrf_enabled := False\<rparr>)
          (csrf_middleware (S\<lparr>csrf_enabled := False\<rparr>) app)) (rq\<lparr>rq_request_id := Some i\<rparr>)" for app :: "'a app" and i
    by (intro rate_limit_cong)
  then show ?thesis
    unfolding if_P [OF True] by (simp add: http_stack_def server_error_layer_def request_id_middleware_def)
next
  case False
  have rejects: "csrf_rejects S (rq\<lparr>rq_request_id := Some i\<rparr>)" for i
    using on m cookies False by (auto simp: csrf_rejects_def unsafe_methods_def present_cookie_iff)
  obtain i w1 where i: "choose_request_id rq w = (Inr i, w1)" "same_data w w1"
    by (rule choose_request_id_runs)
  let ?rq = "rq\<lparr>rq_request_id := Some i\<rparr>"
  have inner: "security_headers_middleware S (csrf_middleware S app) ?rq v = (Inr (add_headers (security_headers S ?rq)
     (json_response 403 (error_content ?rq ''CSRF_VALIDATION_FAILED'' ''CSRF validation failed'') [])), v)" for app :: "'a app" and v
    by (simp add: security_headers_middleware_def csrf_middleware_def rejects add_headers_def prog_simps)
  show ?thesis
    unfolding if_not_P [OF False]
  proof (cases rule: rate_limit_cases [of w1 L S R ?rq])
    case (runs w' hs)
    then show "\<exists>resp w'. (\<forall>cors router. http_stack L S R cors router rq w = (Inr resp, w'))
      \<and> rs_status resp \<in> {403, 429, 503} \<and> committed w' = committed w \<and> work w' = work w"
      using i by (auto simp: http_stack_def i(1) server_error_layer_def request_id_middleware_def prog_simps inner
          json_response_def same_data_def)
  next
    case (answers w' resp code msg)
    then show "\<exists>resp w'. (\<forall>cors router. http_stack L S R cors router rq w = (Inr resp, w'))
      \<and> rs_status resp \<in> {403, 429, 503} \<and> committed w' = committed w \<and> work w' = work w"
      using i by (auto simp: http_stack_def i(1) server_error_layer_def request_id_middleware_def prog_simps
          same_data_def)
  qed
qed

theorem csrf_protects_witness:
  "\<exists>resp w'. http_stack lib_ex (settings_ex\<lparr>csrf_enabled := True\<rparr>) downed_redis (\<lambda>app. app) (\<lambda>rq. ret (json_response 200 JNull []))
       (request_ex ''/api/v1/preferences'' [(''X-CSRF-Token'', ''t2'')] [(''access_token'', ''s''), (''csrf_token'', ''t1'')])
       (still_world ()) = (Inr resp, w')
     \<and> rs_status resp \<in> {403, 429, 503} \<and> committed w' = db_ex"
proof -
  let ?rq = "request_ex ''/api/v1/preferences'' [(''X-CSRF-Token'', ''t2'')] [(''access_token'', ''s''), (''csrf_token'', ''t1'')]"
  have "cookie ?rq ''access_token'' = Some (CHR ''s'' # [])" "cookie ?rq ''csrf_token'' = Some ''t1''"
    "header (rq_headers ?rq) ''X-CSRF-Token'' = Some ''t2''" "rq_method ?rq = ''POST''"
    by (simp_all add: cookie_def request_ex_def)
  then show ?thesis
    using csrf_protects [of "settings_ex\<lparr>csrf_enabled := True\<rparr>" ?rq "CHR ''s''" "[]" lib_ex downed_redis "\<lambda>app. app"
        "\<lambda>rq. ret (json_response 200 JNull [])" "still_world ()"]
    by (auto simp: still_world_def)
qed

section \<open>Every request is answered\<close>

text \<open>An error body: the structure every client may rely on, with the request identifier.\<close>

definition error_body :: "string \<Rightarrow> json \<Rightarrow> bool" where
  "error_body i b = (\<exists>code msg ds. b = JObj [(''error'', JObj [(''code'', JStr code),
     (''message'', JStr msg), (''details'', JArr ds), (''request_id'', JStr i)])])"

lemma error_body_build [simp]: "error_body i (build_error_payload code msg i ds)"
  by (simp add: error_body_def build_error_payload_def)

lemma app_error_typed:
  assumes "rq_request_id rq = Some i"
  shows "error_body i (rs_body (app_error_handler rq e))"
    "rs_status (app_error_handler rq e) \<in> {400, 401, 403, 404, 409, 422, 500, 503}"
  using assms by (simp_all add: app_error_handler_def unexpected_error_handler_def json_response_def
      request_id_or_unknown_def error_payload_def status_for_app_error_def error_status_codes_def)

text \<open>
  Starlette's CORS middleware, as it documents itself: it answers a preflight request (OPTIONS)
  alone, and otherwise adds headers to the answer of the application.
\<close>

definition cors_law :: "('r app \<Rightarrow> 'r app) \<Rightarrow> bool" where
  "cors_law cors = (\<forall>app rq w.
     (rq_method rq = ''OPTIONS'' \<and> (\<exists>resp. cors app rq w = (Inr resp, w)))
     \<or> (\<exists>hs. cors app rq w = bindP (app rq) (\<lambda>x. ret (add_headers hs x)) w))"

text \<open>
  The answers a request may get: the route's own, that of an application exception, the general
  answer 500 of any other exception, which tells nothing of it, that of a middleware, or that of
  the CORS middleware to a preflight request.
\<close>

inductive outcome :: "'r app \<Rightarrow> request \<Rightarrow> string \<Rightarrow> 'r world \<Rightarrow> response \<Rightarrow> 'r world \<Rightarrow> bool"
  for router rq i w where
  Route: "router (rq\<lparr>rq_request_id := Some i\<rparr>) w2 = (Inr r, w') \<Longrightarrow> rs_status resp = rs_status r \<Longrightarrow>
      rs_body resp = rs_body r \<Longrightarrow> header (rs_headers resp) ''X-Request-ID'' = Some i \<Longrightarrow> outcome router rq i w resp w'"
| App_Error: "router (rq\<lparr>rq_request_id := Some i\<rparr>) w2 = (Inl (App e), w') \<Longrightarrow>
      rs_status resp \<in> {400, 401, 403, 404, 409, 422, 500, 503} \<Longrightarrow> error_body i (rs_body resp) \<Longrightarrow>
      header (rs_headers resp) ''X-Request-ID'' = Some i \<Longrightarrow> outcome router rq i w resp w'"
| Crash: "router (rq\<lparr>rq_request_id := Some i\<rparr>) w2 = (Inl x, w') \<Longrightarrow> x \<notin> range App \<Longrightarrow>
      resp = json_response 500 (build_error_payload ''INTERNAL_SERVER_ERROR''
        ''An unexpected error occurred'' i []) [] \<Longrightarrow> outcome router rq i w resp w'"
| Refused: "rs_status resp \<in> {403, 429, 503} \<Longrightarrow> error_body i (rs_body resp) \<Longrightarrow>
      header (rs_headers resp) ''X-Request-ID'' = Some i \<Longrightarrow> same_data w w' \<Longrightarrow> outcome router rq i w resp w'"
| Preflight: "rq_method rq = ''OPTIONS'' \<Longrightarrow> header (rs_headers resp) ''X-Request-ID'' = Some i \<Longrightarrow>
      same_data w w' \<Longrightarrow> outcome router rq i w resp w'"

lemma exception_layer_run:
  assumes "router rq w = (q, w')"
  shows "exception_layer router rq w = ((case q of Inr r \<Rightarrow> Inr r
     | Inl x \<Rightarrow> (case x of App e \<Rightarrow> Inr (app_error_handler rq e) | _ \<Rightarrow> Inl x)), w')"
  using assms by (auto simp: exception_layer_def prog_simps split: sum.split exn.split)

lemma same_data_trans: "same_data u v \<Longrightarrow> same_data v w \<Longrightarrow> same_data u w"
  by (simp add: same_data_def)

text \<open>The stack around the CORS middleware: it refuses, or passes the answer on with more headers.\<close>

lemma stack_cases:
  assumes i: "choose_request_id rq w = (Inr i, w1)"
  obtains (refused) resp w' where "http_stack L S R cors router rq w = (Inr resp, w')"
      "rs_status resp \<in> {403, 429, 503}" "error_body i (rs_body resp)"
      "header (rs_headers resp) ''X-Request-ID'' = Some i" "same_data w w'"
  | (passed) w2 hs where "same_data w w2"
      "http_stack L S R cors router rq w =
        (case cors (exception_layer router) (rq\<lparr>rq_request_id := Some i\<rparr>) w2 of (q, w') \<Rightarrow>
          (Inr (case q of Inl x \<Rightarrow> handle_raised (rq\<lparr>rq_request_id := Some i\<rparr>) (RaisedExn x)
             | Inr resp \<Rightarrow> set_header ''X-Request-ID'' i (add_headers hs resp)), w'))"
proof -
  let ?rq = "rq\<lparr>rq_request_id := Some i\<rparr>"
  let ?inner = "security_headers_middleware S (csrf_middleware S (cors (exception_layer router)))"
  have w1: "same_data w w1"
    by (rule choose_request_id_same [OF i])
  have stack: "http_stack L S R cors router rq w = (case rate_limit_middleware L S R ?inner ?rq w1 of (q, w') \<Rightarrow>
      (Inr (case q of Inr resp \<Rightarrow> set_header ''X-Request-ID'' i resp
         | Inl x \<Rightarrow> handle_raised ?rq (RaisedExn x)), w'))"
    by (auto simp: http_stack_def i server_error_layer_def request_id_middleware_def prog_simps
        split: prod.splits sum.splits)
  have body: "error_body i (error_content ?rq code msg)" for code msg
    by (simp add: error_content_def request_id_or_unknown_def)
  show thesis
  proof (cases rule: rate_limit_cases [of w1 L S R ?rq])
    case (answers w' resp code msg)
    show thesis
      by (rule refused [of "set_header ''X-Request-ID'' i resp" w'])
        (use answers w1 body same_data_trans in \<open>auto simp: stack header_set_header\<close>)
  next
    case (runs w2 hs)
    have run: "http_stack L S R cors router rq w = (case csrf_middleware S (cors (exception_layer router)) ?rq w2 of (q, w') \<Rightarrow>
        (Inr (case q of Inl x \<Rightarrow> handle_raised ?rq (RaisedExn x)
          | Inr resp \<Rightarrow> set_header ''X-Request-ID'' i (add_headers hs (add_headers (security_headers S ?rq) resp))), w'))"
      by (simp add: stack runs(2) security_headers_middleware_def add_headers_def prog_simps split: prod.splits sum.splits)
    have w2: "same_data w w2"
      by (rule same_data_trans [OF w1 runs(1)])
    show thesis
    proof (cases "csrf_rejects S ?rq")
      case True
      show thesis
        by (rule refused [of "set_header ''X-Request-ID'' i (add_headers hs (add_headers (security_headers S ?rq)
              (json_response 403 (error_content ?rq ''CSRF_VALIDATION_FAILED'' ''CSRF validation failed'') [])))" w2])
          (use w2 body in \<open>auto simp: run csrf_middleware_def True ret_def header_set_header json_response_def\<close>)
    next
      case False
      have both: "add_headers hs (add_headers (security_headers S ?rq) x) = add_headers (security_headers S ?rq @ hs) x" for x
        by (simp add: add_headers_def)
      show thesis
        by (rule passed [OF w2, of "security_headers S ?rq @ hs"])
          (unfold run csrf_middleware_def if_not_P [OF False] both, rule refl)
    qed
  qed
qed

text \<open>
  C31. Every request is answered, whatever the routes do, with one of the five outcomes. Every error
  body has the same structure and carries the identifier of the request; so does the
  \<open>X-Request-ID\<close> header of every answer but the general 500, whose exception passes the
  middleware that sets it. An application exception gets one of eight statuses, and what a middleware
  refuses leaves the data as they were.
\<close>

theorem every_request_answered:
  assumes "cors_law cors"
  shows "\<exists>i w1 resp w'. choose_request_id rq w = (Inr i, w1) \<and> http_stack L S R cors router rq w = (Inr resp, w')
     \<and> outcome router rq i w resp w'"
proof -
  obtain i w1 where i: "choose_request_id rq w = (Inr i, w1)"
    by (rule choose_request_id_runs)
  have fin: ?thesis if "http_stack L S R cors router rq w = (Inr resp, w')" "outcome router rq i w resp w'" for resp w'
    using i that by blast
  let ?rq = "rq\<lparr>rq_request_id := Some i\<rparr>"
  show ?thesis
    using i
  proof (cases rule: stack_cases [where L = L and S = S and R = R and cors = cors and router = router])
    case (refused resp w')
    show ?thesis
      by (rule fin [OF refused(1) Refused [OF refused(2-5)]])
  next
    case (passed w2 hs)
    consider resp where "rq_method ?rq = ''OPTIONS''" "cors (exception_layer router) ?rq w2 = (Inr resp, w2)"
      | hs' where "cors (exception_layer router) ?rq w2 = bindP (exception_layer router ?rq) (\<lambda>x. ret (add_headers hs' x)) w2"
      using assms unfolding cors_law_def by blast
    then show ?thesis
    proof cases
      case (1 resp)
      show ?thesis
        by (rule fin, unfold passed(2) 1(2), simp, rule Preflight)
          (use 1(1) passed(1) in \<open>simp_all add: header_set_header\<close>)
    next
      case (2 hs')
      obtain q w' where r: "router ?rq w2 = (q, w')"
        by fastforce
      note run = passed(2) [unfolded 2 bindP_def ret_def exception_layer_run [where router = router, OF r]]
      consider a where "q = Inr a" | e where "q = Inl (App e)" | x where "q = Inl x" "x \<notin> range App"
        by (cases q) blast+
      then show ?thesis
      proof cases
        case (1 a)
        show ?thesis
          by (rule fin, unfold run 1, simp, rule Route [where router = router, OF r [unfolded 1]])
            (simp_all add: header_set_header)
      next
        case (2 e)
        show ?thesis
          by (rule fin, unfold run 2, simp, rule App_Error [where router = router, OF r [unfolded 2]])
            (use app_error_typed [of ?rq i] in \<open>simp_all add: header_set_header\<close>)
      next
        case (3 x)
        then have "http_stack L S R cors router rq w = (Inr (json_response 500 (build_error_payload
            ''INTERNAL_SERVER_ERROR'' ''An unexpected error occurred'' i []) []), w')"
          by (cases x) (auto simp: run unexpected_error_handler_def request_id_or_unknown_def)
        then show ?thesis
          by (rule fin) (rule Crash [where router = router, OF r [unfolded 3(1)] 3(2) refl])
      qed
    qed
  qed
qed

theorem every_request_answered_witness:
  "\<exists>i resp w'. http_stack lib_ex settings_ex downed_redis (\<lambda>app. app) (\<lambda>rq. raise (App (err JobNotFound)))
       (request_ex ''/api/v1/jobs'' [] []) (still_world ()) = (Inr resp, w')
     \<and> outcome (\<lambda>rq. raise (App (err JobNotFound))) (request_ex ''/api/v1/jobs'' [] []) i (still_world ()) resp w'"
proof -
  have "cors_law (\<lambda>app :: unit app. app)"
    unfolding cors_law_def by (intro allI disjI2 exI [of _ "[]"]) simp
  from every_request_answered [OF this] show ?thesis
    by blast
qed

end
