(* ===== verification/Matching.thy ===== *)
theory Matching
  imports Doubles Ingest_Repo
begin

text \<open>
  \<open>app/matching/rule_engine.py\<close>, \<open>app/repositories/matching.py\<close> and
  \<open>app/domain/matching/service.py\<close>: scoring a job against a preference document and storing the
  result. The share of matched skills is Python's float arithmetic (theory Doubles).
\<close>

section \<open>The rules\<close>

record match_decision =
  md_score :: int
  md_confidence :: rat
  md_decision :: string
  md_components :: "(string \<times> int) list"
  md_matched :: "string list"
  md_missing :: "string list"
  md_concerns :: "string list"
  md_reasoning :: string

definition job_text :: "job \<Rightarrow> string" where
  "job_text j = casefold (j_title j @ '' '' @ j_description j)"

definition mentions :: "string \<Rightarrow> string \<Rightarrow> bool" where
  "mentions text term = contains text (casefold term)"

definition role_score :: "job \<Rightarrow> preferences \<Rightarrow> int" where
  "role_score j p = (if \<exists>t\<in>set (pf_titles p). mentions (casefold (j_title j)) t then 10 else 0)"

text \<open>
  The locations are joined once per preferred place, so an element that is not text raises only
  when there is a place to look for.
\<close>

definition location_score :: "job \<Rightarrow> preferences \<Rightarrow> exn + int" where
  "location_score j p =
     (if pf_locations p = [] then Inr 0
      else (case all_some (map str_of_json (j_locations j)) of
              None \<Rightarrow> Inl (TypeError ''sequence item: expected str instance'')
            | Some ls \<Rightarrow> Inr
                (if \<exists>v\<in>set (pf_locations p). mentions (casefold (join '' '' ls)) v then 15 else 0)))"

definition wanted_skills :: "preferences \<Rightarrow> string list" where
  "wanted_skills p = pf_must_have p @ pf_nice_to_have p"

definition skills_score :: "string list \<Rightarrow> preferences \<Rightarrow> int" where
  "skills_score matched p = min 40 (points (length matched) (max 1 (length (wanted_skills p))))"

definition company_score :: "job \<Rightarrow> preferences \<Rightarrow> int" where
  "company_score j p =
     (if casefold (j_company_name j) \<in> set (map casefold (pf_companies p)) then 5 else 0)"

text \<open>The float \<open>0.8\<close>.\<close>

definition rule_confidence :: rat where
  "rule_confidence = 3602879701896397 / 4503599627370496"

definition evaluate_rules :: "job \<Rightarrow> preferences \<Rightarrow> exn + match_decision" where
  "evaluate_rules j p =
     (let text = job_text j;
          concerns = filter (mentions text) (pf_exclusions p);
          matched = filter (mentions text) (wanted_skills p);
          missing = filter (\<lambda>s. \<not> mentions text s) (pf_must_have p);
          ro = role_score j p
      in (case location_score j p of
            Inl e \<Rightarrow> Inl e
          | Inr lo \<Rightarrow>
              (let sk = skills_score matched p;
                   co = company_score j p;
                   total = ro + lo + sk + co;
                   score = (if concerns \<noteq> [] then 0 else total);
                   decision = (if concerns \<noteq> [] then ''reject''
                               else if total \<ge> pf_minimum_score p then ''notify'' else ''review'')
               in Inr \<lparr>md_score = score, md_confidence = rule_confidence, md_decision = decision,
                    md_components = [(''skills'', sk), (''experience'', 0), (''location'', lo),
                      (''role'', ro), (''salary'', 0), (''company'', co)],
                    md_matched = matched, md_missing = missing, md_concerns = concerns,
                    md_reasoning = ''Rule-based match evaluation''\<rparr>)))"

section \<open>Storing a result\<close>

definition new_match :: "uuid \<Rightarrow> time \<Rightarrow> job \<Rightarrow> preference_profile \<Rightarrow> match_decision \<Rightarrow> match_result" where
  "new_match i t j p d =
     \<lparr>mr_id = i, mr_job_id = j_id j, mr_preference_profile_id = pp_id p,
      mr_job_description_hash = j_description_hash j, mr_score = md_score d,
      mr_confidence = md_confidence d, mr_decision = md_decision d,
      mr_component_scores = md_components d, mr_matched_criteria = md_matched d,
      mr_missing_criteria = md_missing d, mr_concerns = md_concerns d,
      mr_reasoning = md_reasoning d, mr_matcher_version = ''rules-v1'', mr_embedding_model = None,
      mr_llm_model = None, mr_prompt_version = None, mr_created_at = t\<rparr>"

definition repo_create_match :: "match_result \<Rightarrow> ('r, match_result) op" where
  "repo_create_match m =
     bindP (alter (\<lambda>d. d\<lparr>match_results := match_results d @ [m]\<rparr>)) (\<lambda>_.
     bindP commit_session (\<lambda>_.
     bindP refresh_session (\<lambda>_. ret m)))"

text \<open>The latest result of a job, whoever's profile it was computed for.\<close>

definition matches_of :: "db \<Rightarrow> uuid \<Rightarrow> match_result list" where
  "matches_of d jid = sort_key (\<lambda>m. - mr_created_at m)
     (filter (\<lambda>m. mr_job_id m = jid) (match_results d))"

definition repo_latest_match :: "uuid \<Rightarrow> ('r, match_result option) op" where
  "repo_latest_match jid =
     query (\<lambda>d. case matches_of d jid of [] \<Rightarrow> None | m # _ \<Rightarrow> Some m)"

definition evaluate :: "job \<Rightarrow> preference_profile \<Rightarrow> ('r, match_result) op" where
  "evaluate j p =
     bindP (loaded (pp_config p)) (\<lambda>prefs.
     (case evaluate_rules j prefs of
        Inl e \<Rightarrow> raise e
      | Inr d \<Rightarrow>
          bindP uuid4 (\<lambda>i.
          bindP now_utc (\<lambda>t. repo_create_match (new_match i t j p d)))))"

definition match_job :: "uuid \<Rightarrow> uuid \<Rightarrow> ('r, match_result) op" where
  "match_job jid uid =
     bindP (get_job jid) (\<lambda>found.
     (case found of
        None \<Rightarrow> raise (App (err JobNotFound))
      | Some j \<Rightarrow>
          bindP (repo_get_active uid) (\<lambda>profile.
          (case profile of
             None \<Rightarrow> raise (App (err ActivePreferenceNotFound))
           | Some p \<Rightarrow> evaluate j p))))"

end
