(* ===== verification/Job_Query.thy ===== *)
theory Job_Query
  imports Matching Auth_Api
begin

text \<open>
  \<open>app/repositories/job_query.py\<close>, \<open>app/domain/jobs/query_service.py\<close> and the routes of
  \<open>api/v1/jobs.py\<close>: the jobs a user may see, their filters and pages, the stored match and the
  user's feedback. A job is visible to a user when one of the user's sources has reported it.
\<close>

section \<open>Text conditions of SQL\<close>

text \<open>
  \<open>contains(x)\<close> is \<open>LIKE '%' || x || '%'\<close> without escaping, so the wildcards of the pattern keep
  their meaning in \<open>x\<close>; the backslash is PostgreSQL's escape character.
\<close>

fun like :: "string \<Rightarrow> string \<Rightarrow> bool" where
  "like [] t = (t = [])"
| "like (c # p) t =
     (if c = CHR ''%'' then like p t \<or> (case t of [] \<Rightarrow> False | _ # t' \<Rightarrow> like (c # p) t')
      else if c = CHR 0x5C then
        (case (p, t) of (d # p', x # t') \<Rightarrow> x = d \<and> like p' t' | _ \<Rightarrow> False)
      else (case t of [] \<Rightarrow> False | x # t' \<Rightarrow> (c = CHR ''_'' \<or> x = c) \<and> like p t'))"

definition sql_contains :: "string \<Rightarrow> string \<Rightarrow> bool" where
  "sql_contains t x = like (''%'' @ x @ ''%'') t"

text \<open>The text of a JSON column: \<open>json.dumps\<close>, which escapes everything that is not ASCII.\<close>

definition json_char :: "char \<Rightarrow> string" where
  "json_char c = (let n = of_char c :: nat; bs = CHR 0x5C in
     if n = 34 \<or> n = 92 then [bs, c]
     else if n = 10 then [bs, CHR ''n''] else if n = 13 then [bs, CHR ''r'']
     else if n = 9 then [bs, CHR ''t''] else if n = 8 then [bs, CHR ''b'']
     else if n = 12 then [bs, CHR ''f'']
     else if n < 32 \<or> n > 126 then [bs] @ ''u00'' @ hex2 n
     else [c])"

definition json_string :: "string \<Rightarrow> string" where
  "json_string s = [CHR 0x22] @ concat (map json_char s) @ [CHR 0x22]"

fun json_dumps :: "(rat \<Rightarrow> string) \<Rightarrow> json \<Rightarrow> string" where
  "json_dumps fr JNull = ''null''"
| "json_dumps fr (JBool b) = (if b then ''true'' else ''false'')"
| "json_dumps fr (JInt i) = str_int i"
| "json_dumps fr (JFloat x) = fr x"
| "json_dumps fr (JStr s) = json_string s"
| "json_dumps fr (JArr xs) = ''['' @ join '', '' (map (json_dumps fr) xs) @ '']''"
| "json_dumps fr (JObj kvs) =
     CHR 0x7B # join '', '' (map (\<lambda>(k, v). json_string k @ '': '' @ json_dumps fr v) kvs) @ [CHR 0x7D]"

section \<open>The repository\<close>

definition visible :: "db \<Rightarrow> uuid \<Rightarrow> job \<Rightarrow> bool" where
  "visible d uid j \<longleftrightarrow> (\<exists>r\<in>set (job_source_records d). sr_job_id r = j_id j \<and>
     (\<exists>s\<in>set (sources d). so_id s = sr_source_id r \<and> so_user_id s = uid))"

record job_filter =
  jq_min_score :: "int option"
  jq_status :: "string option"
  jq_company :: "string option"
  jq_location :: "string option"

definition given :: "string option \<Rightarrow> (string \<Rightarrow> bool) \<Rightarrow> bool" where
  "given x P = (case x of None \<Rightarrow> True | Some s \<Rightarrow> s = [] \<or> P s)"

definition job_matches :: "(rat \<Rightarrow> string) \<Rightarrow> job_filter \<Rightarrow> job \<Rightarrow> bool" where
  "job_matches fr f j \<longleftrightarrow>
     j_status j = (case jq_status f of None \<Rightarrow> ''active'' | Some s \<Rightarrow> s) \<and>
     given (jq_company f) (\<lambda>c. sql_contains (lower (j_company_name j)) (casefold c)) \<and>
     given (jq_location f) (\<lambda>l. sql_contains (json_dumps fr (JArr (j_locations j))) l)"

text \<open>A join gives one row for each matching result of the job.\<close>

definition join_scores :: "db \<Rightarrow> int option \<Rightarrow> job list \<Rightarrow> job list" where
  "join_scores d lowest js =
     (case lowest of
        None \<Rightarrow> js
      | Some k \<Rightarrow> concat (map (\<lambda>j. map (\<lambda>_. j)
          (filter (\<lambda>m. mr_job_id m = j_id j \<and> mr_score m \<ge> k) (match_results d))) js))"

definition job_order :: "job list \<Rightarrow> job list" where
  "job_order js = sort_key (\<lambda>j. - j_last_seen_at j) (sort_key j_id js)"

definition job_rows :: "(rat \<Rightarrow> string) \<Rightarrow> db \<Rightarrow> uuid \<times> job_filter \<Rightarrow> job list" where
  "job_rows fr d = (\<lambda>(uid, f). job_order (join_scores d (jq_min_score f)
     (filter (\<lambda>j. visible d uid j \<and> job_matches fr f j) (jobs d))))"

definition job_window :: "(rat \<Rightarrow> string) \<Rightarrow> db \<Rightarrow> uuid \<times> job_filter \<Rightarrow> nat \<Rightarrow> nat \<Rightarrow> job list" where
  "job_window fr d q off per = window off per (job_rows fr d q)"

definition job_count :: "(rat \<Rightarrow> string) \<Rightarrow> db \<Rightarrow> uuid \<times> job_filter \<Rightarrow> nat" where
  "job_count fr d = (\<lambda>(uid, f). length (join_scores d (jq_min_score f)
     (filter (\<lambda>j. visible d uid j \<and> job_matches fr f j) (jobs d))))"

definition repo_list_jobs ::
  "lib \<Rightarrow> uuid \<Rightarrow> nat \<Rightarrow> nat \<Rightarrow> job_filter \<Rightarrow> ('r, job list \<times> nat) op" where
  "repo_list_jobs L uid page page_size f =
     bindP (query (\<lambda>d. job_count (float_repr L) d (uid, f))) (\<lambda>n.
     bindP (query (\<lambda>d. job_window (float_repr L) d (uid, f) ((page - 1) * page_size) page_size))
       (\<lambda>js. ret (js, n)))"

definition repo_get_visible_job :: "uuid \<Rightarrow> uuid \<Rightarrow> ('r, job option) op" where
  "repo_get_visible_job uid jid =
     query (\<lambda>d. find (\<lambda>j. visible d uid j \<and> j_id j = jid) (jobs d))"

definition repo_get_feedback :: "uuid \<Rightarrow> uuid \<Rightarrow> ('r, job_feedback option) op" where
  "repo_get_feedback uid jid =
     query (\<lambda>d. find (\<lambda>f. jf_user_id f = uid \<and> jf_job_id f = jid) (job_feedbacks d))"

definition repo_save_feedback :: "job_feedback \<Rightarrow> ('r, job_feedback) op" where
  "repo_save_feedback f =
     bindP (alter (\<lambda>d. d\<lparr>job_feedbacks := job_feedbacks d @ [f]\<rparr>)) (\<lambda>_.
     bindP commit_session (\<lambda>_.
     bindP refresh_session (\<lambda>_. ret f)))"

text \<open>The list is a paged query.\<close>

lemma length_job_order [simp]: "length (job_order js) = length js"
  by (simp add: job_order_def)

interpretation job_pages: paged_query "job_rows fr" "job_window fr" "job_count fr" for fr
  by unfold_locales (simp_all add: job_window_def job_count_def job_rows_def split: prod.split)

section \<open>The service\<close>

record job_detail =
  jd_job :: job
  jd_match :: "match_result option"
  jd_feedback :: "job_feedback option"

definition query_detail :: "uuid \<Rightarrow> uuid \<Rightarrow> ('r, job_detail) op" where
  "query_detail uid jid =
     bindP (repo_get_visible_job uid jid) (\<lambda>found.
     (case found of
        None \<Rightarrow> raise (App (err JobNotFound))
      | Some j \<Rightarrow>
          bindP (repo_latest_match jid) (\<lambda>m.
          bindP (repo_get_feedback uid jid) (\<lambda>f.
          ret \<lparr>jd_job = j, jd_match = m, jd_feedback = f\<rparr>))))"

definition query_latest_match :: "uuid \<Rightarrow> uuid \<Rightarrow> ('r, match_result) op" where
  "query_latest_match uid jid =
     bindP (repo_get_visible_job uid jid) (\<lambda>found.
     (case found of
        None \<Rightarrow> raise (App (err MatchNotFound))
      | Some _ \<Rightarrow>
          bindP (repo_latest_match jid) (\<lambda>m.
          (case m of None \<Rightarrow> raise (App (err MatchNotFound)) | Some x \<Rightarrow> ret x))))"

record feedback_input =
  fi_label :: string
  fi_note :: "string option"

definition feedback_labels :: "string list" where
  "feedback_labels = [''saved'', ''applied'', ''rejected'', ''hidden'']"

definition feedback_input_ok :: "feedback_input \<Rightarrow> bool" where
  "feedback_input_ok x = (fi_label x \<in> set feedback_labels)"

text \<open>An existing row is updated in place; its time of update moves when a column really changes.\<close>

definition refreshed_feedback :: "feedback_input \<Rightarrow> time \<Rightarrow> job_feedback \<Rightarrow> job_feedback" where
  "refreshed_feedback x t f =
     (if jf_label f = fi_label x \<and> jf_note f = fi_note x then f
      else f\<lparr>jf_label := fi_label x, jf_note := fi_note x, jf_updated_at := t\<rparr>)"

definition give_feedback :: "uuid \<Rightarrow> uuid \<Rightarrow> feedback_input \<Rightarrow> ('r, job_feedback) op" where
  "give_feedback uid jid x =
     bindP (repo_get_visible_job uid jid) (\<lambda>found.
     if found = None then raise (App (err JobNotFound))
     else
       bindP (repo_get_feedback uid jid) (\<lambda>old.
       bindP now_utc (\<lambda>t.
       (case old of
          Some f \<Rightarrow>
            bindP (alter (\<lambda>d. d\<lparr>job_feedbacks :=
              update_where (\<lambda>y. jf_id y = jf_id f) (refreshed_feedback x t) (job_feedbacks d)\<rparr>)) (\<lambda>_.
            bindP commit_session (\<lambda>_.
            bindP refresh_session (\<lambda>_. ret (refreshed_feedback x t f))))
        | None \<Rightarrow>
            bindP uuid4 (\<lambda>i.
            repo_save_feedback \<lparr>jf_id = i, jf_user_id = uid, jf_job_id = jid, jf_label = fi_label x,
              jf_note = fi_note x, jf_created_at = t, jf_updated_at = t\<rparr>)))))"

section \<open>The routes\<close>

definition job_payload :: "job \<Rightarrow> json" where
  "job_payload j = JObj
     [(''id'', JStr (uuid_str (j_id j))), (''title'', JStr (j_title j)),
      (''company_name'', JStr (j_company_name j)), (''description'', JStr (j_description j)),
      (''locations'', JArr (j_locations j)), (''work_mode'', JStr (j_work_mode j)),
      (''application_url'', JStr (j_application_url j)), (''status'', JStr (j_status j)),
      (''last_seen_at'', JStr (iso_z (j_last_seen_at j)))]"

definition match_payload :: "match_result \<Rightarrow> json" where
  "match_payload m = JObj
     [(''id'', JStr (uuid_str (mr_id m))), (''score'', JInt (mr_score m)),
      (''confidence'', JFloat (mr_confidence m)), (''decision'', JStr (mr_decision m)),
      (''components'', JObj (map (\<lambda>(k, v). (k, JInt v)) (mr_component_scores m))),
      (''matched'', jstrs (mr_matched_criteria m)), (''missing'', jstrs (mr_missing_criteria m)),
      (''concerns'', jstrs (mr_concerns m)), (''reasoning'', JStr (mr_reasoning m))]"

text \<open>The \<open>Query\<close> bounds of the list route, which FastAPI checks before the body runs.\<close>

definition list_query_ok :: "nat \<Rightarrow> nat \<Rightarrow> job_filter \<Rightarrow> bool" where
  "list_query_ok page page_size f \<longleftrightarrow> 1 \<le> page \<and> 1 \<le> page_size \<and> page_size \<le> 100 \<and>
     (case jq_min_score f of None \<Rightarrow> True | Some k \<Rightarrow> 0 \<le> k \<and> k \<le> 100)"

definition list_jobs_route ::
  "lib \<Rightarrow> settings \<Rightarrow> credentials \<Rightarrow> request \<Rightarrow> nat \<Rightarrow> nat \<Rightarrow> job_filter \<Rightarrow> 'r route" where
  "list_jobs_route L S cred rq page page_size f =
     bindP (request_user_id L S cred rq) (\<lambda>uid.
     bindP (repo_list_jobs L uid page page_size f) (\<lambda>(js, n).
     answer_page rq (JArr (map job_payload js)) (int page) (int page_size) (int n)))"

definition get_job_route :: "lib \<Rightarrow> settings \<Rightarrow> credentials \<Rightarrow> request \<Rightarrow> uuid \<Rightarrow> 'r route" where
  "get_job_route L S cred rq jid =
     bindP (request_user_id L S cred rq) (\<lambda>uid.
     bindP (query_detail uid jid) (\<lambda>x.
     answer 200 rq (JObj
       [(''job'', job_payload (jd_job x)),
        (''match'', (case jd_match x of None \<Rightarrow> JNull | Some m \<Rightarrow> match_payload m)),
        (''feedback'', (case jd_feedback x of None \<Rightarrow> JNull | Some f \<Rightarrow> JObj
           [(''id'', JStr (uuid_str (jf_id f))), (''label'', JStr (jf_label f)),
            (''note'', jstr_opt (jf_note f))]))])))"

definition get_match_route :: "lib \<Rightarrow> settings \<Rightarrow> credentials \<Rightarrow> request \<Rightarrow> uuid \<Rightarrow> 'r route" where
  "get_match_route L S cred rq jid =
     bindP (request_user_id L S cred rq) (\<lambda>uid.
     bindP (query_latest_match uid jid) (\<lambda>m. answer 200 rq (match_payload m)))"

definition save_feedback_route ::
  "lib \<Rightarrow> settings \<Rightarrow> credentials \<Rightarrow> request \<Rightarrow> uuid \<Rightarrow> feedback_input \<Rightarrow> 'r route" where
  "save_feedback_route L S cred rq jid x =
     bindP (request_user_id L S cred rq) (\<lambda>uid.
     bindP (give_feedback uid jid x) (\<lambda>f.
     answer 200 rq (JObj
       [(''id'', JStr (uuid_str (jf_id f))), (''job_id'', JStr (uuid_str (jf_job_id f))),
        (''label'', JStr (jf_label f)), (''note'', jstr_opt (jf_note f))])))"

definition match_job_route :: "lib \<Rightarrow> settings \<Rightarrow> credentials \<Rightarrow> request \<Rightarrow> uuid \<Rightarrow> 'r route" where
  "match_job_route L S cred rq jid =
     bindP (request_user_id L S cred rq) (\<lambda>uid.
     bindP (match_job jid uid) (\<lambda>m. answer 200 rq (match_payload m)))"

end
