(* ===== verification/Notifications.thy ===== *)
theory Notifications
  imports Job_Query
begin

text \<open>
  \<open>app/notifications\<close>, \<open>app/repositories/notifications.py\<close>,
  \<open>app/domain/notifications/service.py\<close>, \<open>app/workers/notifications.py\<close> and the route of
  \<open>api/v1/notifications.py\<close>: rendering, the providers, one delivery row per user, job, profile
  and channel, and the loop with a dead letter. The interface between the service and a provider
  is the locale \<open>delivery_channel\<close>: sending leaves the session alone.
\<close>

section \<open>Errors worth another try (base.py)\<close>

definition status_code :: "exn \<Rightarrow> int option" where
  "status_code e = (case e of Foreign _ c _ \<Rightarrow> c | _ \<Rightarrow> None)"

definition marked_retryable :: "exn \<Rightarrow> bool" where
  "marked_retryable e = (case e of Adapter _ b \<Rightarrow> b | Foreign _ _ b \<Rightarrow> b | _ \<Rightarrow> False)"

definition is_connection_error :: "exn \<Rightarrow> bool" where
  "is_connection_error e = (case e of TimeoutError _ \<Rightarrow> True | ConnectionError _ \<Rightarrow> True | _ \<Rightarrow> False)"

definition is_retryable :: "exn \<Rightarrow> bool" where
  "is_retryable e = (marked_retryable e \<or> is_connection_error e \<or> status_code e = Some 429
     \<or> (case status_code e of None \<Rightarrow> False | Some c \<Rightarrow> c \<ge> 500))"

section \<open>Messages (templates.py)\<close>

record message =
  ms_subject :: string
  ms_body :: string

definition newline :: string where "newline = [CHR 0x0A]"

definition or_none :: "string list \<Rightarrow> string" where
  "or_none xs = (let s = join '', '' xs in if s = [] then ''none'' else s)"

definition render_match :: "job \<Rightarrow> match_result \<Rightarrow> exn + message" where
  "render_match j m =
     (case all_some (map str_of_json (j_locations j)) of
        None \<Rightarrow> Inl (TypeError ''sequence item: expected str instance'')
      | Some ls \<Rightarrow> Inr
          \<lparr>ms_subject = ''Job match: '' @ j_title j @ '' at '' @ j_company_name j @ '' ('' @ str_int (mr_score m) @ ''/100)'',
           ms_body =
             ''Score: '' @ str_int (mr_score m) @ ''/100'' @ newline @ ''Title: '' @ j_title j @ newline @
             ''Company: '' @ j_company_name j @ newline @ ''Location: '' @ join '', '' ls @ newline @
             ''Work mode: '' @ j_work_mode j @ newline @
             ''Matched: '' @ or_none (mr_matched_criteria m) @ newline @
             ''Missing: '' @ or_none (mr_missing_criteria m) @ newline @
             ''Concerns: '' @ or_none (mr_concerns m) @ newline @ ''Apply: '' @ j_application_url j\<rparr>)"

section \<open>Providers (email.py, telegram.py, whatsapp.py)\<close>

text \<open>
  A POST through \<open>httpx\<close>: the answer depends on the moment and the address. A failed request is
  \<open>httpx.RequestError\<close>, which is neither of the built-in connection errors and has no status;
  \<open>raise_for_status\<close> raises \<open>httpx.HTTPStatusError\<close> for what is not a success.
\<close>

definition raise_for_status :: "int \<Rightarrow> ('r, unit) op" where
  "raise_for_status st =
     (if 200 \<le> st \<and> st < 300 then ret () else raise (HttpStatus (''HTTP status '' @ str_int st)))"

definition http_post :: "string \<Rightarrow> ('r, int \<times> json option) op" where
  "http_post url =
     bindP (draw (\<lambda>e n. http e n url)) (\<lambda>res.
     (case res of
        Request_Error \<Rightarrow> raise (Foreign ''request failed'' None False)
      | Http_Response st _ body \<Rightarrow> ret (st, body)))"

definition email_send :: "string \<Rightarrow> message \<Rightarrow> ('r, string) op" where
  "email_send recipient m =
     (if CHR ''@'' \<notin> set recipient then raise (ValueError ''valid email recipient is required'')
      else ret (''outbox:'' @ recipient @ '':'' @ ms_subject m))"

text \<open>\<open>response.json().get("result", {}).get("message_id", "unknown")\<close>.\<close>

definition message_id :: "(rat \<Rightarrow> string) \<Rightarrow> json option \<Rightarrow> exn + string" where
  "message_id fr body =
     (case body of
        None \<Rightarrow> Inl (ValueError ''Expecting value'')
      | Some j \<Rightarrow>
          (case dict_get j ''result'' (JObj []) of
             Inl e \<Rightarrow> Inl e
           | Inr r \<Rightarrow>
               (case dict_get r ''message_id'' (JStr ''unknown'') of
                  Inl e \<Rightarrow> Inl e
                | Inr i \<Rightarrow> Inr (py_str fr i))))"

definition telegram_send :: "lib \<Rightarrow> string \<Rightarrow> string \<Rightarrow> message \<Rightarrow> ('r, string) op" where
  "telegram_send L token chat_id m =
     (if token = [] \<or> chat_id = [] then raise (ValueError ''Telegram token and chat_id are required'')
      else
        bindP (http_post (''https://api.telegram.org/bot'' @ token @ ''/sendMessage'')) (\<lambda>(st, body).
        bindP (raise_for_status st) (\<lambda>_.
        (case message_id (float_repr L) body of Inl e \<Rightarrow> raise e | Inr i \<Rightarrow> ret i))))"

definition whatsapp_send :: "message \<Rightarrow> ('r, string) op" where
  "whatsapp_send m = raise (Foreign ''WhatsApp delivery is disabled'' None False)"

datatype provider = EmailProvider string | TelegramProvider string string | WhatsAppProvider

fun send :: "lib \<Rightarrow> provider \<Rightarrow> message \<Rightarrow> ('r, string) op" where
  "send L (EmailProvider recipient) m = email_send recipient m"
| "send L (TelegramProvider token chat_id) m = telegram_send L token chat_id m"
| "send L WhatsAppProvider m = whatsapp_send m"

section \<open>Delivery rows\<close>

definition delivery_key :: "uuid \<Rightarrow> uuid \<Rightarrow> uuid \<Rightarrow> string \<Rightarrow> notification_delivery \<Rightarrow> bool" where
  "delivery_key uid jid pid ch n \<longleftrightarrow>
     nd_user_id n = uid \<and> nd_job_id n = jid \<and> nd_profile_id n = pid \<and> nd_channel n = ch"

definition new_delivery :: "uuid \<Rightarrow> time \<Rightarrow> uuid \<Rightarrow> uuid \<Rightarrow> uuid \<Rightarrow> string \<Rightarrow> notification_delivery" where
  "new_delivery i t uid jid pid ch =
     \<lparr>nd_id = i, nd_user_id = uid, nd_job_id = jid, nd_profile_id = pid, nd_channel = ch,
      nd_status = ''pending'', nd_attempt_count = 0, nd_provider_message_id = None, nd_error = None,
      nd_created_at = t, nd_updated_at = t\<rparr>"

definition get_or_create ::
  "uuid \<Rightarrow> uuid \<Rightarrow> uuid \<Rightarrow> string \<Rightarrow> ('r, notification_delivery \<times> bool) op" where
  "get_or_create uid jid pid ch =
     bindP (query (\<lambda>d. find (delivery_key uid jid pid ch) (notification_deliveries d))) (\<lambda>found.
     (case found of
        Some n \<Rightarrow> ret (n, False)
      | None \<Rightarrow>
          bindP uuid4 (\<lambda>i.
          bindP now_utc (\<lambda>t.
          let n = new_delivery i t uid jid pid ch in
          bindP (alter (\<lambda>d. d\<lparr>notification_deliveries := notification_deliveries d @ [n]\<rparr>)) (\<lambda>_.
          bindP commit_session (\<lambda>_.
          bindP refresh_session (\<lambda>_. ret (n, True))))))))"

definition repo_get_delivery :: "uuid \<Rightarrow> ('r, notification_delivery option) op" where
  "repo_get_delivery i = query (\<lambda>d. find (\<lambda>n. nd_id n = i) (notification_deliveries d))"

definition repo_get_delivery_for_user :: "uuid \<Rightarrow> uuid \<Rightarrow> ('r, notification_delivery option) op" where
  "repo_get_delivery_for_user i uid =
     query (\<lambda>d. find (\<lambda>n. nd_id n = i \<and> nd_user_id n = uid) (notification_deliveries d))"

section \<open>The service\<close>

definition get_delivery :: "uuid \<Rightarrow> uuid \<Rightarrow> ('r, notification_delivery) op" where
  "get_delivery i uid =
     bindP (repo_get_delivery_for_user i uid) (\<lambda>found.
     (case found of None \<Rightarrow> raise (App (err NotificationDeliveryNotFound)) | Some n \<Rightarrow> ret n))"

text \<open>One attempt: render, send; an exception becomes a value.\<close>

definition try_send :: "job \<Rightarrow> match_result \<Rightarrow> (message \<Rightarrow> ('r, string) op) \<Rightarrow> ('r, exn + string) op" where
  "try_send j m snd_msg =
     catchP (bindP (case render_match j m of Inl e \<Rightarrow> raise e | Inr x \<Rightarrow> snd_msg x) (\<lambda>i. ret (Inr i)))
       (\<lambda>e. ret (Inl e))"

definition settled :: "exn + string \<Rightarrow> time \<Rightarrow> notification_delivery \<Rightarrow> notification_delivery" where
  "settled out t n =
     (case out of
        Inr i \<Rightarrow> n\<lparr>nd_status := ''delivered'', nd_attempt_count := nd_attempt_count n + 1,
                   nd_provider_message_id := Some i, nd_error := None, nd_updated_at := t\<rparr>
      | Inl e \<Rightarrow> n\<lparr>nd_status := (if is_retryable e then ''retryable'' else ''failed''),
                   nd_attempt_count := nd_attempt_count n + 1, nd_error := Some (exn_str e),
                   nd_updated_at := t\<rparr>)"

definition deliver ::
  "uuid \<Rightarrow> job \<Rightarrow> uuid \<Rightarrow> match_result \<Rightarrow> string \<Rightarrow> (message \<Rightarrow> ('r, string) op) \<Rightarrow>
   ('r, notification_delivery option) op" where
  "deliver uid j pid m ch snd_msg =
     (if mr_decision m \<noteq> ''notify'' then ret None
      else
        bindP (get_or_create uid (j_id j) pid ch) (\<lambda>(n, created).
        if \<not> created \<and> nd_status n = ''delivered'' then ret (Some n)
        else
          bindP (try_send j m snd_msg) (\<lambda>out.
          bindP now_utc (\<lambda>t.
          bindP (alter (\<lambda>d. d\<lparr>notification_deliveries :=
            update_where (\<lambda>x. nd_id x = nd_id n) (settled out t) (notification_deliveries d)\<rparr>)) (\<lambda>_.
          bindP commit_session (\<lambda>_.
          bindP refresh_session (\<lambda>_. ret (Some (settled out t n)))))))))"

section \<open>The worker (workers/notifications.py)\<close>

text \<open>The value of the operation, the dead letter, or \<open>None\<close> when no attempt is allowed.\<close>

datatype 'a letter = Answered 'a | Dead nat string | Unattempted

fun dead_letter_loop :: "nat \<Rightarrow> nat \<Rightarrow> (exn, 's, 'a) prog \<Rightarrow> (exn, 's, 'a letter) prog" where
  "dead_letter_loop attempts 0 operation = ret Unattempted"
| "dead_letter_loop attempts (Suc left) operation =
     catchP (bindP operation (\<lambda>x. ret (Answered x)))
       (\<lambda>e. if \<not> is_retryable e \<or> left = 0 then ret (Dead (Suc attempts) (exn_str e))
            else dead_letter_loop (Suc attempts) left operation)"

definition run_with_dead_letter :: "int \<Rightarrow> (exn, 's, 'a) prog \<Rightarrow> (exn, 's, 'a letter) prog" where
  "run_with_dead_letter max_attempts operation = dead_letter_loop 0 (nat max_attempts) operation"

interpretation letters: retry_loop is_retryable dead_letter_loop Answered "\<lambda>n e. Inr (Dead n (exn_str e))"
  by unfold_locales (simp add: prog_simps split: prod.split sum.split)

section \<open>The route\<close>

definition get_delivery_route :: "lib \<Rightarrow> settings \<Rightarrow> credentials \<Rightarrow> request \<Rightarrow> uuid \<Rightarrow> 'r route" where
  "get_delivery_route L S cred rq i =
     bindP (request_user_id L S cred rq) (\<lambda>uid.
     bindP (get_delivery i uid) (\<lambda>n.
     answer 200 rq (JObj
       [(''id'', JStr (uuid_str (nd_id n))), (''channel'', JStr (nd_channel n)),
        (''status'', JStr (nd_status n)), (''attempt_count'', JInt (nd_attempt_count n)),
        (''provider_message_id'', jstr_opt (nd_provider_message_id n)),
        (''error'', jstr_opt (nd_error n))])))"

section \<open>The interface between service and provider\<close>

locale delivery_channel =
  fixes snd_msg :: "message \<Rightarrow> ('r, string) op"
  assumes frame: "snd_msg m w = (r, w') \<Longrightarrow>
    work w' = work w \<and> committed w' = committed w \<and> wenv w' = wenv w"
begin

lemma try_send_frame:
  assumes "try_send j m snd_msg w = (r, w')"
  shows "(\<exists>out. r = Inr out) \<and> work w' = work w \<and> committed w' = committed w \<and> wenv w' = wenv w"
proof (cases "render_match j m")
  case (Inl e)
  with assms show ?thesis by (auto simp: try_send_def prog_simps)
next
  case (Inr x)
  obtain q v where "snd_msg x w = (q, v)" by fastforce
  with assms Inr frame [OF this] show ?thesis
    by (auto simp: try_send_def prog_simps split: sum.splits)
qed

end

lemma http_post_frame:
  "http_post url w = (r, w') \<Longrightarrow> work w' = work w \<and> committed w' = committed w \<and> wenv w' = wenv w"
  by (auto simp: http_post_def prog_simps split: http_result.splits)

lemma telegram_frame:
  assumes "telegram_send L token chat m w = (r, w')"
  shows "work w' = work w \<and> committed w' = committed w \<and> wenv w' = wenv w"
proof (cases "token = [] \<or> chat = []")
  case True
  with assms show ?thesis by (simp add: telegram_send_def prog_simps)
next
  case False
  obtain q v where "http_post (''https://api.telegram.org/bot'' @ token @ ''/sendMessage'') w = (q, v)"
    by fastforce
  with False assms http_post_frame [OF this] show ?thesis
    by (auto simp: telegram_send_def raise_for_status_def prog_simps split: sum.splits if_splits)
qed

interpretation channel: delivery_channel "send L p" for L p
proof
  fix m and w :: "'a world" and r w'
  assume "send L p m w = (r, w')"
  then show "work w' = work w \<and> committed w' = committed w \<and> wenv w' = wenv w"
    by (cases p) (auto simp: email_send_def whatsapp_send_def prog_simps dest: telegram_frame split: if_splits)
qed

end
