(* ===== verification/Match_Facts.thy ===== *)
theory Match_Facts
  imports Matching
begin

text \<open>
  What the rules decide: the decision from the score, the exclusions and the threshold; the range
  of the score; the float arithmetic against the integer formula; and the stored result.
\<close>

section \<open>The score\<close>

lemma small_part: "0 \<le> x \<Longrightarrow> x / 2 ^ 53 \<le> (x::rat)"
  by (simp add: field_simps)

lemma round_quot_nonneg:
  assumes "a \<ge> 0" "b > 0"
  shows "float_val (round_quot a b) \<ge> 0"
proof -
  have "0 \<le> (of_int a / of_int b :: rat)" using assms by simp
  then show ?thesis
    using small_part round_quot_error [OF assms] unfolding abs_le_iff by fastforce
qed

lemma float_times_nonneg:
  assumes "float_val x \<ge> 0" "k \<ge> 0"
  shows "float_val (float_times x k) \<ge> 0"
proof -
  have "0 \<le> float_val x * of_int k" using assms by simp
  then show ?thesis
    using small_part float_times_error [OF assms] unfolding abs_le_iff by fastforce
qed

lemma points_nonneg: "0 < n \<Longrightarrow> 0 \<le> points k n"
  by (simp add: points_def float_floor_val float_times_nonneg round_quot_nonneg)

lemma skills_score_range: "0 \<le> skills_score ms p" "skills_score ms p \<le> 40"
  by (simp_all add: skills_score_def points_nonneg)

lemma part_ranges:
  "role_score j p \<in> {0, 10}" "company_score j p \<in> {0, 5}"
  "location_score j p = Inr v \<Longrightarrow> v \<in> {0, 15}"
  by (auto simp: role_score_def company_score_def location_score_def split: if_splits option.splits)

text \<open>An answer of the rules, taken apart once.\<close>

lemma evaluate_rulesE:
  assumes "evaluate_rules j p = Inr d"
  obtains lo where "location_score j p = Inr lo" "lo \<in> {0, 15}"
    "md_components d = [(''skills'', skills_score (md_matched d) p), (''experience'', 0),
       (''location'', lo), (''role'', role_score j p), (''salary'', 0), (''company'', company_score j p)]"
    "md_matched d = filter (mentions (job_text j)) (wanted_skills p)"
    "md_concerns d = filter (mentions (job_text j)) (pf_exclusions p)"
    "md_score d = (if md_concerns d \<noteq> [] then 0
       else role_score j p + lo + skills_score (md_matched d) p + company_score j p)"
    "md_decision d = (if md_concerns d \<noteq> [] then ''reject''
       else if md_score d \<ge> pf_minimum_score p then ''notify'' else ''review'')"
proof -
  from assms obtain lo where lo: "location_score j p = Inr lo"
    by (auto simp: evaluate_rules_def Let_def split: sum.splits)
  with assms show ?thesis
    by (intro that [OF lo part_ranges(3) [OF lo]]) (auto simp: evaluate_rules_def Let_def)
qed

text \<open>
  C24. The decision: a job is rejected, with no points, exactly when its title or description
  mentions an exclusion; otherwise the points are the sum of the components, and the decision is
  to notify exactly when they reach the threshold of the profile.
\<close>

theorem decision_correct:
  assumes "evaluate_rules j p = Inr d"
  shows "(md_decision d = ''reject'') = (\<exists>x\<in>set (pf_exclusions p). contains (job_text j) (casefold x))
    \<and> (md_decision d = ''reject'' \<longrightarrow> md_score d = 0)
    \<and> (md_decision d \<noteq> ''reject'' \<longrightarrow> md_score d = sum_list (map snd (md_components d)))
    \<and> (md_decision d = ''notify'') = (md_decision d \<noteq> ''reject'' \<and> pf_minimum_score p \<le> md_score d)
    \<and> md_decision d \<in> {''reject'', ''notify'', ''review''}"
proof -
  from assms obtain lo where d: "md_components d = [(''skills'', skills_score (md_matched d) p),
       (''experience'', 0), (''location'', lo), (''role'', role_score j p), (''salary'', 0),
       (''company'', company_score j p)]"
    and c: "md_concerns d = filter (mentions (job_text j)) (pf_exclusions p)"
    and s: "md_score d = (if md_concerns d \<noteq> [] then 0
       else role_score j p + lo + skills_score (md_matched d) p + company_score j p)"
    and k: "md_decision d = (if md_concerns d \<noteq> [] then ''reject''
       else if md_score d \<ge> pf_minimum_score p then ''notify'' else ''review'')"
    by (rule evaluate_rulesE)
  have r: "(md_decision d = ''reject'') = (md_concerns d \<noteq> [])" by (simp add: k)
  have "(md_concerns d \<noteq> []) = (\<exists>x\<in>set (pf_exclusions p). contains (job_text j) (casefold x))"
    by (simp add: c filter_empty_conv mentions_def)
  with r show ?thesis by (simp add: d s k)
qed

definition job_ex :: job where
  "job_ex = \<lparr>j_id = 31, j_title = ''Data Engineer'', j_company_name = ''Acme'',
     j_company_normalized = ''acme'', j_description = ''Python and SQL'', j_description_hash = ''#d'',
     j_locations = [JStr ''Berlin''], j_work_mode = ''unknown'', j_experience_min = None,
     j_experience_max = None, j_salary_min = None, j_salary_max = None, j_salary_currency = None,
     j_salary_unit = None, j_extracted_skills = [], j_application_url = ''http'', j_last_seen_at = 0,
     j_status = ''active''\<rparr>"

definition wishes_ex :: preferences where
  "wishes_ex = default_preferences\<lparr>pf_titles := [''engineer''], pf_must_have := [''Python'', ''Go''],
     pf_nice_to_have := [''sql''], pf_locations := [''berlin''], pf_companies := [''ACME'']\<rparr>"

lemma points_ex: "points (Suc (Suc 0)) (Suc (Suc (Suc 0))) = 26"
proof -
  have "points 2 3 = 26" by code_simp
  then show ?thesis by (simp only: numeral_2_eq_2 numeral_3_eq_3)
qed

lemma decision_ex:
  "evaluate_rules job_ex wishes_ex = Inr \<lparr>md_score = 56, md_confidence = rule_confidence,
     md_decision = ''review'', md_components = [(''skills'', 26), (''experience'', 0),
       (''location'', 15), (''role'', 10), (''salary'', 0), (''company'', 5)],
     md_matched = [''Python'', ''sql''], md_missing = [''Go''], md_concerns = [],
     md_reasoning = ''Rule-based match evaluation''\<rparr>"
proof -
  have "location_score job_ex wishes_ex = Inr 15" "role_score job_ex wishes_ex = 10"
    "company_score job_ex wishes_ex = 5" "pf_minimum_score wishes_ex = 75"
    "filter (mentions (job_text job_ex)) (wanted_skills wishes_ex) = [''Python'', ''sql'']"
    "filter (mentions (job_text job_ex)) (pf_exclusions wishes_ex) = []"
    "filter (\<lambda>s. \<not> mentions (job_text job_ex) s) (pf_must_have wishes_ex) = [''Go'']"
    by code_simp+
  moreover have "skills_score [''Python'', ''sql''] wishes_ex = 26"
    by (simp add: skills_score_def wanted_skills_def wishes_ex_def default_preferences_def points_ex)
  ultimately show ?thesis by (simp add: evaluate_rules_def Let_def)
qed

theorem decision_correct_witness:
  "\<not> (\<exists>x\<in>set (pf_exclusions wishes_ex). contains (job_text job_ex) (casefold x))
    \<and> (26 + (0 + (15 + (10 + (0 + 5))))) = (56::int)"
  using decision_correct [OF decision_ex] by simp

text \<open>
  The score never exceeds 70, because the rules award nothing for experience and salary; so a
  profile that keeps the default threshold of 75 is never told to notify, whatever the job.
\<close>

theorem score_at_most_70:
  assumes "evaluate_rules j p = Inr d"
  shows "0 \<le> md_score d \<and> md_score d \<le> 70
    \<and> (pf_minimum_score p > 70 \<longrightarrow> md_decision d \<noteq> ''notify'')
    \<and> pf_minimum_score default_preferences > 70"
proof -
  from assms obtain lo where lo: "lo \<in> {0, 15}"
    and s: "md_score d = (if md_concerns d \<noteq> [] then 0
       else role_score j p + lo + skills_score (md_matched d) p + company_score j p)"
    and k: "md_decision d = (if md_concerns d \<noteq> [] then ''reject''
       else if md_score d \<ge> pf_minimum_score p then ''notify'' else ''review'')"
    by (rule evaluate_rulesE)
  have r: "0 \<le> role_score j p" "role_score j p \<le> 10" "0 \<le> company_score j p" "company_score j p \<le> 5"
    using part_ranges(1,2) [of j p] by auto
  have "0 \<le> md_score d \<and> md_score d \<le> 70"
    using lo r skills_score_range [of "md_matched d" p] unfolding s by auto
  then show ?thesis by (auto simp: k default_preferences_def)
qed

theorem score_at_most_70_witness: "(0::int) \<le> 56 \<and> (56::int) \<le> 70 \<and> pf_minimum_score wishes_ex > 70"
  using score_at_most_70 [OF decision_ex] by (simp add: wishes_ex_def default_preferences_def)

text \<open>
  The float arithmetic of the skills component computes the integer share: 40 times the number
  of matched skills, divided by the number of skills, rounded down. The cap of 40 never acts.
\<close>

theorem skills_points_exact:
  assumes "evaluate_rules j p = Inr d" "length (wanted_skills p) \<le> 2 ^ 40"
  shows "map_of (md_components d) ''skills''
    = Some (int (40 * length (md_matched d) div max 1 (length (wanted_skills p))))"
proof -
  let ?k = "length (md_matched d)" and ?n = "max 1 (length (wanted_skills p))"
  from assms(1) have c: "map_of (md_components d) ''skills'' = Some (skills_score (md_matched d) p)"
    and m: "md_matched d = filter (mentions (job_text j)) (wanted_skills p)"
    by (auto elim: evaluate_rulesE)
  have k: "?k \<le> ?n" unfolding m by (rule le_trans [OF length_filter_le]) simp
  have n: "0 < ?n" "?n \<le> 2 ^ 40" using assms(2) by simp_all
  have "40 * ?k div ?n \<le> 40 * ?n div ?n" using k by (intro div_le_mono mult_le_mono2)
  then have "40 * ?k div ?n \<le> 40" using n(1) by simp
  then show ?thesis
    unfolding c skills_score_def points_floor [OF k n] by simp
qed

theorem skills_points_exact_witness:
  "Some (26::int) = Some (int (40 * 2 div max 1 (length (wanted_skills wishes_ex))))"
  using skills_points_exact [OF decision_ex]
  by (simp add: wanted_skills_def wishes_ex_def default_preferences_def)

section \<open>The stored result\<close>

lemma db_ok_add_match:
  assumes "db_ok d" "mr_id m \<notin> set (map mr_id (match_results d))"
    "mr_job_id m \<in> set (map j_id (jobs d))"
    "mr_preference_profile_id m \<in> set (map pp_id (preference_profiles d))"
  shows "db_ok (d\<lparr>match_results := match_results d @ [m]\<rparr>)"
  using assms by (simp add: db_ok_unfold)

lemma sort_key_smallest_last:
  "(\<And>x. x \<in> set xs \<Longrightarrow> k m < k x) \<Longrightarrow> sort_key k (xs @ [m]) = m # sort_key k xs"
  by (induction xs) (auto simp: not_le [symmetric])

lemma latest_of_newest:
  assumes "\<And>x. x \<in> set (match_results d) \<Longrightarrow> mr_job_id x = jid \<Longrightarrow> mr_created_at x < mr_created_at m"
    and "mr_job_id m = jid"
  shows "matches_of (d\<lparr>match_results := match_results d @ [m]\<rparr>) jid = m # matches_of d jid"
  unfolding matches_of_def
  using assms by (simp, intro sort_key_smallest_last) auto

text \<open>
  Matching a job scores it against the document of the caller's active profile and stores one
  new result with that score and decision, committed; nothing else changes, and the result is the
  one the job shows from then on.
\<close>

theorem match_job_effect:
  assumes "calm w" "db_ok (work w)" "find (\<lambda>j. j_id j = jid) (jobs (work w)) = Some j"
    and p: "active_profiles (work w) uid = [p]" "pp_config p = normalize_preferences q" "prefs_ok q"
    and "evaluate_rules j q = Inr d"
    and fresh: "uuid_source (wenv w) (tick w) \<notin> set (map mr_id (match_results (work w)))"
    and newer: "\<And>x. x \<in> set (match_results (work w)) \<Longrightarrow> mr_created_at x < clock (wenv w) (Suc (tick w))"
  shows "\<exists>m w'. match_job jid uid w = (Inr m, w')
    \<and> committed w' = (work w)\<lparr>match_results := match_results (work w) @ [m]\<rparr> \<and> work w' = committed w'
    \<and> mr_job_id m = jid \<and> mr_preference_profile_id m = pp_id p
    \<and> mr_score m = md_score d \<and> mr_decision m = md_decision d
    \<and> repo_latest_match jid w' = (Inr (Some m), w')"
proof -
  let ?m = "new_match (uuid_source (wenv w) (tick w)) (clock (wenv w) (Suc (tick w))) j p d"
  let ?d = "(work w)\<lparr>match_results := match_results (work w) @ [?m]\<rparr>"
  have j: "j \<in> set (jobs (work w))" "j_id j = jid" using find_SomeD [OF assms(3)] by simp_all
  have "p \<in> set (active_profiles (work w) uid)" using p(1) by simp
  then have "p \<in> set (preference_profiles (work w))" by (simp add: active_profiles_def)
  with j fresh have ok: "db_ok ?d" by (intro db_ok_add_match assms(2)) (auto simp: new_match_def)
  have late: "matches_of ?d jid = ?m # matches_of (work w) jid"
    by (rule latest_of_newest) (simp_all add: new_match_def newer j)
  have "match_job jid uid w = (Inr ?m, w\<lparr>tick := tick w + 4, committed := ?d, work := ?d\<rparr>)"
    using assms ok
    by (simp add: match_job_def get_job_def repo_get_active_def evaluate_def repo_create_match_def
        loaded_published run_simps)
  then show ?thesis
    using late by (simp add: repo_latest_match_def run_simps new_match_def j)
qed

definition profile_ex :: preference_profile where
  "profile_ex = \<lparr>pp_id = 51, pp_user_id = 1, pp_version = 1,
     pp_config = normalize_preferences wishes_ex, pp_matching_weights = default_weights,
     pp_is_active = True, pp_created_at = 0\<rparr>"

definition match_db_ex :: db where
  "match_db_ex = db_ex\<lparr>preference_profiles := [profile_ex], jobs := [job_ex]\<rparr>"

theorem match_job_effect_witness:
  "\<exists>m w'. match_job 31 1 (world_ex match_db_ex) = (Inr m, w')
    \<and> committed w' = match_db_ex\<lparr>match_results := [m]\<rparr> \<and> mr_score m = 56"
proof -
  have "prefs_ok wishes_ex"
    by (simp add: prefs_ok_def wishes_ex_def default_preferences_def) (intro conjI; code_simp)
  moreover have "db_ok match_db_ex"
    by (simp add: db_ok_unfold match_db_ex_def profile_ex_def job_ex_def sample_defs references_def
        references_opt_def)
  ultimately show ?thesis
    using match_job_effect [of "world_ex match_db_ex" 31 job_ex 1 profile_ex wishes_ex, OF _ _ _ _ _ _ decision_ex]
    by (auto simp: match_db_ex_def active_profiles_def profile_ex_def job_ex_def db_ex_def empty_db_def)
qed

end
