(* ===== verification/Job_Facts.thy ===== *)
theory Job_Facts
  imports Job_Query Match_Facts
begin

text \<open>
  The job list as a paged query, the separation of users, and feedback as one row per user and job.
\<close>

section \<open>Conditions\<close>

lemma like_percent_Nil: "like ''%'' t"
  by (induction t) auto

lemma like_percent: "like (CHR ''%'' # p) t \<longleftrightarrow> (\<exists>u v. t = u @ v \<and> like p v)"
proof (induction t)
  case (Cons c t)
  then show ?case by (auto simp: Cons_eq_append_conv)
qed simp

lemma like_plain:
  "set x \<inter> {CHR ''%'', CHR ''_'', CHR 0x5C} = {} \<Longrightarrow> like (x @ p) t \<longleftrightarrow> (\<exists>v. t = x @ v \<and> like p v)"
proof (induction x arbitrary: t)
  case (Cons a x)
  then have "a \<noteq> CHR ''%''" "a \<noteq> CHR ''_''" "a \<noteq> CHR 0x5C" by auto
  with Cons show ?case by (cases t) auto
qed simp

text \<open>Without wildcards the condition is Python's \<open>in\<close>.\<close>

lemma sql_contains_plain:
  "set x \<inter> {CHR ''%'', CHR ''_'', CHR 0x5C} = {} \<Longrightarrow> sql_contains t x = contains t x"
  by (simp add: sql_contains_def like_percent like_plain contains_iff del: like.simps(2)) blast

section \<open>The list\<close>

lemma count_insort_key: "count_list (insort_key k y xs) x = count_list (y # xs) x"
  by (induction xs) auto

lemma count_sort_key: "count_list (sort_key k xs) x = count_list xs x"
  by (induction xs) (simp_all add: count_insort_key)

lemma count_distinct: "distinct xs \<Longrightarrow> count_list xs x = (if x \<in> set xs then 1 else 0)"
  by (induction xs) auto

lemma count_job_order [simp]: "count_list (job_order js) j = count_list js j"
  by (simp add: job_order_def count_sort_key)

text \<open>How often a job appears: once, or once for each of its results that reach the score.\<close>

definition shown_times :: "db \<Rightarrow> int option \<Rightarrow> job \<Rightarrow> nat" where
  "shown_times d lowest j = (case lowest of None \<Rightarrow> 1
     | Some k \<Rightarrow> length (filter (\<lambda>m. mr_job_id m = j_id j \<and> mr_score m \<ge> k) (match_results d)))"

lemma count_const: "count_list (map (\<lambda>_. x) ms) y = (if x = y then length ms else 0)"
  by (induction ms) auto

lemma count_join_scores:
  "distinct js \<Longrightarrow> count_list (join_scores d lowest js) j = (if j \<in> set js then shown_times d lowest j else 0)"
proof (cases lowest)
  case (Some k)
  moreover have "distinct js \<Longrightarrow> count_list (concat (map (\<lambda>x. map (\<lambda>_. x) (g x)) js)) j =
      (if j \<in> set js then length (g j) else 0)" for g :: "job \<Rightarrow> match_result list"
    by (induction js) (auto simp: count_const)
  ultimately show "distinct js \<Longrightarrow> ?thesis" by (simp add: join_scores_def shown_times_def)
qed (simp add: join_scores_def shown_times_def count_distinct)

text \<open>
  The job list: its pages, read in turn up to the reported total, are the rows of the query; a
  row is a job that a source of the user reported and that passes the filters, and a job is there
  once, but with a minimum score once for each stored result that reaches it, so a job that was
  matched twice is listed (and counted) twice.
\<close>

theorem job_pages_complete:
  assumes "db_ok (work w)" "0 < n" "snd (projr (fst (repo_list_jobs L uid 1 n f w))) \<le> k * n"
  shows "concat (map (\<lambda>p. fst (projr (fst (repo_list_jobs L uid (Suc p) n f w)))) [0..<k])
      = job_rows (float_repr L) (work w) (uid, f)
    \<and> (\<forall>j. count_list (job_rows (float_repr L) (work w) (uid, f)) j =
         (if j \<in> set (jobs (work w)) \<and> visible (work w) uid j \<and> job_matches (float_repr L) f j
          then shown_times (work w) (jq_min_score f) j else 0))
    \<and> (\<forall>p. length (fst (projr (fst (repo_list_jobs L uid p n f w)))) \<le> n)"
proof -
  have "distinct (jobs (work w))"
    using assms(1) by (auto simp: db_ok_unfold distinct_map)
  then have "count_list (job_rows (float_repr L) (work w) (uid, f)) j =
         (if j \<in> set (jobs (work w)) \<and> visible (work w) uid j \<and> job_matches (float_repr L) f j
          then shown_times (work w) (jq_min_score f) j else 0)" for j
    by (simp add: job_rows_def count_join_scores)
  then show ?thesis
    using assms(2,3) job_pages.pages_cover job_pages.page_length
    by (simp add: repo_list_jobs_def run_simps)
qed

definition seen_ex :: job_source_record where
  "seen_ex = \<lparr>sr_id = 61, sr_job_id = 31, sr_source_id = 71, sr_external_id = ''e1'',
     sr_source_url = ''http'', sr_raw_payload = None, sr_raw_payload_hash = ''#p'',
     sr_first_seen_at = 0, sr_last_seen_at = 0\<rparr>"

definition source_ex :: source where
  "source_ex = \<lparr>so_id = 71, so_user_id = 1, so_kind = ''greenhouse'', so_name = ''Acme'',
     so_config = [], so_credentials_ref = None, so_schedule = None, so_enabled = True,
     so_last_success_at = None, so_last_error_at = None\<rparr>"

definition scored_ex :: "uuid \<Rightarrow> int \<Rightarrow> match_result" where
  "scored_ex i k = (new_match i 0 job_ex profile_ex \<lparr>md_score = k, md_confidence = rule_confidence,
     md_decision = ''review'', md_components = [], md_matched = [], md_missing = [],
     md_concerns = [], md_reasoning = []\<rparr>)"

definition seen_db_ex :: db where
  "seen_db_ex = match_db_ex\<lparr>sources := [source_ex], job_source_records := [seen_ex],
     match_results := [scored_ex 81 60, scored_ex 82 65]\<rparr>"

lemmas seen_defs = seen_db_ex_def match_db_ex_def profile_ex_def job_ex_def seen_ex_def source_ex_def
  scored_ex_def new_match_def sample_defs

lemma db_ok_seen: "db_ok seen_db_ex"
  by (simp add: db_ok_unfold seen_defs references_def references_opt_def)

definition query_ex :: job_filter where
  "query_ex = \<lparr>jq_min_score = Some 50, jq_status = None, jq_company = None, jq_location = None\<rparr>"

theorem job_pages_complete_witness:
  "count_list (job_rows (float_repr lib_ex) seen_db_ex (1, query_ex)) job_ex = 2"
proof -
  have "visible seen_db_ex 1 job_ex" "job_matches (float_repr lib_ex) query_ex job_ex"
    "shown_times seen_db_ex (Some 50) job_ex = 2"
    by (simp_all add: visible_def job_matches_def given_def query_ex_def shown_times_def seen_defs)
  moreover have "snd (projr (fst (repo_list_jobs lib_ex 1 1 1 query_ex (world_ex seen_db_ex)))) \<le> 2 * 1"
  proof -
    have "filter (\<lambda>j. visible seen_db_ex 1 j \<and> job_matches (float_repr lib_ex) query_ex j) [job_ex] = [job_ex]"
      using calculation(1,2) by simp
    then show ?thesis
      by (simp add: repo_list_jobs_def run_simps job_count_def join_scores_def)
        (simp add: query_ex_def seen_defs)
  qed
  ultimately show ?thesis
    using job_pages_complete [of "world_ex seen_db_ex" 1 lib_ex 1 query_ex 2] db_ok_seen
    by (auto simp: query_ex_def seen_db_ex_def match_db_ex_def)
qed

section \<open>Users are separated\<close>

lemma matches_of_latest:
  assumes "matches_of d jid = m # ms"
  shows "m \<in> set (match_results d) \<and> mr_job_id m = jid
    \<and> (\<forall>x\<in>set (match_results d). mr_job_id x = jid \<longrightarrow> mr_created_at x \<le> mr_created_at m)"
proof -
  let ?f = "filter (\<lambda>m. mr_job_id m = jid) (match_results d)"
  have "sorted (map (\<lambda>m. - mr_created_at m) (matches_of d jid))"
    by (simp add: matches_of_def)
  moreover have "set (matches_of d jid) = set ?f" by (simp add: matches_of_def)
  ultimately show ?thesis using assms by fastforce
qed

text \<open>
  C25. The detail page shows a job only to users whose sources reported it, and to all others it
  does not exist; the feedback it shows is the caller's own. The match it shows is the newest
  result of the job, and it is the same for every user that sees the job, whoever's profile it
  was computed for.
\<close>

theorem detail_isolated:
  assumes "query_detail uid jid w = (r, w')"
  shows "w' = w \<and> (case r of
      Inl e \<Rightarrow> e = App (err JobNotFound)
        \<and> \<not> (\<exists>j\<in>set (jobs (work w)). j_id j = jid \<and> visible (work w) uid j)
    | Inr x \<Rightarrow> jd_job x \<in> set (jobs (work w)) \<and> j_id (jd_job x) = jid \<and> visible (work w) uid (jd_job x)
        \<and> (\<forall>f. jd_feedback x = Some f \<longrightarrow> jf_user_id f = uid \<and> jf_job_id f = jid)
        \<and> (\<forall>m. jd_match x = Some m \<longrightarrow> mr_job_id m = jid
             \<and> (\<forall>y\<in>set (match_results (work w)). mr_job_id y = jid \<longrightarrow> mr_created_at y \<le> mr_created_at m))
        \<and> (\<forall>uid2 x2. fst (query_detail uid2 jid w) = Inr x2 \<longrightarrow> jd_match x2 = jd_match x))"
proof (cases "find (\<lambda>j. visible (work w) uid j \<and> j_id j = jid) (jobs (work w))")
  case None
  with assms show ?thesis
    by (auto simp: query_detail_def repo_get_visible_job_def run_simps find_None_iff_all)
next
  case (Some j)
  let ?m = "case matches_of (work w) jid of [] \<Rightarrow> None | m # _ \<Rightarrow> Some m"
  have match: "fst (query_detail u jid w) = Inr x \<Longrightarrow> jd_match x = ?m" for u x
    by (auto simp: query_detail_def repo_get_visible_job_def repo_latest_match_def
        repo_get_feedback_def run_simps split: option.splits)
  have "?m = Some m \<Longrightarrow> mr_job_id m = jid \<and> (\<forall>y\<in>set (match_results (work w)).
      mr_job_id y = jid \<longrightarrow> mr_created_at y \<le> mr_created_at m)" for m
    by (auto split: list.splits dest: matches_of_latest)
  moreover have "(r, w') = (Inr \<lparr>jd_job = j, jd_match = ?m, jd_feedback =
      find (\<lambda>f. jf_user_id f = uid \<and> jf_job_id f = jid) (job_feedbacks (work w))\<rparr>, w)"
    unfolding assms [symmetric]
    by (simp add: Some query_detail_def repo_get_visible_job_def repo_latest_match_def
        repo_get_feedback_def run_simps)
  ultimately show ?thesis
    using find_SomeD [OF Some] match by (auto dest: find_SomeD)
qed

theorem detail_isolated_witness:
  "\<exists>x. query_detail 1 31 (world_ex seen_db_ex) = (Inr x, world_ex seen_db_ex)
    \<and> visible seen_db_ex 1 (jd_job x)"
proof -
  obtain r w' where run: "query_detail 1 31 (world_ex seen_db_ex) = (r, w')" by fastforce
  have "\<exists>j\<in>set (jobs seen_db_ex). j_id j = 31 \<and> visible seen_db_ex 1 j"
    by (simp add: visible_def seen_defs)
  with detail_isolated [OF run] run show ?thesis by (cases r) auto
qed

section \<open>Feedback\<close>

lemma filter_unique:
  assumes "distinct (map k xs)" "x \<in> set xs" "P x" "\<And>y. P y \<Longrightarrow> k y = k x"
  shows "filter P xs = [x]"
  using assms(1,2)
proof (induction xs)
  case (Cons a xs)
  show ?case
  proof (cases "a = x")
    case True
    have "\<not> P y" if "y \<in> set xs" for y
    proof
      assume "P y"
      then have "k y = k a" using assms(4) True by simp
      with that Cons.prems(1) show False by (metis distinct.simps(2) image_eqI list.simps(9) set_map)
    qed
    then show ?thesis using True assms(3) by (simp add: filter_empty_conv)
  next
    case False
    with Cons.prems have "x \<in> set xs" by simp
    moreover from this have "k a \<noteq> k x" using Cons.prems(1) by force
    then have "\<not> P a" using assms(4) by blast
    ultimately show ?thesis using Cons by simp
  qed
qed simp

lemma filter_update_where:
  "(\<And>y. Q y \<Longrightarrow> P (g y) = P y) \<Longrightarrow> filter P (update_where Q g xs) = update_where Q g (filter P xs)"
  by (induction xs) auto

lemma update_where_none: "(\<And>y. y \<in> set xs \<Longrightarrow> \<not> Q y) \<Longrightarrow> update_where Q g xs = xs"
  by (induction xs) auto

lemma refreshed_feedback_keys [simp]:
  "jf_id (refreshed_feedback x t f) = jf_id f" "jf_user_id (refreshed_feedback x t f) = jf_user_id f"
  "jf_job_id (refreshed_feedback x t f) = jf_job_id f"
  "jf_label (refreshed_feedback x t f) = fi_label x" "jf_note (refreshed_feedback x t f) = fi_note x"
  by (auto simp: refreshed_feedback_def)

lemma db_ok_refresh_feedback:
  "db_ok d \<Longrightarrow> db_ok (d\<lparr>job_feedbacks := update_where Q (refreshed_feedback x t) (job_feedbacks d)\<rparr>)"
  by (simp add: db_ok_unfold map_update_where_key references_update_where)

lemma db_ok_add_feedback:
  assumes "db_ok d" "jf_id f \<notin> set (map jf_id (job_feedbacks d))" "jf_job_id f \<in> set (map j_id (jobs d))"
    "jf_user_id f \<in> set (map u_id (users d))"
    "find (\<lambda>g. jf_user_id g = jf_user_id f \<and> jf_job_id g = jf_job_id f) (job_feedbacks d) = None"
  shows "db_ok (d\<lparr>job_feedbacks := job_feedbacks d @ [f]\<rparr>)"
  using assms by (auto simp: db_ok_unfold find_None_iff_all)

text \<open>
  Feedback is one row per user and job: after it is given, exactly one row of the caller is on
  that job, with the new label and note; every other row, and every other table, is as before.
\<close>

theorem feedback_upserts:
  assumes "calm w" "db_ok (work w)" "j \<in> set (jobs (work w))" "j_id j = jid" "visible (work w) uid j"
    and fresh: "uuid_source (wenv w) (Suc (tick w)) \<notin> set (map jf_id (job_feedbacks (work w)))"
  shows "\<exists>f w'. give_feedback uid jid x w = (Inr f, w') \<and> committed w' = work w'
    \<and> filter (\<lambda>y. jf_user_id y = uid \<and> jf_job_id y = jid) (job_feedbacks (work w')) = [f]
    \<and> jf_label f = fi_label x \<and> jf_note f = fi_note x
    \<and> filter (\<lambda>y. \<not> (jf_user_id y = uid \<and> jf_job_id y = jid)) (job_feedbacks (work w'))
      = filter (\<lambda>y. \<not> (jf_user_id y = uid \<and> jf_job_id y = jid)) (job_feedbacks (work w))
    \<and> work w' = (work w)\<lparr>job_feedbacks := job_feedbacks (work w')\<rparr>"
proof -
  let ?P = "\<lambda>y. jf_user_id y = uid \<and> jf_job_id y = jid" and ?fs = "job_feedbacks (work w)"
  have "distinct (map j_id (jobs (work w)))" using assms(2) by (simp add: db_ok_unfold)
  then have seen: "find (\<lambda>j. visible (work w) uid j \<and> j_id j = jid) (jobs (work w)) = Some j"
    by (rule find_unique_key) (use assms(3-5) in auto)
  have keys: "distinct (map jf_id ?fs)" "distinct (map (\<lambda>f. (jf_user_id f, jf_job_id f)) ?fs)"
    using assms(2) by (simp_all add: db_ok_unfold)
  show ?thesis
  proof (cases "find ?P ?fs")
    case None
    let ?f = "\<lparr>jf_id = uuid_source (wenv w) (Suc (tick w)), jf_user_id = uid, jf_job_id = jid,
      jf_label = fi_label x, jf_note = fi_note x, jf_created_at = clock (wenv w) (tick w),
      jf_updated_at = clock (wenv w) (tick w)\<rparr>"
    have "uid \<in> set (map u_id (users (work w)))"
      using assms(2,5) by (auto simp: visible_def db_ok_unfold references_def)
    then have "db_ok ((work w)\<lparr>job_feedbacks := ?fs @ [?f]\<rparr>)"
      using assms(2-4) fresh None by (intro db_ok_add_feedback) auto
    moreover have "filter ?P ?fs = []" using None by (auto simp: find_None_iff_all filter_empty_conv)
    ultimately show ?thesis
      using assms(1) by (simp add: give_feedback_def repo_get_visible_job_def seen repo_get_feedback_def
          None repo_save_feedback_def run_simps)
  next
    case (Some g)
    let ?t = "clock (wenv w) (tick w)" and ?Q = "\<lambda>y. jf_id y = jf_id g"
    have g: "g \<in> set ?fs" "?P g" using find_SomeD [OF Some] by simp_all
    have one: "filter ?P ?fs = [g]" by (rule filter_unique [OF keys(2)]) (use g in auto)
    have "\<not> ?Q y" if "y \<in> set (filter (\<lambda>y. \<not> ?P y) ?fs)" for y
      using that g in_set_distinct_key [OF keys(1)] by fastforce
    then have rest: "update_where ?Q (refreshed_feedback x ?t) (filter (\<lambda>y. \<not> ?P y) ?fs)
        = filter (\<lambda>y. \<not> ?P y) ?fs"
      by (rule update_where_none)
    show ?thesis
      using assms(1,2) db_ok_refresh_feedback [OF assms(2)]
      by (simp add: give_feedback_def repo_get_visible_job_def seen repo_get_feedback_def Some
          run_simps filter_update_where one rest [simplified])
  qed
qed

theorem feedback_upserts_witness:
  "\<exists>f w'. give_feedback 1 31 \<lparr>fi_label = ''saved'', fi_note = None\<rparr> (world_ex seen_db_ex) = (Inr f, w')
    \<and> filter (\<lambda>y. jf_user_id y = 1 \<and> jf_job_id y = 31) (job_feedbacks (work w')) = [f]
    \<and> jf_label f = ''saved''"
proof -
  have "job_ex \<in> set (jobs seen_db_ex)" "j_id job_ex = 31" "visible seen_db_ex 1 job_ex"
    "job_feedbacks seen_db_ex = []"
    by (simp_all add: visible_def seen_defs)
  then show ?thesis
    using feedback_upserts [of "world_ex seen_db_ex" job_ex 31 1 "\<lparr>fi_label = ''saved'', fi_note = None\<rparr>"]
      db_ok_seen by fastforce
qed

end
