(* ===== verification/Notify_Facts.thy ===== *)
theory Notify_Facts
  imports Notifications Job_Facts
begin

text \<open>
  One delivery row per key that is never sent again once delivered, the classification of the
  Telegram errors, and the bounded loop with a dead letter.
\<close>

section \<open>Delivery\<close>

lemma settled_keys [simp]:
  "nd_id (settled out t n) = nd_id n" "nd_user_id (settled out t n) = nd_user_id n"
  "nd_job_id (settled out t n) = nd_job_id n" "nd_profile_id (settled out t n) = nd_profile_id n"
  "nd_channel (settled out t n) = nd_channel n"
  "nd_attempt_count (settled out t n) = nd_attempt_count n + 1"
  by (simp_all add: settled_def split: sum.split)

lemma settled_key [simp]: "delivery_key uid jid pid ch (settled out t n) = delivery_key uid jid pid ch n"
  by (simp add: delivery_key_def)

lemma settled_status: "nd_status (settled out t n) \<in> {''delivered'', ''retryable'', ''failed''}"
  by (simp add: settled_def split: sum.split)

lemma db_ok_settle:
  "db_ok d \<Longrightarrow> db_ok (d\<lparr>notification_deliveries := update_where Q (settled out t) (notification_deliveries d)\<rparr>)"
  by (simp add: db_ok_unfold map_update_where_key references_update_where)

lemma db_ok_add_delivery:
  assumes "db_ok d" "nd_id n \<notin> set (map nd_id (notification_deliveries d))"
    "nd_user_id n \<in> set (map u_id (users d))" "nd_job_id n \<in> set (map j_id (jobs d))"
    "nd_profile_id n \<in> set (map pp_id (preference_profiles d))"
    "\<forall>x\<in>set (notification_deliveries d).
       \<not> delivery_key (nd_user_id n) (nd_job_id n) (nd_profile_id n) (nd_channel n) x"
  shows "db_ok (d\<lparr>notification_deliveries := notification_deliveries d @ [n]\<rparr>)"
  using assms by (auto simp: db_ok_unfold delivery_key_def)

text \<open>The row of a key, and what is left when it is settled.\<close>

lemma key_filter:
  assumes "db_ok d" "n \<in> set (notification_deliveries d)" "delivery_key uid jid pid ch n"
  shows "filter (delivery_key uid jid pid ch) (notification_deliveries d) = [n]"
proof (rule filter_unique)
  show "distinct (map (\<lambda>n. (nd_user_id n, nd_job_id n, nd_profile_id n, nd_channel n)) (notification_deliveries d))"
    using assms(1) by (simp add: db_ok_unfold)
qed (use assms(2,3) in \<open>auto simp: delivery_key_def\<close>)

lemma settle_rows:
  assumes "db_ok d" "n \<in> set (notification_deliveries d)" "delivery_key uid jid pid ch n"
  shows "filter (delivery_key uid jid pid ch)
      (update_where (\<lambda>x. nd_id x = nd_id n) (settled out t) (notification_deliveries d)) = [settled out t n]"
    and "filter (\<lambda>x. \<not> delivery_key uid jid pid ch x)
      (update_where (\<lambda>x. nd_id x = nd_id n) (settled out t) (notification_deliveries d))
      = filter (\<lambda>x. \<not> delivery_key uid jid pid ch x) (notification_deliveries d)"
proof -
  let ?other = "filter (\<lambda>x. \<not> delivery_key uid jid pid ch x) (notification_deliveries d)"
  have ids: "distinct (map nd_id (notification_deliveries d))" using assms(1) by (simp add: db_ok_unfold)
  have "nd_id x \<noteq> nd_id n" if "x \<in> set ?other" for x
    using that assms(2,3) in_set_distinct_key [OF ids] by fastforce
  then have "update_where (\<lambda>x. nd_id x = nd_id n) (settled out t) ?other = ?other"
    by (rule update_where_none)
  then show "filter (\<lambda>x. \<not> delivery_key uid jid pid ch x)
      (update_where (\<lambda>x. nd_id x = nd_id n) (settled out t) (notification_deliveries d)) = ?other"
    by (simp add: filter_update_where)
  show "filter (delivery_key uid jid pid ch)
      (update_where (\<lambda>x. nd_id x = nd_id n) (settled out t) (notification_deliveries d)) = [settled out t n]"
    by (simp add: filter_update_where key_filter [OF assms])
qed

text \<open>After the look-up there is a row, and the session is ready to commit.\<close>

lemma get_or_create_run:
  assumes "calm w" "db_ok (work w)" "committed w = work w"
    and "uid \<in> set (map u_id (users (work w)))" "jid \<in> set (map j_id (jobs (work w)))"
    and "pid \<in> set (map pp_id (preference_profiles (work w)))"
    and "uuid_source (wenv w) (tick w) \<notin> set (map nd_id (notification_deliveries (work w)))"
  obtains n created w1 where "get_or_create uid jid pid ch w = (Inr (n, created), w1)"
    "calm w1" "db_ok (work w1)" "committed w1 = work w1"
    "n \<in> set (notification_deliveries (work w1))" "delivery_key uid jid pid ch n"
    "created = (find (delivery_key uid jid pid ch) (notification_deliveries (work w)) = None)"
    "created \<longrightarrow> nd_status n = ''pending'' \<and> nd_attempt_count n = 0"
    "\<not> created \<longrightarrow> w1 = w \<and> find (delivery_key uid jid pid ch) (notification_deliveries (work w)) = Some n"
    "filter (\<lambda>x. \<not> delivery_key uid jid pid ch x) (notification_deliveries (work w1))
      = filter (\<lambda>x. \<not> delivery_key uid jid pid ch x) (notification_deliveries (work w))"
proof (cases "find (delivery_key uid jid pid ch) (notification_deliveries (work w))")
  case (Some n)
  have "get_or_create uid jid pid ch w = (Inr (n, False), w)"
    by (simp add: get_or_create_def run_simps Some)
  then show thesis by (rule that) (use assms(1-3) Some find_SomeD [OF Some] in simp_all)
next
  case None
  let ?n = "new_delivery (uuid_source (wenv w) (tick w)) (clock (wenv w) (Suc (tick w))) uid jid pid ch"
  let ?d = "(work w)\<lparr>notification_deliveries := notification_deliveries (work w) @ [?n]\<rparr>"
  have ok: "db_ok ?d"
    by (rule db_ok_add_delivery [OF assms(2)]) (use assms(4-7) None in \<open>auto simp: new_delivery_def find_None_iff_all\<close>)
  have "get_or_create uid jid pid ch w = (Inr (?n, True), w\<lparr>tick := tick w + 4, committed := ?d, work := ?d\<rparr>)"
    using assms(1) ok by (simp add: get_or_create_def run_simps None Let_def)
  then show thesis by (rule that) (use assms(1) ok None in \<open>auto simp: new_delivery_def delivery_key_def\<close>)
qed

lemma filter_find: "filter P xs = [x] \<Longrightarrow> find P xs = Some x"
  by (induction xs) (auto split: if_splits)

text \<open>A delivered row stops every later attempt before the provider is reached.\<close>

lemma deliver_delivered:
  assumes "find (delivery_key uid (j_id j) pid ch) (notification_deliveries (work w)) = Some n"
    and "nd_status n = ''delivered''" "mr_decision m = ''notify''"
  shows "deliver uid j pid m ch snd_msg w = (Inr (Some n), w)"
  using assms by (simp add: deliver_def get_or_create_def run_simps)

text \<open>
  C26. Delivering a match leaves exactly one row for its user, job, profile and channel, committed,
  in one of three final states, and touches no other row. A row that was delivered before is
  answered as it is; otherwise the attempt is counted. Once delivered, every later delivery of the
  key, through whatever provider, answers that row and changes nothing, so nothing is sent again.
\<close>

theorem deliver_once:
  assumes "calm w" "db_ok (work w)" "committed w = work w" "mr_decision m = ''notify''"
    and "uid \<in> set (map u_id (users (work w)))" "j_id j \<in> set (map j_id (jobs (work w)))"
    and "pid \<in> set (map pp_id (preference_profiles (work w)))"
    and "uuid_source (wenv w) (tick w) \<notin> set (map nd_id (notification_deliveries (work w)))"
  shows "\<exists>n w'. deliver uid j pid m ch (send L p) w = (Inr (Some n), w') \<and> committed w' = work w'
    \<and> filter (delivery_key uid (j_id j) pid ch) (notification_deliveries (work w')) = [n]
    \<and> filter (\<lambda>x. \<not> delivery_key uid (j_id j) pid ch x) (notification_deliveries (work w'))
      = filter (\<lambda>x. \<not> delivery_key uid (j_id j) pid ch x) (notification_deliveries (work w))
    \<and> nd_status n \<in> {''delivered'', ''retryable'', ''failed''}
    \<and> (case find (delivery_key uid (j_id j) pid ch) (notification_deliveries (work w)) of
         None \<Rightarrow> nd_attempt_count n = 1
       | Some old \<Rightarrow> if nd_status old = ''delivered'' then n = old \<and> w' = w
                     else nd_attempt_count n = nd_attempt_count old + 1)
    \<and> (nd_status n = ''delivered'' \<longrightarrow> (\<forall>p2 m2. mr_decision m2 = ''notify'' \<longrightarrow>
         deliver uid j pid m2 ch (send L p2) w' = (Inr (Some n), w')))"
proof -
  let ?K = "delivery_key uid (j_id j) pid ch"
  obtain n created w1 where g: "get_or_create uid (j_id j) pid ch w = (Inr (n, created), w1)"
    and w1: "calm w1" "db_ok (work w1)" "committed w1 = work w1"
    and n: "n \<in> set (notification_deliveries (work w1))" "?K n"
    and c: "created = (find ?K (notification_deliveries (work w)) = None)"
      "created \<longrightarrow> nd_status n = ''pending'' \<and> nd_attempt_count n = 0"
      "\<not> created \<longrightarrow> w1 = w \<and> find ?K (notification_deliveries (work w)) = Some n"
    and others: "filter (\<lambda>x. \<not> ?K x) (notification_deliveries (work w1))
      = filter (\<lambda>x. \<not> ?K x) (notification_deliveries (work w))"
    using get_or_create_run [OF assms(1-3,5-8)] by blast
  have one: "filter ?K (notification_deliveries (work w1)) = [n]" by (rule key_filter [OF w1(2) n])
  show ?thesis
  proof (cases "\<not> created \<and> nd_status n = ''delivered''")
    case True
    then have f: "find ?K (notification_deliveries (work w)) = Some n" and "w1 = w" using c(3) by simp_all
    then show ?thesis
      using deliver_delivered [OF f] True assms(3,4) one by (intro exI [of _ n] exI [of _ w]) simp
  next
    case False
    obtain q w2 where t: "try_send j m (send L p) w1 = (q, w2)" by fastforce
    then obtain out where q: "q = Inr out" and w2: "work w2 = work w1" "committed w2 = committed w1" "wenv w2 = wenv w1"
      using channel.try_send_frame [OF t] by blast
    let ?t = "clock (wenv w2) (tick w2)"
    let ?d = "(work w1)\<lparr>notification_deliveries :=
      update_where (\<lambda>x. nd_id x = nd_id n) (settled out ?t) (notification_deliveries (work w1))\<rparr>"
    have "calm w2" using w1(1) w2(3) by (simp add: calm_def)
    then have run: "deliver uid j pid m ch (send L p) w
        = (Inr (Some (settled out ?t n)), w2\<lparr>tick := tick w2 + 3, committed := ?d, work := ?d\<rparr>)"
      using assms(4) q w2(1) db_ok_settle [OF w1(2)]
      by (simp add: if_not_P [OF False] deliver_def bindP_result [where m = "get_or_create uid (j_id j) pid ch", OF g]
          bindP_result [where m = "try_send j m (send L p)", OF t] run_simps)
    let ?w' = "w2\<lparr>tick := tick w2 + 3, committed := ?d, work := ?d\<rparr>"
    note rows = settle_rows [OF w1(2) n, of out ?t]
    have "find ?K (notification_deliveries (work ?w')) = Some (settled out ?t n)"
      using filter_find [OF rows(1)] by simp
    then have later: "\<forall>p2 m2. nd_status (settled out ?t n) = ''delivered'' \<longrightarrow> mr_decision m2 = ''notify'' \<longrightarrow>
        deliver uid j pid m2 ch (send L p2) ?w' = (Inr (Some (settled out ?t n)), ?w')"
      by (intro allI impI deliver_delivered)
    have "case find ?K (notification_deliveries (work w)) of
         None \<Rightarrow> nd_attempt_count (settled out ?t n) = 1
       | Some old \<Rightarrow> if nd_status old = ''delivered'' then settled out ?t n = old \<and> ?w' = w
                     else nd_attempt_count (settled out ?t n) = nd_attempt_count old + 1"
      using c False by (auto split: option.split)
    then show ?thesis
      using run rows others settled_status later
      by (intro exI [of _ "settled out ?t n"] exI [of _ ?w']) simp
  qed
qed

definition notify_ex :: match_result where
  "notify_ex = (scored_ex 83 90)\<lparr>mr_decision := ''notify''\<rparr>"

theorem deliver_once_witness:
  "\<exists>n w'. deliver 1 job_ex 51 notify_ex ''email'' (send lib_ex (EmailProvider ''a@x'')) (world_ex seen_db_ex)
       = (Inr (Some n), w')
    \<and> filter (delivery_key 1 31 51 ''email'') (notification_deliveries (work w')) = [n]
    \<and> nd_attempt_count n = 1"
proof -
  have "mr_decision notify_ex = ''notify''" "1 \<in> set (map u_id (users seen_db_ex))"
    "j_id job_ex = 31" "31 \<in> set (map j_id (jobs seen_db_ex))"
    "51 \<in> set (map pp_id (preference_profiles seen_db_ex))" "notification_deliveries seen_db_ex = []"
    by (simp_all add: notify_ex_def seen_defs)
  then show ?thesis
    using deliver_once [of "world_ex seen_db_ex" notify_ex 1 job_ex 51 "''email''" lib_ex "EmailProvider ''a@x''"]
      db_ok_seen by fastforce
qed

section \<open>Telegram errors\<close>

lemma dict_get_error: "dict_get x k d = Inl e \<Longrightarrow> \<not> is_retryable e"
  by (auto simp: dict_get_def is_retryable_def marked_retryable_def is_connection_error_def
      status_code_def split: json.splits)

lemmas retry_defs = is_retryable_def marked_retryable_def is_connection_error_def status_code_def

text \<open>
  Whatever goes wrong when a message is sent through Telegram, also a failed connection, status
  429 and every 5xx, is not classified as worth another try: the delivery is recorded as failed
  for good and the worker's loop stops after the first attempt.
\<close>

theorem telegram_errors_permanent:
  assumes "telegram_send L token chat m w = (Inl e, w')"
  shows "nd_status (settled (Inl e) t n) = ''failed''
    \<and> fst (run_with_dead_letter (1 + int k) (telegram_send L token chat m) w) = Inr (Dead 1 (exn_str e))"
proof -
  have "message_id (float_repr L) b = Inl x \<Longrightarrow> \<not> is_retryable x" for b x
    by (auto simp: message_id_def retry_defs dest: dict_get_error split: option.splits sum.splits)
  with assms have "\<not> is_retryable e"
    by (auto simp: telegram_send_def http_post_def raise_for_status_def prog_simps retry_defs
        split: if_splits http_result.splits sum.splits)
  moreover have "nat (1 + int k) = Suc k" by simp
  ultimately show ?thesis
    by (simp add: settled_def run_with_dead_letter_def letters.loop_step assms del: dead_letter_loop.simps)
qed

definition busy_world :: "unit world" where
  "busy_world = (world_ex db_ex)\<lparr>wenv := env_ex\<lparr>http := \<lambda>n url. Http_Response 429 (Some ''3'') None\<rparr>\<rparr>"

theorem telegram_errors_permanent_witness:
  "nd_status (settled (Inl (HttpStatus ''HTTP status 429'')) 0 (new_delivery 1 0 1 1 1 ''telegram'')) = ''failed''"
proof -
  have "str_int 429 = ''429''" by code_simp
  then have "fst (telegram_send lib_ex ''t'' ''c'' \<lparr>ms_subject = [], ms_body = []\<rparr> busy_world)
      = Inl (HttpStatus ''HTTP status 429'')"
    by (simp add: telegram_send_def http_post_def raise_for_status_def prog_simps busy_world_def world_ex_def)
  then obtain w' where "telegram_send lib_ex ''t'' ''c'' \<lparr>ms_subject = [], ms_body = []\<rparr> busy_world
      = (Inl (HttpStatus ''HTTP status 429''), w')"
    by (metis prod.collapse)
  from telegram_errors_permanent [OF this] show ?thesis by blast
qed

text \<open>
  The worker's loop ends: an operation that may be tried \<open>n\<close> times runs at least once and at
  most \<open>n\<close> times; it runs again only after an error worth it; the loop never raises, answers what
  the last run answered, and otherwise the dead letter with the number of runs and the last error.
\<close>

theorem dead_letter_loop_ends:
  assumes "run_with_dead_letter n op s = (r, s')" "0 < n"
  shows "\<exists>k. int k < n \<and> (\<forall>i<k. \<exists>e. fst (op (after_runs op i s)) = Inl e \<and> is_retryable e)
    \<and> s' = after_runs op (Suc k) s
    \<and> (case fst (op (after_runs op k s)) of
         Inr x \<Rightarrow> r = Inr (Answered x)
       | Inl e \<Rightarrow> (\<not> is_retryable e \<or> int (Suc k) = n) \<and> r = Inr (Dead (Suc k) (exn_str e)))"
proof -
  obtain k where "k < nat n" "\<forall>i<k. \<exists>e. fst (op (after_runs op i s)) = Inl e \<and> is_retryable e"
    "s' = after_runs op (Suc k) s"
    "case fst (op (after_runs op k s)) of Inr x \<Rightarrow> r = Inr (Answered x)
       | Inl e \<Rightarrow> (\<not> is_retryable e \<or> Suc k = nat n) \<and> r = Inr (Dead (Suc (0 + k)) (exn_str e))"
    using letters.loop_runs [of 0 "nat n" op s r s'] assms by (auto simp: run_with_dead_letter_def)
  then show ?thesis by (intro exI [of _ k]) (auto split: sum.splits)
qed

theorem dead_letter_loop_ends_witness:
  "\<exists>k. int k < 3 \<and> after_runs (\<lambda>c. (if c < (2::nat) then Inl (TimeoutError ''t'') else Inr c, Suc c)) (Suc k) 0 = 3"
proof -
  let ?op = "\<lambda>c. (if c < (2::nat) then Inl (TimeoutError ''t'') else Inr c, Suc c)"
  have "run_with_dead_letter 3 ?op 0 = (Inr (Answered 2), 3)"
    by (simp add: run_with_dead_letter_def numeral_3_eq_3 letters.loop_step retry_defs del: dead_letter_loop.simps)
  from dead_letter_loop_ends [OF this] show ?thesis by auto
qed

end
