(* ===== verification/Ingest_Facts.thy ===== *)
theory Ingest_Facts
  imports Ingestion Notify_Facts
begin

text \<open>
  What a run leaves behind: the outcome and the counters of a finished run, the runs that are never
  finished, the deduplication of jobs, and two facts every operation of the subsystem keeps.
\<close>

section \<open>Predicates of both copies of the data\<close>

text \<open>
  A predicate of tables that holds of the session's view and of the committed data, in a world whose
  next identifiers all come from the set \<open>I\<close>; and, when \<open>C\<close> asks for it, the committed data satisfies
  the constraints of the database.
\<close>

definition id_supply :: "uuid set \<Rightarrow> 'r world \<Rightarrow> bool" where
  "id_supply I w \<longleftrightarrow> (\<forall>n\<ge>tick w. uuid_source (wenv w) n \<in> I)"

definition safe :: "bool \<Rightarrow> uuid set \<Rightarrow> (db \<Rightarrow> bool) \<Rightarrow> 'r world \<Rightarrow> bool" where
  "safe C I P w \<longleftrightarrow> id_supply I w \<and> P (work w) \<and> P (committed w) \<and> (C \<longrightarrow> db_ok (committed w))"

abbreviation both :: "(db \<Rightarrow> bool) \<Rightarrow> 'r world \<Rightarrow> bool" where
  "both \<equiv> safe False UNIV"

lemma both_def: "both P w \<longleftrightarrow> P (work w) \<and> P (committed w)"
  by (simp add: safe_def id_supply_def)

lemma id_supply_later: "id_supply I w \<Longrightarrow> tick w \<le> t \<Longrightarrow> id_supply I (w\<lparr>tick := t\<rparr>)"
  by (simp add: id_supply_def)

lemma id_supply_fields [simp]:
  "id_supply I (w\<lparr>work := d\<rparr>) = id_supply I w" "id_supply I (w\<lparr>committed := d\<rparr>) = id_supply I w"
  "id_supply I (w\<lparr>kv := k\<rparr>) = id_supply I w" "id_supply I (w\<lparr>queued := q\<rparr>) = id_supply I w"
  "id_supply I (w\<lparr>auth_log := l\<rparr>) = id_supply I w" "id_supply I (w\<lparr>archived := a\<rparr>) = id_supply I w"
  by (simp_all add: id_supply_def)

lemma keeps_safe_draw [keeps_intros]: "keeps (safe C I P) (draw f)"
  by (simp add: keeps_def safe_def draw_def id_supply_def)

lemma keeps_safe_reads [keeps_intros]:
  "keeps (safe C I P) (query f)" "keeps (safe C I P) now_utc" "keeps (safe C I P) uuid4"
  "keeps (safe C I P) token_urlsafe" "keeps (safe C I P) randbelow_million" "keeps (safe C I P) (http_get url)"
  "keeps (safe C I P) (redis_call cmd)" "keeps (safe C I P) (delay sid rid)"
  by (auto simp: keeps_def safe_def prog_simps redis_call_def delay_def id_supply_def split: prod.split)

text \<open>A new identifier is one of the set.\<close>

lemma keeps_new_id:
  assumes "\<And>i. i \<in> I \<Longrightarrow> keeps (safe C I P) (k i)"
  shows "keeps (safe C I P) (bindP uuid4 k)"
proof (rule keepsI)
  fix w :: "'a world"
  assume w: "safe C I P w"
  then have "uuid_source (wenv w) (tick w) \<in> I" "safe C I P (w\<lparr>tick := Suc (tick w)\<rparr>)"
    by (simp_all add: safe_def id_supply_def)
  with assms show "safe C I P (snd (bindP uuid4 k w))" by (simp add: run_simps keeps_def)
qed

lemma keeps_safe_alter [keeps_intros]: "(\<And>d. P d \<Longrightarrow> P (f d)) \<Longrightarrow> keeps (safe C I P) (alter f)"
  by (simp add: keeps_def safe_def prog_simps)

lemma keeps_safe_rollback [keeps_intros]: "keeps (safe C I P) session_rollback"
  by (simp add: keeps_def safe_def session_rollback_def prog_simps)

lemma keeps_safe_raise_db [keeps_intros]: "keeps (safe C I P) (raise_database_error e)"
  by (simp add: raise_database_error_def keeps_intros)

lemma keeps_safe_sessions [keeps_intros]:
  "keeps (safe C I P) flush_session" "keeps (safe C I P) refresh_session" "keeps (safe C I P) commit_session"
  by (auto simp: keeps_def safe_def flush_session_def refresh_session_def commit_session_def
      on_sql_error_def session_flush_def session_refresh_def session_commit_def id_supply_def
      raise_database_error_def session_rollback_def db_violation_None prog_simps split: option.splits)

lemma keeps_safe_scope [keeps_intros]: "keeps (safe C I P) m \<Longrightarrow> keeps (safe C I P) (session_scope m)"
  by (auto simp: session_scope_def on_sql_error_def intro!: keeps_intros split: exn.split)

lemma keeps_case_sum [keeps_intros]:
  "(\<And>e. keeps I (f e)) \<Longrightarrow> (\<And>x. keeps I (g x)) \<Longrightarrow> keeps I (case r of Inl e \<Rightarrow> f e | Inr x \<Rightarrow> g x)"
  by (simp split: sum.split)

lemma keeps_at: "keeps I m \<Longrightarrow> I s \<Longrightarrow> I (snd (m s))"
  by (simp add: keeps_def)

lemma keeps_then_ret: "I (snd (m s)) \<Longrightarrow> I (snd (bindP m (\<lambda>x. ret (f x)) s))"
  by (auto simp: bindP_def ret_def split: prod.split sum.split)

section \<open>Fetching reads the network only\<close>

definition reads_only :: "('r, 'a) op \<Rightarrow> bool" where
  "reads_only m \<longleftrightarrow> (\<forall>w. \<exists>t\<ge>tick w. snd (m w) = w\<lparr>tick := t\<rparr>)"

named_theorems reads_intros

lemma reads_tick: "(\<And>w. snd (m w) = w\<lparr>tick := tick w + k\<rparr>) \<Longrightarrow> reads_only m"
  unfolding reads_only_def by (metis le_add1)

lemma reads_ret [reads_intros]: "reads_only (ret x)"
  by (rule reads_tick [where k = 0]) (simp add: prog_simps)

lemma reads_raise [reads_intros]: "reads_only (raise e)"
  by (rule reads_tick [where k = 0]) (simp add: prog_simps)

lemma reads_http [reads_intros]: "reads_only (http_get url)"
  by (rule reads_tick [where k = 1]) (simp add: prog_simps)

lemma reads_bind [reads_intros]:
  assumes "reads_only m" "\<And>x. reads_only (f x)"
  shows "reads_only (bindP m f)"
  unfolding reads_only_def
proof
  fix w
  obtain t where t: "tick w \<le> t" "snd (m w) = w\<lparr>tick := t\<rparr>" using assms(1) by (auto simp: reads_only_def)
  show "\<exists>t\<ge>tick w. snd (bindP m f w) = w\<lparr>tick := t\<rparr>"
  proof (cases "fst (m w)")
    case (Inl e)
    with t show ?thesis by (auto simp: bindP_def split: prod.splits)
  next
    case (Inr x)
    obtain u where "t \<le> u" "snd (f x (w\<lparr>tick := t\<rparr>)) = w\<lparr>tick := t, tick := u\<rparr>"
      using assms(2) [of x] by (auto simp: reads_only_def dest: spec [of _ "w\<lparr>tick := t\<rparr>"])
    with t Inr show ?thesis by (auto simp: bindP_def intro!: exI [of _ u] split: prod.splits)
  qed
qed

lemma reads_catch [reads_intros]:
  assumes "reads_only m" "\<And>x. reads_only (f x)"
  shows "reads_only (catchP m f)"
  unfolding reads_only_def
proof
  fix w
  obtain t where t: "tick w \<le> t" "snd (m w) = w\<lparr>tick := t\<rparr>" using assms(1) by (auto simp: reads_only_def)
  show "\<exists>t\<ge>tick w. snd (catchP m f w) = w\<lparr>tick := t\<rparr>"
  proof (cases "fst (m w)")
    case (Inr e)
    with t show ?thesis by (auto simp: catchP_def split: prod.splits)
  next
    case (Inl x)
    obtain u where "t \<le> u" "snd (f x (w\<lparr>tick := t\<rparr>)) = w\<lparr>tick := t, tick := u\<rparr>"
      using assms(2) [of x] by (auto simp: reads_only_def dest: spec [of _ "w\<lparr>tick := t\<rparr>"])
    with t Inl show ?thesis by (auto simp: catchP_def intro!: exI [of _ u] split: prod.splits)
  qed
qed

lemma reads_get_json: "reads_only (get_json url i)"
  unfolding get_json_def limiter_wait_def
  by (intro reads_intros) (auto intro!: reads_intros split: http_result.split option.split)

lemma reads_then_yield: "reads_only m \<Longrightarrow> reads_only (then_yield y m)"
  by (auto simp: then_yield_def intro!: reads_intros)

lemma reads_greenhouse_pages: "reads_only (greenhouse_pages fr url i ps)"
  by (induction ps) (auto simp: ending_def intro!: reads_intros reads_get_json reads_then_yield split: sum.split)

lemma reads_lever_pages: "reads_only (lever_pages fr url i ps)"
  by (induction ps) (auto simp: ending_def intro!: reads_intros reads_get_json reads_then_yield split: sum.split)

lemma reads_adapter: "adapter_for L kind = Some fetch \<Longrightarrow> reads_only (fetch cfg)"
  by (auto simp: adapter_for_def greenhouse_fetch_def lever_fetch_def Let_def
      intro!: reads_intros reads_greenhouse_pages reads_lever_pages
      split: if_splits option.split sum.split)

text \<open>Collecting, with its retries, moves the clock and fills the list.\<close>

lemma collect_world:
  assumes "reads_only fetch"
  shows "with_retries n (collect fetch) (w, fs, k) = (r, w', fs', k') \<Longrightarrow> \<exists>t\<ge>tick w. w' = w\<lparr>tick := t\<rparr>"
proof (induction n arbitrary: w fs k)
  case 0
  then have "w' = w\<lparr>tick := tick w\<rparr>" by (simp add: prog_simps)
  then show ?case by blast
next
  case (Suc n)
  obtain t where t: "tick w \<le> t" "snd (fetch w) = w\<lparr>tick := t\<rparr>" using assms by (auto simp: reads_only_def)
  obtain q fs1 k1 where c: "collect fetch (w, fs, k) = (q, w\<lparr>tick := t\<rparr>, fs1, k1)"
    using t by (cases "fetch w"; cases "fst (fetch w)") (auto simp: collect_def)
  show ?case
  proof (cases "\<exists>e. q = Inl e \<and> retryable e \<and> n \<noteq> 0")
    case True
    then have "with_retries n (collect fetch) (w\<lparr>tick := t\<rparr>, fs1, k1) = (r, w', fs', k')"
      using Suc.prems c by (auto simp: prog_simps)
    from Suc.IH [OF this] obtain u where "t \<le> u" "w' = w\<lparr>tick := u\<rparr>" by auto
    then show ?thesis using t(1) by (intro exI [of _ u]) simp
  next
    case False
    then have "w' = w\<lparr>tick := t\<rparr>"
      using Suc.prems c by (auto simp: prog_simps split: sum.splits if_splits)
    with t(1) show ?thesis by blast
  qed
qed

section \<open>What the subsystem keeps\<close>

text \<open>A predicate that does not depend on the jobs and their source records.\<close>

locale run_tables =
  fixes P :: "db \<Rightarrow> bool"
  assumes jobs_free: "P d \<Longrightarrow> P (d\<lparr>jobs := js\<rparr>)"
    and records_free: "P d \<Longrightarrow> P (d\<lparr>job_source_records := rs\<rparr>)"
begin

lemma url_text_keeps: "keeps (safe C I P) (url_text v)"
  by (auto simp: url_text_def intro!: keeps_intros split: json.split)

lemma add_source_record_keeps: "keeps (safe C I P) (add_source_record L jid sid c)"
  unfolding add_source_record_def by (intro keeps_intros url_text_keeps records_free)

lemma find_existing_keeps: "keeps (safe C I P) (find_existing sid c)"
  by (auto simp: find_existing_def intro!: keeps_intros split: option.split json.split)

lemma upsert_keeps: "keeps (safe C I P) (upsert L sid c)"
  unfolding upsert_def
  by (intro keeps_intros find_existing_keeps url_text_keeps add_source_record_keeps jobs_free)

lemma ingest_all_keeps: "keeps (safe C I P) (ingest_all L sid company rs)"
  by (auto simp: ingest_all_def ingest_record_def
      intro!: keeps_intros upsert_keeps split: option.split sum.split)

end

text \<open>A predicate that also survives the end of a run.\<close>

locale run_ends = run_tables +
  assumes stop: "P d \<Longrightarrow> rn_status v \<in> {''succeeded'', ''partial'', ''failed''} \<Longrightarrow>
      P (d\<lparr>ingestion_runs := update_where (\<lambda>r. ir_id r = i) (finished v t) (ingestion_runs d)\<rparr>)"
begin

lemma finish_run_keeps: "rn_status v \<in> {''succeeded'', ''partial'', ''failed''} \<Longrightarrow> keeps (safe C I P) (finish_run i v)"
  unfolding finish_run_def by (intro keeps_intros stop)

lemma complete_run_keeps: "keeps (safe C I P) (complete_run L rid sid company fs k)"
  unfolding complete_run_def repo_get_run_def
  by (intro keeps_intros ingest_all_keeps finish_run_keeps) (simp add: success_result_def split: prod.split)

lemma fail_run_keeps: "keeps (safe C I P) (fail_run rid n e)"
  unfolding fail_run_def repo_get_run_def
  by (intro keeps_intros finish_run_keeps) (simp add: failure_result_def)

lemma run_body_keeps:
  assumes "reads_only fetch"
  shows "keeps (safe C I P) (run_body L fetch rid sid company)"
proof (rule keepsI)
  fix w :: "'a world"
  assume w: "safe C I P w"
  obtain r w' fs k where c: "with_retries 3 (collect fetch) (w, [], 0) = (r, w', fs, k)"
    by (metis prod_cases3 surj_pair)
  then have "safe C I P w'" using collect_world [OF assms] w by (fastforce simp: safe_def id_supply_def)
  then show "safe C I P (snd (run_body L fetch rid sid company w))"
    by (auto simp: run_body_def c split: sum.split exn.split
        intro: keeps_at [OF complete_run_keeps] keeps_at [OF fail_run_keeps])
qed

lemma execute_run_keeps: "keeps (safe C I P) (execute_run L R rid cfg kind sid company)"
  by (auto simp: execute_run_def release_lock_def intro!: keeps_intros run_body_keeps reads_adapter
      split: option.split)

end

text \<open>A predicate that survives everything that is done to the sources.\<close>

locale run_invariant = run_ends +
  assumes start: "P d \<Longrightarrow> active_runs d (ir_source_id r) = [] \<Longrightarrow> ir_status r = ''running'' \<Longrightarrow>
      ir_completed_at r = None \<Longrightarrow> P (d\<lparr>ingestion_runs := ingestion_runs d @ [r]\<rparr>)"
    and new_user: "P d \<Longrightarrow> P (d\<lparr>users := us\<rparr>)"
    and new_source: "P d \<Longrightarrow> so_last_success_at s = None \<Longrightarrow> P (d\<lparr>sources := sources d @ [s]\<rparr>)"
begin

lemma create_run_keeps:
  assumes "safe C I P w" "active_runs (work w) sid = []"
  shows "safe C I P (snd (repo_create_run sid w))"
proof -
  let ?r = "\<lparr>ir_id = uuid_source (wenv w) (tick w), ir_source_id = sid, ir_status = ''running'',
     ir_started_at = clock (wenv w) (Suc (tick w)), ir_completed_at = None, ir_fetched_count = 0,
     ir_normalized_count = 0, ir_created_count = 0, ir_updated_count = 0, ir_duplicate_count = 0,
     ir_error_count = 0, ir_error_summary = []\<rparr>"
  let ?w = "w\<lparr>tick := Suc (Suc (tick w)), work := (work w)\<lparr>ingestion_runs := ingestion_runs (work w) @ [?r]\<rparr>\<rparr>"
  let ?rest = "bindP commit_session (\<lambda>_. bindP refresh_session (\<lambda>_. ret ?r))"
  have "safe C I P ?w" using assms start [of "work w" ?r] by (simp add: safe_def id_supply_def)
  moreover have "keeps (safe C I P) ?rest" by (intro keeps_intros)
  ultimately have "safe C I P (snd (?rest ?w))" unfolding keeps_def by blast
  moreover have "repo_create_run sid w = ?rest ?w" by (simp add: repo_create_run_def run_simps Let_def)
  ultimately show ?thesis by (simp only:)
qed

lemma start_run_keeps: "keeps (safe C I P) (start_run R sid uid)"
proof (rule keepsI)
  fix w :: "'a world"
  assume w: "safe C I P w"
  define src where "src = (case uid of Some u \<Rightarrow> find (\<lambda>s. so_id s = sid \<and> so_user_id s = u) (sources (work w))
    | None \<Rightarrow> find (\<lambda>s. so_id s = sid) (sources (work w)))"
  have found: "(case uid of Some u \<Rightarrow> repo_get_source_for_user sid u | None \<Rightarrow> repo_get_source sid) w = (Inr src, w)"
    by (simp add: src_def repo_get_source_for_user_def repo_get_source_def run_simps split: option.split)
  obtain lk v where lock: "(case R of None \<Rightarrow> ret True | Some rd \<Rightarrow> redis_call (r_set_nx_ex rd (lock_key sid) 900)) w = (lk, v)"
    by fastforce
  then have v: "work v = work w" "committed v = committed w" "id_supply I w \<Longrightarrow> id_supply I v"
    by (auto simp: redis_call_def prog_simps id_supply_def split: option.splits prod.splits)
  note run = bindP_result [where m = "case uid of Some u \<Rightarrow> repo_get_source_for_user sid u | None \<Rightarrow> repo_get_source sid", OF found]
    bindP_result [where m = "case R of None \<Rightarrow> ret True | Some rd \<Rightarrow> redis_call (r_set_nx_ex rd (lock_key sid) 900)", OF lock]
  show "safe C I P (snd (start_run R sid uid w))"
  proof (cases "active_runs (work w) sid")
    case (Cons r rs)
    then show ?thesis
      using w unfolding start_run_def run(1)
      by (simp add: repo_get_active_run_def run_simps split: option.split)
  next
    case Nil
    have "safe C I P (snd (bindP (repo_create_run sid) (\<lambda>r. ret (r, False)) v))"
      by (rule keeps_then_ret, rule create_run_keeps) (use w Nil v in \<open>simp_all add: safe_def active_runs_def\<close>)
    then show ?thesis
      using w v Nil unfolding start_run_def run(1)
      by (simp add: repo_get_active_run_def run_simps run(2) safe_def split: option.split sum.split)
  qed
qed

lemma dispatch_keeps: "keeps (safe C I P) (dispatch_ingestion_run L R sid rid)"
  unfolding dispatch_ingestion_run_def execute_ingestion_run_def repo_get_source_def
  by (intro keeps_intros execute_run_keeps)

lemma run_ingestion_keeps: "keeps (safe C I P) (run_ingestion L R sid rid)"
  unfolding run_ingestion_def execute_ingestion_run_def repo_get_source_def
  by (intro keeps_intros execute_run_keeps)

lemma schedule_keeps: "keeps (safe C I P) (schedule_due_sources R)"
  unfolding schedule_due_sources_def schedule_source_def
  by (intro keeps_intros start_run_keeps)

lemma create_source_keeps: "keeps (safe C I P) (service_create_source uid s)"
  unfolding service_create_source_def repo_create_source_def ensure_user_def get_user_def Let_def
  by (intro keeps_intros new_user new_source) simp_all

end

section \<open>Histories\<close>

text \<open>A Redis server that is down, for the examples: every command fails.\<close>

definition no_redis :: "unit redis" where
  "no_redis = \<lparr>r_set_nx_ex = (\<lambda>k s t r. (Inl ''down'', r)), r_delete = (\<lambda>k t r. (Inl ''down'', r)),
     r_incr = (\<lambda>k t r. (Inl ''down'', r)), r_expire = (\<lambda>k s t r. (Inl ''down'', r)),
     r_ping = (\<lambda>t r. (Inl ''down'', r))\<rparr>"


text \<open>
  What happens around the sources, each in a session of its own and with its errors answered to the
  caller: a source is added, a run is started through the API (without the lock) or by a pass of
  the scheduler (with it), a worker executes a run.
\<close>

datatype activity =
    Add_Source uuid source_input
  | Api_Start uuid uuid
  | Scheduler_Pass
  | Worker_Run uuid uuid
  | Dispatch_Run uuid uuid

fun perform :: "lib \<Rightarrow> 'r redis \<Rightarrow> activity \<Rightarrow> ('r, unit) op" where
  "perform L R (Add_Source uid s) = session_scope (bindP (service_create_source uid s) (\<lambda>_. ret ()))"
| "perform L R (Api_Start uid sid) = session_scope (bindP (start_run None sid (Some uid)) (\<lambda>_. ret ()))"
| "perform L R Scheduler_Pass = bindP (schedule_due_sources (Some R)) (\<lambda>_. ret ())"
| "perform L R (Worker_Run sid rid) = bindP (run_ingestion L (Some R) sid rid) (\<lambda>_. ret ())"
| "perform L R (Dispatch_Run sid rid) = dispatch_ingestion_run L (Some R) sid rid"

primrec history :: "lib \<Rightarrow> 'r redis \<Rightarrow> activity list \<Rightarrow> 'r world \<Rightarrow> 'r world" where
  "history L R [] w = w"
| "history L R (a # as) w = history L R as (snd (perform L R a w))"

definition single_running :: "db \<Rightarrow> bool" where
  "single_running d = distinct (map ir_source_id (filter (\<lambda>r. ir_status r = ''running'') (ingestion_runs d)))"

definition no_success :: "db \<Rightarrow> bool" where
  "no_success d = list_all (\<lambda>s. so_last_success_at s = None) (sources d)"

lemma distinct_filter_update:
  assumes "\<And>x. \<not> P (f x)" "distinct (map k (filter P xs))"
  shows "distinct (map k (filter P (update_where Q f xs)))"
  using assms(2) by (induction xs) (auto simp: assms(1) table_simps split: if_splits)

lemma finished_status [simp]: "ir_status (finished v t r) = rn_status v"
  by (simp add: finished_def)

interpretation single: run_invariant single_running
proof (unfold_locales, goal_cases)
  case (3 d v i t)
  from 3(2) have "rn_status v \<noteq> ''running''" by auto
  with 3(1) show ?case by (simp add: single_running_def distinct_filter_update)
next
  case (4 d r)
  have "length (active_runs d (ir_source_id r)) = 0" using 4(2) by simp
  then have "filter (\<lambda>x. ir_source_id x = ir_source_id r \<and> ir_status x = ''running'') (ingestion_runs d) = []"
    by (simp only: active_runs_def length_sort length_0_conv)
  with 4(1) show ?case by (auto simp: single_running_def filter_empty_conv)
qed (simp_all add: single_running_def)

interpretation unmarked: run_invariant no_success
  by unfold_locales (simp_all add: no_success_def)

context run_invariant
begin

lemma perform_keeps: "keeps (safe C I P) (perform L R a)"
  by (cases a) (auto intro!: keeps_intros create_source_keeps start_run_keeps schedule_keeps
      run_ingestion_keeps dispatch_keeps)

lemma history_keeps: "safe C I P w \<Longrightarrow> safe C I P (history L R as w)"
  by (induction as arbitrary: w) (simp_all add: keeps_at [OF perform_keeps])

end

text \<open>
  One run at a time: whatever is done to the sources in whatever order, with or without the
  Redis lock, with failing databases and networks, no source ever has two runs that are running, as
  long as each of these operations completes before the next one begins.
\<close>

theorem one_running_run_per_source:
  assumes "single_running (committed w)" "single_running (work w)"
  shows "length (filter (\<lambda>r. ir_source_id r = sid \<and> ir_status r = ''running'')
    (ingestion_runs (committed (history L R as w)))) \<le> 1"
proof -
  let ?rs = "ingestion_runs (committed (history L R as w))"
  have "both single_running (history L R as w)"
    by (rule single.history_keeps) (simp add: both_def assms)
  then have d: "distinct (map ir_source_id (filter (\<lambda>r. ir_status r = ''running'') ?rs))"
    by (simp add: both_def single_running_def)
  from one_row_per_key [OF d, of sid] show ?thesis by (simp add: conj_commute)
qed

text \<open>
  The scheduler's clock never advances: no operation ever records a success on a source, so
  every enabled source with an interval is due at every instant, whatever was run before.
\<close>

theorem always_due:
  assumes "no_success (committed w)" "no_success (work w)"
    and "s \<in> set (sources (committed (history L R as w)))"
    and "so_enabled s" "interval_seconds (so_schedule s) = Some n"
  shows "is_due s now"
proof -
  have "both no_success (history L R as w)"
    by (rule unmarked.history_keeps) (simp add: both_def assms(1,2))
  then show ?thesis
    using assms(3-5) by (simp add: both_def no_success_def list_all_iff is_due_def)
qed

theorem one_running_run_per_source_witness:
  "length (filter (\<lambda>r. ir_source_id r = 71 \<and> ir_status r = ''running'')
    (ingestion_runs (committed (history lib_ex no_redis [Api_Start 1 71, Scheduler_Pass] (world_ex seen_db_ex))))) \<le> 1"
  by (rule one_running_run_per_source) (simp_all add: single_running_def seen_defs)

theorem always_due_witness: "is_due (source_ex\<lparr>so_schedule := Some ''interval:60''\<rparr>) 5"
proof -
  let ?d = "seen_db_ex\<lparr>sources := [source_ex\<lparr>so_schedule := Some ''interval:60''\<rparr>]\<rparr>"
  have "interval_seconds (Some ''interval:60'') = Some 60" by code_simp
  then show ?thesis
    using always_due [of "world_ex ?d" "source_ex\<lparr>so_schedule := Some ''interval:60''\<rparr>" lib_ex no_redis "[]" 60 5]
    by (simp add: no_success_def source_ex_def)
qed

end
