(* ===== verification/Application.thy ===== *)
theory Application
  imports Audit_Api Operations Middleware_Facts Ingest_Facts
begin

text \<open>
  The application of \<open>app/main.py\<close>: the routers it includes, in that order, which operation of the
  development each of their routes calls, whom the route's dependencies let in, and the whole of it
  behind the middleware stack. FastAPI's reading of paths, queries and bodies into typed values and
  its reading of the \<open>Authorization\<close> header are parameters.
\<close>

section \<open>The table of routes\<close>

datatype endpoint =
    E_Live | E_Ready
  | E_Get_Preferences | E_Validate_Preferences | E_Update_Preferences
  | E_Create_Source | E_List_Sources | E_Run_Source
  | E_Get_Run
  | E_List_Jobs | E_Get_Job | E_Get_Match | E_Save_Feedback | E_Match_Job
  | E_Get_Delivery
  | E_Metrics
  | E_Delete_Me
  | E_Version
  | E_Register | E_Login | E_Refresh | E_Request_Reset | E_Confirm_Reset | E_Verify_Email | E_Resend
  | E_Logout | E_Sessions | E_Revoke_Others | E_Revoke_Session | E_Me | E_Create_Role | E_Assign_Role
  | E_Search_Audit | E_Export_Audit
  | E_Live_V2
  | E_Get_Preferences_V2 | E_Update_Preferences_V2

text \<open>A path template is a list of segments; a parameter stands for one segment that is not empty.\<close>

datatype segment = Lit string | Par

definition under :: "string list \<Rightarrow> (string \<times> segment list \<times> endpoint) list \<Rightarrow> (string \<times> segment list \<times> endpoint) list" where
  "under prefix rs = map (\<lambda>(m, t, e). (m, map Lit prefix @ t, e)) rs"

definition health_router :: "(string \<times> segment list \<times> endpoint) list" where
  "health_router = [(''GET'', [Lit ''health'', Lit ''live''], E_Live), (''GET'', [Lit ''health'', Lit ''ready''], E_Ready)]"

definition preferences_router :: "(string \<times> segment list \<times> endpoint) list" where
  "preferences_router = under [''api'', ''v1'', ''preferences'']
     [(''GET'', [], E_Get_Preferences), (''POST'', [Lit ''validate''], E_Validate_Preferences),
      (''PUT'', [], E_Update_Preferences)]"

definition sources_router :: "(string \<times> segment list \<times> endpoint) list" where
  "sources_router = under [''api'', ''v1'', ''sources'']
     [(''POST'', [], E_Create_Source), (''GET'', [], E_List_Sources), (''POST'', [Par, Lit ''run''], E_Run_Source)]"

definition runs_router :: "(string \<times> segment list \<times> endpoint) list" where
  "runs_router = under [''api'', ''v1'', ''runs''] [(''GET'', [Par], E_Get_Run)]"

definition jobs_router :: "(string \<times> segment list \<times> endpoint) list" where
  "jobs_router = under [''api'', ''v1'', ''jobs'']
     [(''GET'', [], E_List_Jobs), (''GET'', [Par], E_Get_Job), (''GET'', [Par, Lit ''match''], E_Get_Match),
      (''POST'', [Par, Lit ''feedback''], E_Save_Feedback), (''POST'', [Par, Lit ''match''], E_Match_Job)]"

definition notifications_router :: "(string \<times> segment list \<times> endpoint) list" where
  "notifications_router = under [''api'', ''v1'', ''notifications''] [(''GET'', [Par], E_Get_Delivery)]"

definition metrics_router :: "(string \<times> segment list \<times> endpoint) list" where
  "metrics_router = [(''GET'', [Lit ''metrics''], E_Metrics)]"

definition users_router :: "(string \<times> segment list \<times> endpoint) list" where
  "users_router = under [''api'', ''v1'', ''users''] [(''DELETE'', [Lit ''me''], E_Delete_Me)]"

definition version_router :: "(string \<times> segment list \<times> endpoint) list" where
  "version_router = under [''api'', ''v1''] [(''GET'', [Lit ''version''], E_Version)]"

definition auth_router :: "(string \<times> segment list \<times> endpoint) list" where
  "auth_router = under [''api'', ''v1'']
     [(''POST'', [Lit ''auth'', Lit ''register''], E_Register), (''POST'', [Lit ''auth'', Lit ''login''], E_Login),
      (''POST'', [Lit ''auth'', Lit ''refresh''], E_Refresh),
      (''POST'', [Lit ''auth'', Lit ''password-reset'', Lit ''request''], E_Request_Reset),
      (''POST'', [Lit ''auth'', Lit ''password-reset'', Lit ''confirm''], E_Confirm_Reset),
      (''POST'', [Lit ''auth'', Lit ''email'', Lit ''verify''], E_Verify_Email),
      (''POST'', [Lit ''auth'', Lit ''email'', Lit ''resend''], E_Resend),
      (''POST'', [Lit ''auth'', Lit ''logout''], E_Logout), (''GET'', [Lit ''auth'', Lit ''sessions''], E_Sessions),
      (''DELETE'', [Lit ''auth'', Lit ''sessions'', Lit ''others''], E_Revoke_Others),
      (''DELETE'', [Lit ''auth'', Lit ''sessions'', Par], E_Revoke_Session), (''GET'', [Lit ''auth'', Lit ''me''], E_Me),
      (''POST'', [Lit ''roles''], E_Create_Role), (''POST'', [Lit ''users'', Par, Lit ''roles'', Par], E_Assign_Role)]"

definition audit_router :: "(string \<times> segment list \<times> endpoint) list" where
  "audit_router = under [''api'', ''v1'', ''admin'']
     [(''GET'', [Lit ''audit-events''], E_Search_Audit), (''GET'', [Lit ''audit-events'', Lit ''export''], E_Export_Audit)]"

definition health_v2_router :: "(string \<times> segment list \<times> endpoint) list" where
  "health_v2_router = under [''api'', ''v2''] [(''GET'', [Lit ''health'', Lit ''live''], E_Live_V2)]"

definition preferences_v2_router :: "(string \<times> segment list \<times> endpoint) list" where
  "preferences_v2_router = under [''api'', ''v2'', ''preferences'']
     [(''GET'', [], E_Get_Preferences_V2), (''PUT'', [], E_Update_Preferences_V2)]"

definition routes :: "(string \<times> segment list \<times> endpoint) list" where
  "routes = health_router @ preferences_router @ sources_router @ runs_router @ jobs_router
     @ notifications_router @ metrics_router @ users_router @ version_router @ auth_router
     @ audit_router @ health_v2_router @ preferences_v2_router"

text \<open>
  Starlette's search: the first route whose template and method fit; else, when a template fits,
  the method is not allowed; else, when one fits the path without its final slashes, the client is
  sent there; else nothing is found.
\<close>

fun fits :: "segment list \<Rightarrow> string list \<Rightarrow> bool" where
  "fits [] [] = True"
| "fits (Lit a # ts) (s # ss) = (a = s \<and> fits ts ss)"
| "fits (Par # ts) (s # ss) = (s \<noteq> [] \<and> fits ts ss)"
| "fits _ _ = False"

datatype routed = Found endpoint | Wrong_Method string | Redirected string | Unknown_Path

definition path_segments :: "string \<Rightarrow> string list option" where
  "path_segments path = (case split_on (CHR ''/'') path of [] # segs \<Rightarrow> Some segs | _ \<Rightarrow> None)"

definition fits_some :: "string \<Rightarrow> bool" where
  "fits_some path = (case path_segments path of None \<Rightarrow> False | Some segs \<Rightarrow> list_ex (\<lambda>(m, t, e). fits t segs) routes)"

definition allowed_method :: "string \<Rightarrow> string" where
  "allowed_method path = (case path_segments path of None \<Rightarrow> []
     | Some segs \<Rightarrow> (case find (\<lambda>(m, t, e). fits t segs) routes of None \<Rightarrow> [] | Some (m, _, _) \<Rightarrow> m))"

definition without_slashes :: "string \<Rightarrow> string" where
  "without_slashes path = rev (dropWhile (\<lambda>c. c = CHR ''/'') (rev path))"

definition find_route :: "string \<Rightarrow> string \<Rightarrow> routed" where
  "find_route m path =
     (case (case path_segments path of None \<Rightarrow> None
            | Some segs \<Rightarrow> find (\<lambda>(m', t, e). m' = m \<and> fits t segs) routes) of
        Some (_, _, e) \<Rightarrow> Found e
      | None \<Rightarrow>
          if fits_some path then Wrong_Method (allowed_method path)
          else if path \<noteq> ''/'' \<and> without_slashes path \<noteq> path \<and> fits_some (without_slashes path)
          then Redirected (without_slashes path)
          else Unknown_Path)"

section \<open>Calls\<close>

text \<open>A request whose path, query and body FastAPI has read.\<close>

datatype call =
    Live | Ready
  | Get_Preferences | Validate_Preferences preferences | Update_Preferences preferences
  | Create_Source source_input | List_Sources | Run_Source uuid
  | Get_Run uuid
  | List_Jobs nat nat job_filter | Get_Job uuid | Get_Match uuid | Save_Feedback uuid feedback_input
  | Match_Job uuid
  | Get_Delivery uuid
  | Metrics
  | Delete_Me
  | Version
  | Register string string | Login string string | Refresh string | Request_Reset string
  | Confirm_Reset string string string | Verify_Email string string | Resend string
  | Logout string | Sessions | Revoke_Others | Revoke_Session uuid | Me
  | Create_Role string "string option" | Assign_Role uuid string
  | Search_Audit nat nat audit_filter | Export_Audit export_format audit_filter
  | Live_V2
  | Get_Preferences_V2 | Update_Preferences_V2 preferences

primrec endpoint_of :: "call \<Rightarrow> endpoint" where
  "endpoint_of Live = E_Live" | "endpoint_of Ready = E_Ready"
| "endpoint_of Get_Preferences = E_Get_Preferences"
| "endpoint_of (Validate_Preferences p) = E_Validate_Preferences"
| "endpoint_of (Update_Preferences p) = E_Update_Preferences"
| "endpoint_of (Create_Source s) = E_Create_Source" | "endpoint_of List_Sources = E_List_Sources"
| "endpoint_of (Run_Source i) = E_Run_Source" | "endpoint_of (Get_Run i) = E_Get_Run"
| "endpoint_of (List_Jobs n k f) = E_List_Jobs" | "endpoint_of (Get_Job i) = E_Get_Job"
| "endpoint_of (Get_Match i) = E_Get_Match" | "endpoint_of (Save_Feedback i x) = E_Save_Feedback"
| "endpoint_of (Match_Job i) = E_Match_Job" | "endpoint_of (Get_Delivery i) = E_Get_Delivery"
| "endpoint_of Metrics = E_Metrics" | "endpoint_of Delete_Me = E_Delete_Me" | "endpoint_of Version = E_Version"
| "endpoint_of (Register e p) = E_Register" | "endpoint_of (Login e p) = E_Login"
| "endpoint_of (Refresh t) = E_Refresh" | "endpoint_of (Request_Reset e) = E_Request_Reset"
| "endpoint_of (Confirm_Reset e c p) = E_Confirm_Reset" | "endpoint_of (Verify_Email e c) = E_Verify_Email"
| "endpoint_of (Resend e) = E_Resend" | "endpoint_of (Logout t) = E_Logout" | "endpoint_of Sessions = E_Sessions"
| "endpoint_of Revoke_Others = E_Revoke_Others" | "endpoint_of (Revoke_Session i) = E_Revoke_Session"
| "endpoint_of Me = E_Me" | "endpoint_of (Create_Role n d) = E_Create_Role"
| "endpoint_of (Assign_Role i n) = E_Assign_Role" | "endpoint_of (Search_Audit n k f) = E_Search_Audit"
| "endpoint_of (Export_Audit x f) = E_Export_Audit" | "endpoint_of Live_V2 = E_Live_V2"
| "endpoint_of Get_Preferences_V2 = E_Get_Preferences_V2"
| "endpoint_of (Update_Preferences_V2 p) = E_Update_Preferences_V2"

section \<open>The routes' dependencies and bodies\<close>

text \<open>
  What the framework provides: the pair of scheme and token of the \<open>Authorization\<close> header, the
  reading of a request for an endpoint (a body that is no JSON is refused before any dependency runs,
  other invalid input after them), its documentation pages, its redirections, and the text of the
  Prometheus registry.
\<close>

datatype reading =
    Unreadable "validation_item list"
  | Invalid "validation_item list"
  | Valid call

record 'r framework =
  fw_bearer :: "request \<Rightarrow> credentials"
  fw_read :: "endpoint \<Rightarrow> request \<Rightarrow> reading"
  fw_docs :: "'r app"
  fw_redirect :: "request \<Rightarrow> string \<Rightarrow> response"
  fw_metrics :: string

datatype access = Anyone | Signed_In | Acting | Admin

definition access_of :: "endpoint \<Rightarrow> access" where
  "access_of e =
     (if e \<in> {E_Sessions, E_Revoke_Others, E_Revoke_Session, E_Me} then Signed_In
      else if e \<in> {E_Create_Role, E_Assign_Role, E_Search_Audit, E_Export_Audit} then Admin
      else if e \<in> {E_Get_Preferences, E_Update_Preferences, E_Create_Source, E_List_Sources, E_Run_Source,
         E_Get_Run, E_List_Jobs, E_Get_Job, E_Get_Match, E_Save_Feedback, E_Match_Job, E_Get_Delivery,
         E_Delete_Me, E_Get_Preferences_V2, E_Update_Preferences_V2} then Acting
      else Anyone)"

definition authorize :: "lib \<Rightarrow> settings \<Rightarrow> credentials \<Rightarrow> request \<Rightarrow> endpoint \<Rightarrow> ('r, unit) op" where
  "authorize L S cred rq e =
     (case access_of e of
        Anyone \<Rightarrow> ret ()
      | Signed_In \<Rightarrow> bindP (get_current_user L S cred) (\<lambda>_. ret ())
      | Acting \<Rightarrow> bindP (request_user_id L S cred rq) (\<lambda>_. ret ())
      | Admin \<Rightarrow> bindP (require_role L S cred ''admin'') (\<lambda>_. ret ()))"

definition has_session :: "endpoint \<Rightarrow> bool" where
  "has_session e \<longleftrightarrow> e \<notin> {E_Live, E_Ready, E_Validate_Preferences, E_Metrics, E_Version, E_Live_V2}"

definition in_session :: "endpoint \<Rightarrow> ('r, 'a) op \<Rightarrow> ('r, 'a) op" where
  "in_session e m = (if has_session e then session_scope m else m)"

primrec handle ::
  "lib \<Rightarrow> settings \<Rightarrow> 'r redis \<Rightarrow> string \<Rightarrow> credentials \<Rightarrow> request \<Rightarrow> call \<Rightarrow> 'r route" where
  "handle L S R m cred rq Live = live_route"
| "handle L S R m cred rq Ready = ready_route R rq"
| "handle L S R m cred rq Get_Preferences = get_preferences_route L S cred rq"
| "handle L S R m cred rq (Validate_Preferences p) = validate_preferences_route rq p"
| "handle L S R m cred rq (Update_Preferences p) = update_preferences_route L S cred rq p"
| "handle L S R m cred rq (Create_Source s) = create_source_route L S cred rq s"
| "handle L S R m cred rq List_Sources = list_sources_route L S cred rq"
| "handle L S R m cred rq (Run_Source i) = run_source_route L S cred rq i"
| "handle L S R m cred rq (Get_Run i) = get_run_route L S cred rq i"
| "handle L S R m cred rq (List_Jobs n k f) = list_jobs_route L S cred rq n k f"
| "handle L S R m cred rq (Get_Job i) = get_job_route L S cred rq i"
| "handle L S R m cred rq (Get_Match i) = get_match_route L S cred rq i"
| "handle L S R m cred rq (Save_Feedback i x) = save_feedback_route L S cred rq i x"
| "handle L S R m cred rq (Match_Job i) = match_job_route L S cred rq i"
| "handle L S R m cred rq (Get_Delivery i) = get_delivery_route L S cred rq i"
| "handle L S R m cred rq Metrics = ret (200, JStr m)"
| "handle L S R m cred rq Delete_Me = delete_me_route L S cred rq"
| "handle L S R m cred rq Version = version_route S rq"
| "handle L S R m cred rq (Register e p) = register_route L S rq e p"
| "handle L S R m cred rq (Login e p) = login_route L S rq e p"
| "handle L S R m cred rq (Refresh t) = refresh_route L S rq t"
| "handle L S R m cred rq (Request_Reset e) = request_password_reset_route L S rq e"
| "handle L S R m cred rq (Confirm_Reset e c p) = confirm_password_reset_route L S rq e c p"
| "handle L S R m cred rq (Verify_Email e c) = verify_email_route L S rq e c"
| "handle L S R m cred rq (Resend e) = resend_route L S rq e"
| "handle L S R m cred rq (Logout t) = logout_route L S t"
| "handle L S R m cred rq Sessions = sessions_route L S cred rq"
| "handle L S R m cred rq Revoke_Others = revoke_other_sessions_route L S cred"
| "handle L S R m cred rq (Revoke_Session i) = revoke_session_route L S cred i"
| "handle L S R m cred rq Me = me_route L S cred rq"
| "handle L S R m cred rq (Create_Role n d) = create_role_route L S cred rq n d"
| "handle L S R m cred rq (Assign_Role i n) = assign_role_route L S cred i n"
| "handle L S R m cred rq (Search_Audit n k f) = search_audit_route L S cred rq n k f"
| "handle L S R m cred rq (Export_Audit x f) =
     bindP (export_audit_route L S cred x f) (\<lambda>s. ret (200, JStr (concat (st_chunks s))))"
| "handle L S R m cred rq Live_V2 = live_v2_route"
| "handle L S R m cred rq Get_Preferences_V2 = get_preferences_v2_route L S cred rq"
| "handle L S R m cred rq (Update_Preferences_V2 p) = update_preferences_v2_route L S cred rq p"

section \<open>The application\<close>

definition serve :: "lib \<Rightarrow> settings \<Rightarrow> 'r redis \<Rightarrow> 'r framework \<Rightarrow> endpoint \<Rightarrow> 'r app" where
  "serve L S R fw e rq =
     (case fw_read fw e rq of
        Unreadable vs \<Rightarrow> ret (handle_raised rq (RaisedValidation vs))
      | Invalid vs \<Rightarrow> in_session e (bindP (authorize L S (fw_bearer fw rq) rq e) (\<lambda>_.
          ret (handle_raised rq (RaisedValidation vs))))
      | Valid c \<Rightarrow> in_session e (bindP (handle L S R (fw_metrics fw) (fw_bearer fw rq) rq c) (\<lambda>(st, b).
          ret (json_response st b []))))"

definition docs_paths :: "string list" where
  "docs_paths = [''/openapi.json'', ''/docs'', ''/docs/oauth2-redirect'', ''/redoc'']"

definition app_router :: "lib \<Rightarrow> settings \<Rightarrow> 'r redis \<Rightarrow> 'r framework \<Rightarrow> 'r app" where
  "app_router L S R fw rq =
     (if rq_path rq \<in> set docs_paths then fw_docs fw rq
      else (case find_route (rq_method rq) (rq_path rq) of
        Found e \<Rightarrow> serve L S R fw e rq
      | Wrong_Method m \<Rightarrow> ret (handle_raised rq (RaisedHttp 405 (Some ''Method Not Allowed'') [(''Allow'', m)]))
      | Redirected p \<Rightarrow> ret (fw_redirect fw rq p)
      | Unknown_Path \<Rightarrow> ret (handle_raised rq (RaisedHttp 404 (Some ''Not Found'') []))))"

text \<open>
  \<open>create_app\<close>: settings that are not secure refuse to start; otherwise telemetry is set up, once in
  a process, and the application is the stack around the routers. Its resources, which \<open>lifespan\<close> opens
  and closes, are the world; the instrumentation of the application itself changes no answer.
\<close>

definition cors_origins :: "settings \<Rightarrow> string list" where
  "cors_origins S = filter (\<lambda>x. x \<noteq> []) (map strip (split_on (CHR '','') (cors_allowed_origins S)))"

definition create_app ::
  "lib \<Rightarrow> settings \<Rightarrow> 'r redis \<Rightarrow> 'r framework \<Rightarrow> (string list \<Rightarrow> bool \<Rightarrow> 'r app \<Rightarrow> 'r app)
     \<Rightarrow> telemetry \<Rightarrow> (exn + 'r app) \<times> telemetry" where
  "create_app L S R fw cors m =
     (case validate_security S of
        Inl e \<Rightarrow> (Inl e, m)
      | Inr _ \<Rightarrow>
          (Inr (http_stack L S R (cors (cors_origins S) (cors_allow_credentials S)) (app_router L S R fw)),
           instrument_clients S (configure_telemetry S m)))"

lemma create_app_once: "once_each m \<Longrightarrow> once_each (snd (create_app L S R fw cors m))"
  by (simp add: create_app_def set_up_once split: sum.split)

section \<open>Addresses\<close>

text \<open>The method and the segments of the path under which a client makes a call.\<close>

primrec address :: "call \<Rightarrow> string \<times> string list" where
  "address Live = (''GET'', [''health'', ''live''])" | "address Ready = (''GET'', [''health'', ''ready''])"
| "address Get_Preferences = (''GET'', [''api'', ''v1'', ''preferences''])"
| "address (Validate_Preferences p) = (''POST'', [''api'', ''v1'', ''preferences'', ''validate''])"
| "address (Update_Preferences p) = (''PUT'', [''api'', ''v1'', ''preferences''])"
| "address (Create_Source s) = (''POST'', [''api'', ''v1'', ''sources''])"
| "address List_Sources = (''GET'', [''api'', ''v1'', ''sources''])"
| "address (Run_Source i) = (''POST'', [''api'', ''v1'', ''sources'', uuid_str i, ''run''])"
| "address (Get_Run i) = (''GET'', [''api'', ''v1'', ''runs'', uuid_str i])"
| "address (List_Jobs n k f) = (''GET'', [''api'', ''v1'', ''jobs''])"
| "address (Get_Job i) = (''GET'', [''api'', ''v1'', ''jobs'', uuid_str i])"
| "address (Get_Match i) = (''GET'', [''api'', ''v1'', ''jobs'', uuid_str i, ''match''])"
| "address (Save_Feedback i x) = (''POST'', [''api'', ''v1'', ''jobs'', uuid_str i, ''feedback''])"
| "address (Match_Job i) = (''POST'', [''api'', ''v1'', ''jobs'', uuid_str i, ''match''])"
| "address (Get_Delivery i) = (''GET'', [''api'', ''v1'', ''notifications'', uuid_str i])"
| "address Metrics = (''GET'', [''metrics''])"
| "address Delete_Me = (''DELETE'', [''api'', ''v1'', ''users'', ''me''])"
| "address Version = (''GET'', [''api'', ''v1'', ''version''])"
| "address (Register e p) = (''POST'', [''api'', ''v1'', ''auth'', ''register''])"
| "address (Login e p) = (''POST'', [''api'', ''v1'', ''auth'', ''login''])"
| "address (Refresh t) = (''POST'', [''api'', ''v1'', ''auth'', ''refresh''])"
| "address (Request_Reset e) = (''POST'', [''api'', ''v1'', ''auth'', ''password-reset'', ''request''])"
| "address (Confirm_Reset e c p) = (''POST'', [''api'', ''v1'', ''auth'', ''password-reset'', ''confirm''])"
| "address (Verify_Email e c) = (''POST'', [''api'', ''v1'', ''auth'', ''email'', ''verify''])"
| "address (Resend e) = (''POST'', [''api'', ''v1'', ''auth'', ''email'', ''resend''])"
| "address (Logout t) = (''POST'', [''api'', ''v1'', ''auth'', ''logout''])"
| "address Sessions = (''GET'', [''api'', ''v1'', ''auth'', ''sessions''])"
| "address Revoke_Others = (''DELETE'', [''api'', ''v1'', ''auth'', ''sessions'', ''others''])"
| "address (Revoke_Session i) = (''DELETE'', [''api'', ''v1'', ''auth'', ''sessions'', uuid_str i])"
| "address Me = (''GET'', [''api'', ''v1'', ''auth'', ''me''])"
| "address (Create_Role n d) = (''POST'', [''api'', ''v1'', ''roles''])"
| "address (Assign_Role i n) = (''POST'', [''api'', ''v1'', ''users'', uuid_str i, ''roles'', n])"
| "address (Search_Audit n k f) = (''GET'', [''api'', ''v1'', ''admin'', ''audit-events''])"
| "address (Export_Audit x f) = (''GET'', [''api'', ''v1'', ''admin'', ''audit-events'', ''export''])"
| "address Live_V2 = (''GET'', [''api'', ''v2'', ''health'', ''live''])"
| "address Get_Preferences_V2 = (''GET'', [''api'', ''v2'', ''preferences''])"
| "address (Update_Preferences_V2 p) = (''PUT'', [''api'', ''v2'', ''preferences''])"

definition url_path :: "string list \<Rightarrow> string" where
  "url_path segs = concat (map (\<lambda>s. CHR ''/'' # s) segs)"

text \<open>A role's name is a segment of the path only without a slash and when it is not empty.\<close>

fun addressable :: "call \<Rightarrow> bool" where
  "addressable (Assign_Role i n) = (n \<noteq> [] \<and> CHR ''/'' \<notin> set n)"
| "addressable c = True"

lemma split_on_absent: "d \<notin> set s \<Longrightarrow> split_on d s = [s]"
  by (induction s) auto

lemma split_on_segment: "d \<notin> set s \<Longrightarrow> split_on d (s @ d # t) = s # split_on d t"
  by (induction s) auto

lemma path_segments_url:
  assumes "segs \<noteq> []" "\<forall>s\<in>set segs. CHR ''/'' \<notin> set s"
  shows "path_segments (url_path segs) = Some segs"
proof -
  have "split_on (CHR ''/'') (url_path segs) = [] # segs"
    using assms
  proof (induction segs)
    case (Cons s segs)
    show ?case
    proof (cases segs)
      case Nil
      with Cons.prems show ?thesis by (simp add: url_path_def split_on_absent)
    next
      case (Cons x xs)
      then have "split_on (CHR ''/'') (url_path segs) = [] # segs" using Cons.IH Cons.prems by simp
      then show ?thesis
        using Cons.prems split_on_segment [of "CHR ''/''" s] by (simp add: url_path_def Cons)
    qed
  qed simp
  then show ?thesis by (simp add: path_segments_def)
qed

lemma not_hex: "\<not> hex_char (CHR ''/'')" "\<not> hex_char (CHR ''o'')"
proof -
  have "(of_char c :: nat) \<in> {48..<58} \<union> {97..<103}" if "hex_char c" for c
    using that by (auto simp: hex_char_def of_digit_char split: if_splits)
  from this [of "CHR ''/''"] this [of "CHR ''o''"] show "\<not> hex_char (CHR ''/'')" "\<not> hex_char (CHR ''o'')"
    by auto
qed

lemma uuid_str_segment [simp]: "CHR ''/'' \<notin> set (uuid_str i)" "uuid_str i \<noteq> ''others''" "''others'' \<noteq> uuid_str i"
proof -
  show "CHR ''/'' \<notin> set (uuid_str i)" using uuid_str_chars [of "CHR ''/''" i] not_hex by auto
  have o: "CHR ''o'' \<notin> set (uuid_str i)" using uuid_str_chars [of "CHR ''o''" i] not_hex by auto
  show "uuid_str i \<noteq> ''others''"
  proof
    assume "uuid_str i = ''others''"
    with o show False by simp
  qed
  then show "''others'' \<noteq> uuid_str i" by (rule not_sym)
qed

lemma address_segments:
  assumes "addressable c"
  shows "snd (address c) \<noteq> [] \<and> (\<forall>s\<in>set (snd (address c)). CHR ''/'' \<notin> set s)"
  using assms by (cases c) simp_all

lemmas router_defs = health_router_def preferences_router_def sources_router_def runs_router_def
  jobs_router_def notifications_router_def metrics_router_def users_router_def version_router_def
  auth_router_def audit_router_def health_v2_router_def preferences_v2_router_def under_def

lemma find_address:
  assumes "addressable c"
  obtains t where "find (\<lambda>(m', t, e). m' = fst (address c) \<and> fits t (snd (address c))) routes
    = Some (fst (address c), t, endpoint_of c)"
  using assms by (cases c) (simp_all add: routes_def router_defs)

text \<open>
  Every call reaches its own route: the path and the method of a call, looked up in the table of
  routes, give the endpoint of that call, whatever identifiers the path holds. No route hides
  another, although templates overlap.
\<close>

theorem calls_reach_their_routes:
  assumes "addressable c"
  shows "find_route (fst (address c)) (url_path (snd (address c))) = Found (endpoint_of c)"
proof -
  have "path_segments (url_path (snd (address c))) = Some (snd (address c))"
    using address_segments [OF assms] by (intro path_segments_url) auto
  moreover obtain t where "find (\<lambda>(m', t, e). m' = fst (address c) \<and> fits t (snd (address c))) routes
      = Some (fst (address c), t, endpoint_of c)"
    by (rule find_address [OF assms])
  ultimately show ?thesis by (simp add: find_route_def)
qed

theorem calls_reach_their_routes_witness:
  "find_route ''POST'' ''/api/v1/users/00000000-0000-0000-0000-000000000001/roles/admin'' = Found E_Assign_Role"
proof -
  have "uuid_str 1 = ''00000000-0000-0000-0000-000000000001''" by code_simp
  then show ?thesis
    using calls_reach_their_routes [of "Assign_Role 1 ''admin''"] by (simp add: url_path_def)
qed

section \<open>Who may call what\<close>

lemmas route_defs = get_preferences_route_def update_preferences_route_def create_source_route_def
  list_sources_route_def run_source_route_def get_run_route_def list_jobs_route_def get_job_route_def
  get_match_route_def save_feedback_route_def match_job_route_def get_delivery_route_def
  delete_me_route_def sessions_route_def revoke_other_sessions_route_def revoke_session_route_def
  me_route_def create_role_route_def assign_role_route_def search_audit_route_def
  export_audit_route_def get_preferences_v2_route_def update_preferences_v2_route_def

lemma refused_first:
  assumes "bindP m (\<lambda>_. ret ()) w = (Inl e, w')"
  shows "bindP m k w = (Inl e, w')"
  using assms by (auto simp: bindP_Inl_iff ret_def)

text \<open>A call whose dependency refuses does nothing else.\<close>

lemma handle_forms:
  "access_of (endpoint_of c) = Signed_In \<Longrightarrow> \<exists>k. handle L S R m cred rq c = bindP (get_current_user L S cred) k"
  "access_of (endpoint_of c) = Acting \<Longrightarrow> \<exists>k. handle L S R m cred rq c = bindP (request_user_id L S cred rq) k"
  "access_of (endpoint_of c) = Admin \<Longrightarrow> \<exists>k. handle L S R m cred rq c = bindP (require_role L S cred ''admin'') k"
  by (cases c; simp add: access_of_def route_defs bindP_assoc; rule exI; rule refl)+

lemma handle_refused:
  assumes "authorize L S cred rq (endpoint_of c) w = (Inl e, w')"
  shows "handle L S R m cred rq c w = (Inl e, w')"
proof (cases "access_of (endpoint_of c)")
  case Anyone
  with assms show ?thesis by (simp add: authorize_def ret_def)
qed (use assms handle_forms [of c L S R m cred rq] in \<open>auto simp: authorize_def dest: refused_first\<close>)

text \<open>With a token required, nobody is made an account: looking at the credentials changes nothing.\<close>

lemma reads_query [reads_intros]: "reads_only (query f)"
  by (rule reads_tick [where k = 0]) (simp add: prog_simps)

lemma reads_now [reads_intros]: "reads_only now_utc"
  by (rule reads_tick [where k = 1]) (simp add: prog_simps)

lemma current_user_reads:
  assumes "auth_require_token S"
  shows "reads_only (get_current_user L S cred)"
  using assms
  by (auto simp: get_current_user_def decode_access_token_def check_session_def get_user_def
      repo_auth_session_def Let_def intro!: reads_intros split: option.split)

lemma authorize_reads:
  assumes "auth_require_token S"
  shows "reads_only (authorize L S cred rq e)"
  using current_user_reads [OF assms]
  by (auto simp: authorize_def request_user_id_def user_id_from_current_user_def require_role_def
      repo_roles_def intro!: reads_intros split: access.split option.split list.split)

lemma authorize_errors:
  assumes "auth_require_token S" "fst (authorize L S cred rq e w) = Inl x"
  shows "\<exists>k\<in>{AuthenticationRequired, InvalidAccessToken, SessionRevoked, PermissionDenied}. x = App (err k)"
  using assms
  by (auto simp: authorize_def request_user_id_def user_id_from_current_user_def require_role_def
      repo_roles_def get_current_user_def decode_access_token_def check_session_def get_user_def
      repo_auth_session_def Let_def prog_simps
      split: access.splits option.splits list.splits if_splits prod.splits sum.splits)

lemma refusal_table:
  "status_for_app_error (err AuthenticationRequired) = 401" "status_for_app_error (err InvalidAccessToken) = 401"
  "status_for_app_error (err SessionRevoked) = 401" "status_for_app_error (err PermissionDenied) = 403"
  "is_mapped_app_error (err AuthenticationRequired)" "is_mapped_app_error (err InvalidAccessToken)"
  "is_mapped_app_error (err SessionRevoked)" "is_mapped_app_error (err PermissionDenied)"
  by code_simp+

lemma refusal_statuses:
  assumes "k \<in> {AuthenticationRequired, InvalidAccessToken, SessionRevoked, PermissionDenied}"
  shows "rs_status (app_error_handler rq (err k)) \<in> {401, 403}"
  using assms by (auto simp: app_error_handler_def refusal_table json_response_def)

text \<open>The session of a request whose program reads only.\<close>

definition fresh_view :: "'r world \<Rightarrow> 'r world" where
  "fresh_view w = w\<lparr>work := committed w\<rparr>"

lemma scope_refused:
  assumes "m (fresh_view w) = (Inl (App x), v)" "\<exists>t. v = (fresh_view w)\<lparr>tick := t\<rparr>"
  shows "\<exists>t. session_scope m w = (Inl (App x), (fresh_view w)\<lparr>tick := t\<rparr>)"
  using assms by (auto simp: session_scope_def on_sql_error_def session_rollback_def prog_simps fresh_view_def)

text \<open>A request that is not let in: the endpoint answers the refusal, and touches nothing.\<close>

definition unchanged :: "'r world \<Rightarrow> 'r world \<Rightarrow> bool" where
  "unchanged w w' \<longleftrightarrow> committed w' = committed w \<and> queued w' = queued w \<and> archived w' = archived w
     \<and> auth_log w' = auth_log w"

lemma unchanged_same: "same_data u v \<Longrightarrow> unchanged v w \<Longrightarrow> unchanged u w"
  by (simp add: unchanged_def same_data_def)

definition refuses :: "lib \<Rightarrow> settings \<Rightarrow> 'r framework \<Rightarrow> endpoint \<Rightarrow> request \<Rightarrow> 'r world \<Rightarrow> bool" where
  "refuses L S fw e rq w \<longleftrightarrow> (\<exists>x. fst (authorize L S (fw_bearer fw rq) rq e (fresh_view w)) = Inl x)"

definition reads_own_call :: "'r framework \<Rightarrow> endpoint \<Rightarrow> request \<Rightarrow> bool" where
  "reads_own_call fw e rq \<longleftrightarrow> (case fw_read fw e rq of Valid c \<Rightarrow> endpoint_of c = e | _ \<Rightarrow> True)"

lemma serve_refused:
  assumes S: "auth_require_token S" and r: "refuses L S fw e rq w" and c: "reads_own_call fw e rq"
  obtains vs where "serve L S R fw e rq w = (Inr (request_validation_error_handler rq vs), w)"
  | k t where "serve L S R fw e rq w = (Inl (App (err k)), (fresh_view w)\<lparr>tick := t\<rparr>)"
      "k \<in> {AuthenticationRequired, InvalidAccessToken, SessionRevoked, PermissionDenied}"
proof -
  let ?cred = "fw_bearer fw rq"
  obtain k v where a: "authorize L S ?cred rq e (fresh_view w) = (Inl (App (err k)), v)"
    and k: "k \<in> {AuthenticationRequired, InvalidAccessToken, SessionRevoked, PermissionDenied}"
    using r authorize_errors [OF S] unfolding refuses_def by (metis prod.collapse)
  have v: "\<exists>t. v = (fresh_view w)\<lparr>tick := t\<rparr>"
    using authorize_reads [OF S, of L ?cred rq e] a unfolding reads_only_def by (metis snd_conv)
  have has: "has_session e"
    using a by (cases e) (auto simp: has_session_def authorize_def access_of_def ret_def)
  show thesis
  proof (cases "fw_read fw e rq")
    case (Unreadable vs)
    then show thesis by (intro that(1)) (simp add: serve_def ret_def)
  next
    case (Invalid vs)
    let ?m = "bindP (authorize L S ?cred rq e) (\<lambda>_. ret (handle_raised rq (RaisedValidation vs)))"
    have "?m (fresh_view w) = (Inl (App (err k)), v)"
      by (simp add: bindP_result [where m = "authorize L S ?cred rq e", OF a])
    from scope_refused [where m = ?m, OF this v] show thesis
      using that(2) k by (auto simp: serve_def Invalid in_session_def has)
  next
    case (Valid call)
    then have e: "endpoint_of call = e" using c by (simp add: reads_own_call_def)
    have h: "handle L S R (fw_metrics fw) ?cred rq call (fresh_view w) = (Inl (App (err k)), v)"
      by (rule handle_refused) (simp add: e a)
    let ?m = "bindP (handle L S R (fw_metrics fw) ?cred rq call) (\<lambda>(st, b). ret (json_response st b []))"
    have "?m (fresh_view w) = (Inl (App (err k)), v)"
      by (simp add: bindP_result [where m = "handle L S R (fw_metrics fw) ?cred rq call", OF h])
    from scope_refused [where m = ?m, OF this v] show thesis
      using that(2) k by (auto simp: serve_def Valid in_session_def has)
  qed
qed

lemma docs_fit_nothing: "p \<in> set docs_paths \<Longrightarrow> \<not> fits_some p"
proof -
  have "list_all (\<lambda>p. \<not> fits_some p) docs_paths" by code_simp
  then show "p \<in> set docs_paths \<Longrightarrow> \<not> fits_some p" by (simp add: list_all_iff)
qed

lemma found_fits: "find_route m p = Found e \<Longrightarrow> \<exists>t segs. path_segments p = Some segs \<and> (m, t, e) \<in> set routes \<and> fits t segs"
  unfolding find_route_def
  by (auto simp: find_Some_iff split: option.splits if_splits) (metis nth_mem)

lemma docs_not_found: "p \<in> set docs_paths \<Longrightarrow> find_route m p \<noteq> Found e"
  using docs_fit_nothing [of p] found_fits [of m p e] by (fastforce simp: fits_some_def list_ex_iff)

lemma found_not_options: "find_route m p = Found e \<Longrightarrow> m \<noteq> ''OPTIONS''"
proof -
  have "list_all (\<lambda>(m, t, e). m \<noteq> ''OPTIONS'') routes" by code_simp
  then show "find_route m p = Found e \<Longrightarrow> m \<noteq> ''OPTIONS''"
    using found_fits [of m p e] by (auto simp: list_all_iff)
qed

text \<open>
  C11. Behind the whole stack, with a token required: a request to an endpoint that is not open to
  anyone, and whose credentials the endpoint's dependency refuses, gets 401 or 403 (or, from an
  earlier layer, 403, 429 or 503, or 422 when its body cannot be read), and it leaves every
  table, the task queue and the log untouched. This holds for each of the application's routes.
\<close>

theorem refused_request_changes_nothing:
  assumes "cors_law cors" "auth_require_token S" "find_route (rq_method rq) (rq_path rq) = Found e"
    and refused: "\<And>v i. same_data w v \<Longrightarrow> refuses L S fw e (rq\<lparr>rq_request_id := Some i\<rparr>) v"
    and reads: "\<And>i. reads_own_call fw e (rq\<lparr>rq_request_id := Some i\<rparr>)"
  shows "\<exists>resp w'. http_stack L S R cors (app_router L S R fw) rq w = (Inr resp, w')
     \<and> rs_status resp \<in> {401, 403, 422, 429, 503} \<and> unchanged w w'"
proof -
  obtain i w1 where i: "choose_request_id rq w = (Inr i, w1)"
    by (rule choose_request_id_runs)
  let ?rq = "rq\<lparr>rq_request_id := Some i\<rparr>" and ?router = "app_router L S R fw"
  show ?thesis
    using i
  proof (cases rule: stack_cases [where L = L and S = S and R = R and cors = cors and router = ?router])
    case (refused resp w')
    then show ?thesis by (auto simp: same_data_def unchanged_def)
  next
    case (passed w2 hs)
    have "rq_method ?rq \<noteq> ''OPTIONS''" using found_not_options [OF assms(3)] by simp
    then obtain hs' where cors: "cors (exception_layer ?router) ?rq w2
        = bindP (exception_layer ?router ?rq) (\<lambda>x. ret (add_headers hs' x)) w2"
      using assms(1) unfolding cors_law_def by blast
    have route: "?router ?rq w2 = serve L S R fw e ?rq w2"
      using docs_not_found [of "rq_path rq" "rq_method rq" e] assms(3) by (auto simp: app_router_def)
    have data: "unchanged w2 ((fresh_view w2)\<lparr>tick := t\<rparr>)" "unchanged w2 w2" for t
      by (simp_all add: unchanged_def fresh_view_def)
    consider vs where "serve L S R fw e ?rq w2 = (Inr (request_validation_error_handler ?rq vs), w2)"
      | k t where "serve L S R fw e ?rq w2 = (Inl (App (err k)), (fresh_view w2)\<lparr>tick := t\<rparr>)"
          "k \<in> {AuthenticationRequired, InvalidAccessToken, SessionRevoked, PermissionDenied}"
      by (rule serve_refused [OF assms(2) refused [OF passed(1)] reads, where R = R]) blast+
    then show ?thesis
    proof cases
      case (1 vs)
      note run = exception_layer_run [where router = ?router, OF route [unfolded 1]]
      show ?thesis
        unfolding passed(2) cors using unchanged_same [OF passed(1) data(2)]
        by (simp add: bindP_def run ret_def request_validation_error_handler_def json_response_def)
    next
      case (2 k t)
      note run = exception_layer_run [where router = ?router, OF route [unfolded 2(1)]]
      show ?thesis
        unfolding passed(2) cors using unchanged_same [OF passed(1) data(1)] refusal_statuses [OF 2(2), of ?rq]
        by (auto simp: bindP_def run ret_def)
    qed
  qed
qed

definition framework_ex :: "call \<Rightarrow> unit framework" where
  "framework_ex c = \<lparr>fw_bearer = (\<lambda>_. None), fw_read = (\<lambda>e rq. Valid c),
     fw_docs = (\<lambda>rq. ret (json_response 200 JNull [])), fw_redirect = (\<lambda>rq p. json_response 307 JNull [(''Location'', p)]),
     fw_metrics = []\<rparr>"

theorem refused_request_changes_nothing_witness:
  "\<exists>resp w'. http_stack lib_ex (settings_ex\<lparr>auth_require_token := True\<rparr>) downed_redis (\<lambda>app. app)
       (app_router lib_ex (settings_ex\<lparr>auth_require_token := True\<rparr>) downed_redis (framework_ex List_Sources))
       ((request_ex ''/api/v1/sources'' [] [])\<lparr>rq_method := ''GET''\<rparr>) (world_ex db_ex) = (Inr resp, w')
     \<and> rs_status resp \<in> {401, 403, 422, 429, 503} \<and> unchanged (world_ex db_ex) w'"
proof (rule refused_request_changes_nothing)
  show "cors_law (\<lambda>app :: unit app. app)"
    unfolding cors_law_def by (intro allI disjI2 exI [of _ "[]"]) simp
  show "find_route (rq_method ((request_ex ''/api/v1/sources'' [] [])\<lparr>rq_method := ''GET''\<rparr>))
      (rq_path ((request_ex ''/api/v1/sources'' [] [])\<lparr>rq_method := ''GET''\<rparr>)) = Found E_List_Sources"
    by (simp add: request_ex_def) code_simp
qed (simp_all add: refuses_def authorize_def access_of_def request_user_id_def get_current_user_def
    framework_ex_def run_simps reads_own_call_def)



section \<open>Open settings\<close>

text \<open>
  Where no token is required, a request without credentials acts for whatever account its \<open>X-User-ID\<close>
  header names; \<open>validate_security\<close> does not look at that switch, which is off by default, so the
  application starts like this in production too.
\<close>

lemma header_names_anyone:
  assumes "\<not> auth_require_token S" "header (rq_headers rq) ''x-user-id'' = Some h" "h \<noteq> []" "uuid_parse h = Some i"
    and "anonymous_user w = (Inr u, w1)"
  shows "request_user_id L S None rq w = (Inr i, w1)"
  using assms
  by (simp add: request_user_id_def get_current_user_def user_id_from_current_user_def bindP_def ret_def)

lemma security_ignores_tokens: "validate_security (S\<lparr>auth_require_token := b\<rparr>) = validate_security S"
  by (simp add: validate_security_def)

end
