(* ===== verification/Load_Test.thy ===== *)
theory Load_Test
  imports Application
begin

text \<open>
  The load test, \<open>loadtest/config.py\<close> and \<open>loadtest/locustfile.py\<close>: its settings from the
  environment, what a simulated user sends, and that the application has a route for all of it. The
  HTTP client of Locust is an argument.
\<close>

section \<open>Settings\<close>

type_synonym environ = "string \<rightharpoonup> string"

definition getenv :: "environ \<Rightarrow> string \<Rightarrow> string \<Rightarrow> string" where
  "getenv env name fallback = (case env name of None \<Rightarrow> fallback | Some v \<Rightarrow> v)"

text \<open>\<open>int()\<close> of a text that is no number, and the two checks, raise \<open>ValueError\<close>.\<close>

definition positive_int :: "environ \<Rightarrow> string \<Rightarrow> int \<Rightarrow> exn + int" where
  "positive_int env name fallback =
     (case parse_int 10 (getenv env name (str_int fallback)) of
        None \<Rightarrow> Inl (ValueError ''invalid literal for int()'')
      | Some n \<Rightarrow> if n < 1 then Inl (ValueError (name @ '' must be greater than zero'')) else Inr n)"

record load_config =
  lt_target_url :: string
  lt_email_prefix :: string
  lt_password :: string
  lt_source_id :: "string option"
  lt_wait_min :: int
  lt_wait_max :: int

definition from_env :: "environ \<Rightarrow> exn + load_config" where
  "from_env env =
     (case positive_int env ''LOADTEST_WAIT_MIN'' 1 of
        Inl e \<Rightarrow> Inl e
      | Inr wait_min \<Rightarrow>
          (case positive_int env ''LOADTEST_WAIT_MAX'' 3 of
             Inl e \<Rightarrow> Inl e
           | Inr wait_max \<Rightarrow>
               if wait_max < wait_min
               then Inl (ValueError ''LOADTEST_WAIT_MAX must be greater than or equal to LOADTEST_WAIT_MIN'')
               else Inr
                 \<lparr>lt_target_url = rstrip_by (\<lambda>c. c = CHR ''/'') (getenv env ''LOADTEST_TARGET_URL'' ''http://localhost:8000''),
                  lt_email_prefix = getenv env ''LOADTEST_EMAIL_PREFIX'' ''loadtest'',
                  lt_password = getenv env ''LOADTEST_PASSWORD'' ''LoadTestPassword123!'',
                  lt_source_id = (case env ''LOADTEST_SOURCE_ID'' of None \<Rightarrow> None
                                  | Some s \<Rightarrow> if s = [] then None else Some s),
                  lt_wait_min = wait_min, lt_wait_max = wait_max\<rparr>))"

lemma from_env_waits: "from_env env = Inr c \<Longrightarrow> 1 \<le> lt_wait_min c \<and> lt_wait_min c \<le> lt_wait_max c"
  by (auto simp: from_env_def positive_int_def split: option.splits if_splits sum.splits)

section \<open>A simulated user\<close>

text \<open>A request of the client: method, path, headers and body.\<close>

record sent =
  sn_method :: string
  sn_path :: string
  sn_headers :: "(string \<times> string) list"
  sn_body :: "json option"

text \<open>The client answers a status and the body; \<open>None\<close> is a body that is no JSON object.\<close>

type_synonym client = "sent \<Rightarrow> int \<times> (string \<times> json) list option"

definition credentials_request :: "string \<Rightarrow> load_config \<Rightarrow> string \<Rightarrow> sent" where
  "credentials_request path c email = \<lparr>sn_method = ''POST'', sn_path = path, sn_headers = [],
     sn_body = Some (JObj [(''email'', JStr email), (''password'', JStr (lt_password c))])\<rparr>"

definition user_email :: "load_config \<Rightarrow> uuid \<Rightarrow> string" where
  "user_email c i = lt_email_prefix c @ ''+'' @ filter (\<lambda>x. x \<noteq> CHR ''-'') (uuid_str i) @ ''@example.com''"

text \<open>
  \<open>response.json().get("data", {}).get("access_token")\<close>; \<open>Inl\<close> where this raises.
\<close>

definition token_of :: "(string \<times> json) list option \<Rightarrow> exn + json" where
  "token_of body =
     (case body of None \<Rightarrow> Inl (ValueError ''json'')
      | Some fs \<Rightarrow> (case map_of fs ''data'' of
            None \<Rightarrow> Inr JNull
          | Some (JObj gs) \<Rightarrow> Inr (case map_of gs ''access_token'' of None \<Rightarrow> JNull | Some t \<Rightarrow> t)
          | Some _ \<Rightarrow> Inl (AttributeError ''get'')))"

text \<open>The token a user ends up with and the failures it reports.\<close>

definition on_start :: "load_config \<Rightarrow> client \<Rightarrow> uuid \<Rightarrow> (exn + json) \<times> string list" where
  "on_start c exchange i =
     (let email = user_email c i;
          registered = fst (exchange (credentials_request ''/api/v1/auth/register'' c email));
          (status, body) = exchange (credentials_request ''/api/v1/auth/login'' c email);
          early = (if registered \<in> {201, 409} then [] else [''registration returned '' @ str_int registered])
      in if status = 200 then (token_of body, early)
         else (Inr JNull, early @ [''login returned '' @ str_int status]))"

definition bearer_headers :: "string \<Rightarrow> (string \<times> string) list" where
  "bearer_headers token = (if token = [] then [] else [(''Authorization'', ''Bearer '' @ token)])"

text \<open>The tasks with their weights; \<open>run_source\<close> sends nothing without a source.\<close>

definition fetching :: "string \<Rightarrow> (string \<times> string) list \<Rightarrow> sent" where
  "fetching path hs = \<lparr>sn_method = ''GET'', sn_path = path, sn_headers = hs, sn_body = None\<rparr>"

definition load_tasks :: "load_config \<Rightarrow> string \<Rightarrow> (nat \<times> sent list) list" where
  "load_tasks c token =
     (let hs = bearer_headers token in
      [(8, [fetching ''/api/v1/jobs'' hs]), (3, [fetching ''/api/v1/auth/me'' hs]),
       (2, [fetching ''/api/v1/sources'' hs]),
       (1, case lt_source_id c of None \<Rightarrow> []
           | Some s \<Rightarrow> [\<lparr>sn_method = ''POST'', sn_path = ''/api/v1/sources/'' @ s @ ''/run'', sn_headers = hs, sn_body = None\<rparr>]),
       (1, [fetching ''/health/live'' []])])"

section \<open>Routes\<close>

lemma run_path: "''/api/v1/sources/'' @ s @ ''/run'' = url_path [''api'', ''v1'', ''sources'', s, ''run'']"
  by (simp add: url_path_def)

lemma run_route:
  assumes "s \<noteq> []" "CHR ''/'' \<notin> set s"
  shows "find_route ''POST'' (''/api/v1/sources/'' @ s @ ''/run'') = Found E_Run_Source"
proof -
  have p: "path_segments (''/api/v1/sources/'' @ s @ ''/run'') = Some [''api'', ''v1'', ''sources'', s, ''run'']"
    unfolding run_path by (rule path_segments_url) (use assms(2) in auto)
  show ?thesis
    unfolding find_route_def p using assms(1) by (simp add: routes_def router_defs)
qed

text \<open>Everything the load test sends reaches a route of the application.\<close>

lemma load_test_reaches_routes:
  assumes "\<And>s. lt_source_id c = Some s \<Longrightarrow> s \<noteq> [] \<and> CHR ''/'' \<notin> set s"
    and "(n, rs) \<in> set (load_tasks c token)" "r \<in> set rs"
  shows "\<exists>e. find_route (sn_method r) (sn_path r) = Found e"
proof -
  have "find_route ''GET'' ''/api/v1/jobs'' = Found E_List_Jobs" "find_route ''GET'' ''/api/v1/auth/me'' = Found E_Me"
    "find_route ''GET'' ''/api/v1/sources'' = Found E_List_Sources" "find_route ''GET'' ''/health/live'' = Found E_Live"
    by code_simp+
  then show ?thesis
    using assms run_route by (auto simp: load_tasks_def fetching_def Let_def split: option.splits)
qed

lemma credentials_reach_routes:
  "find_route ''POST'' ''/api/v1/auth/register'' = Found E_Register"
  "find_route ''POST'' ''/api/v1/auth/login'' = Found E_Login"
  by code_simp+

end
