(* ===== verification/Migrations.thy ===== *)
theory Migrations
  imports Schema
begin

text \<open>
  The Alembic migrations of \<open>alembic/versions\<close> as lists of schema changes, and the tables the ORM
  models declare. A change fails (\<open>None\<close>) where PostgreSQL rejects it: a table, a column or an index
  that exists already or does not exist, a key over missing columns, a table still referenced.
  A column is its name, type, nullability and server default; primary keys, unique keys and foreign
  keys written beside a column are listed with those of its table.
\<close>

section \<open>Schemas\<close>

datatype sql_type =
    Sql_Uuid | Sql_String nat | Sql_Text | Sql_Integer | Sql_Float | Sql_Boolean | Sql_Json | Sql_Timestamp

datatype on_delete = Cascade | Set_Null

datatype key =
    Primary "string list"
  | Unique "string option" "string list"
  | Foreign string string on_delete

record column =
  co_name :: string
  co_type :: sql_type
  co_nullable :: bool
  co_default :: "string option"

record tabl =
  tb_name :: string
  tb_columns :: "column list"
  tb_keys :: "key list"

record index =
  ix_name :: string
  ix_table :: string
  ix_columns :: "string list"
  ix_unique :: bool
  ix_where :: "string option"

record schema =
  tables :: "tabl list"
  indexes :: "index list"

datatype change =
    Create_Table string "column list" "key list"
  | Drop_Table string
  | Create_Index index
  | Drop_Index string string
  | Add_Column string column "key list"
  | Drop_Column string string
  | Alter_Type string string sql_type

text \<open>Columns as the migrations write them: required, optional, and instants set by the server.\<close>

definition req :: "string \<Rightarrow> sql_type \<Rightarrow> column" where
  "req n t = \<lparr>co_name = n, co_type = t, co_nullable = False, co_default = None\<rparr>"

definition opt :: "string \<Rightarrow> sql_type \<Rightarrow> column" where
  "opt n t = \<lparr>co_name = n, co_type = t, co_nullable = True, co_default = None\<rparr>"

definition stamped :: "string \<Rightarrow> column" where
  "stamped n = \<lparr>co_name = n, co_type = Sql_Timestamp, co_nullable = False, co_default = Some ''now()''\<rparr>"

definition plain_index :: "string \<Rightarrow> string \<Rightarrow> string \<Rightarrow> change" where
  "plain_index n t c = Create_Index \<lparr>ix_name = n, ix_table = t, ix_columns = [c], ix_unique = False, ix_where = None\<rparr>"

section \<open>Carrying out a change\<close>

definition table_names :: "schema \<Rightarrow> string list" where
  "table_names s = map tb_name (tables s)"

definition column_names :: "schema \<Rightarrow> string \<Rightarrow> string list" where
  "column_names s t = concat (map (\<lambda>b. if tb_name b = t then map co_name (tb_columns b) else []) (tables s))"

fun key_columns :: "key \<Rightarrow> string list" where
  "key_columns (Primary cs) = cs"
| "key_columns (Unique n cs) = cs"
| "key_columns (Foreign c t a) = [c]"

definition key_ok :: "string list \<Rightarrow> string list \<Rightarrow> key \<Rightarrow> bool" where
  "key_ok ts cs k = (list_all (\<lambda>c. c \<in> set cs) (key_columns k) \<and>
     (case k of Foreign c t a \<Rightarrow> t \<in> set ts | _ \<Rightarrow> True))"

definition refers_to :: "string \<Rightarrow> tabl \<Rightarrow> bool" where
  "refers_to t b = (tb_name b \<noteq> t \<and>
     list_ex (\<lambda>k. case k of Foreign c u a \<Rightarrow> u = t | _ \<Rightarrow> False) (tb_keys b))"

definition change_table :: "string \<Rightarrow> (tabl \<Rightarrow> tabl) \<Rightarrow> schema \<Rightarrow> schema" where
  "change_table t f s = s\<lparr>tables := map (\<lambda>b. if tb_name b = t then f b else b) (tables s)\<rparr>"

fun carry_out :: "change \<Rightarrow> schema \<Rightarrow> schema option" where
  "carry_out (Create_Table t cs ks) s =
     (if t \<notin> set (table_names s) \<and> distinct (map co_name cs)
         \<and> list_all (key_ok (t # table_names s) (map co_name cs)) ks
      then Some (s\<lparr>tables := tables s @ [\<lparr>tb_name = t, tb_columns = cs, tb_keys = ks\<rparr>]\<rparr>) else None)"
| "carry_out (Drop_Table t) s =
     (if t \<in> set (table_names s) \<and> \<not> list_ex (refers_to t) (tables s)
      then Some \<lparr>tables = filter (\<lambda>b. tb_name b \<noteq> t) (tables s), indexes = filter (\<lambda>i. ix_table i \<noteq> t) (indexes s)\<rparr>
      else None)"
| "carry_out (Create_Index i) s =
     (if ix_name i \<notin> set (map ix_name (indexes s)) \<and> list_all (\<lambda>c. c \<in> set (column_names s (ix_table i))) (ix_columns i)
      then Some (s\<lparr>indexes := indexes s @ [i]\<rparr>) else None)"
| "carry_out (Drop_Index n t) s =
     (if n \<in> set (map ix_name (indexes s)) then Some (s\<lparr>indexes := filter (\<lambda>i. ix_name i \<noteq> n) (indexes s)\<rparr>) else None)"
| "carry_out (Add_Column t c ks) s =
     (if t \<in> set (table_names s) \<and> co_name c \<notin> set (column_names s t)
         \<and> list_all (key_ok (table_names s) (co_name c # column_names s t)) ks
      then Some (change_table t (\<lambda>b. b\<lparr>tb_columns := tb_columns b @ [c], tb_keys := tb_keys b @ ks\<rparr>) s) else None)"
| "carry_out (Drop_Column t n) s =
     (if n \<in> set (column_names s t)
      then Some (change_table t (\<lambda>b. b\<lparr>tb_columns := filter (\<lambda>c. co_name c \<noteq> n) (tb_columns b),
             tb_keys := filter (\<lambda>k. n \<notin> set (key_columns k)) (tb_keys b)\<rparr>)
             (s\<lparr>indexes := filter (\<lambda>i. \<not> (ix_table i = t \<and> n \<in> set (ix_columns i))) (indexes s)\<rparr>)) else None)"
| "carry_out (Alter_Type t n ty) s =
     (if n \<in> set (column_names s t)
      then Some (change_table t (\<lambda>b. b\<lparr>tb_columns :=
             map (\<lambda>c. if co_name c = n then c\<lparr>co_type := ty\<rparr> else c) (tb_columns b)\<rparr>) s) else None)"

fun carry_out_all :: "change list \<Rightarrow> schema \<Rightarrow> schema option" where
  "carry_out_all [] s = Some s"
| "carry_out_all (c # cs) s = (case carry_out c s of None \<Rightarrow> None | Some s' \<Rightarrow> carry_out_all cs s')"

section \<open>The migrations\<close>

text \<open>\<open>20260909_001_preferences\<close>: create users and preference profiles.\<close>

definition up_001 :: "change list" where
  "up_001 =
    [Create_Table ''users''
       [req ''id'' Sql_Uuid, opt ''email'' (Sql_String 320), req ''timezone'' (Sql_String 64),
        req ''status'' (Sql_String 16), stamped ''created_at'', stamped ''updated_at'']
       [Primary [''id''], Unique None [''email'']],
     Create_Table ''preference_profiles''
       [req ''id'' Sql_Uuid, req ''user_id'' Sql_Uuid, req ''version'' Sql_Integer,
        req ''config'' Sql_Json, req ''matching_weights'' Sql_Json, req ''is_active'' Sql_Boolean,
        stamped ''created_at'']
       [Foreign ''user_id'' ''users'' Cascade, Primary [''id''],
        Unique (Some ''uq_preference_user_version'') [''user_id'', ''version'']],
     plain_index ''ix_users_id'' ''users'' ''id'',
     plain_index ''ix_preference_profiles_user_id'' ''preference_profiles'' ''user_id'',
     plain_index ''ix_preference_profiles_is_active'' ''preference_profiles'' ''is_active'',
     Create_Index \<lparr>ix_name = ''uq_preference_active_user'', ix_table = ''preference_profiles'', ix_columns = [''user_id''],
       ix_unique = True, ix_where = Some ''is_active = true''\<rparr>]"

definition down_001 :: "change list" where
  "down_001 =
    [Drop_Index ''uq_preference_active_user'' ''preference_profiles'',
     Drop_Index ''ix_preference_profiles_is_active'' ''preference_profiles'',
     Drop_Index ''ix_preference_profiles_user_id'' ''preference_profiles'',
     Drop_Table ''preference_profiles'',
     Drop_Index ''ix_users_id'' ''users'',
     Drop_Table ''users'']"

text \<open>\<open>20260910_002_sources_runs\<close>: create sources and ingestion runs.\<close>

definition up_002 :: "change list" where
  "up_002 =
    [Create_Table ''sources''
       [req ''id'' Sql_Uuid, req ''user_id'' Sql_Uuid, req ''kind'' (Sql_String 64),
        req ''name'' (Sql_String 255), req ''config'' Sql_Json, opt ''credentials_ref'' (Sql_String 255),
        opt ''schedule'' (Sql_String 128), req ''enabled'' Sql_Boolean,
        opt ''last_success_at'' Sql_Timestamp, opt ''last_error_at'' Sql_Timestamp]
       [Foreign ''user_id'' ''users'' Cascade, Primary [''id'']],
     plain_index ''ix_sources_user_id'' ''sources'' ''user_id'',
     Create_Table ''ingestion_runs''
       [req ''id'' Sql_Uuid, req ''source_id'' Sql_Uuid, req ''status'' (Sql_String 16),
        stamped ''started_at'', opt ''completed_at'' Sql_Timestamp, req ''fetched_count'' Sql_Integer,
        req ''normalized_count'' Sql_Integer, req ''created_count'' Sql_Integer,
        req ''updated_count'' Sql_Integer, req ''duplicate_count'' Sql_Integer,
        req ''error_count'' Sql_Integer, req ''error_summary'' Sql_Json]
       [Foreign ''source_id'' ''sources'' Cascade, Primary [''id'']],
     plain_index ''ix_ingestion_runs_source_id'' ''ingestion_runs'' ''source_id'']"

definition down_002 :: "change list" where
  "down_002 =
    [Drop_Index ''ix_ingestion_runs_source_id'' ''ingestion_runs'',
     Drop_Table ''ingestion_runs'',
     Drop_Index ''ix_sources_user_id'' ''sources'',
     Drop_Table ''sources'']"

text \<open>\<open>20260910_003_jobs\<close>: create canonical jobs and source records.\<close>

definition up_003 :: "change list" where
  "up_003 =
    [Create_Table ''jobs''
       [req ''id'' Sql_Uuid, req ''title'' (Sql_String 500), req ''company_name'' (Sql_String 255),
        req ''company_normalized'' (Sql_String 255), req ''description'' Sql_Text,
        req ''description_hash'' (Sql_String 64), req ''locations'' Sql_Json,
        req ''work_mode'' (Sql_String 16), opt ''experience_min'' Sql_Integer,
        opt ''experience_max'' Sql_Integer, opt ''salary_min'' Sql_Float, opt ''salary_max'' Sql_Float,
        opt ''salary_currency'' (Sql_String 8), opt ''salary_unit'' (Sql_String 32),
        req ''extracted_skills'' Sql_Json, req ''application_url'' Sql_Text, stamped ''last_seen_at'',
        req ''status'' (Sql_String 16)]
       [Primary [''id'']],
     plain_index ''ix_jobs_company_normalized'' ''jobs'' ''company_normalized'',
     plain_index ''ix_jobs_description_hash'' ''jobs'' ''description_hash'',
     plain_index ''ix_jobs_status'' ''jobs'' ''status'',
     Create_Table ''job_source_records''
       [req ''id'' Sql_Uuid, req ''job_id'' Sql_Uuid, req ''source_id'' Sql_Uuid,
        req ''external_id'' (Sql_String 255), req ''source_url'' Sql_Text, opt ''raw_payload'' Sql_Json,
        req ''raw_payload_hash'' (Sql_String 64), stamped ''first_seen_at'', stamped ''last_seen_at'']
       [Foreign ''job_id'' ''jobs'' Cascade, Foreign ''source_id'' ''sources'' Cascade, Primary [''id'']],
     plain_index ''ix_job_source_records_job_id'' ''job_source_records'' ''job_id'',
     plain_index ''ix_job_source_records_source_id'' ''job_source_records'' ''source_id'']"

definition down_003 :: "change list" where
  "down_003 =
    [Drop_Index ''ix_job_source_records_source_id'' ''job_source_records'',
     Drop_Index ''ix_job_source_records_job_id'' ''job_source_records'',
     Drop_Table ''job_source_records'',
     Drop_Index ''ix_jobs_status'' ''jobs'',
     Drop_Index ''ix_jobs_description_hash'' ''jobs'',
     Drop_Index ''ix_jobs_company_normalized'' ''jobs'',
     Drop_Table ''jobs'']"

text \<open>\<open>20260910_004_match_results\<close>: create match results.\<close>

definition up_004 :: "change list" where
  "up_004 =
    [Create_Table ''match_results''
       [req ''id'' Sql_Uuid, req ''job_id'' Sql_Uuid, req ''preference_profile_id'' Sql_Uuid,
        req ''job_description_hash'' (Sql_String 64), req ''score'' Sql_Integer,
        req ''confidence'' Sql_Float, req ''decision'' (Sql_String 16), req ''component_scores'' Sql_Json,
        req ''matched_criteria'' Sql_Json, req ''missing_criteria'' Sql_Json, req ''concerns'' Sql_Json,
        req ''reasoning'' Sql_Text, req ''matcher_version'' (Sql_String 64),
        opt ''embedding_model'' (Sql_String 128), opt ''llm_model'' (Sql_String 128),
        opt ''prompt_version'' (Sql_String 64), stamped ''created_at'']
       [Foreign ''job_id'' ''jobs'' Cascade,
        Foreign ''preference_profile_id'' ''preference_profiles'' Cascade, Primary [''id'']],
     plain_index ''ix_match_results_job_id'' ''match_results'' ''job_id'',
     plain_index ''ix_match_results_preference_profile_id'' ''match_results'' ''preference_profile_id'']"

definition down_004 :: "change list" where
  "down_004 =
    [Drop_Index ''ix_match_results_preference_profile_id'' ''match_results'',
     Drop_Index ''ix_match_results_job_id'' ''match_results'',
     Drop_Table ''match_results'']"

text \<open>\<open>20260911_005_job_feedback\<close>: add job feedback.\<close>

definition up_005 :: "change list" where
  "up_005 =
    [Create_Table ''job_feedback''
       [req ''id'' Sql_Uuid, req ''user_id'' Sql_Uuid, req ''job_id'' Sql_Uuid,
        req ''label'' (Sql_String 32), opt ''note'' Sql_Text, stamped ''created_at'', stamped ''updated_at'']
       [Foreign ''user_id'' ''users'' Cascade, Foreign ''job_id'' ''jobs'' Cascade, Primary [''id''],
        Unique (Some ''uq_job_feedback_user_job'') [''user_id'', ''job_id'']],
     plain_index ''ix_job_feedback_user_id'' ''job_feedback'' ''user_id'',
     plain_index ''ix_job_feedback_job_id'' ''job_feedback'' ''job_id'']"

definition down_005 :: "change list" where
  "down_005 =
    [Drop_Index ''ix_job_feedback_job_id'' ''job_feedback'',
     Drop_Index ''ix_job_feedback_user_id'' ''job_feedback'',
     Drop_Table ''job_feedback'']"

text \<open>\<open>20260913_006_notification_deliveries\<close>: add notification deliveries.\<close>

definition up_006 :: "change list" where
  "up_006 =
    [Create_Table ''notification_deliveries''
       [req ''id'' Sql_Uuid, req ''user_id'' Sql_Uuid, req ''job_id'' Sql_Uuid,
        req ''profile_id'' Sql_Uuid, req ''channel'' (Sql_String 16), req ''status'' (Sql_String 16),
        req ''attempt_count'' Sql_Integer, opt ''provider_message_id'' (Sql_String 255),
        opt ''error'' Sql_Text, stamped ''created_at'', stamped ''updated_at'']
       [Primary [''id''], Foreign ''user_id'' ''users'' Cascade, Foreign ''job_id'' ''jobs'' Cascade,
        Foreign ''profile_id'' ''preference_profiles'' Cascade,
        Unique (Some ''uq_notification_delivery'') [''user_id'', ''job_id'', ''profile_id'', ''channel'']],
     plain_index ''ix_notification_deliveries_user_id'' ''notification_deliveries'' ''user_id'',
     plain_index ''ix_notification_deliveries_job_id'' ''notification_deliveries'' ''job_id'',
     plain_index ''ix_notification_deliveries_profile_id'' ''notification_deliveries'' ''profile_id'']"

definition down_006 :: "change list" where
  "down_006 =
    [Drop_Index ''ix_notification_deliveries_user_id'' ''notification_deliveries'',
     Drop_Index ''ix_notification_deliveries_job_id'' ''notification_deliveries'',
     Drop_Index ''ix_notification_deliveries_profile_id'' ''notification_deliveries'',
     Drop_Table ''notification_deliveries'']"

text \<open>\<open>20260913_007_auth\<close>: add authentication and authorization tables.\<close>

definition up_007 :: "change list" where
  "up_007 =
    [Add_Column ''users'' (opt ''password_hash'' (Sql_String 255)) [],
     Create_Table ''roles''
       [req ''id'' Sql_Uuid, req ''name'' (Sql_String 64), opt ''description'' (Sql_String 255),
        (req ''is_active'' Sql_Boolean)\<lparr>co_default := Some ''true''\<rparr>]
       [Primary [''id''], Unique None [''name'']],
     Create_Table ''user_roles''
       [req ''user_id'' Sql_Uuid, req ''role_id'' Sql_Uuid]
       [Primary [''user_id'', ''role_id''], Foreign ''user_id'' ''users'' Cascade,
        Foreign ''role_id'' ''roles'' Cascade, Unique (Some ''uq_user_role'') [''user_id'', ''role_id'']],
     Create_Table ''refresh_tokens''
       [req ''id'' Sql_Uuid, req ''user_id'' Sql_Uuid, req ''token_hash'' (Sql_String 128),
        req ''family_id'' Sql_Uuid, req ''expires_at'' Sql_Timestamp, opt ''revoked_at'' Sql_Timestamp,
        stamped ''created_at'']
       [Primary [''id''], Foreign ''user_id'' ''users'' Cascade, Unique None [''token_hash'']],
     plain_index ''ix_refresh_tokens_user_id'' ''refresh_tokens'' ''user_id'',
     plain_index ''ix_refresh_tokens_family_id'' ''refresh_tokens'' ''family_id'']"

definition down_007 :: "change list" where
  "down_007 =
    [Drop_Index ''ix_refresh_tokens_family_id'' ''refresh_tokens'',
     Drop_Index ''ix_refresh_tokens_user_id'' ''refresh_tokens'',
     Drop_Table ''refresh_tokens'',
     Drop_Table ''user_roles'',
     Drop_Table ''roles'',
     Drop_Column ''users'' ''password_hash'']"

text \<open>\<open>20260913_008_auth_sessions\<close>: add feature-flagged authentication sessions.\<close>

definition up_008 :: "change list" where
  "up_008 =
    [Create_Table ''auth_sessions''
       [req ''id'' Sql_Uuid, req ''user_id'' Sql_Uuid, opt ''device_name'' (Sql_String 128),
        opt ''user_agent'' (Sql_String 512), opt ''ip_address'' (Sql_String 64), stamped ''created_at'',
        stamped ''last_used_at'', opt ''revoked_at'' Sql_Timestamp]
       [Primary [''id''], Foreign ''user_id'' ''users'' Cascade],
     plain_index ''ix_auth_sessions_user_id'' ''auth_sessions'' ''user_id'',
     Add_Column ''refresh_tokens'' (opt ''session_id'' Sql_Uuid) [Foreign ''session_id'' ''auth_sessions'' Cascade],
     plain_index ''ix_refresh_tokens_session_id'' ''refresh_tokens'' ''session_id'']"

definition down_008 :: "change list" where
  "down_008 =
    [Drop_Index ''ix_refresh_tokens_session_id'' ''refresh_tokens'',
     Drop_Column ''refresh_tokens'' ''session_id'',
     Drop_Index ''ix_auth_sessions_user_id'' ''auth_sessions'',
     Drop_Table ''auth_sessions'']"

text \<open>\<open>20260913_009_account_security\<close>: add password recovery verification and lockout state.\<close>

definition up_009 :: "change list" where
  "up_009 =
    [Add_Column ''users'' (opt ''email_verified_at'' Sql_Timestamp) [],
     Add_Column ''users'' ((req ''failed_login_attempts'' Sql_Integer)\<lparr>co_default := Some ''0''\<rparr>) [],
     Add_Column ''users'' (opt ''locked_until'' Sql_Timestamp) [],
     Create_Table ''verification_codes''
       [req ''id'' Sql_Uuid, req ''user_id'' Sql_Uuid, req ''purpose'' (Sql_String 32),
        req ''code_hash'' (Sql_String 128), req ''expires_at'' Sql_Timestamp,
        opt ''consumed_at'' Sql_Timestamp, stamped ''created_at'']
       [Primary [''id''], Foreign ''user_id'' ''users'' Cascade],
     plain_index ''ix_verification_codes_user_id'' ''verification_codes'' ''user_id'',
     plain_index ''ix_verification_codes_purpose'' ''verification_codes'' ''purpose'']"

definition down_009 :: "change list" where
  "down_009 =
    [Drop_Index ''ix_verification_codes_purpose'' ''verification_codes'',
     Drop_Index ''ix_verification_codes_user_id'' ''verification_codes'',
     Drop_Table ''verification_codes'',
     Drop_Column ''users'' ''locked_until'',
     Drop_Column ''users'' ''failed_login_attempts'',
     Drop_Column ''users'' ''email_verified_at'']"

text \<open>\<open>20260913_010_verification_status\<close>: support pending verification user status.\<close>

definition up_010 :: "change list" where
  "up_010 =
    [Alter_Type ''users'' ''status'' (Sql_String 32)]"

definition down_010 :: "change list" where
  "down_010 =
    [Alter_Type ''users'' ''status'' (Sql_String 16)]"

text \<open>\<open>20260913_011_audit_events\<close>: add append-only audit events.\<close>

definition up_011 :: "change list" where
  "up_011 =
    [Create_Table ''audit_events''
       [req ''id'' Sql_Uuid, opt ''actor_user_id'' Sql_Uuid, req ''action'' (Sql_String 128),
        req ''resource_type'' (Sql_String 64), opt ''resource_id'' (Sql_String 128),
        req ''success'' Sql_Boolean, opt ''ip_address'' (Sql_String 64),
        opt ''user_agent'' (Sql_String 512), opt ''request_id'' (Sql_String 128),
        req ''metadata'' Sql_Json,
        (opt ''created_at'' Sql_Timestamp)\<lparr>co_default := Some ''now()''\<rparr>]
       [Foreign ''actor_user_id'' ''users'' Set_Null, Primary [''id'']],
     plain_index ''ix_audit_events_actor_user_id'' ''audit_events'' ''actor_user_id'',
     plain_index ''ix_audit_events_action'' ''audit_events'' ''action'',
     plain_index ''ix_audit_events_request_id'' ''audit_events'' ''request_id'']"

definition down_011 :: "change list" where
  "down_011 =
    [Drop_Index ''ix_audit_events_request_id'' ''audit_events'',
     Drop_Index ''ix_audit_events_action'' ''audit_events'',
     Drop_Index ''ix_audit_events_actor_user_id'' ''audit_events'',
     Drop_Table ''audit_events'']"

text \<open>The revisions in their order; each names the one before it.\<close>

definition upgrades :: "change list list" where
  "upgrades = [up_001, up_002, up_003, up_004, up_005, up_006, up_007, up_008, up_009, up_010, up_011]"

definition downgrades :: "change list list" where
  "downgrades = [down_001, down_002, down_003, down_004, down_005, down_006, down_007, down_008, down_009, down_010, down_011]"

definition empty_schema :: schema where
  "empty_schema = \<lparr>tables = [], indexes = []\<rparr>"

definition schema_after :: "nat \<Rightarrow> schema option" where
  "schema_after n = carry_out_all (concat (take n upgrades)) empty_schema"

section \<open>What the ORM models declare\<close>

definition model_users :: tabl where
  "model_users = \<lparr>tb_name = ''users'',
     tb_columns =
       [req ''id'' Sql_Uuid, opt ''email'' (Sql_String 320), opt ''password_hash'' (Sql_String 255),
        req ''timezone'' (Sql_String 64), req ''status'' (Sql_String 32),
        opt ''email_verified_at'' Sql_Timestamp, req ''failed_login_attempts'' Sql_Integer,
        opt ''locked_until'' Sql_Timestamp, stamped ''created_at'', stamped ''updated_at''],
     tb_keys = [Primary [''id''], Unique None [''email'']]\<rparr>"

definition model_preference_profiles :: tabl where
  "model_preference_profiles = \<lparr>tb_name = ''preference_profiles'',
     tb_columns =
       [req ''id'' Sql_Uuid, req ''user_id'' Sql_Uuid, req ''version'' Sql_Integer,
        req ''config'' Sql_Json, req ''matching_weights'' Sql_Json, req ''is_active'' Sql_Boolean,
        stamped ''created_at''],
     tb_keys = [Primary [''id''], Foreign ''user_id'' ''users'' Cascade,
        Unique (Some ''uq_preference_user_version'') [''user_id'', ''version'']]\<rparr>"

definition model_sources :: tabl where
  "model_sources = \<lparr>tb_name = ''sources'',
     tb_columns =
       [req ''id'' Sql_Uuid, req ''user_id'' Sql_Uuid, req ''kind'' (Sql_String 64),
        req ''name'' (Sql_String 255), req ''config'' Sql_Json, opt ''credentials_ref'' (Sql_String 255),
        opt ''schedule'' (Sql_String 128), req ''enabled'' Sql_Boolean,
        opt ''last_success_at'' Sql_Timestamp, opt ''last_error_at'' Sql_Timestamp],
     tb_keys = [Primary [''id''], Foreign ''user_id'' ''users'' Cascade]\<rparr>"

definition model_ingestion_runs :: tabl where
  "model_ingestion_runs = \<lparr>tb_name = ''ingestion_runs'',
     tb_columns =
       [req ''id'' Sql_Uuid, req ''source_id'' Sql_Uuid, req ''status'' (Sql_String 16),
        stamped ''started_at'', opt ''completed_at'' Sql_Timestamp, req ''fetched_count'' Sql_Integer,
        req ''normalized_count'' Sql_Integer, req ''created_count'' Sql_Integer,
        req ''updated_count'' Sql_Integer, req ''duplicate_count'' Sql_Integer,
        req ''error_count'' Sql_Integer, req ''error_summary'' Sql_Json],
     tb_keys = [Primary [''id''], Foreign ''source_id'' ''sources'' Cascade]\<rparr>"

definition model_jobs :: tabl where
  "model_jobs = \<lparr>tb_name = ''jobs'',
     tb_columns =
       [req ''id'' Sql_Uuid, req ''title'' (Sql_String 500), req ''company_name'' (Sql_String 255),
        req ''company_normalized'' (Sql_String 255), req ''description'' Sql_Text,
        req ''description_hash'' (Sql_String 64), req ''locations'' Sql_Json,
        req ''work_mode'' (Sql_String 16), opt ''experience_min'' Sql_Integer,
        opt ''experience_max'' Sql_Integer, opt ''salary_min'' Sql_Float, opt ''salary_max'' Sql_Float,
        opt ''salary_currency'' (Sql_String 8), opt ''salary_unit'' (Sql_String 32),
        req ''extracted_skills'' Sql_Json, req ''application_url'' Sql_Text, stamped ''last_seen_at'',
        req ''status'' (Sql_String 16)],
     tb_keys = [Primary [''id'']]\<rparr>"

definition model_job_source_records :: tabl where
  "model_job_source_records = \<lparr>tb_name = ''job_source_records'',
     tb_columns =
       [req ''id'' Sql_Uuid, req ''job_id'' Sql_Uuid, req ''source_id'' Sql_Uuid,
        req ''external_id'' (Sql_String 255), req ''source_url'' Sql_Text, opt ''raw_payload'' Sql_Json,
        req ''raw_payload_hash'' (Sql_String 64), stamped ''first_seen_at'', stamped ''last_seen_at''],
     tb_keys = [Primary [''id''], Foreign ''job_id'' ''jobs'' Cascade, Foreign ''source_id'' ''sources'' Cascade]\<rparr>"

definition model_match_results :: tabl where
  "model_match_results = \<lparr>tb_name = ''match_results'',
     tb_columns =
       [req ''id'' Sql_Uuid, req ''job_id'' Sql_Uuid, req ''preference_profile_id'' Sql_Uuid,
        req ''job_description_hash'' (Sql_String 64), req ''score'' Sql_Integer,
        req ''confidence'' Sql_Float, req ''decision'' (Sql_String 16), req ''component_scores'' Sql_Json,
        req ''matched_criteria'' Sql_Json, req ''missing_criteria'' Sql_Json, req ''concerns'' Sql_Json,
        req ''reasoning'' Sql_Text, req ''matcher_version'' (Sql_String 64),
        opt ''embedding_model'' (Sql_String 128), opt ''llm_model'' (Sql_String 128),
        opt ''prompt_version'' (Sql_String 64), stamped ''created_at''],
     tb_keys = [Primary [''id''], Foreign ''job_id'' ''jobs'' Cascade,
        Foreign ''preference_profile_id'' ''preference_profiles'' Cascade]\<rparr>"

definition model_job_feedback :: tabl where
  "model_job_feedback = \<lparr>tb_name = ''job_feedback'',
     tb_columns =
       [req ''id'' Sql_Uuid, req ''user_id'' Sql_Uuid, req ''job_id'' Sql_Uuid,
        req ''label'' (Sql_String 32), opt ''note'' Sql_Text, stamped ''created_at'', stamped ''updated_at''],
     tb_keys = [Primary [''id''], Foreign ''user_id'' ''users'' Cascade, Foreign ''job_id'' ''jobs'' Cascade,
        Unique (Some ''uq_job_feedback_user_job'') [''user_id'', ''job_id'']]\<rparr>"

definition model_notification_deliveries :: tabl where
  "model_notification_deliveries = \<lparr>tb_name = ''notification_deliveries'',
     tb_columns =
       [req ''id'' Sql_Uuid, req ''user_id'' Sql_Uuid, req ''job_id'' Sql_Uuid,
        req ''profile_id'' Sql_Uuid, req ''channel'' (Sql_String 16), req ''status'' (Sql_String 16),
        req ''attempt_count'' Sql_Integer, opt ''provider_message_id'' (Sql_String 255),
        opt ''error'' Sql_Text, stamped ''created_at'', stamped ''updated_at''],
     tb_keys = [Primary [''id''], Foreign ''user_id'' ''users'' Cascade, Foreign ''job_id'' ''jobs'' Cascade,
        Foreign ''profile_id'' ''preference_profiles'' Cascade,
        Unique (Some ''uq_notification_delivery'') [''user_id'', ''job_id'', ''profile_id'', ''channel'']]\<rparr>"

definition model_roles :: tabl where
  "model_roles = \<lparr>tb_name = ''roles'',
     tb_columns =
       [req ''id'' Sql_Uuid, req ''name'' (Sql_String 64), opt ''description'' (Sql_String 255),
        req ''is_active'' Sql_Boolean],
     tb_keys = [Primary [''id''], Unique None [''name'']]\<rparr>"

definition model_user_roles :: tabl where
  "model_user_roles = \<lparr>tb_name = ''user_roles'',
     tb_columns =
       [req ''user_id'' Sql_Uuid, req ''role_id'' Sql_Uuid],
     tb_keys = [Primary [''user_id'', ''role_id''], Foreign ''user_id'' ''users'' Cascade,
        Foreign ''role_id'' ''roles'' Cascade, Unique (Some ''uq_user_role'') [''user_id'', ''role_id'']]\<rparr>"

definition model_refresh_tokens :: tabl where
  "model_refresh_tokens = \<lparr>tb_name = ''refresh_tokens'',
     tb_columns =
       [req ''id'' Sql_Uuid, req ''user_id'' Sql_Uuid, opt ''session_id'' Sql_Uuid,
        req ''token_hash'' (Sql_String 128), req ''family_id'' Sql_Uuid, req ''expires_at'' Sql_Timestamp,
        opt ''revoked_at'' Sql_Timestamp, stamped ''created_at''],
     tb_keys = [Primary [''id''], Foreign ''user_id'' ''users'' Cascade,
        Foreign ''session_id'' ''auth_sessions'' Cascade, Unique None [''token_hash'']]\<rparr>"

definition model_auth_sessions :: tabl where
  "model_auth_sessions = \<lparr>tb_name = ''auth_sessions'',
     tb_columns =
       [req ''id'' Sql_Uuid, req ''user_id'' Sql_Uuid, opt ''device_name'' (Sql_String 128),
        opt ''user_agent'' (Sql_String 512), opt ''ip_address'' (Sql_String 64), stamped ''created_at'',
        stamped ''last_used_at'', opt ''revoked_at'' Sql_Timestamp],
     tb_keys = [Primary [''id''], Foreign ''user_id'' ''users'' Cascade]\<rparr>"

definition model_verification_codes :: tabl where
  "model_verification_codes = \<lparr>tb_name = ''verification_codes'',
     tb_columns =
       [req ''id'' Sql_Uuid, req ''user_id'' Sql_Uuid, req ''purpose'' (Sql_String 32),
        req ''code_hash'' (Sql_String 128), req ''expires_at'' Sql_Timestamp,
        opt ''consumed_at'' Sql_Timestamp, stamped ''created_at''],
     tb_keys = [Primary [''id''], Foreign ''user_id'' ''users'' Cascade]\<rparr>"

definition model_audit_events :: tabl where
  "model_audit_events = \<lparr>tb_name = ''audit_events'',
     tb_columns =
       [req ''id'' Sql_Uuid, opt ''actor_user_id'' Sql_Uuid, req ''action'' (Sql_String 128),
        req ''resource_type'' (Sql_String 64), opt ''resource_id'' (Sql_String 128),
        req ''success'' Sql_Boolean, opt ''ip_address'' (Sql_String 64),
        opt ''user_agent'' (Sql_String 512), opt ''request_id'' (Sql_String 128),
        req ''metadata'' Sql_Json, stamped ''created_at''],
     tb_keys = [Primary [''id''], Foreign ''actor_user_id'' ''users'' Set_Null]\<rparr>"

definition model_tables :: "tabl list" where
  "model_tables = [model_users, model_preference_profiles, model_sources, model_ingestion_runs, model_jobs,
     model_job_source_records, model_match_results, model_job_feedback, model_notification_deliveries,
     model_roles, model_user_roles, model_refresh_tokens, model_auth_sessions, model_verification_codes,
     model_audit_events]"

text \<open>The columns declared with \<open>index=True\<close>.\<close>

definition model_indexes :: "(string \<times> string list) list" where
  "model_indexes =
    [(''preference_profiles'', [''user_id'']), (''preference_profiles'', [''is_active'']),
     (''sources'', [''user_id'']), (''ingestion_runs'', [''source_id'']),
     (''jobs'', [''company_normalized'']), (''jobs'', [''description_hash'']), (''jobs'', [''status'']),
     (''job_source_records'', [''job_id'']), (''job_source_records'', [''source_id'']),
     (''match_results'', [''job_id'']), (''match_results'', [''preference_profile_id'']),
     (''job_feedback'', [''user_id'']), (''job_feedback'', [''job_id'']),
     (''notification_deliveries'', [''user_id'']), (''notification_deliveries'', [''job_id'']),
     (''notification_deliveries'', [''profile_id'']), (''refresh_tokens'', [''user_id'']),
     (''refresh_tokens'', [''session_id'']), (''refresh_tokens'', [''family_id'']),
     (''auth_sessions'', [''user_id'']), (''verification_codes'', [''user_id'']),
     (''verification_codes'', [''purpose'']), (''audit_events'', [''actor_user_id'']),
     (''audit_events'', [''action'']), (''audit_events'', [''request_id''])]"

end
