(* ===== verification/Migration_Facts.thy ===== *)
theory Migration_Facts
  imports Migrations
begin

text \<open>
  What the migrations guarantee: they apply in order from an empty database, each is undone by its
  downgrade, and together they build the tables the ORM models declare and the constraints
  \<open>Schema.constraints\<close> lists, up to the differences stated. The chain is evaluated once by the
  kernel (\<open>chain_ok\<close>); the properties follow from it.
\<close>

section \<open>The chain\<close>

fun reversible :: "change list list \<Rightarrow> change list list \<Rightarrow> schema \<Rightarrow> bool" where
  "reversible (u # us) (d # ds) s = (case carry_out_all u s of None \<Rightarrow> False
     | Some s' \<Rightarrow> carry_out_all d s' = Some s \<and> reversible us ds s')"
| "reversible us ds s = (us = [] \<and> ds = [])"

lemma carry_out_append:
  "carry_out_all (xs @ ys) s = (case carry_out_all xs s of None \<Rightarrow> None | Some s' \<Rightarrow> carry_out_all ys s')"
  by (induction xs arbitrary: s) (simp_all split: option.split)

lemma reversible_steps:
  "reversible us ds s \<Longrightarrow> n < length us \<Longrightarrow>
     \<exists>a b. carry_out_all (concat (take n us)) s = Some a \<and> carry_out_all (us ! n) a = Some b
       \<and> carry_out_all (ds ! n) b = Some a \<and> carry_out_all (concat (take (Suc n) us)) s = Some b"
proof (induction us ds s arbitrary: n rule: reversible.induct)
  case (1 u us d ds s)
  then obtain s' where u: "carry_out_all u s = Some s'" "carry_out_all d s' = Some s" "reversible us ds s'"
    by (auto split: option.splits)
  show ?case
  proof (cases n)
    case (Suc m)
    then show ?thesis
      using "1.IH" [OF u(1) u(3), of m] "1.prems"(2) u(1) by (auto simp: carry_out_append)
  qed (use u in simp)
qed auto

lemma chain_ok: "reversible upgrades downgrades empty_schema"
  by code_simp



section \<open>The schema built\<close>

text \<open>The names PostgreSQL gives to keys, and the names of all that is unique or a foreign key.\<close>

fun key_name :: "string \<Rightarrow> key \<Rightarrow> string" where
  "key_name t (Primary cs) = t @ ''_pkey''"
| "key_name t (Unique (Some n) cs) = n"
| "key_name t (Unique None cs) = t @ ''_'' @ join ''_'' cs @ ''_key''"
| "key_name t (Foreign c u a) = t @ ''_'' @ c @ ''_fkey''"

definition constraint_names :: "schema \<Rightarrow> string list" where
  "constraint_names s = concat (map (\<lambda>b. map (key_name (tb_name b)) (tb_keys b)) (tables s))
     @ map ix_name (filter ix_unique (indexes s))"

text \<open>The columns of the tables of the first list that the second does not have just so.\<close>

definition only_in :: "tabl list \<Rightarrow> tabl list \<Rightarrow> (string \<times> column) list" where
  "only_in xs ys = concat (map (\<lambda>(a, b). map (Pair (tb_name a)) (filter (\<lambda>c. c \<notin> set (tb_columns b)) (tb_columns a)))
     (zip xs ys))"

text \<open>What is checked of the schema built, in one evaluation.\<close>

definition drift_ok :: "schema \<Rightarrow> bool" where
  "drift_ok s = (map tb_name (tables s) = map tb_name model_tables
     \<and> list_all (\<lambda>(a, b). set (tb_keys a) = set (tb_keys b)) (zip (tables s) model_tables)
     \<and> only_in (tables s) model_tables =
         [(''users'', (req ''failed_login_attempts'' Sql_Integer)\<lparr>co_default := Some ''0''\<rparr>),
          (''roles'', (req ''is_active'' Sql_Boolean)\<lparr>co_default := Some ''true''\<rparr>),
          (''audit_events'', (stamped ''created_at'')\<lparr>co_nullable := True\<rparr>)]
     \<and> only_in model_tables (tables s) =
         [(''users'', req ''failed_login_attempts'' Sql_Integer),
          (''roles'', req ''is_active'' Sql_Boolean), (''audit_events'', stamped ''created_at'')]
     \<and> set (map (\<lambda>i. (ix_table i, ix_columns i)) (filter (\<lambda>i. \<not> ix_unique i) (indexes s)))
         = set ((''users'', [''id'']) # model_indexes)
     \<and> map ix_name (filter ix_unique (indexes s)) = [''uq_preference_active_user'']
     \<and> set (constraint_names s) = set (''uq_user_role'' # map fst constraints))"

lemma drift_checked: "case schema_after 11 of None \<Rightarrow> False | Some s \<Rightarrow> drift_ok s"
  by code_simp


end
