(* ===== verification/Release_Notes.thy ===== *)
theory Release_Notes
  imports Py_Text "HOL-Library.Multiset"
begin

text \<open>
  \<open>scripts/release_notes.py\<close>: release notes from the subjects of conventional commits. \<open>git\<close> is an
  argument: its command line gives an exit code and what it prints. The script's result is its exit
  code, what it prints and the file it writes; the clock's text and the parsed command line are given.
\<close>

definition categories :: "(string \<times> string) list" where
  "categories = [(''feat'', ''Features''), (''fix'', ''Fixes''), (''perf'', ''Performance''),
     (''refactor'', ''Refactoring''), (''docs'', ''Documentation''), (''build'', ''Build and dependencies''),
     (''ci'', ''CI/CD''), (''chore'', ''Maintenance''), (''test'', ''Tests'')]"

definition categorize :: "string \<Rightarrow> string \<times> string" where
  "categorize subject =
     (let (prefix, separator, description) = partition_at (CHR '':'') subject;
          kind = strip (lower (takeWhile (\<lambda>c. c \<noteq> CHR ''('') prefix));
          title = (if separator then strip description else strip subject)
      in (case map_of categories kind of None \<Rightarrow> ''Other'' | Some c \<Rightarrow> c, title))"

definition headings :: "string list" where
  "headings = map snd categories @ [''Other'']"

definition titles_in :: "string list \<Rightarrow> string \<Rightarrow> string list" where
  "titles_in subjects category = map snd (filter (\<lambda>x. fst x = category) (map categorize subjects))"

definition section_lines :: "string list \<Rightarrow> string \<Rightarrow> string list" where
  "section_lines subjects category =
     (if titles_in subjects category = [] then []
      else [''## '' @ category, []] @ map (\<lambda>t. ''- '' @ t) (titles_in subjects category) @ [[]])"

definition note_lines :: "string list \<Rightarrow> string \<Rightarrow> string \<Rightarrow> string \<Rightarrow> string list" where
  "note_lines subjects version sha generated =
     [''# Release '' @ version, [], ''- Commit: `'' @ sha @ ''`'', ''- Generated: '' @ generated, []]
     @ concat (map (section_lines subjects) headings)"

definition render :: "string list \<Rightarrow> string \<Rightarrow> string \<Rightarrow> string \<Rightarrow> string" where
  "render subjects version sha generated =
     rstrip_by is_space (join [CHR 0x0A] (note_lines subjects version sha generated)) @ [CHR 0x0A]"

text \<open>Every commit is listed once, under one heading.\<close>

lemma category_listed: "fst (categorize s) \<in> set headings"
  by (force simp: categorize_def headings_def Let_def split: prod.splits option.splits dest: map_of_SomeD)

lemma headings_distinct: "distinct headings"
  by (simp add: headings_def categories_def)

lemma mset_by_key:
  "distinct ks \<Longrightarrow> \<forall>x \<in> set xs. f x \<in> set ks \<Longrightarrow>
     mset (concat (map (\<lambda>k. map g (filter (\<lambda>x. f x = k) xs)) ks)) = mset (map g xs)"
proof (induction xs)
  case Nil
  then show ?case by (induction ks) simp_all
next
  case (Cons x xs)
  have "mset (concat (map (\<lambda>k. map g (filter (\<lambda>y. f y = k) (x # xs))) ks)) =
      (if f x \<in> set ks then {#g x#} else {#}) + mset (concat (map (\<lambda>k. map g (filter (\<lambda>y. f y = k) xs)) ks))"
    if "distinct ks" for ks
    using that by (induction ks) auto
  with Cons show ?case by simp
qed

lemma commits_listed_once:
  "mset (concat (map (titles_in subjects) headings)) = mset (map (snd \<circ> categorize) subjects)"
  using mset_by_key [OF headings_distinct, of "map categorize subjects" fst snd] category_listed
  by (simp add: titles_in_def [abs_def] o_def)

section \<open>The script\<close>

text \<open>\<open>str.splitlines\<close>; a line end of two characters counts once.\<close>

definition is_line_end :: "char \<Rightarrow> bool" where
  "is_line_end c \<longleftrightarrow> of_char c \<in> {0x0A, 0x0B, 0x0C, 0x0D, 0x1C, 0x1D, 0x1E, 0x85 :: nat}"

fun lines_from :: "string \<Rightarrow> string \<Rightarrow> string list" where
  "lines_from cur [] = (if cur = [] then [] else [cur])"
| "lines_from cur (c # cs) =
     (if c = CHR 0x0D \<and> cs \<noteq> [] \<and> hd cs = CHR 0x0A then cur # lines_from [] (tl cs)
      else if is_line_end c then cur # lines_from [] cs
      else lines_from (cur @ [c]) cs)"

definition splitlines :: "string \<Rightarrow> string list" where
  "splitlines s = lines_from [] s"

type_synonym git = "string list \<Rightarrow> int \<times> string"

definition git_subjects :: "git \<Rightarrow> string option \<Rightarrow> string \<Rightarrow> string list option" where
  "git_subjects git from_ref to_ref =
     (let revision = (case from_ref of None \<Rightarrow> to_ref | Some f \<Rightarrow> if f = [] then to_ref else f @ ''..'' @ to_ref);
          (code, out) = git [''git'', ''log'', ''--format=%s'', revision]
      in if code \<noteq> 0 then None else Some (filter (\<lambda>l. strip l \<noteq> []) (splitlines out)))"

record notes_args =
  na_from_ref :: "string option"
  na_to_ref :: string
  na_version :: string
  na_output :: string

record notes_result =
  nr_code :: int
  nr_printed :: "string list"
  nr_written :: "(string \<times> string) option"

definition notes_main :: "git \<Rightarrow> string \<Rightarrow> notes_args \<Rightarrow> notes_result" where
  "notes_main git generated_at args =
     (let (code, out) = git [''git'', ''rev-parse'', na_to_ref args];
          subjects = (if code \<noteq> 0 then None else git_subjects git (na_from_ref args) (na_to_ref args))
      in (case subjects of
            None \<Rightarrow>
              (let ref = (case na_from_ref args of None \<Rightarrow> na_to_ref args | Some f \<Rightarrow> if f = [] then na_to_ref args else f)
               in \<lparr>nr_code = 2,
                   nr_printed = [''Git ref '' @ [CHR 0x27] @ ref @ [CHR 0x27] @ '' was not found. Use an existing tag, branch, or commit SHA.''],
                   nr_written = None\<rparr>)
          | Some ls \<Rightarrow> \<lparr>nr_code = 0, nr_printed = [],
              nr_written = Some (na_output args, render ls (na_version args) (strip out) generated_at)\<rparr>))"

text \<open>The script writes its file exactly when both commands succeed, and says so by its exit code.\<close>

lemma notes_main_writes:
  "nr_code (notes_main git t args) = (if nr_written (notes_main git t args) = None then 2 else 0)"
  "nr_written (notes_main git t args) \<noteq> None \<longleftrightarrow>
     fst (git [''git'', ''rev-parse'', na_to_ref args]) = 0 \<and> git_subjects git (na_from_ref args) (na_to_ref args) \<noteq> None"
  by (auto simp: notes_main_def Let_def split: prod.split option.split)

text \<open>
  A commit to end at that does not exist is blamed on the ref to start from, when one is given.
\<close>

lemma wrong_ref_blamed:
  assumes "fst (git [''git'', ''rev-parse'', na_to_ref args]) \<noteq> 0" "na_from_ref args = Some f" "f \<noteq> []"
  shows "nr_printed (notes_main git t args)
    = [''Git ref '' @ [CHR 0x27] @ f @ [CHR 0x27] @ '' was not found. Use an existing tag, branch, or commit SHA.'']"
  using assms by (auto simp: notes_main_def Let_def split: prod.split)

end
