(* ===== verification/Run_Facts.thy ===== *)
theory Run_Facts
  imports Ingest_Facts
begin

text \<open>
  The outcome of a run: what is stored when it finishes, when the adapter gives up, and when
  another exception ends it; and the deduplication of jobs.
\<close>

section \<open>Deduplication\<close>

lemma commit_done: "commit_session w = (Inr (), w') \<Longrightarrow>
    db_ok (work w) \<and> w' = w\<lparr>tick := Suc (tick w), committed := work w\<rparr>"
  using commit_session_cases by fastforce

lemma flush_done: "flush_session w = (Inr (), w') \<Longrightarrow> w' = w\<lparr>tick := Suc (tick w)\<rparr>"
  using flush_session_cases by fastforce

lemma refresh_done: "refresh_session w = (Inr (), w') \<Longrightarrow> w' = w\<lparr>tick := Suc (tick w)\<rparr>"
  using refresh_session_cases by fastforce

lemma url_text_done: "url_text v w = (Inr url, w') \<Longrightarrow> w' = w \<and> v = JStr url"
  by (auto simp: url_text_def raise_database_error_def session_rollback_def prog_simps split: json.splits)

lemma add_source_record_done:
  assumes "add_source_record L jid sid c w = (Inr (), w')"
  shows "\<exists>r. job_source_records (work w') = job_source_records (work w) @ [r]
    \<and> sr_job_id r = jid \<and> sr_source_id r = sid \<and> sr_external_id r = ca_external_id c
    \<and> jobs (work w') = jobs (work w) \<and> committed w' = work w' \<and> db_ok (work w')"
  using assms
  by (auto simp: add_source_record_def run_simps bindP_Inr_iff simp del: py_repr.simps
      dest!: url_text_done commit_done refresh_done)

text \<open>What an upsert that answers has done.\<close>

definition upserted :: "uuid \<Rightarrow> candidate \<Rightarrow> db \<Rightarrow> uuid \<Rightarrow> bool \<Rightarrow> bool \<Rightarrow> db \<Rightarrow> bool" where
  "upserted sid c d jid created changed d' \<longleftrightarrow>
     (\<exists>r. job_source_records d' = job_source_records d @ [r] \<and> sr_job_id r = jid
        \<and> sr_source_id r = sid \<and> sr_external_id r = ca_external_id c)
     \<and> (if created then \<not> changed \<and> source_match d sid (ca_external_id c) = None
          \<and> (\<exists>url t. jobs d' = jobs d @ [new_job jid c url t])
        else (\<exists>j\<in>set (jobs d). j_id j = jid \<and> changed = (j_description_hash j \<noteq> ca_description_hash c)
          \<and> (source_match d sid (ca_external_id c) = Some j \<or> source_match d sid (ca_external_id c) = None)
          \<and> jobs d' = (if changed then update_where (\<lambda>x. j_id x = jid) (revised c) (jobs d) else jobs d)))"

lemma find_existing_done:
  assumes "find_existing sid c w = (Inr found, w')"
  shows "w' = w \<and> (case found of
      None \<Rightarrow> source_match (work w) sid (ca_external_id c) = None
    | Some j \<Rightarrow> j \<in> set (jobs (work w)) \<and>
        (source_match (work w) sid (ca_external_id c) = Some j \<or> source_match (work w) sid (ca_external_id c) = None))"
proof (cases "source_match (work w) sid (ca_external_id c)")
  case (Some j)
  then have "j \<in> set (jobs (work w))" by (auto simp: source_match_def dest: find_SomeD)
  with Some assms show ?thesis by (cases found) (auto simp: find_existing_def run_simps)
next
  case None
  with assms show ?thesis
    by (auto simp: find_existing_def run_simps identity_match_def split: json.splits option.split dest: find_SomeD)
qed

lemma upsert_done:
  assumes "upsert L sid c w = (Inr (jid, created, changed), w')"
  shows "upserted sid c (work w) jid created changed (work w') \<and> committed w' = work w' \<and> db_ok (work w')"
proof -
  from assms obtain found where f: "find_existing sid c w = (Inr found, w)"
    by (auto simp: upsert_def bindP_Inr_iff dest: find_existing_done)
  note ex = find_existing_done [OF f]
  show ?thesis
  proof (cases found)
    case None
    with assms f ex show ?thesis
      by (auto simp: upsert_def upserted_def bindP_result [where m = "find_existing sid c", OF f] run_simps
          bindP_Inr_iff dest!: url_text_done flush_done add_source_record_done) blast
  next
    case (Some j)
    with assms f ex show ?thesis
      by (auto simp: upsert_def upserted_def bindP_result [where m = "find_existing sid c", OF f] run_simps
          bindP_Inr_iff whenP_def dest!: add_source_record_done split: if_splits)
  qed
qed

text \<open>Looking again for what was just stored finds the job it was stored under.\<close>

lemma find_weaken:
  assumes "find Q xs = Some j" "\<And>x. x \<in> set xs \<Longrightarrow> Q' x = (Q x \<or> x = j)"
  shows "find Q' xs = Some j"
  using assms by (induction xs) (auto split: if_splits)

lemma revised_id [simp]: "j_id (revised c j) = j_id j" "j_description_hash (revised c j) = ca_description_hash c"
  by (simp_all add: revised_def)

lemma stored_job:
  assumes "upserted sid c d jid created changed d'"
  shows "\<exists>j\<in>set (jobs d'). j_id j = jid \<and> j_description_hash j = ca_description_hash c"
proof (cases created)
  case True
  with assms show ?thesis by (auto simp: upserted_def new_job_def)
next
  case False
  with assms obtain j where j: "j \<in> set (jobs d)" "j_id j = jid"
    "changed = (j_description_hash j \<noteq> ca_description_hash c)"
    "jobs d' = (if changed then update_where (\<lambda>x. j_id x = jid) (revised c) (jobs d) else jobs d)"
    by (auto simp: upserted_def)
  show ?thesis
  proof (cases changed)
    case True
    with j have "revised c j \<in> set (jobs d')" by (auto simp: table_simps intro!: bexI [of _ j])
    with j(2) show ?thesis by (intro bexI [of _ "revised c j"]) simp_all
  qed (use j in auto)
qed

lemma source_match_stored:
  assumes up: "upserted sid c d jid created changed d'"
    and ids: "distinct (map j_id (jobs d'))"
    and refs: "references sr_job_id (job_source_records d) (map j_id (jobs d))"
  shows "\<exists>j. source_match d' sid (ca_external_id c) = Some j \<and> j_id j = jid
    \<and> j_description_hash j = ca_description_hash c"
proof -
  define Q where "Q x = (\<exists>q\<in>set (job_source_records d). sr_job_id q = j_id x \<and> sr_source_id q = sid
      \<and> sr_external_id q = ca_external_id c)" for x :: job
  let ?Q' = "\<lambda>x::job. Q x \<or> j_id x = jid"
  from up obtain r where r: "job_source_records d' = job_source_records d @ [r]" "sr_job_id r = jid"
      "sr_source_id r = sid" "sr_external_id r = ca_external_id c"
    by (auto simp: upserted_def)
  have m: "source_match d sid (ca_external_id c) = find Q (jobs d)" by (simp add: source_match_def Q_def [abs_def])
  have m': "source_match d' sid (ca_external_id c) = find ?Q' (jobs d')"
    unfolding source_match_def Q_def [abs_def] r(1) by (rule arg_cong [of _ _ "\<lambda>P. find P (jobs d')"]) (use r in auto)
  from stored_job [OF up] obtain j where j: "j \<in> set (jobs d')" "j_id j = jid"
    "j_description_hash j = ca_description_hash c" by blast
  have id_only: "?Q' (revised c x) = ?Q' x" for x by (simp add: Q_def)
  have keep: "map j_id (update_where (\<lambda>x. j_id x = jid) (revised c) (jobs d)) = map j_id (jobs d)"
    by (rule map_update_where_key) simp
  show ?thesis
  proof (cases "find Q (jobs d)")
    case None
    then have none: "\<not> Q x" if "x \<in> set (jobs d)" for x using that by (auto simp: find_None_iff_all)
    have "j_id x \<in> set (map j_id (jobs d))" if "Q x" for x
    proof -
      from that obtain q where "q \<in> set (job_source_records d)" "sr_job_id q = j_id x"
        by (auto simp: Q_def)
      with refs show ?thesis unfolding references_def by metis
    qed
    then have "\<not> Q x" for x
    proof -
      assume known: "\<And>x. Q x \<Longrightarrow> j_id x \<in> set (map j_id (jobs d))"
      show ?thesis
      proof
        assume q: "Q x"
        with known obtain y where y: "y \<in> set (jobs d)" "j_id y = j_id x" by fastforce
        with q have "Q y" by (simp add: Q_def)
        with none y(1) show False by blast
      qed
    qed
    then have "find ?Q' (jobs d') = Some j"
      by (intro find_unique_key [OF ids j(1)]) (simp_all add: j(2))
    with j m' show ?thesis by simp
  next
    case (Some i)
    with up m have "\<not> created" by (auto simp: upserted_def)
    with up m Some have i: "i \<in> set (jobs d)" "j_id i = jid"
        and d': "jobs d' = (if changed then update_where (\<lambda>x. j_id x = jid) (revised c) (jobs d) else jobs d)"
      by (auto simp: upserted_def)
    then have "distinct (map j_id (jobs d))" using ids keep by (auto split: if_splits)
    then have "find ?Q' (jobs d) = Some i"
      using i in_set_distinct_key [of j_id "jobs d"] by (intro find_weaken [OF Some]) auto
    then have "find ?Q' (jobs d') = Some (if changed then revised c i else i)"
      using i(2) by (simp add: d' find_update_where [where R = ?Q', OF id_only])
    moreover from this have "(if changed then revised c i else i) \<in> set (jobs d')"
      by (blast dest: find_SomeD)
    then have "(if changed then revised c i else i) = j"
      using i(2) j in_set_distinct_key [OF ids] by (auto split: if_splits)
    ultimately show ?thesis using j m' by simp
  qed
qed

text \<open>
  C28. Ingesting a posting never duplicates its job: what is answered is stored under one job, which
  carries the posting's description, with one more source record; the number of jobs grows only
  when the job is reported as created. Ingesting the same posting again answers the same job,
  neither created nor changed, and leaves the jobs as they are.
\<close>

theorem upsert_deduplicates:
  assumes first: "upsert L sid c w = (Inr (jid, created, changed), w1)"
    and refs: "references sr_job_id (job_source_records (work w)) (map j_id (jobs (work w)))"
  shows "length (jobs (work w1)) = length (jobs (work w)) + of_bool created
    \<and> length (job_source_records (work w1)) = Suc (length (job_source_records (work w)))
    \<and> \<not> (created \<and> changed) \<and> committed w1 = work w1
    \<and> (\<exists>j\<in>set (jobs (work w1)). j_id j = jid \<and> j_description_hash j = ca_description_hash c)
    \<and> (\<forall>jid2 created2 changed2 w2. upsert L sid c w1 = (Inr (jid2, created2, changed2), w2) \<longrightarrow>
         jid2 = jid \<and> \<not> created2 \<and> \<not> changed2 \<and> jobs (work w2) = jobs (work w1))"
proof -
  note up = upsert_done [OF first]
  then have u: "upserted sid c (work w) jid created changed (work w1)" by blast
  have ids: "distinct (map j_id (jobs (work w1)))" using up by (simp add: db_ok_unfold)
  obtain j where j: "source_match (work w1) sid (ca_external_id c) = Some j" "j_id j = jid"
      "j_description_hash j = ca_description_hash c"
    using source_match_stored [OF u ids refs] by blast
  have "jid2 = jid \<and> \<not> created2 \<and> \<not> changed2 \<and> jobs (work w2) = jobs (work w1)"
    if "upsert L sid c w1 = (Inr (jid2, created2, changed2), w2)" for jid2 created2 changed2 w2
    using upsert_done [OF that] j in_set_distinct_key [OF ids]
    by (auto simp: upserted_def split: if_splits)
  then show ?thesis
    using up stored_job [OF u] by (auto simp: upserted_def split: if_splits)
qed

definition posting_ex :: candidate where
  "posting_ex = \<lparr>ca_title = ''Data Engineer'', ca_company_name = ''Acme'', ca_company_normalized = ''acme'',
     ca_description = ''Python and SQL'', ca_description_hash = ''#d'', ca_locations = [],
     ca_url = JStr ''http'', ca_external_id = ''e1'', ca_payload = []\<rparr>"

lemma upsert_ex: "\<exists>w1. upsert lib_ex 71 posting_ex (world_ex seen_db_ex) = (Inr (31, False, False), w1)"
proof -
  have "source_match seen_db_ex 71 ''e1'' = Some job_ex"
    by (simp add: source_match_def seen_defs)
  then have f: "find_existing 71 posting_ex (world_ex seen_db_ex) = (Inr (Some job_ex), world_ex seen_db_ex)"
    by (simp add: find_existing_def run_simps posting_ex_def)
  have "j_description_hash job_ex = ca_description_hash posting_ex" "j_id job_ex = 31"
    by (simp_all add: job_ex_def posting_ex_def)
  moreover have "fst (add_source_record lib_ex 31 71 posting_ex (world_ex seen_db_ex)) = Inr ()"
    by (simp add: add_source_record_def run_simps url_text_def posting_ex_def)
      (simp add: seen_defs db_ok_unfold references_def references_opt_def run_simps refresh_calm)
  ultimately show ?thesis
    by (simp add: upsert_def bindP_result [where m = "find_existing 71 posting_ex", OF f] run_simps)
      (metis (no_types, lifting) bindP_Inr_iff prod.collapse ret_def)
qed

theorem upsert_deduplicates_witness:
  "\<exists>w1. upsert lib_ex 71 posting_ex (world_ex seen_db_ex) = (Inr (31, False, False), w1)
    \<and> length (jobs (work w1)) = Suc 0 \<and> length (job_source_records (work w1)) = Suc (Suc 0)"
proof -
  obtain w1 where "upsert lib_ex 71 posting_ex (world_ex seen_db_ex) = (Inr (31, False, False), w1)"
    using upsert_ex by blast
  moreover have "references sr_job_id (job_source_records seen_db_ex) (map j_id (jobs seen_db_ex))"
    by (simp add: seen_defs)
  ultimately show ?thesis
    using upsert_deduplicates [of lib_ex 71 posting_ex "world_ex seen_db_ex" 31 False False w1]
    by (auto simp: seen_db_ex_def match_db_ex_def)
qed

section \<open>Exceptions an operation does not raise\<close>

definition avoids :: "(exn \<Rightarrow> bool) \<Rightarrow> ('r, 'a) op \<Rightarrow> bool" where
  "avoids Q m \<longleftrightarrow> (\<forall>w e. fst (m w) = Inl e \<longrightarrow> \<not> Q e)"

definition is_adapter_error :: "exn \<Rightarrow> bool" where
  "is_adapter_error e = (case e of Adapter _ _ \<Rightarrow> True | _ \<Rightarrow> False)"

named_theorems avoids_intros

lemma avoids_basic [avoids_intros]:
  "avoids Q (ret x)" "avoids Q (query f)" "avoids Q (alter g)" "avoids Q now_utc" "avoids Q uuid4"
  by (simp_all add: avoids_def prog_simps)

lemma avoids_raise [avoids_intros]: "\<not> Q e \<Longrightarrow> avoids Q (raise e)"
  by (simp add: avoids_def prog_simps)

lemma avoids_bind [avoids_intros]: "avoids Q m \<Longrightarrow> (\<And>x. avoids Q (f x)) \<Longrightarrow> avoids Q (bindP m f)"
  by (auto simp: avoids_def bindP_def split: prod.splits sum.splits) (metis fst_conv)+

lemma avoids_when [avoids_intros]: "avoids Q m \<Longrightarrow> avoids Q (whenP b m)"
  by (simp add: whenP_def avoids_intros)

lemma avoids_fold: "(\<And>acc x. avoids Q (f acc x)) \<Longrightarrow> avoids Q (foldP f acc xs)"
  by (induction xs arbitrary: acc) (auto intro: avoids_intros)

lemma avoids_sessions [avoids_intros]:
  "avoids is_adapter_error commit_session" "avoids is_adapter_error flush_session"
  "avoids is_adapter_error refresh_session" "avoids is_adapter_error (raise_database_error e)"
  by (auto simp: avoids_def is_adapter_error_def commit_session_def flush_session_def refresh_session_def
      on_sql_error_def session_commit_def session_flush_def session_refresh_def raise_database_error_def
      session_rollback_def prog_simps split: option.splits)

lemma avoids_url_text [avoids_intros]: "avoids is_adapter_error (url_text v)"
  by (auto simp: url_text_def intro!: avoids_intros split: json.split)

lemma avoids_find_existing: "avoids is_adapter_error (find_existing sid c)"
  unfolding find_existing_def
  by (intro avoids_intros) (auto intro!: avoids_intros simp: is_adapter_error_def split: option.split json.split)

lemma avoids_upsert: "avoids is_adapter_error (upsert L sid c)"
  unfolding upsert_def add_source_record_def
  by (intro avoids_bind avoids_find_existing) (auto intro!: avoids_intros split: option.split)

lemma normalize_error: "normalize_record L r company = Inl e \<Longrightarrow> \<not> is_adapter_error e"
  by (auto simp: normalize_record_def is_adapter_error_def Let_def split: json.splits)

lemma avoids_complete_run: "avoids is_adapter_error (complete_run L rid sid company fs k)"
  unfolding complete_run_def repo_get_run_def finish_run_def ingest_all_def ingest_record_def
  by (auto intro!: avoids_intros avoids_fold avoids_upsert normalize_error split: option.split sum.split)

section \<open>How a run ends\<close>

interpretation runs_kept: run_tables "\<lambda>d. ingestion_runs d = rs" for rs
  by unfold_locales simp_all

lemma finish_run_done:
  assumes "finish_run i v w = (Inr (), w')"
  shows "\<exists>t. ingestion_runs (committed w') =
    update_where (\<lambda>r. ir_id r = i) (finished v t) (ingestion_runs (work w))"
  using assms by (auto simp: finish_run_def run_simps bindP_Inr_iff dest!: commit_done refresh_done)

lemma upsert_counts:
  assumes "upsert L sid c w = (Inr (jid, created, changed), w')"
  shows "\<not> (created \<and> changed)"
  using upsert_done [OF assms] by (auto simp: upserted_def)

lemma ingest_counts:
  assumes "foldP (ingest_record L sid company) (a, b, d) rs w = (Inr (a', b', d'), w')"
  shows "a' + b' + d' = a + b + d + int (length rs) \<and> a \<le> a' \<and> b \<le> b' \<and> d \<le> d'"
  using assms
proof (induction rs arbitrary: a b d w)
  case Nil
  then show ?case by (simp add: run_simps)
next
  case (Cons r rs)
  then obtain a1 b1 d1 w1 where one: "ingest_record L sid company (a, b, d) r w = (Inr (a1, b1, d1), w1)"
    and rest: "foldP (ingest_record L sid company) (a1, b1, d1) rs w1 = (Inr (a', b', d'), w')"
    by (auto simp: bindP_Inr_iff)
  from one obtain c jid created changed where "normalize_record L r company = Inr c"
      "upsert L sid c w = (Inr (jid, created, changed), w1)" "count_upsert created changed (a, b, d) = (a1, b1, d1)"
    by (auto simp: ingest_record_def bindP_Inr_iff run_simps split: sum.splits)
  then show ?case using Cons.IH [OF rest] upsert_counts [of L sid c w jid created changed w1]
    by (cases created; cases changed) (auto simp: count_upsert_def)
qed

lemma complete_run_done:
  assumes "complete_run L rid (Some sid) (Some company) fs k w = (Inr (), w')"
    and "find (\<lambda>r. ir_id r = rid) (ingestion_runs (work w)) = Some r0" "committed w = work w"
  shows "\<exists>t a b d. ingestion_runs (committed w') = update_where (\<lambda>r. ir_id r = rid)
      (finished (success_result (length fs) k (a, b, d)) t) (ingestion_runs (work w))
    \<and> a + b + d = int (length fs) \<and> 0 \<le> a \<and> 0 \<le> b \<and> 0 \<le> d"
proof -
  from assms(1,2) obtain a b d w1 where i: "ingest_all L (Some sid) (Some company) fs w = (Inr (a, b, d), w1)"
    and f: "finish_run rid (success_result (length fs) k (a, b, d)) w1 = (Inr (), w')"
    by (auto simp: complete_run_def repo_get_run_def run_simps bindP_Inr_iff)
  have "both (\<lambda>x. ingestion_runs x = ingestion_runs (work w)) w1"
    using keepsD [OF runs_kept.ingest_all_keeps [where C = False and I = UNIV] _ i] assms(3) by (simp add: both_def)
  then have "ingestion_runs (work w1) = ingestion_runs (work w)" by (simp add: both_def)
  moreover have "a + b + d = int (length fs) \<and> 0 \<le> a \<and> 0 \<le> b \<and> 0 \<le> d"
    using ingest_counts [of L sid company 0 0 0 fs w a b d w1] i by (simp add: ingest_all_def)
  ultimately show ?thesis using finish_run_done [OF f] by metis
qed

lemma fail_run_done:
  fixes w :: "'r world"
  assumes "fail_run rid n e w = (Inl e, w')" "is_adapter_error e"
    and "find (\<lambda>r. ir_id r = rid) (ingestion_runs (work w)) = Some r0"
  shows "\<exists>t. ingestion_runs (committed w') = update_where (\<lambda>r. ir_id r = rid)
      (finished (failure_result n (exn_str e)) t) (ingestion_runs (work w))"
proof -
  have "avoids is_adapter_error (finish_run rid (failure_result n (exn_str e)) :: ('r, unit) op)"
    unfolding finish_run_def by (intro avoids_intros)
  then have "finish_run rid (failure_result n (exn_str e)) w \<noteq> (Inl e, w')"
    using assms(2) by (metis avoids_def fst_conv)
  then obtain w1 where "finish_run rid (failure_result n (exn_str e)) w = (Inr (), w1)" "w' = w1"
    using assms(1,3) by (auto simp: fail_run_def repo_get_run_def run_simps bindP_Inl_iff)
  then show ?thesis using finish_run_done by blast
qed

lemma fail_run_raises:
  fixes w :: "'r world"
  assumes "fst (fail_run rid n e w) = Inl x" "is_adapter_error x"
  shows "x = e"
proof -
  have "avoids is_adapter_error (finish_run rid v :: ('r, unit) op)" for v
    unfolding finish_run_def by (intro avoids_intros)
  with assms show ?thesis
    by (auto simp: fail_run_def repo_get_run_def run_simps bindP_def avoids_def
        split: option.splits prod.splits sum.splits) (metis fst_conv)
qed

lemma release_done:
  assumes "release_lock R (Some s) v = (q, v')"
  shows "work v' = work v \<and> committed v' = committed v \<and> (q = Inr () \<or> (\<exists>m. q = Inl (RedisError m)))
    \<and> (\<forall>rd. R = Some rd \<longrightarrow> (\<exists>t. kv v' = snd (r_delete rd (lock_key s) t (kv v))))"
  using assms
  by (auto simp: release_lock_def redis_call_def prog_simps split: option.splits prod.splits sum.splits)
    (metis snd_conv)+

text \<open>The body of the run with its collecting done.\<close>

lemma execute_run_split:
  assumes "adapter_for L kind = Some fetch"
    and "execute_run L R rid cfg kind (Some sid) company w = (r, w')"
  obtains res t fs k q v where "with_retries 3 (collect (fetch cfg)) (w, [], 0) = (res, w\<lparr>tick := t\<rparr>, fs, k)"
    "(case res of Inr _ \<Rightarrow> complete_run L rid (Some sid) company fs k (w\<lparr>tick := t\<rparr>)
      | Inl e \<Rightarrow> if is_adapter_error e then fail_run rid (length fs) e (w\<lparr>tick := t\<rparr>)
                 else (Inl e, w\<lparr>tick := t\<rparr>)) = (q, v)"
    "work w' = work v" "committed w' = committed v" "r = q \<or> (\<exists>m. r = Inl (RedisError m))"
    "\<forall>rd. R = Some rd \<longrightarrow> (\<exists>t. kv w' = snd (r_delete rd (lock_key sid) t (kv v)))"
proof -
  obtain res w1 fs k where c: "with_retries 3 (collect (fetch cfg)) (w, [], 0) = (res, w1, fs, k)"
    by (metis prod_cases3 surj_pair)
  then obtain t where w1: "w1 = w\<lparr>tick := t\<rparr>" using collect_world [OF reads_adapter [OF assms(1)]] by blast
  obtain q v where b: "run_body L (fetch cfg) rid (Some sid) company w = (q, v)" by fastforce
  obtain z v' where z: "release_lock R (Some sid) v = (z, v')" by fastforce
  have "(case res of Inr _ \<Rightarrow> complete_run L rid (Some sid) company fs k (w\<lparr>tick := t\<rparr>)
      | Inl e \<Rightarrow> if is_adapter_error e then fail_run rid (length fs) e (w\<lparr>tick := t\<rparr>)
                 else (Inl e, w\<lparr>tick := t\<rparr>)) = (q, v)"
    using b by (auto simp: run_body_def c w1 is_adapter_error_def split: sum.splits exn.splits)
  moreover have "r = (case z of Inl e \<Rightarrow> Inl e | Inr _ \<Rightarrow> q)" "w' = v'"
    using assms b z by (auto simp: execute_run_def finallyP_def split: sum.splits)
  ultimately show thesis
    using release_done [OF z] c w1 by (intro that) auto
qed

text \<open>
  C40. A run that is executed is finished in the committed data: when the call answers, as succeeded
  or, if entries were malformed, partial, with counters that add up to the records fetched; when it
  raises the adapter's error, as failed with that error's message. In every case, and for every
  other exception too, the lock of the source is given back last.
\<close>

theorem run_outcome_recorded:
  fixes w :: "'r world"
  assumes "execute_run L R rid cfg kind (Some sid) (Some company) w = (r, w')" "kind \<in> set supported_kinds"
    and x0: "find (\<lambda>x. ir_id x = rid) (ingestion_runs (work w)) = Some x0" and "committed w = work w"
  shows "(r = Inr () \<longrightarrow> (\<exists>x\<in>set (ingestion_runs (committed w')). ir_id x = rid
        \<and> ir_status x = (if ir_error_count x = 0 then ''succeeded'' else ''partial'') \<and> ir_completed_at x \<noteq> None
        \<and> ir_created_count x + ir_updated_count x + ir_duplicate_count x = ir_fetched_count x
        \<and> 0 \<le> ir_created_count x \<and> 0 \<le> ir_updated_count x \<and> 0 \<le> ir_duplicate_count x))
    \<and> (\<forall>m b. r = Inl (Adapter m b) \<longrightarrow> (\<exists>x\<in>set (ingestion_runs (committed w')). ir_id x = rid
        \<and> ir_status x = ''failed'' \<and> ir_error_count x = 1 \<and> ir_error_summary x = [(''message'', JStr m)]))
    \<and> (\<forall>rd. R = Some rd \<longrightarrow> (\<exists>t k. kv w' = snd (r_delete rd (lock_key sid) t k)))"
proof -
  obtain fetch :: "config \<Rightarrow> ('r, yielded) op" where a: "adapter_for L kind = Some fetch"
    using assms(2) by (auto simp: supported_kinds_def adapter_for_def)
  obtain res t fs k q v where "with_retries 3 (collect (fetch cfg)) (w, [], 0) = (res, w\<lparr>tick := t\<rparr>, fs, k)"
    and b: "(case res of Inr _ \<Rightarrow> complete_run L rid (Some sid) (Some company) fs k (w\<lparr>tick := t\<rparr>)
      | Inl e \<Rightarrow> if is_adapter_error e then fail_run rid (length fs) e (w\<lparr>tick := t\<rparr>)
                 else (Inl e, w\<lparr>tick := t\<rparr>)) = (q, v)"
    and "work w' = work v"
    and v: "committed w' = committed v" "r = q \<or> (\<exists>m. r = Inl (RedisError m))"
    and lock: "\<forall>rd. R = Some rd \<longrightarrow> (\<exists>t. kv w' = snd (r_delete rd (lock_key sid) t (kv v)))"
    by (rule execute_run_split [OF a assms(1)])
  have row: "g x0 \<in> set (update_where (\<lambda>r. ir_id r = rid) g (ingestion_runs (work w)))" for g
    using find_SomeD [OF x0] by (auto simp: table_simps intro!: bexI [of _ x0])
  have ok: "\<exists>x\<in>set (ingestion_runs (committed w')). ir_id x = rid
        \<and> ir_status x = (if ir_error_count x = 0 then ''succeeded'' else ''partial'') \<and> ir_completed_at x \<noteq> None
        \<and> ir_created_count x + ir_updated_count x + ir_duplicate_count x = ir_fetched_count x
        \<and> 0 \<le> ir_created_count x \<and> 0 \<le> ir_updated_count x \<and> 0 \<le> ir_duplicate_count x"
    if "r = Inr ()"
  proof -
    have "complete_run L rid (Some sid) (Some company) fs k (w\<lparr>tick := t\<rparr>) = (Inr (), v)"
      using b v(2) that by (auto simp: fail_run_def repo_get_run_def run_simps bindP_Inr_iff
          split: sum.splits if_splits)
    then obtain u x y z where runs: "ingestion_runs (committed w') = update_where (\<lambda>r. ir_id r = rid)
        (finished (success_result (length fs) k (x, y, z)) u) (ingestion_runs (work w))"
      and n: "x + y + z = int (length fs) \<and> 0 \<le> x \<and> 0 \<le> y \<and> 0 \<le> z"
      using complete_run_done [of L rid sid company fs k "w\<lparr>tick := t\<rparr>" v x0] x0 assms(4) v(1) by auto
    show ?thesis
      unfolding runs
      by (rule bexI [OF _ row]) (use n find_SomeD [OF x0] in \<open>simp add: finished_def success_result_def\<close>)
  qed
  have bad: "\<exists>x\<in>set (ingestion_runs (committed w')). ir_id x = rid
        \<and> ir_status x = ''failed'' \<and> ir_error_count x = 1 \<and> ir_error_summary x = [(''message'', JStr m)]"
    if r: "r = Inl (Adapter m c)" for m c
  proof -
    have q: "q = Inl (Adapter m c)" and e: "is_adapter_error (Adapter m c)"
      using v(2) r by (auto simp: is_adapter_error_def)
    have "fail_run rid (length fs) (Adapter m c) (w\<lparr>tick := t\<rparr>) = (Inl (Adapter m c), v)"
    proof (cases res)
      case (Inr y)
      then have "fst (complete_run L rid (Some sid) (Some company) fs k (w\<lparr>tick := t\<rparr>)) = Inl (Adapter m c)"
        using b q by simp
      then have "\<not> is_adapter_error (Adapter m c)"
        using avoids_complete_run unfolding avoids_def by blast
      with e show ?thesis by contradiction
    next
      case (Inl y)
      then have y: "is_adapter_error y" "fail_run rid (length fs) y (w\<lparr>tick := t\<rparr>) = (Inl (Adapter m c), v)"
        using b q e by (simp_all split: if_splits)
      from y(2) have "fst (fail_run rid (length fs) y (w\<lparr>tick := t\<rparr>)) = Inl (Adapter m c)" by simp
      from fail_run_raises [OF this e] y(2) show ?thesis by simp
    qed
    then obtain u where runs: "ingestion_runs (committed w') = update_where (\<lambda>r. ir_id r = rid)
        (finished (failure_result (length fs) m) u) (ingestion_runs (work w))"
      using fail_run_done [OF _ e] x0 v(1) by fastforce
    show ?thesis
      unfolding runs
      by (rule bexI [OF _ row]) (use find_SomeD [OF x0] in \<open>simp add: finished_def failure_result_def\<close>)
  qed
  show ?thesis using ok bad lock by blast
qed

definition run_ex :: ingestion_run where
  "run_ex = \<lparr>ir_id = 91, ir_source_id = 71, ir_status = ''running'', ir_started_at = 0,
     ir_completed_at = None, ir_fetched_count = 0, ir_normalized_count = 0, ir_created_count = 0,
     ir_updated_count = 0, ir_duplicate_count = 0, ir_error_count = 0, ir_error_summary = []\<rparr>"

definition run_db_ex :: db where
  "run_db_ex = seen_db_ex\<lparr>ingestion_runs := [run_ex]\<rparr>"

lemma db_ok_run: "db_ok run_db_ex"
  by (simp add: db_ok_unfold run_db_ex_def run_ex_def seen_defs references_def references_opt_def)

text \<open>Every request of the example environment fails, and an adapter error is retried twice.\<close>

lemma retries_ex: "with_retries 3 (collect (greenhouse_fetch fr [(''board'', JStr ''b'')])) (world_ex d, [], 0)
    = (Inl (Adapter ''source request failed'' True), (world_ex d)\<lparr>tick := 3\<rparr>, [], 0)"
  by (simp add: numeral_3_eq_3 collect_def greenhouse_fetch_def int_arg_def url_arg_def get_json_def
      limiter_wait_def is_number_def ending_def no_yield_def retryable_def env_ex_def prog_simps)

theorem run_outcome_recorded_witness:
  "\<exists>w'. execute_run lib_ex None 91 [(''board'', JStr ''b'')] ''greenhouse'' (Some 71) (Some ''Acme'')
      (world_ex run_db_ex) = (Inl (Adapter ''source request failed'' True), w')
    \<and> (\<exists>x\<in>set (ingestion_runs (committed w')). ir_id x = 91 \<and> ir_status x = ''failed'')"
proof -
  let ?run = "execute_run lib_ex None 91 [(''board'', JStr ''b'')] ''greenhouse'' (Some 71) (Some ''Acme'')
      (world_ex run_db_ex)"
  have f: "find (\<lambda>x. ir_id x = 91) (ingestion_runs run_db_ex) = Some run_ex"
    by (simp add: run_db_ex_def run_ex_def)
  have ok: "db_ok (run_db_ex\<lparr>ingestion_runs := update_where (\<lambda>r. ir_id r = 91) (finished v t) (ingestion_runs run_db_ex)\<rparr>)" for v t
    using db_ok_run by (simp add: db_ok_unfold run_db_ex_def run_ex_def finished_def)
  have "fst (fail_run 91 0 (Adapter ''source request failed'' True) ((world_ex run_db_ex)\<lparr>tick := 3\<rparr>))
      = Inl (Adapter ''source request failed'' True)"
    using ok by (simp add: fail_run_def repo_get_run_def finish_run_def run_simps f)
  then have "fst ?run = Inl (Adapter ''source request failed'' True)"
    by (simp add: execute_run_def adapter_for_def run_body_def retries_ex release_lock_def finallyP_def
        prog_simps split: prod.split)
  then obtain w' where run: "?run = (Inl (Adapter ''source request failed'' True), w')"
    by (metis prod.collapse)
  then have "\<exists>x\<in>set (ingestion_runs (committed w')). ir_id x = 91 \<and> ir_status x = ''failed''"
    using run_outcome_recorded [OF run, of run_ex] f by (auto simp: supported_kinds_def)
  with run show ?thesis by blast
qed

text \<open>
  An exception that is not the adapter's own error (a missing configuration key, an entry that
  is not an object) leaves the run as it was: nothing is written, and from then on a request to
  start the source is answered with the run that is still marked as running.
\<close>

theorem run_left_running:
  assumes "adapter_for L kind = Some fetch"
    and "with_retries 3 (collect (fetch cfg)) (w, [], 0) = (Inl e, v)" "\<not> is_adapter_error e"
    and "execute_run L R rid cfg kind (Some sid) company w = (r, w')"
  shows "work w' = work w \<and> committed w' = committed w \<and> (\<exists>e'. r = Inl e')
    \<and> (\<forall>s uid x xs. find (\<lambda>s. so_id s = sid \<and> so_user_id s = uid) (sources (work w)) = Some s
         \<and> so_kind s = kind \<and> kind \<in> set supported_kinds \<and> active_runs (work w) sid = x # xs
         \<longrightarrow> start_run None sid (Some uid) w' = (Inr (x, True), w'))"
proof -
  obtain res t fs k q u where c: "with_retries 3 (collect (fetch cfg)) (w, [], 0) = (res, w\<lparr>tick := t\<rparr>, fs, k)"
    and b: "(case res of Inr _ \<Rightarrow> complete_run L rid (Some sid) company fs k (w\<lparr>tick := t\<rparr>)
      | Inl e \<Rightarrow> if is_adapter_error e then fail_run rid (length fs) e (w\<lparr>tick := t\<rparr>)
                 else (Inl e, w\<lparr>tick := t\<rparr>)) = (q, u)"
    and u: "work w' = work u" "committed w' = committed u" "r = q \<or> (\<exists>m. r = Inl (RedisError m))"
    and "\<forall>rd. R = Some rd \<longrightarrow> (\<exists>t. kv w' = snd (r_delete rd (lock_key sid) t (kv u)))"
    by (rule execute_run_split [OF assms(1,4)])
  have res: "res = Inl e" using c assms(2) by simp
  have "q = Inl e" "u = w\<lparr>tick := t\<rparr>" using b assms(3) unfolding res by simp_all
  then have same: "work w' = work w" "committed w' = committed w" "\<exists>e'. r = Inl e'" using u by auto
  have "start_run None sid (Some uid) w' = (Inr (x, True), w')"
    if "find (\<lambda>s. so_id s = sid \<and> so_user_id s = uid) (sources (work w)) = Some s" "so_kind s = kind"
      "kind \<in> set supported_kinds" "active_runs (work w) sid = x # xs" for s uid x xs
    using that same by (simp add: start_run_def repo_get_source_for_user_def repo_get_active_run_def run_simps)
  with same show ?thesis by blast
qed

theorem run_left_running_witness:
  "\<exists>r w'. execute_run lib_ex None 91 [] ''greenhouse'' (Some 71) None (world_ex run_db_ex) = (r, w')
    \<and> start_run None 71 (Some 1) w' = (Inr (run_ex, True), w')"
proof -
  let ?fetch = "greenhouse_fetch (float_repr lib_ex) :: config \<Rightarrow> (unit, yielded) op"
  obtain r w' where run: "execute_run lib_ex None 91 [] ''greenhouse'' (Some 71) None (world_ex run_db_ex) = (r, w')"
    by fastforce
  have a: "adapter_for lib_ex ''greenhouse'' = Some ?fetch" by (simp add: adapter_for_def)
  have e: "with_retries 3 (collect (?fetch [])) (world_ex run_db_ex, [], 0)
      = (Inl (KeyError ''board''), world_ex run_db_ex, [], 0)"
    by (simp add: numeral_3_eq_3 collect_def greenhouse_fetch_def no_yield_def retryable_def prog_simps)
  have "find (\<lambda>s. so_id s = 71 \<and> so_user_id s = 1) (sources run_db_ex) = Some source_ex"
    "so_kind source_ex = ''greenhouse''" "''greenhouse'' \<in> set supported_kinds"
    "active_runs run_db_ex 71 = [run_ex]"
    by (simp_all add: run_db_ex_def seen_defs supported_kinds_def active_runs_def run_ex_def)
  then have "start_run None 71 (Some 1) w' = (Inr (run_ex, True), w')"
    using run_left_running [OF a e _ run] by (auto simp: is_adapter_error_def)
  with run show ?thesis by blast
qed

end
