(* ===== verification/Run_Races.thy ===== *)
theory Run_Races
  imports Run_Facts
begin

text \<open>
  Starts and runs that overlap. The coroutines of \<open>domain/jobs/ingestion_service.py\<close> give way at
  every await: another process may look at the runs, or take the lock, between two of their steps.
  Here a run is a process that advances one await at a time, from the request that starts it to the
  worker that gives its lock back. Each step is the operation of \<open>Ingestion\<close> on a session that sees
  what is committed at that moment (the isolation level is the server's default).
\<close>

section \<open>The steps of a run\<close>

text \<open>
  Where a run is: looking for its source, checking that no run is active, about to take the lock,
  about to insert its row, waiting in the broker's queue, executed by a worker, about to give the
  lock back; or it joined a run that was active already, or it is over. The instant is the one at
  which the lock was taken.
\<close>

datatype stage =
    Looking
  | Checking
  | Locking
  | Creating time
  | Queued time ingestion_run
  | Executing time ingestion_run source
  | Releasing time ingestion_run "exn + unit"
  | Joined ingestion_run
  | Ended

record proc =
  pr_source :: uuid
  pr_caller :: "uuid option"
  pr_locks :: bool
  pr_stage :: stage

text \<open>
  One await. A process started through the API has no Redis (\<open>pr_locks\<close> is false); the worker has.
\<close>

fun advance :: "lib \<Rightarrow> 'r redis \<Rightarrow> uuid \<Rightarrow> uuid option \<Rightarrow> bool \<Rightarrow> stage \<Rightarrow> ('r, stage) op" where
  "advance L R sid uid locks Looking =
     bindP (case uid of Some u \<Rightarrow> repo_get_source_for_user sid u | None \<Rightarrow> repo_get_source sid) (\<lambda>found.
     (case found of
        None \<Rightarrow> raise (App (err SourceNotFound))
      | Some s \<Rightarrow>
          if so_kind s \<notin> set supported_kinds then raise (App (err UnsupportedSourceKind))
          else ret Checking))"
| "advance L R sid uid locks Checking =
     bindP (repo_get_active_run sid) (\<lambda>active.
     (case active of Some r \<Rightarrow> ret (Joined r) | None \<Rightarrow> ret Locking))"
| "advance L R sid uid locks Locking =
     bindP (asks (\<lambda>w. clock (wenv w) (tick w))) (\<lambda>t.
     bindP (if locks then redis_call (r_set_nx_ex R (lock_key sid) 900) else ret True) (\<lambda>lock.
     if \<not> lock then raise (App (err IngestionAlreadyRunning)) else ret (Creating t)))"
| "advance L R sid uid locks (Creating t) = bindP (repo_create_run sid) (\<lambda>r. ret (Queued t r))"
| "advance L R sid uid locks (Queued t r) =
     bindP (repo_get_source sid) (\<lambda>found.
     (case found of None \<Rightarrow> ret Ended | Some s \<Rightarrow> ret (Executing t r s)))"
| "advance L R sid uid locks (Executing t r s) =
     (case adapter_for L (so_kind s) of
        None \<Rightarrow> raise (KeyError (so_kind s))
      | Some fetch \<Rightarrow> (\<lambda>w.
          (case run_body L (fetch (so_config s)) (ir_id r) (Some sid) (Some (so_name s)) w of
             (q, w') \<Rightarrow> (Inr (Releasing t r q), w'))))"
| "advance L R sid uid locks (Releasing t r q) =
     bindP (release_lock (Some R) (Some sid)) (\<lambda>_.
     (case q of Inl e \<Rightarrow> raise e | Inr _ \<Rightarrow> ret Ended))"
| "advance L R sid uid locks (Joined r) = ret (Joined r)"
| "advance L R sid uid locks Ended = ret Ended"

text \<open>Without interleaving the steps are the calls of the service and of the worker.\<close>

fun steps :: "nat \<Rightarrow> lib \<Rightarrow> 'r redis \<Rightarrow> uuid \<Rightarrow> uuid option \<Rightarrow> bool \<Rightarrow> stage \<Rightarrow> ('r, stage) op" where
  "steps 0 L R sid uid locks st = ret st"
| "steps (Suc n) L R sid uid locks st =
     bindP (advance L R sid uid locks st) (\<lambda>st'. if (\<exists>r. st' = Joined r) \<or> st' = Ended then ret st'
       else steps n L R sid uid locks st')"

fun started :: "stage \<Rightarrow> (ingestion_run \<times> bool) option" where
  "started (Joined r) = Some (r, True)"
| "started (Queued t r) = Some (r, False)"
| "started st = None"

section \<open>Several runs at once\<close>

record 'r system =
  sy_world :: "'r world"
  sy_procs :: "proc list"

definition view :: "'r world \<Rightarrow> 'r world" where
  "view w = w\<lparr>work := committed w\<rparr>"

text \<open>A step of process \<open>i\<close>; an exception ends it.\<close>

definition move :: "lib \<Rightarrow> 'r redis \<Rightarrow> nat \<Rightarrow> 'r system \<Rightarrow> 'r system" where
  "move L R i s = (let p = sy_procs s ! i in
     (case advance L R (pr_source p) (pr_caller p) (pr_locks p) (pr_stage p) (view (sy_world s)) of
        (q, w) \<Rightarrow> \<lparr>sy_world = w, sy_procs = (sy_procs s)
          [i := p\<lparr>pr_stage := (case q of Inl _ \<Rightarrow> Ended | Inr st \<Rightarrow> st)\<rparr>]\<rparr>))"

definition arrive :: "uuid \<Rightarrow> uuid option \<Rightarrow> bool \<Rightarrow> 'r system \<Rightarrow> 'r system" where
  "arrive sid uid locks s = s\<lparr>sy_procs := sy_procs s @
     [\<lparr>pr_source = sid, pr_caller = uid, pr_locks = locks, pr_stage = Looking\<rparr>]\<rparr>"

text \<open>
  Everything else the program does meanwhile: it may take time, delete runs (with their user) and
  change every other table, and it does not touch the locks. \<open>until\<close> reads from the server's state
  up to when a key is set.
\<close>

definition undisturbed :: "('r \<Rightarrow> string \<Rightarrow> time option) \<Rightarrow> 'r world \<Rightarrow> 'r world \<Rightarrow> bool" where
  "undisturbed until w w' \<longleftrightarrow>
     (\<exists>P. ingestion_runs (committed w') = delete_where P (ingestion_runs (committed w)))
     \<and> (\<forall>sid. until (kv w') (lock_key sid) = until (kv w) (lock_key sid))"

inductive step ::
  "lib \<Rightarrow> 'r redis \<Rightarrow> ('r \<Rightarrow> string \<Rightarrow> time option) \<Rightarrow> 'r system \<Rightarrow> 'r system \<Rightarrow> bool"
  for L R until where
  Arrive: "step L R until s (arrive sid uid locks s)"
| Move: "i < length (sy_procs s) \<Longrightarrow> step L R until s (move L R i s)"
| Elsewhere: "undisturbed until (sy_world s) w \<Longrightarrow> step L R until s (s\<lparr>sy_world := w\<rparr>)"

section \<open>The steps without interleaving\<close>

lemma worker_alone:
  "bindP (steps 3 L R sid uid locks (Queued t r)) (\<lambda>_. ret ()) =
     bindP (repo_get_source sid) (\<lambda>found.
     (case found of None \<Rightarrow> ret () | Some s \<Rightarrow> execute_ingestion_run L (Some R) s (ir_id r) sid))"
  by (auto simp: numeral_3_eq_3 execute_ingestion_run_def execute_run_def repo_get_source_def prog_simps
      fun_eq_iff split: option.split prod.split sum.split)

lemma start_alone:
  "bindP (steps 4 L R sid uid locks Looking) (\<lambda>st. ret (started st)) =
     bindP (start_run (if locks then Some R else None) sid uid) (\<lambda>r. ret (Some r))"
  by (auto simp: numeral_eq_Suc start_run_def repo_get_active_run_def repo_get_source_for_user_def
      repo_get_source_def prog_simps fun_eq_iff split: option.split prod.split sum.split list.split)


section \<open>What a step changes\<close>

text \<open>The state of the Redis server, which only Redis commands change.\<close>

definition quiet :: "'r \<Rightarrow> 'r world \<Rightarrow> bool" where
  "quiet k w \<longleftrightarrow> kv w = k"

lemma keeps_quiet [keeps_intros]:
  "keeps (quiet k) (query f)" "keeps (quiet k) (alter g)" "keeps (quiet k) now_utc" "keeps (quiet k) uuid4"
  "keeps (quiet k) commit_session" "keeps (quiet k) flush_session" "keeps (quiet k) refresh_session"
  "keeps (quiet k) (raise_database_error e)"
  by (auto simp: keeps_def quiet_def flush_session_def refresh_session_def commit_session_def
      on_sql_error_def session_flush_def session_refresh_def session_commit_def
      raise_database_error_def session_rollback_def prog_simps split: option.splits)

lemma upsert_quiet: "keeps (quiet k) (upsert L sid c)"
  by (auto simp: upsert_def find_existing_def add_source_record_def url_text_def
      intro!: keeps_intros split: option.split json.split)

lemma finish_run_quiet: "keeps (quiet k) (finish_run i v)"
  unfolding finish_run_def by (intro keeps_intros)

lemma complete_run_quiet: "keeps (quiet k) (complete_run L rid sid company fs n)"
  by (auto simp: complete_run_def repo_get_run_def ingest_all_def ingest_record_def
      intro!: keeps_intros upsert_quiet finish_run_quiet split: option.split sum.split)

lemma fail_run_quiet: "keeps (quiet k) (fail_run rid n e)"
  unfolding fail_run_def repo_get_run_def by (intro keeps_intros finish_run_quiet)

lemma run_body_quiet:
  assumes "reads_only fetch"
  shows "keeps (quiet k) (run_body L fetch rid sid company)"
proof (rule keepsI)
  fix w :: "'a world"
  assume w: "quiet k w"
  obtain r w' fs n where c: "with_retries 3 (collect fetch) (w, [], 0) = (r, w', fs, n)"
    by (metis prod_cases3 surj_pair)
  then have "quiet k w'" using collect_world [OF assms] w by (fastforce simp: quiet_def)
  then show "quiet k (snd (run_body L fetch rid sid company w))"
    by (auto simp: run_body_def c split: sum.split exn.split
        intro: keeps_at [OF complete_run_quiet] keeps_at [OF fail_run_quiet])
qed

text \<open>The primary key of the runs.\<close>

definition distinct_runs :: "db \<Rightarrow> bool" where
  "distinct_runs d = distinct (map ir_id (ingestion_runs d))"

interpretation run_ids: run_ends distinct_runs
  by unfold_locales (simp_all add: distinct_runs_def finished_def map_update_where_key)

lemma db_ok_distinct_runs: "db_ok d \<Longrightarrow> distinct_runs d"
  by (simp add: db_ok_unfold distinct_runs_def)

fun holding :: "stage \<Rightarrow> time option" where
  "holding (Creating t) = Some t"
| "holding (Queued t r) = Some t"
| "holding (Executing t r s) = Some t"
| "holding (Releasing t r q) = Some t"
| "holding st = None"

fun minding :: "stage \<Rightarrow> uuid option" where
  "minding (Queued t r) = Some (ir_id r)"
| "minding (Executing t r s) = Some (ir_id r)"
| "minding st = None"

lemma create_run_ids: "keeps (committed_ok distinct_runs) (repo_create_run sid)"
proof -
  have "keeps (committed_ok distinct_runs) (commit_session :: ('r, unit) op)"
  proof (rule keepsI)
    fix w :: "'r world"
    assume "committed_ok distinct_runs w"
    moreover obtain r w' where c: "commit_session w = (r, w')" by fastforce
    ultimately show "committed_ok distinct_runs (snd (commit_session w))"
      using commit_session_cases [OF c] by (auto simp: committed_ok_def db_ok_distinct_runs)
  qed
  then show ?thesis
    unfolding repo_create_run_def Let_def by (intro keeps_intros)
qed

lemma create_run_quiet: "keeps (quiet k) (repo_create_run sid)"
  unfolding repo_create_run_def Let_def by (intro keeps_intros)

text \<open>The steps by what they do to the runs and to the lock.\<close>

lemma look_frame:
  assumes "advance L R sid uid locks st w = (q, w')" "st \<in> {Looking, Checking, Ended} \<or> (\<exists>r. st = Joined r)"
  shows "w' = w \<and> (\<forall>st'. q = Inr st' \<longrightarrow> holding st' = None)"
  using assms by (auto simp: repo_get_source_for_user_def repo_get_source_def repo_get_active_run_def
      run_simps split: option.splits if_splits list.splits)

lemma lock_frame:
  assumes "advance L R sid uid True Locking w = (q, w')"
  obtains r k where "r_set_nx_ex R (lock_key sid) 900 (clock (wenv w) (tick w)) (kv w) = (r, k)"
    "w' = w\<lparr>tick := Suc (tick w), kv := k\<rparr>"
    "\<And>st'. q = Inr st' \<Longrightarrow> r = Inr True \<and> st' = Creating (clock (wenv w) (tick w))"
  using assms by (auto simp: redis_call_def prog_simps split: prod.splits sum.splits if_splits)

lemma create_frame:
  assumes "advance L R sid uid locks (Creating t) w = (q, w')" "distinct_runs (committed w)"
  shows "distinct_runs (committed w') \<and> kv w' = kv w \<and> (\<forall>st'. q = Inr st' \<longrightarrow> holding st' = Some t)"
proof -
  obtain r v where c: "repo_create_run sid w = (r, v)" by fastforce
  then have "w' = v \<and> (\<forall>st'. q = Inr st' \<longrightarrow> holding st' = Some t)"
    using assms(1) by (auto simp: bindP_result [where m = "repo_create_run sid", OF c] ret_def split: sum.splits)
  moreover have "distinct_runs (committed v)" "kv v = kv w"
    using keepsD [OF create_run_ids _ c] keepsD [OF create_run_quiet _ c] assms(2)
    by (simp_all add: committed_ok_def quiet_def)
  ultimately show ?thesis by simp
qed

lemma fetch_frame:
  assumes "advance L R sid uid locks (Queued t r) w = (q, w')"
  shows "w' = w \<and> (\<forall>st'. q = Inr st' \<longrightarrow> holding st' = None \<or> holding st' = Some t)"
  using assms by (auto simp: repo_get_source_def run_simps split: option.splits)

lemma execute_frame:
  assumes "advance L R sid uid locks (Executing t r s) w = (q, w')"
    and "distinct_runs (committed w)" "committed w = work w"
  shows "distinct_runs (committed w') \<and> kv w' = kv w \<and> (\<forall>st'. q = Inr st' \<longrightarrow> holding st' = Some t)"
proof (cases "adapter_for L (so_kind s) :: (config \<Rightarrow> ('a, yielded) op) option")
  case None
  with assms show ?thesis by (auto simp: prog_simps)
next
  case (Some fetch)
  obtain z v where b: "run_body L (fetch (so_config s)) (ir_id r) (Some sid) (Some (so_name s)) w = (z, v)"
    by fastforce
  have f: "reads_only (fetch (so_config s))" by (rule reads_adapter [OF Some])
  have "both distinct_runs v"
    by (rule keepsD [where I = "both distinct_runs"], rule run_ids.run_body_keeps [OF f])
      (use b assms(2,3) in \<open>simp_all add: both_def quiet_def\<close>)
  moreover have "quiet (kv w) v"
    using keepsD [OF run_body_quiet [OF f] _ b] assms(2,3) by (simp add: quiet_def)
  ultimately have "both distinct_runs v" "quiet (kv w) v" by simp_all
  then show ?thesis using assms(1) by (auto simp: Some b both_def quiet_def)
qed

lemma release_frame:
  assumes "advance L R sid uid locks (Releasing t r z) w = (q, w')"
  obtains x k u where "r_delete R (lock_key sid) u (kv w) = (x, k)" "kv w' = k"
    "committed w' = committed w" "\<And>st'. q = Inr st' \<Longrightarrow> holding st' = None"
  using assms by (auto simp: release_lock_def redis_call_def prog_simps split: prod.splits sum.splits)

section \<open>At most one run per source\<close>

definition now :: "'r system \<Rightarrow> time" where
  "now s = clock (wenv (sy_world s)) (tick (sy_world s))"

definition run_list :: "'r system \<Rightarrow> ingestion_run list" where
  "run_list s = ingestion_runs (committed (sy_world s))"

text \<open>
  What the lock relies on in Redis: a key that is set has an instant up to which it is, SET NX
  succeeds exactly when it is over, DEL removes the key; a command that fails may have been carried
  out, and no command touches another key.
\<close>

definition alive :: "time \<Rightarrow> time option \<Rightarrow> bool" where
  "alive t x = (case x of None \<Rightarrow> False | Some e \<Rightarrow> t < e)"

definition lock_law :: "'r redis \<Rightarrow> ('r \<Rightarrow> string \<Rightarrow> time option) \<Rightarrow> bool" where
  "lock_law R until \<longleftrightarrow>
     (\<forall>k secs t c q c'. r_set_nx_ex R k secs t c = (q, c') \<longrightarrow>
        (\<forall>k'. k' \<noteq> k \<longrightarrow> until c' k' = until c k') \<and>
        (case q of
           Inr True \<Rightarrow> \<not> alive t (until c k) \<and> until c' k = Some (t + seconds secs)
         | Inr False \<Rightarrow> alive t (until c k) \<and> until c' k = until c k
         | Inl _ \<Rightarrow> until c' k = until c k \<or> \<not> alive t (until c k) \<and> until c' k = Some (t + seconds secs)))
   \<and> (\<forall>k t c q c'. r_delete R k t c = (q, c') \<longrightarrow>
        (\<forall>k'. k' \<noteq> k \<longrightarrow> until c' k' = until c k') \<and>
        (case q of Inr _ \<Rightarrow> until c' k = None | Inl _ \<Rightarrow> until c' k = None \<or> until c' k = until c k))"

text \<open>
  A history is orderly while every start takes the lock, no lock is held for 900 seconds, and
  no running run has lost the process that will finish it.
\<close>

definition orderly :: "'r system \<Rightarrow> bool" where
  "orderly s \<longleftrightarrow>
     (\<forall>p\<in>set (sy_procs s). pr_locks p
        \<and> (case holding (pr_stage p) of None \<Rightarrow> True | Some t \<Rightarrow> now s < t + seconds 900))
     \<and> (\<forall>r\<in>set (run_list s). ir_status r = ''running'' \<longrightarrow>
          (\<exists>p\<in>set (sy_procs s). pr_source p = ir_source_id r \<and> minding (pr_stage p) = Some (ir_id r)))"

inductive orderly_steps ::
  "lib \<Rightarrow> 'r redis \<Rightarrow> ('r \<Rightarrow> string \<Rightarrow> time option) \<Rightarrow> 'r system \<Rightarrow> 'r system \<Rightarrow> bool"
  for L R until s0 where
  Begin: "orderly s0 \<Longrightarrow> orderly_steps L R until s0 s0"
| Next: "orderly_steps L R until s0 s \<Longrightarrow> step L R until s s' \<Longrightarrow> orderly s' \<Longrightarrow>
    orderly_steps L R until s0 s'"

definition holds_lock :: "proc \<Rightarrow> string \<Rightarrow> bool" where
  "holds_lock p k \<longleftrightarrow> lock_key (pr_source p) = k \<and> holding (pr_stage p) \<noteq> None"

definition locks_ok :: "('r \<Rightarrow> string \<Rightarrow> time option) \<Rightarrow> 'r system \<Rightarrow> bool" where
  "locks_ok until s \<longleftrightarrow> distinct_runs (committed (sy_world s))
     \<and> (\<forall>i<length (sy_procs s). \<forall>t. holding (pr_stage (sy_procs s ! i)) = Some t \<longrightarrow>
          until (kv (sy_world s)) (lock_key (pr_source (sy_procs s ! i))) = Some (t + seconds 900))
     \<and> (\<forall>i<length (sy_procs s). \<forall>j<length (sy_procs s). \<forall>k.
          holds_lock (sy_procs s ! i) k \<longrightarrow> holds_lock (sy_procs s ! j) k \<longrightarrow> i = j)"

lemma locks_ok_move:
  assumes ok: "locks_ok until s" and i: "i < length (sy_procs s)"
    and p: "p = sy_procs s ! i" and key: "key = lock_key (pr_source p)"
    and ids: "distinct_runs (committed w)"
    and others: "\<And>k. k \<noteq> key \<Longrightarrow> until (kv w) k = until (kv (sy_world s)) k"
    and same: "\<And>j. j < length (sy_procs s) \<Longrightarrow> j \<noteq> i \<Longrightarrow> holds_lock (sy_procs s ! j) key \<Longrightarrow>
      until (kv w) key = until (kv (sy_world s)) key \<and> holding st = None"
    and mine: "\<And>t. holding st = Some t \<Longrightarrow> until (kv w) key = Some (t + seconds 900)"
  shows "locks_ok until \<lparr>sy_world = w, sy_procs = (sy_procs s)[i := p\<lparr>pr_stage := st\<rparr>]\<rparr>"
proof -
  let ?ps = "(sy_procs s)[i := p\<lparr>pr_stage := st\<rparr>]"
  have held: "until (kv w) (lock_key (pr_source (?ps ! j))) = Some (t + seconds 900)"
    if j: "j < length (sy_procs s)" and h: "holding (pr_stage (?ps ! j)) = Some t" for j t
  proof (cases "j = i")
    case True
    then show ?thesis using mine h i by (simp add: key)
  next
    case False
    then have old: "until (kv (sy_world s)) (lock_key (pr_source (sy_procs s ! j))) = Some (t + seconds 900)"
      using ok j h by (simp add: locks_ok_def)
    show ?thesis
    proof (cases "lock_key (pr_source (sy_procs s ! j)) = key")
      case True
      then have "holds_lock (sy_procs s ! j) key" using h False by (simp add: holds_lock_def)
      then show ?thesis using same [OF j False] old True False by simp
    next
      case False
      then show ?thesis using others old \<open>j \<noteq> i\<close> by simp
    qed
  qed
  have "a = b" if ab: "a < length (sy_procs s)" "b < length (sy_procs s)"
    "holds_lock (?ps ! a) k" "holds_lock (?ps ! b) k" for a b k
  proof -
    have free: False if "j < length (sy_procs s)" "j \<noteq> i" "holds_lock (sy_procs s ! j) k"
        "holds_lock (p\<lparr>pr_stage := st\<rparr>) k" for j
      using same that by (auto simp: holds_lock_def key)
    have "holds_lock (sy_procs s ! a) k \<Longrightarrow> holds_lock (sy_procs s ! b) k \<Longrightarrow> a = b"
      using ok ab(1,2) unfolding locks_ok_def by blast
    then show ?thesis
      using ab i free [of a] free [of b] by (auto simp: nth_list_update split: if_splits)
  qed
  with held ids show ?thesis by (simp add: locks_ok_def)
qed

lemma sole_holder:
  assumes "locks_ok until s" "i < length (sy_procs s)" "holding (pr_stage (sy_procs s ! i)) \<noteq> None"
    "j < length (sy_procs s)" "j \<noteq> i"
  shows "\<not> holds_lock (sy_procs s ! j) (lock_key (pr_source (sy_procs s ! i)))"
  using assms unfolding locks_ok_def holds_lock_def by blast

text \<open>One process moves, by where it is.\<close>

lemma locks_ok_advance:
  assumes law: "lock_law R until" and ok: "locks_ok until s" and o: "orderly s"
    and i: "i < length (sy_procs s)" and p: "p = sy_procs s ! i"
    and a: "advance L R (pr_source p) (pr_caller p) (pr_locks p) (pr_stage p) (view (sy_world s)) = (q, w)"
    and st: "st = (case q of Inl _ \<Rightarrow> Ended | Inr st \<Rightarrow> st)"
  shows "locks_ok until \<lparr>sy_world = w, sy_procs = (sy_procs s)[i := p\<lparr>pr_stage := st\<rparr>]\<rparr>"
proof -
  let ?key = "lock_key (pr_source p)" and ?u = "until (kv (sy_world s))"
  have ids: "distinct_runs (committed (view (sy_world s)))" "committed (view (sy_world s)) = work (view (sy_world s))"
    using ok by (simp_all add: locks_ok_def view_def)
  have free: "holding st = None" if "\<And>st'. q = Inr st' \<Longrightarrow> holding st' = None"
    using that by (auto simp: st split: sum.split)
  have keep: ?thesis
    if "distinct_runs (committed w)" "kv w = kv (sy_world s)"
      and t: "\<forall>st'. q = Inr st' \<longrightarrow> holding st' = None \<or> holding st' = holding (pr_stage p)"
  proof (rule locks_ok_move [OF ok i p refl that(1)])
    have h: "holding st = None \<or> holding st = holding (pr_stage p)"
      using t by (auto simp: st split: sum.split)
    show "until (kv w) k = ?u k" for k by (simp add: that(2))
    show "until (kv w) ?key = Some (t + seconds 900)" if "holding st = Some t" for t
      using that h ok i \<open>kv w = kv (sy_world s)\<close> by (auto simp: locks_ok_def p)
    show "until (kv w) ?key = ?u ?key \<and> holding st = None"
      if "j < length (sy_procs s)" "j \<noteq> i" "holds_lock (sy_procs s ! j) ?key" for j
    proof -
      have "holding (pr_stage p) = None"
        using sole_holder [OF ok i _ that(1,2)] that(3) unfolding p by blast
      with h show ?thesis by (auto simp: \<open>kv w = kv (sy_world s)\<close>)
    qed
  qed
  have looked: ?thesis if "pr_stage p \<in> {Looking, Checking, Ended} \<or> (\<exists>r. pr_stage p = Joined r)"
    using look_frame [OF a that] ids(1) by (intro keep) (auto simp: view_def)
  show ?thesis
  proof (cases "pr_stage p")
    case Locking
    have "pr_locks p" using o i by (simp add: orderly_def p)
    then have "advance L R (pr_source p) (pr_caller p) True Locking (view (sy_world s)) = (q, w)"
      using a Locking by simp
    then obtain r k where
      set: "r_set_nx_ex R ?key 900 (now s) (kv (sy_world s)) = (r, k)" and w: "w = (view (sy_world s))\<lparr>tick := Suc (tick (sy_world s)), kv := k\<rparr>"
      and won: "\<And>st'. q = Inr st' \<Longrightarrow> r = Inr True \<and> st' = Creating (now s)"
      by (rule lock_frame) (simp add: now_def view_def)
    note l = law [unfolded lock_law_def, THEN conjunct1, rule_format, OF set]
    have busy: "alive (now s) (?u ?key)" if j: "j < length (sy_procs s)" "holds_lock (sy_procs s ! j) ?key" for j
    proof -
      obtain t where t: "holding (pr_stage (sy_procs s ! j)) = Some t" "?u ?key = Some (t + seconds 900)"
        using ok j by (auto simp: locks_ok_def holds_lock_def)
      then have "now s < t + seconds 900"
        using o nth_mem [OF j(1)] by (fastforce simp: orderly_def)
      with t(2) show ?thesis by (simp add: alive_def)
    qed
    show ?thesis
    proof (rule locks_ok_move [OF ok i p refl])
      show "distinct_runs (committed w)" using ids(1) by (simp add: w)
      show "until (kv w) k' = ?u k'" if "k' \<noteq> ?key" for k' using l that by (simp add: w)
      show "until (kv w) ?key = Some (t + seconds 900)" if "holding st = Some t" for t
        using that won l by (auto simp: st w split: sum.splits)
      show "until (kv w) ?key = ?u ?key \<and> holding st = None"
        if j: "j < length (sy_procs s)" "j \<noteq> i" "holds_lock (sy_procs s ! j) ?key" for j
        using busy [OF j(1,3)] l won by (auto simp: st w split: sum.splits bool.splits)
    qed
  next
    case (Creating t)
    show ?thesis
      using create_frame [OF a [unfolded Creating] ids(1)] by (intro keep) (auto simp: view_def Creating)
  next
    case (Queued t r)
    show ?thesis
      using fetch_frame [OF a [unfolded Queued]] ids(1) by (intro keep) (auto simp: view_def Queued)
  next
    case (Executing t r x)
    show ?thesis
      using execute_frame [OF a [unfolded Executing] ids] by (intro keep) (auto simp: view_def Executing)
  next
    case (Releasing t r z)
    from a [unfolded Releasing] obtain x k u where
      del: "r_delete R ?key u (kv (sy_world s)) = (x, k)" and w: "kv w = k" "committed w = committed (sy_world s)"
      and "\<And>st'. q = Inr st' \<Longrightarrow> holding st' = None"
      by (auto elim!: release_frame simp: view_def simp del: advance.simps)
    then have none: "holding st = None" by (intro free)
    show ?thesis
      by (rule locks_ok_move [OF ok i p refl])
        (use law [unfolded lock_law_def, THEN conjunct2, rule_format, OF del] ids w none
          sole_holder [OF ok i] Releasing in \<open>auto simp: view_def p\<close>)
  qed (use looked in simp_all)
qed

lemma locks_ok_steps:
  assumes "lock_law R until" "locks_ok until s" "orderly s" "step L R until s s'"
  shows "locks_ok until s'"
  using assms(4)
proof cases
  case (Arrive sid uid locks)
  then show ?thesis using assms(2) by (auto simp: locks_ok_def arrive_def holds_lock_def nth_append split: if_splits)
next
  case (Elsewhere w)
  then show ?thesis
    using assms(2) by (auto simp: locks_ok_def undisturbed_def distinct_runs_def holds_lock_def
        delete_where_def distinct_map_filter)
next
  case (Move i)
  then show ?thesis
    using locks_ok_advance [OF assms(1-3) Move(2) refl _ refl]
    by (auto simp: move_def Let_def split: prod.split)
qed

lemma orderly_locks:
  assumes "orderly_steps L R until s0 s" "lock_law R until" "locks_ok until s0"
  shows "locks_ok until s \<and> orderly s"
  using assms(1)
proof induction
  case Begin
  with assms(3) show ?case by simp
next
  case (Next s s')
  then show ?case using locks_ok_steps [OF assms(2)] by blast
qed

lemma all_same_short:
  assumes "distinct xs" "\<And>x y. x \<in> set xs \<Longrightarrow> y \<in> set xs \<Longrightarrow> x = y"
  shows "length xs \<le> 1"
proof (cases xs)
  case (Cons x ys)
  have "ys = []"
  proof (cases ys)
    case (Cons y zs)
    then have "x = y" using assms(2) [of x y] \<open>xs = x # ys\<close> by simp
    with assms(1) Cons \<open>xs = x # ys\<close> show ?thesis by simp
  qed
  with Cons show ?thesis by simp
qed simp

text \<open>
  C10. Overlapping starts and runs, with the lock: as long as every start takes the lock, no lock is
  held for its 900 seconds and no running run has lost its process, no source ever has two
  running runs, however the processes interleave and whatever else the program does.
\<close>

theorem locked_runs_exclusive:
  assumes "lock_law R until" "orderly_steps L R until s0 s"
    and "sy_procs s0 = []" "distinct_runs (committed (sy_world s0))"
  shows "length (filter (\<lambda>r. ir_source_id r = sid \<and> ir_status r = ''running'') (run_list s)) \<le> 1"
proof (rule all_same_short)
  have ok: "locks_ok until s" "orderly s"
    using orderly_locks [OF assms(2,1)] assms(3,4) by (simp_all add: locks_ok_def)
  then have ids: "distinct (map ir_id (run_list s))"
    by (simp add: locks_ok_def distinct_runs_def run_list_def)
  then show "distinct (filter (\<lambda>r. ir_source_id r = sid \<and> ir_status r = ''running'') (run_list s))"
    by (simp add: distinct_map)
  have owner: "\<exists>i<length (sy_procs s). holds_lock (sy_procs s ! i) (lock_key sid)
      \<and> minding (pr_stage (sy_procs s ! i)) = Some (ir_id r)"
    if r: "r \<in> set (run_list s)" "ir_source_id r = sid" "ir_status r = ''running''" for r
  proof -
    obtain p where p: "p \<in> set (sy_procs s)" "pr_source p = sid" "minding (pr_stage p) = Some (ir_id r)"
      using ok(2) r unfolding orderly_def by blast
    obtain i where i: "i < length (sy_procs s)" "sy_procs s ! i = p"
      using p(1) by (auto simp: in_set_conv_nth)
    have "holding (pr_stage p) \<noteq> None" using p(3) by (cases "pr_stage p") simp_all
    with i p show ?thesis by (intro exI [of _ i]) (simp add: holds_lock_def)
  qed
  fix a b
  assume "a \<in> set (filter (\<lambda>r. ir_source_id r = sid \<and> ir_status r = ''running'') (run_list s))"
    "b \<in> set (filter (\<lambda>r. ir_source_id r = sid \<and> ir_status r = ''running'') (run_list s))"
  then have m: "a \<in> set (run_list s)" "b \<in> set (run_list s)"
    and ab: "ir_source_id a = sid" "ir_status a = ''running''" "ir_source_id b = sid" "ir_status b = ''running''"
    by simp_all
  obtain i j where i: "i < length (sy_procs s)" "holds_lock (sy_procs s ! i) (lock_key sid)"
      "minding (pr_stage (sy_procs s ! i)) = Some (ir_id a)"
    and j: "j < length (sy_procs s)" "holds_lock (sy_procs s ! j) (lock_key sid)"
      "minding (pr_stage (sy_procs s ! j)) = Some (ir_id b)"
    using owner [OF m(1) ab(1,2)] owner [OF m(2) ab(3,4)] by blast
  then have "i = j" using ok(1) unfolding locks_ok_def by blast
  with i(3) j(3) have "ir_id a = ir_id b" by simp
  then show "a = b" by (rule in_set_distinct_key [OF ids m])
qed

section \<open>What goes wrong without it\<close>

text \<open>Histories that are carried out: events and the system they lead to.\<close>

datatype event =
    Begins uuid "uuid option" bool
  | Moves nat
  | Waits nat

fun happen :: "lib \<Rightarrow> 'r redis \<Rightarrow> event \<Rightarrow> 'r system \<Rightarrow> 'r system" where
  "happen L R (Begins sid uid locks) s = arrive sid uid locks s"
| "happen L R (Moves i) s = (if i < length (sy_procs s) then move L R i s else s)"
| "happen L R (Waits n) s = s\<lparr>sy_world := (sy_world s)\<lparr>tick := tick (sy_world s) + n\<rparr>\<rparr>"

definition play :: "lib \<Rightarrow> 'r redis \<Rightarrow> event list \<Rightarrow> 'r system \<Rightarrow> 'r system" where
  "play L R es s = fold (happen L R) es s"

lemma undisturbed_refl: "undisturbed until w (w\<lparr>tick := n\<rparr>)"
  by (auto simp: undisturbed_def delete_where_def intro!: exI [of _ "\<lambda>_. False"])

lemma happen_step: "happen L R e s = s \<or> step L R until s (happen L R e s)"
proof (cases e)
  case (Waits n)
  then show ?thesis using Elsewhere [OF undisturbed_refl] by fastforce
qed (auto intro: Arrive Move)

lemma play_steps: "(step L R until)\<^sup>*\<^sup>* s (play L R es s)"
  unfolding play_def
proof (induction es arbitrary: s)
  case (Cons e es)
  have "(step L R until)\<^sup>*\<^sup>* s (happen L R e s)"
    using happen_step [of L R e s until] by auto
  then show ?case using Cons.IH by (simp add: rtranclp_trans)
qed simp

fun orderly_play :: "lib \<Rightarrow> 'r redis \<Rightarrow> event list \<Rightarrow> 'r system \<Rightarrow> bool" where
  "orderly_play L R [] s = orderly s"
| "orderly_play L R (e # es) s = (orderly s \<and> orderly_play L R es (happen L R e s))"

lemma orderly_play_steps:
  "orderly_steps L R until s0 s \<Longrightarrow> orderly_play L R es s \<Longrightarrow> orderly_steps L R until s0 (play L R es s)"
  unfolding play_def
proof (induction es arbitrary: s)
  case (Cons e es)
  then have "orderly (happen L R e s)" by (cases es) auto
  then have "orderly_steps L R until s0 (happen L R e s)"
    using happen_step [of L R e s until] Cons.prems(1) orderly_steps.Next by metis
  with Cons show ?case by simp
qed simp

definition lock_redis :: "(string \<Rightarrow> time option) redis" where
  "lock_redis = \<lparr>r_set_nx_ex = (\<lambda>k secs t c. if alive t (c k) then (Inr False, c)
       else (Inr True, c(k \<mapsto> t + seconds secs))),
     r_delete = (\<lambda>k t c. (Inr (if alive t (c k) then 1 else 0), c(k := None))),
     r_incr = (\<lambda>k t c. (Inl ''unused'', c)), r_expire = (\<lambda>k secs t c. (Inl ''unused'', c)),
     r_ping = (\<lambda>t c. (Inr True, c))\<rparr>"

lemma lock_redis_law: "lock_law lock_redis (\<lambda>c. c)"
  by (auto simp: lock_law_def lock_redis_def split: if_splits)

definition idle_system :: "db \<Rightarrow> (string \<Rightarrow> time option) system" where
  "idle_system d = \<lparr>sy_world = \<lparr>wenv = env_ex, tick = 0, committed = d, work = d, kv = (\<lambda>_. None),
     queued = [], auth_log = [], archived = []\<rparr>, sy_procs = []\<rparr>"

definition running_count :: "uuid \<Rightarrow> 'r system \<Rightarrow> nat" where
  "running_count sid s = length (filter (\<lambda>r. ir_source_id r = sid \<and> ir_status r = ''running'') (run_list s))"

text \<open>Steps that succeed on a server that does not fail.\<close>

definition new_run :: "uuid \<Rightarrow> uuid \<Rightarrow> time \<Rightarrow> ingestion_run" where
  "new_run i sid t = \<lparr>ir_id = i, ir_source_id = sid, ir_status = ''running'', ir_started_at = t,
     ir_completed_at = None, ir_fetched_count = 0, ir_normalized_count = 0, ir_created_count = 0,
     ir_updated_count = 0, ir_duplicate_count = 0, ir_error_count = 0, ir_error_summary = []\<rparr>"

definition add_run :: "ingestion_run \<Rightarrow> db \<Rightarrow> db" where
  "add_run r d = d\<lparr>ingestion_runs := ingestion_runs d @ [r]\<rparr>"

lemma db_ok_add_run:
  "db_ok d \<Longrightarrow> ir_id r \<notin> ir_id ` set (ingestion_runs d) \<Longrightarrow> ir_source_id r \<in> so_id ` set (sources d) \<Longrightarrow>
     db_ok (add_run r d)"
  by (simp add: db_ok_unfold add_run_def)

lemma look_runs:
  assumes "find (\<lambda>x. so_id x = sid \<and> so_user_id x = u) (sources (work w)) = Some x" "so_kind x \<in> set supported_kinds"
  shows "advance L R sid (Some u) locks Looking w = (Inr Checking, w)"
  using assms by (simp add: repo_get_source_for_user_def run_simps)

lemma check_runs:
  "active_runs (work w) sid = [] \<Longrightarrow> advance L R sid uid locks Checking w = (Inr Locking, w)"
  by (simp add: repo_get_active_run_def run_simps)

lemma unlocked_runs:
  "advance L R sid uid False Locking w = (Inr (Creating (clock (wenv w) (tick w))), w)"
  by (simp add: prog_simps)

lemma create_runs:
  assumes "calm w" "db_ok (add_run (new_run (uuid_source (wenv w) (tick w)) sid (clock (wenv w) (Suc (tick w)))) (work w))"
  shows "advance L R sid uid locks (Creating t) w =
    (let r = new_run (uuid_source (wenv w) (tick w)) sid (clock (wenv w) (Suc (tick w)))
     in (Inr (Queued t r), w\<lparr>tick := tick w + 4, committed := add_run r (work w), work := add_run r (work w)\<rparr>))"
  using assms by (simp add: repo_create_run_def Let_def run_simps add_run_def new_run_def)

lemma active_runs_Nil:
  assumes "active_runs d sid = []"
  shows "filter (\<lambda>r. ir_source_id r = sid \<and> ir_status r = ''running'') (ingestion_runs d) = []"
proof -
  have "length (active_runs d sid) = 0" using assms by simp
  then show ?thesis by (simp only: active_runs_def length_sort length_0_conv)
qed

lemma move_runs:
  assumes "i < length ps" "advance L R (pr_source (ps ! i)) (pr_caller (ps ! i)) (pr_locks (ps ! i))
      (pr_stage (ps ! i)) (view w) = (Inr st, w')"
  shows "happen L R (Moves i) \<lparr>sy_world = w, sy_procs = ps\<rparr> =
    \<lparr>sy_world = w', sy_procs = ps[i := (ps ! i)\<lparr>pr_stage := st\<rparr>]\<rparr>"
  using assms by (simp add: move_def)

text \<open>Two requests of the API look for an active run before either has inserted its own.\<close>

definition two_requests :: "uuid \<Rightarrow> uuid \<Rightarrow> event list" where
  "two_requests sid u = [Begins sid (Some u) False, Begins sid (Some u) False,
     Moves 0, Moves 1, Moves 0, Moves 1, Moves 0, Moves 1, Moves 0, Moves 1]"

text \<open>
  The requests of the API take no lock, so two of them that overlap start two runs of the same
  source, both running, whenever the source is there and has no active run.
\<close>

theorem overlapping_requests:
  fixes w :: "'r world"
  defines "d \<equiv> committed w" and "i \<equiv> uuid_source (wenv w) (tick w)" and "j \<equiv> uuid_source (wenv w) (tick w + 4)"
  assumes "calm w" "db_ok d" "active_runs d sid = []"
    and x: "find (\<lambda>x. so_id x = sid \<and> so_user_id x = u) (sources d) = Some x" "so_kind x \<in> set supported_kinds"
    and fresh: "i \<notin> ir_id ` set (ingestion_runs d)" "j \<notin> ir_id ` set (ingestion_runs d)" "i \<noteq> j"
  shows "running_count sid (play L R (two_requests sid u) \<lparr>sy_world = w, sy_procs = []\<rparr>) = 2"
proof -
  let ?r = "new_run i sid (clock (wenv w) (Suc (tick w)))" and ?q = "new_run j sid (clock (wenv w) (tick w + 5))"
  have s: "sid \<in> so_id ` set (sources d)"
    using find_SomeD [OF x(1)] by auto
  have ok1: "db_ok (add_run ?r d)"
    by (rule db_ok_add_run) (use assms(5) s fresh in \<open>simp_all add: new_run_def\<close>)
  have ok: "db_ok (add_run ?r d)" "db_ok (add_run ?q (add_run ?r d))"
    by (fact ok1, rule db_ok_add_run [OF ok1]) (use s fresh in \<open>auto simp: new_run_def add_run_def\<close>)
  have none: "filter (\<lambda>r. ir_source_id r = sid \<and> ir_status r = ''running'') (ingestion_runs d) = []"
    using assms(6) by (rule active_runs_Nil)
  let ?p = "\<lambda>st. \<lparr>pr_source = sid, pr_caller = Some u, pr_locks = False, pr_stage = st\<rparr>"
  let ?S = "\<lambda>v a b. \<lparr>sy_world = v, sy_procs = [?p a, ?p b]\<rparr> :: 'r system"
  define v where "v = view w"
  define v1 where "v1 = v\<lparr>tick := tick w + 4, committed := add_run ?r d, work := add_run ?r d\<rparr>"
  define v2 where "v2 = v1\<lparr>tick := tick w + 8, committed := add_run ?q (add_run ?r d), work := add_run ?q (add_run ?r d)\<rparr>"
  have v: "view w = v" "view v = v" "view v1 = v1" "work v = d" "wenv v = wenv w" "tick v = tick w" "calm v"
      "wenv v1 = wenv w" "tick v1 = tick w + 4" "work v1 = add_run ?r d" "calm v1" "committed v2 = add_run ?q (add_run ?r d)"
    using assms(4) by (simp_all add: v_def v1_def v2_def view_def d_def)
  have a: "advance L R sid (Some u) False Looking v = (Inr Checking, v)"
      "advance L R sid (Some u) False Checking v = (Inr Locking, v)"
      "advance L R sid (Some u) False Locking v = (Inr (Creating (clock (wenv w) (tick w))), v)" for L R
    using x assms(6) v by (simp_all add: look_runs check_runs unlocked_runs del: advance.simps)
  have c1: "advance L R sid (Some u) False (Creating t) v = (Inr (Queued t ?r), v1)" for t L R
    using ok(1) v(4-7) by (subst create_runs) (simp_all add: Let_def v1_def i_def del: advance.simps)
  have c2: "advance L R sid (Some u) False (Creating t) v1 = (Inr (Queued t ?q), v2)" for t L R
    using ok(2) v(8-11) by (subst create_runs) (simp_all add: Let_def v2_def j_def add.commute del: advance.simps)
  have two: "happen L R (Begins sid (Some u) False) (happen L R (Begins sid (Some u) False)
      \<lparr>sy_world = w, sy_procs = []\<rparr>) = ?S w Looking Looking" for L R
    by (simp add: arrive_def)
  have one: "happen L R (Moves 0) (?S y e b) = ?S y' f b" "happen L R (Moves 1) (?S y b e) = ?S y' b f"
    if "advance L R sid (Some u) False e (view y) = (Inr f, y')" for L R y e f b y'
    using that by (simp_all add: move_runs del: happen.simps)
  have "play L R (two_requests sid u) \<lparr>sy_world = w, sy_procs = []\<rparr>
      = ?S v2 (Queued (clock (wenv w) (tick w)) ?r) (Queued (clock (wenv w) (tick w)) ?q)"
    by (simp add: play_def two_requests_def two one [unfolded One_nat_def] a c1 c2 v del: happen.simps advance.simps)
  with none show ?thesis by (simp add: running_count_def run_list_def v) (simp add: add_run_def new_run_def)
qed

theorem overlapping_requests_witness:
  "running_count 71 (play lib_ex no_redis (two_requests 71 1) \<lparr>sy_world = world_ex seen_db_ex, sy_procs = []\<rparr>) = 2"
proof (rule overlapping_requests)
  show "db_ok (committed (world_ex seen_db_ex))" by (simp add: db_ok_seen)
  show "active_runs (committed (world_ex seen_db_ex)) 71 = []" by (simp add: active_runs_def seen_defs)
  show "find (\<lambda>x. so_id x = 71 \<and> so_user_id x = 1) (sources (committed (world_ex seen_db_ex))) = Some source_ex"
    by (simp add: seen_defs)
  show "so_kind source_ex \<in> set supported_kinds" by (simp add: source_ex_def supported_kinds_def)
qed (simp_all add: seen_defs)

section \<open>A history with the lock\<close>

text \<open>A world around a database and a state of the lock server, with the example environment.\<close>

definition lock_world :: "nat \<Rightarrow> db \<Rightarrow> (string \<Rightarrow> time option) \<Rightarrow> (string \<Rightarrow> time option) world" where
  "lock_world t d k = \<lparr>wenv = env_ex, tick = t, committed = d, work = d, kv = k,
     queued = [], auth_log = [], archived = []\<rparr>"

lemma lock_world_simps [simp]:
  "view (lock_world t d k) = lock_world t d k" "wenv (lock_world t d k) = env_ex" "tick (lock_world t d k) = t"
  "committed (lock_world t d k) = d" "work (lock_world t d k) = d" "kv (lock_world t d k) = k"
  "calm (lock_world t d k)" "(lock_world t d k)\<lparr>tick := u\<rparr> = lock_world u d k"
  "(lock_world t d k)\<lparr>kv := l\<rparr> = lock_world t d l"
  "(lock_world t d k)\<lparr>committed := x, work := x\<rparr> = lock_world t x k"
  by (simp_all add: lock_world_def view_def calm_def env_ex_def)

definition board_ex :: source where
  "board_ex = source_ex\<lparr>so_config := [(''board'', JStr ''b'')]\<rparr>"

definition board_db :: "ingestion_run list \<Rightarrow> db" where
  "board_db rs = seen_db_ex\<lparr>sources := [board_ex], ingestion_runs := rs\<rparr>"

lemma board_db_simps [simp]:
  "sources (board_db rs) = [board_ex]" "ingestion_runs (board_db rs) = rs"
  "add_run r (board_db rs) = board_db (rs @ [r])" "(board_db rs)\<lparr>ingestion_runs := qs\<rparr> = board_db qs"
  by (simp_all add: board_db_def add_run_def)

lemma db_ok_with_runs:
  "db_ok d \<Longrightarrow> distinct (map ir_id rs) \<Longrightarrow> references ir_source_id rs (map so_id (sources d)) \<Longrightarrow>
     db_ok (d\<lparr>ingestion_runs := rs\<rparr>)"
  by (simp add: db_ok_unfold)

lemma db_ok_board:
  assumes "distinct (map ir_id rs)" "list_all (\<lambda>r. ir_source_id r = 71) rs"
  shows "db_ok (board_db rs)"
proof -
  have "db_ok (board_db [])"
    by (simp add: db_ok_unfold board_db_def board_ex_def seen_defs references_def references_opt_def)
  moreover have "references ir_source_id rs (map so_id (sources (board_db [])))"
    using assms(2) by (auto simp: references_def board_ex_def source_ex_def list_all_iff)
  ultimately show ?thesis using db_ok_with_runs [OF _ assms(1)] by fastforce
qed

text \<open>The steps of one process there: 71 is the source, 1 its owner.\<close>

abbreviation step_ex :: "stage \<Rightarrow> ((string \<Rightarrow> time option), stage) op" where
  "step_ex \<equiv> advance lib_ex lock_redis 71 (Some 1) True"

lemma look_ex: "step_ex Looking (lock_world t (board_db rs) k) = (Inr Checking, lock_world t (board_db rs) k)"
  by (rule look_runs [where x = board_ex]) (simp_all add: board_ex_def source_ex_def supported_kinds_def)

lemma check_ex:
  assumes "list_all (\<lambda>r. ir_status r \<noteq> ''running'') rs"
  shows "step_ex Checking (lock_world t (board_db rs) k) = (Inr Locking, lock_world t (board_db rs) k)"
proof (rule check_runs)
  have none: "filter (\<lambda>r. ir_source_id r = 71 \<and> ir_status r = ''running'') rs = []"
    using assms unfolding filter_empty_conv list_all_iff by blast
  show "active_runs (work (lock_world t (board_db rs) k)) 71 = []"
    unfolding active_runs_def lock_world_simps board_db_simps none by simp
qed

lemma lock_ex:
  "\<not> alive (seconds (int t)) (k (lock_key 71)) \<Longrightarrow> step_ex Locking (lock_world t d k) =
     (Inr (Creating (seconds (int t))), lock_world (Suc t) d (k(lock_key 71 \<mapsto> seconds (int t) + seconds 900)))"
  by (simp add: redis_call_def prog_simps lock_redis_def env_ex_def)

definition run_at :: "nat \<Rightarrow> ingestion_run" where
  "run_at t = new_run (1000 + t) 71 (seconds (int (Suc t)))"

lemma create_ex:
  "distinct (map ir_id (rs @ [run_at t])) \<Longrightarrow> list_all (\<lambda>r. ir_source_id r = 71) rs \<Longrightarrow>
     step_ex (Creating l) (lock_world t (board_db rs) k) =
       (Inr (Queued l (run_at t)), lock_world (t + 4) (board_db (rs @ [run_at t])) k)"
  by (subst create_runs) (simp_all add: Let_def run_at_def env_ex_def db_ok_board new_run_def)

lemma fetch_ex: "step_ex (Queued l r) (lock_world t (board_db rs) k) = (Inr (Executing l r board_ex), lock_world t (board_db rs) k)"
  by (simp add: repo_get_source_def run_simps board_ex_def source_ex_def)

text \<open>Every request fails, so the worker records the run as failed.\<close>

definition failed_at :: "nat \<Rightarrow> ingestion_run \<Rightarrow> ingestion_run" where
  "failed_at t = finished (failure_result 0 ''source request failed'') (seconds (int t))"

lemma collect_fails: "with_retries 3 (collect (greenhouse_fetch fr [(''board'', JStr ''b'')])) (lock_world t d k, [], 0)
    = (Inl (Adapter ''source request failed'' True), lock_world (t + 3) d k, [], 0)"
  by (simp add: numeral_3_eq_3 collect_def greenhouse_fetch_def int_arg_def url_arg_def get_json_def
      limiter_wait_def is_number_def ending_def no_yield_def retryable_def env_ex_def prog_simps)

lemma execute_ex:
  assumes "distinct (map ir_id [r])" "ir_source_id r = 71"
  shows "step_ex (Executing l r board_ex) (lock_world t (board_db [r]) k) =
    (Inr (Releasing l r (Inl (Adapter ''source request failed'' True))),
     lock_world (t + 6) (board_db [failed_at (t + 3) r]) k)"
proof -
  have "db_ok (board_db [failed_at (t + 3) r])"
    using assms by (intro db_ok_board) (simp_all add: failed_at_def finished_def)
  then show ?thesis
    using collect_fails
    by (simp add: board_ex_def source_ex_def adapter_for_def run_body_def fail_run_def repo_get_run_def
        finish_run_def run_simps failed_at_def env_ex_def add.commute)
qed

lemma release_ex:
  "step_ex (Releasing l r (Inl e)) (lock_world t d k) = (Inl e, lock_world (Suc t) d (k(lock_key 71 := None)))"
  by (simp add: release_lock_def redis_call_def prog_simps lock_redis_def env_ex_def)

text \<open>Three processes on the source.\<close>

definition proc_ex :: "stage \<Rightarrow> proc" where
  "proc_ex st = \<lparr>pr_source = 71, pr_caller = Some 1, pr_locks = True, pr_stage = st\<rparr>"

definition sys_ex :: "nat \<Rightarrow> ingestion_run list \<Rightarrow> time option \<Rightarrow> stage list \<Rightarrow> (string \<Rightarrow> time option) system" where
  "sys_ex t rs l sts = \<lparr>sy_world = lock_world t (board_db rs) ((\<lambda>_. None)(lock_key 71 := l)), sy_procs = map proc_ex sts\<rparr>"

lemma begin_ex: "happen lib_ex lock_redis (Begins 71 (Some 1) True) (sys_ex t rs l sts) = sys_ex t rs l (sts @ [Looking])"
  by (simp add: sys_ex_def arrive_def proc_ex_def)

lemma wait_ex: "happen lib_ex lock_redis (Waits n) (sys_ex t rs l sts) = sys_ex (t + n) rs l sts"
  by (simp add: sys_ex_def)

lemma move_ex:
  assumes "i < length sts" "sts ! i = st"
    and "step_ex st (lock_world t (board_db rs) ((\<lambda>_. None)(lock_key 71 := l)))
      = (q, lock_world u (board_db qs) ((\<lambda>_. None)(lock_key 71 := m)))"
  shows "happen lib_ex lock_redis (Moves i) (sys_ex t rs l sts) =
    sys_ex u qs m (sts[i := (case q of Inl _ \<Rightarrow> Ended | Inr st \<Rightarrow> st)])"
  using assms by (simp add: sys_ex_def move_def proc_ex_def map_update del: advance.simps One_nat_def split: prod.split)

lemmas go_look = move_ex [OF _ _ look_ex, simplified sum.case]
  and go_fetch = move_ex [OF _ _ fetch_ex, simplified sum.case]

lemma go_check:
  assumes "i < length sts" "sts ! i = Checking" "list_all (\<lambda>r. ir_status r \<noteq> ''running'') rs"
  shows "happen lib_ex lock_redis (Moves i) (sys_ex t rs l sts) = sys_ex t rs l (sts[i := Locking])"
  using move_ex [OF assms(1,2) check_ex [OF assms(3)]] by simp

lemma go_lock:
  assumes "i < length sts" "sts ! i = Locking" "\<not> alive (seconds (int t)) l"
  shows "happen lib_ex lock_redis (Moves i) (sys_ex t rs l sts) =
    sys_ex (Suc t) rs (Some (seconds (int t) + seconds 900)) (sts[i := Creating (seconds (int t))])"
  using move_ex [OF assms(1,2), of t rs l "Inr (Creating (seconds (int t)))"] assms(3)
  by (simp add: lock_ex del: advance.simps One_nat_def)

lemma go_create:
  assumes "i < length sts" "sts ! i = Creating c" "distinct (map ir_id (rs @ [run_at t]))"
    "list_all (\<lambda>r. ir_source_id r = 71) rs"
  shows "happen lib_ex lock_redis (Moves i) (sys_ex t rs l sts) =
    sys_ex (t + 4) (rs @ [run_at t]) l (sts[i := Queued c (run_at t)])"
  using move_ex [OF assms(1,2) create_ex [OF assms(3,4)]] by simp

lemma go_execute:
  assumes "i < length sts" "sts ! i = Executing c r board_ex" "ir_source_id r = 71"
  shows "happen lib_ex lock_redis (Moves i) (sys_ex t [r] l sts) = sys_ex (t + 6) [failed_at (t + 3) r] l
    (sts[i := Releasing c r (Inl (Adapter ''source request failed'' True))])"
  using move_ex [OF assms(1,2) execute_ex [OF _ assms(3)]] by simp

lemma go_release:
  assumes "i < length sts" "sts ! i = Releasing c r (Inl e)"
  shows "happen lib_ex lock_redis (Moves i) (sys_ex t rs l sts) = sys_ex (Suc t) rs None (sts[i := Ended])"
  using move_ex [OF assms, of t rs l "Inl e"] by (simp add: release_ex del: advance.simps One_nat_def)

lemma rows_ex:
  "alive x None = False" "alive x (Some e) = (x < e)" "ir_id (run_at t) = 1000 + t" "ir_source_id (run_at t) = 71"
  "ir_status (run_at t) = ''running''" "ir_id (failed_at t r) = ir_id r"
  "ir_source_id (failed_at t r) = ir_source_id r" "ir_status (failed_at t r) = ''failed''"
  by (simp_all add: alive_def run_at_def new_run_def failed_at_def finished_def failure_result_def)

lemmas go_ex = go_look go_check go_lock go_create go_fetch go_execute go_release
  begin_ex [unfolded One_nat_def] wait_ex

text \<open>
  A run takes longer than the lock lasts: another start takes the lock before the worker gives
  it back, and the worker then removes the other's lock, so that a third start takes it too.
\<close>

definition long_run :: "event list" where
  "long_run = [Begins 71 (Some 1) True, Moves 0, Moves 0, Moves 0, Moves 0, Moves 0, Waits 1000, Moves 0,
     Begins 71 (Some 1) True, Moves 1, Moves 1, Moves 1, Moves 0,
     Begins 71 (Some 1) True, Moves 2, Moves 2, Moves 2, Moves 1, Moves 2]"

theorem lock_removed_by_another:
  "\<exists>s. (step lib_ex lock_redis (\<lambda>c. c))\<^sup>*\<^sup>* (sys_ex 0 [] None []) s
     \<and> (\<forall>p\<in>set (sy_procs s). pr_locks p) \<and> running_count 71 s = 2"
proof -
  let ?s = "play lib_ex lock_redis long_run (sys_ex 0 [] None [])"
  have s: "?s = sys_ex 1022 [failed_at 1008 (run_at 1), run_at 1014, run_at 1018] (Some 1913000000)
      [Ended, Queued 1011000000 (run_at 1014), Queued 1013000000 (run_at 1018)]"
    by (simp add: play_def long_run_def go_ex rows_ex seconds_def numeral_2_eq_2 del: happen.simps)
  have "\<forall>p\<in>set (sy_procs ?s). pr_locks p" "running_count 71 ?s = 2"
    unfolding s by (simp_all add: sys_ex_def proc_ex_def running_count_def run_list_def rows_ex)
  then show ?thesis using play_steps by blast
qed

text \<open>Two starts that overlap, and the lock decides.\<close>

definition two_starts :: "event list" where
  "two_starts = [Begins 71 (Some 1) True, Begins 71 (Some 1) True, Moves 0, Moves 1, Moves 0, Moves 1,
     Moves 0, Moves 1, Moves 0]"

lemma sys_ex_parts:
  "now (sys_ex t rs l sts) = seconds (int t)" "run_list (sys_ex t rs l sts) = rs"
  "sy_procs (sys_ex t rs l sts) = map proc_ex sts"
  "pr_locks (proc_ex st)" "pr_stage (proc_ex st) = st" "pr_source (proc_ex st) = 71"
  by (simp_all add: sys_ex_def proc_ex_def now_def run_list_def env_ex_def)

lemma orderly_ex:
  "orderly (sys_ex t rs l sts) \<longleftrightarrow>
     list_all (\<lambda>st. case holding st of None \<Rightarrow> True | Some c \<Rightarrow> seconds (int t) < c + seconds 900) sts
     \<and> list_all (\<lambda>r. ir_status r = ''running'' \<longrightarrow>
          list_ex (\<lambda>st. ir_source_id r = 71 \<and> minding st = Some (ir_id r)) sts) rs"
  unfolding orderly_def sys_ex_parts list_all_iff list_ex_iff
  by (auto simp: sys_ex_parts)

lemma go_refused:
  assumes "i < length sts" "sts ! i = Locking" "alive (seconds (int t)) l"
  shows "happen lib_ex lock_redis (Moves i) (sys_ex t rs l sts) = sys_ex (Suc t) rs l (sts[i := Ended])"
proof -
  have "step_ex Locking (lock_world t (board_db rs) ((\<lambda>_. None)(lock_key 71 := l))) =
      (Inl (App (err IngestionAlreadyRunning)), lock_world (Suc t) (board_db rs) ((\<lambda>_. None)(lock_key 71 := l)))"
    using assms(3) by (simp add: redis_call_def prog_simps lock_redis_def env_ex_def)
  from move_ex [OF assms(1,2) this] show ?thesis by simp
qed

theorem locked_runs_exclusive_witness:
  "length (filter (\<lambda>r. ir_source_id r = 71 \<and> ir_status r = ''running'')
     (run_list (play lib_ex lock_redis two_starts (sys_ex 0 [] None [])))) \<le> 1"
proof (rule locked_runs_exclusive)
  show "lock_law lock_redis (\<lambda>c. c)" by (rule lock_redis_law)
  have "orderly_steps lib_ex lock_redis (\<lambda>c. c) (sys_ex 0 [] None []) (sys_ex 0 [] None [])"
    by (rule orderly_steps.Begin) (simp add: orderly_ex)
  moreover have "orderly_play lib_ex lock_redis two_starts (sys_ex 0 [] None [])"
    by (simp add: two_starts_def go_ex go_refused orderly_ex rows_ex seconds_def del: happen.simps)
  ultimately show "orderly_steps lib_ex lock_redis (\<lambda>c. c) (sys_ex 0 [] None [])
      (play lib_ex lock_redis two_starts (sys_ex 0 [] None []))"
    by (rule orderly_play_steps)
qed (simp_all add: sys_ex_def distinct_runs_def)

end
