(* ===== verification/Isolation.thy ===== *)
theory Isolation
  imports Application
begin

text \<open>
  What a call changes belongs to its caller: the rows of every other account stay as they are,
  through all the endpoints that act for an account.
\<close>

section \<open>The rows of an account\<close>

record holdings =
  ho_account :: "user list"
  ho_roles :: "user_role list"
  ho_profiles :: "preference_profile list"
  ho_sources :: "source list"
  ho_feedback :: "job_feedback list"
  ho_sessions :: "auth_session list"
  ho_codes :: "verification_code list"

definition own :: "uuid \<Rightarrow> db \<Rightarrow> holdings" where
  "own v d = \<lparr>ho_account = filter (\<lambda>x. u_id x = v) (users d),
     ho_roles = filter (\<lambda>x. ur_user_id x = v) (user_roles d),
     ho_profiles = filter (\<lambda>x. pp_user_id x = v) (preference_profiles d),
     ho_sources = filter (\<lambda>x. so_user_id x = v) (sources d),
     ho_feedback = filter (\<lambda>x. jf_user_id x = v) (job_feedbacks d),
     ho_sessions = filter (\<lambda>x. as_user_id x = v) (auth_sessions d),
     ho_codes = filter (\<lambda>x. vc_user_id x = v) (verification_codes d)\<rparr>"

definition has_own :: "uuid \<Rightarrow> holdings \<Rightarrow> db \<Rightarrow> bool" where
  "has_own v h d \<longleftrightarrow> own v d = h"

lemma filter_update_other:
  "(\<And>x. x \<in> set xs \<Longrightarrow> P x \<Longrightarrow> \<not> Q x \<and> \<not> Q (f x)) \<Longrightarrow> filter Q (update_where P f xs) = filter Q xs"
  by (induction xs) auto

lemma filter_delete_other:
  "(\<And>x. P x \<Longrightarrow> \<not> Q x) \<Longrightarrow> filter Q (delete_where P xs) = filter Q xs"
  by (induction xs) (auto simp: delete_where_def)

lemma keeps_alter_own:
  assumes "\<And>d. has_own v h d \<Longrightarrow> own v (f d) = own v d"
  shows "keeps (both (has_own v h)) (alter f)"
  by (rule keeps_safe_alter) (use assms in \<open>simp add: has_own_def\<close>)

lemma keeps_case_list [keeps_intros]:
  "keeps I a \<Longrightarrow> (\<And>x xs. keeps I (f x xs)) \<Longrightarrow> keeps I (case ys of [] \<Rightarrow> a | x # xs \<Rightarrow> f x xs)"
  by (simp split: list.split)

lemma has_own_rows:
  assumes "has_own v h d"
  shows "jf_id ` set (ho_feedback h) = jf_id ` {f \<in> set (job_feedbacks d). jf_user_id f = v}"
    and "as_id ` set (ho_sessions h) = as_id ` {s \<in> set (auth_sessions d). as_user_id s = v}"
  using assms by (auto simp: has_own_def own_def)

section \<open>The operations on rows\<close>

lemma ensure_user_own [keeps_intros]: "uid \<noteq> v \<Longrightarrow> keeps (both (has_own v h)) (ensure_user uid)"
  unfolding ensure_user_def get_user_def
  by (intro keeps_intros keeps_alter_own) (simp add: own_def bare_user_def)

lemma create_profile_own [keeps_intros]:
  "uid \<noteq> v \<Longrightarrow> keeps (both (has_own v h)) (create_profile uid n c ws)"
  unfolding create_profile_def Let_def by (intro keeps_intros keeps_alter_own) (simp add: own_def)

lemma deactivate_own [keeps_intros]: "uid \<noteq> v \<Longrightarrow> keeps (both (has_own v h)) (deactivate_active uid)"
  unfolding deactivate_active_def
  by (intro keeps_intros keeps_alter_own) (auto simp: own_def deactivated_def intro!: filter_update_other)

lemma loaded_own [keeps_intros]: "keeps (safe C I P) (loaded j)"
  unfolding loaded_def by (intro keeps_intros)

lemma active_own [keeps_intros]: "keeps (safe C I P) (repo_get_active uid)"
  unfolding repo_get_active_def by (intro keeps_intros)

lemma delete_own [keeps_intros]: "uid \<noteq> v \<Longrightarrow> keeps (both (has_own v h)) (delete_user uid)"
  unfolding delete_user_def get_user_def
  by (intro keeps_intros keeps_alter_own)
    (auto simp: own_def delete_user_cascade_def Let_def intro!: filter_delete_other)

lemma create_source_own [keeps_intros]:
  "uid \<noteq> v \<Longrightarrow> keeps (both (has_own v h)) (repo_create_source uid s)"
  unfolding repo_create_source_def Let_def by (intro keeps_intros keeps_alter_own) (simp_all add: own_def)

lemma start_run_own [keeps_intros]: "keeps (both (has_own v h)) (start_run R sid uid)"
  unfolding start_run_def repo_create_run_def Let_def repo_get_source_for_user_def repo_get_source_def
    repo_get_active_run_def
  by (intro keeps_intros keeps_alter_own) (simp add: own_def)

lemma create_match_own [keeps_intros]: "keeps (both (has_own v h)) (repo_create_match r)"
  unfolding repo_create_match_def by (intro keeps_intros keeps_alter_own) (simp add: own_def)

lemma feedback_own [keeps_intros]:
  assumes "i \<notin> jf_id ` set (ho_feedback h)"
  shows "keeps (both (has_own v h)) (alter (\<lambda>d. d\<lparr>job_feedbacks :=
    update_where (\<lambda>y. jf_id y = i) (refreshed_feedback x t) (job_feedbacks d)\<rparr>))"
  by (rule keeps_alter_own, use assms in \<open>simp add: has_own_rows own_def\<close>)
    (auto simp: refreshed_feedback_def intro!: filter_update_other)

lemma save_feedback_own [keeps_intros]:
  "jf_user_id f \<noteq> v \<Longrightarrow> keeps (both (has_own v h)) (repo_save_feedback f)"
  unfolding repo_save_feedback_def by (intro keeps_intros keeps_alter_own) (simp add: own_def)

lemma revoke_sessions_own [keeps_intros]:
  assumes "\<And>s. P s \<Longrightarrow> as_id s \<notin> as_id ` set (ho_sessions h)"
  shows "keeps (both (has_own v h)) (alter (revoke_sessions_where P now t))"
proof (rule keeps_alter_own)
  fix d :: db
  assume d: "has_own v h d"
  have "filter (\<lambda>x. as_user_id x = v) (update_where P f (auth_sessions d))
      = filter (\<lambda>x. as_user_id x = v) (auth_sessions d)"
    if "\<And>s. as_user_id (f s) = as_user_id s" for f
    using assms that unfolding has_own_rows(2) [OF d] by (intro filter_update_other) auto
  then show "own v (revoke_sessions_where P now t d) = own v d"
    by (simp add: own_def revoke_sessions_where_def)
qed

lemma revoke_tokens_own [keeps_intros]: "keeps (both (has_own v h)) (alter (revoke_tokens_where P now))"
  by (intro keeps_alter_own) (simp add: own_def revoke_tokens_where_def)

section \<open>The operations an account asks for\<close>

text \<open>An operation, given the account it acts for, leaves the rows of \<open>v\<close> alone.\<close>

definition spares :: "uuid \<Rightarrow> (uuid \<Rightarrow> ('r, 'a) op) \<Rightarrow> bool" where
  "spares v m \<longleftrightarrow> (\<forall>uid h w. uid \<noteq> v \<longrightarrow> db_ok (work w) \<longrightarrow> both (has_own v h) w
     \<longrightarrow> both (has_own v h) (snd (m uid w)))"

lemma sparesI: "(\<And>uid h. uid \<noteq> v \<Longrightarrow> keeps (both (has_own v h)) (m uid)) \<Longrightarrow> spares v m"
  by (simp add: spares_def keeps_def)

lemma keeps_then: "I (snd (m w)) \<Longrightarrow> (\<And>x. keeps I (k x)) \<Longrightarrow> I (snd (bindP m k w))"
  by (auto simp: bindP_def keeps_def split: prod.split sum.split)

lemma spares_then:
  assumes "spares v m" "\<And>uid x h. keeps (both (has_own v h)) (k uid x)"
  shows "spares v (\<lambda>uid. bindP (m uid) (k uid))"
  using assms unfolding spares_def by (metis keeps_then)

lemma row_of_another:
  assumes "distinct (map k xs)" "find P xs = Some x" "\<And>y. P y \<Longrightarrow> owner y \<noteq> v"
  shows "k x \<notin> k ` {y \<in> set xs. owner y = v}"
  using find_SomeD [OF assms(2)] in_set_distinct_key [OF assms(1), of x] assms(3) by auto

lemma query_at: "I w \<Longrightarrow> keeps I (k (f (work w))) \<Longrightarrow> I (snd (bindP (query f) k w))"
  by (simp add: run_simps keeps_at)

lemma query_or_raise:
  "I w \<Longrightarrow> I (snd (m w)) \<Longrightarrow> I (snd (bindP (query f) (\<lambda>x. if x = None then raise e else m) w))"
  by (simp add: run_simps raise_def)

lemma give_feedback_spares: "spares v (\<lambda>uid. give_feedback uid jid x)"
  unfolding spares_def
proof (intro allI impI)
  fix uid h and w :: "'r world"
  assume a: "uid \<noteq> v" "db_ok (work w)" and b: "both (has_own v h) w"
  let ?old = "find (\<lambda>f. jf_user_id f = uid \<and> jf_job_id f = jid) (job_feedbacks (work w))"
  have d: "has_own v h (work w)" using b by (simp add: both_def)
  have old: "jf_id f \<notin> jf_id ` set (ho_feedback h)" if "?old = Some f" for f
    unfolding has_own_rows(1) [OF d]
    by (rule row_of_another [OF _ that]) (use a in \<open>auto simp: db_ok_unfold\<close>)
  show "both (has_own v h) (snd (give_feedback uid jid x w))"
    unfolding give_feedback_def repo_get_visible_job_def repo_get_feedback_def
    by (rule query_or_raise [where I = "both (has_own v h)", OF b],
        rule query_at [where I = "both (has_own v h)", OF b], cases ?old)
      (use old a(1) in \<open>auto intro!: keeps_intros dest: sym\<close>)
qed

lemma revoke_session_spares: "spares v (\<lambda>uid. revoke_session S uid sid)"
  unfolding spares_def
proof (intro allI impI)
  fix uid h and w :: "'r world"
  assume a: "uid \<noteq> v" "db_ok (work w)" and b: "both (has_own v h) w"
  let ?s = "find (\<lambda>s. as_id s = sid \<and> as_user_id s = uid) (auth_sessions (work w))"
  have d: "has_own v h (work w)" using b by (simp add: both_def)
  have sid: "sid \<notin> as_id ` set (ho_sessions h)" if "?s = Some s" for s
    using row_of_another [OF _ that, of as_id as_user_id v] a find_SomeD [OF that]
    unfolding has_own_rows(2) [OF d] by (auto simp: db_ok_unfold)
  have "both (has_own v h) (snd (revoke_auth_session sid uid now (w\<lparr>tick := t\<rparr>)))" for now t
    unfolding revoke_auth_session_def repo_auth_session_def
    by (rule query_at [where I = "both (has_own v h)"], use b in \<open>simp add: both_def\<close>, cases ?s)
      (use sid in \<open>auto intro!: keeps_intros\<close>)
  then show "both (has_own v h) (snd (revoke_session S uid sid w))"
    using b by (auto simp: revoke_session_def run_simps raise_def
        intro!: keeps_then [where I = "both (has_own v h)"] keeps_intros)
qed

lemma revoke_others_spares: "spares v (\<lambda>uid. revoke_other_sessions S uid current)"
  unfolding spares_def
proof (intro allI impI)
  fix uid h and w :: "'r world"
  assume a: "uid \<noteq> v" "db_ok (work w)" and b: "both (has_own v h) w"
  have d: "has_own v h (work w)" using b by (simp add: both_def)
  have others: "as_id s \<noteq> as_id z" if "s \<in> set (live_sessions (work w) uid)" "z \<in> set (ho_sessions h)" for s z
    using that a in_set_distinct_key [of as_id "auth_sessions (work w)" s]
      has_own_rows(2) [OF d] by (auto simp: db_ok_unfold live_sessions_def dest: imageI [of z _ as_id])
  have "both (has_own v h) (snd (revoke_other_auth_sessions uid cur now (w\<lparr>tick := t\<rparr>)))" for cur now t
    unfolding revoke_other_auth_sessions_def repo_auth_sessions_def Let_def
    by (rule query_at [where I = "both (has_own v h)"], use b in \<open>simp add: both_def\<close>)
      (use others in \<open>fastforce intro!: keeps_intros\<close>)
  then show "both (has_own v h) (snd (revoke_other_sessions S uid current w))"
    using b by (auto simp: revoke_other_sessions_def run_simps raise_def split: option.split)
qed

lemma preferences_spare: "spares v (\<lambda>uid. v1_update uid p)" "spares v (\<lambda>uid. v2_update uid p)"
  unfolding v1_update_def v2_update_def v1_response_def to_v2_response_def get_latest_version_def
  by (intro sparesI keeps_intros; assumption)+

lemma match_spares: "spares v (\<lambda>uid. match_job jid uid)"
  unfolding match_job_def evaluate_def get_job_def by (intro sparesI keeps_intros)

lemma reading_spares:
  "spares v (\<lambda>uid. v1_get_active uid)" "spares v (\<lambda>uid. v2_get_active uid)"
  "spares v (\<lambda>uid. service_list_sources uid)" "spares v (\<lambda>uid. service_get_run i uid)"
  "spares v (\<lambda>uid. repo_list_jobs L uid n k f)" "spares v (\<lambda>uid. query_detail uid i)"
  "spares v (\<lambda>uid. query_latest_match uid i)" "spares v (\<lambda>uid. get_delivery i uid)"
  "spares v (\<lambda>uid. list_sessions S uid)"
  unfolding v1_get_active_def v2_get_active_def v1_response_def to_v2_response_def service_list_sources_def
    repo_list_sources_def service_get_run_def repo_get_run_for_user_def repo_list_jobs_def query_detail_def
    repo_get_visible_job_def repo_latest_match_def repo_get_feedback_def query_latest_match_def
    get_delivery_def repo_get_delivery_for_user_def list_sessions_def repo_auth_sessions_def
  by (intro sparesI keeps_intros)+

lemma acting_spares: "spares v delete_user" "spares v (\<lambda>uid. service_create_source uid s)"
  "spares v (\<lambda>uid. start_run None sid (Some uid))"
  unfolding service_create_source_def by (intro sparesI keeps_intros; assumption?)+

section \<open>The calls\<close>

text \<open>The program \<open>m\<close> finds out who is calling, and then spares the rows of everybody else.\<close>

definition acts_for_caller :: "lib \<Rightarrow> settings \<Rightarrow> credentials \<Rightarrow> uuid \<Rightarrow> ('r, 'a) op \<Rightarrow> bool" where
  "acts_for_caller L S cred v m \<longleftrightarrow>
     (\<exists>k. m = bindP (get_current_user L S cred) (\<lambda>(u, sess). k u sess (u_id u)) \<and> (\<forall>u sess. spares v (k u sess)))"

lemma acts_signed_in:
  "(\<And>u sess. spares v (k u sess)) \<Longrightarrow>
     acts_for_caller L S cred v (bindP (get_current_user L S cred) (\<lambda>(u, sess). k u sess (u_id u)))"
  by (auto simp: acts_for_caller_def)

lemma acts_request_user:
  assumes "auth_require_token S" "spares v k"
  shows "acts_for_caller L S cred v (bindP (request_user_id L S cred rq) k)"
proof -
  have id: "user_id_from_current_user S rq u = ret (u_id u)" for u :: user
    using assms(1) by (simp add: user_id_from_current_user_def split: option.split)
  have "bindP (request_user_id L S cred rq) k
      = bindP (get_current_user L S cred) (\<lambda>(u, sess). k (u_id u))"
    by (simp add: request_user_id_def bindP_assoc split_def id)
  then show ?thesis using assms(2) acts_signed_in [where k = "\<lambda>u sess. k"] by simp
qed

lemma keeps_answers [keeps_intros]:
  "keeps (safe C I P) (answer st rq b)" "keeps (safe C I P) (answer_v2 st rq b)"
  "keeps (safe C I P) (answer_page rq b n k t)" "keeps (safe C I P) no_content" "keeps (safe C I P) (user_response u)"
  unfolding answer_def answer_v2_def answer_page_def no_content_def user_response_def roles_for_user_def repo_roles_def
  by (intro keeps_intros)+

lemmas sparing = preferences_spare match_spares reading_spares acting_spares give_feedback_spares
  revoke_session_spares revoke_others_spares

lemma calls_act_for_caller:
  assumes S: "auth_require_token S" and c: "access_of (endpoint_of c) \<in> {Acting, Signed_In}"
  shows "acts_for_caller L S cred v (handle L S R m cred rq c)"
proof (cases "access_of (endpoint_of c) = Acting")
  case True
  then show ?thesis
    by (cases c) (auto simp: access_of_def route_defs intro!: acts_request_user [OF S] spares_then sparing keeps_intros)
next
  case False
  have sessions: "acts_for_caller L S cred v (sessions_route L S cred rq)"
    unfolding sessions_route_def
    by (rule acts_signed_in [where k = "\<lambda>u sess uid. bindP (list_sessions S uid) (\<lambda>ss.
        answer 200 rq (JArr (map (session_json sess) ss)))"]) (intro spares_then sparing keeps_intros)
  have others: "acts_for_caller L S cred v (revoke_other_sessions_route L S cred)"
    unfolding revoke_other_sessions_route_def
    by (rule acts_signed_in [where k = "\<lambda>u sess uid. bindP (revoke_other_sessions S uid sess) (\<lambda>_. no_content)"])
      (intro spares_then sparing keeps_intros)
  have one: "acts_for_caller L S cred v (revoke_session_route L S cred i)" for i
    unfolding revoke_session_route_def
    by (rule acts_signed_in [where k = "\<lambda>u sess uid. bindP (revoke_session S uid i) (\<lambda>_. no_content)"])
      (intro spares_then sparing keeps_intros)
  have me: "acts_for_caller L S cred v (me_route L S cred rq)"
    unfolding me_route_def
    by (rule acts_signed_in [where k = "\<lambda>u sess uid. bindP (user_response u) (\<lambda>b. answer 200 rq b)"])
      (intro sparesI keeps_intros)
  from False c show ?thesis
    by (cases c) (simp_all add: access_of_def sessions others one me)
qed

text \<open>The credentials do not resolve to the account \<open>v\<close>.\<close>

definition other_caller :: "uuid \<Rightarrow> lib \<Rightarrow> settings \<Rightarrow> credentials \<Rightarrow> 'r world \<Rightarrow> bool" where
  "other_caller v L S cred w \<longleftrightarrow>
     (case fst (get_current_user L S cred (fresh_view w)) of Inl _ \<Rightarrow> True | Inr (u, _) \<Rightarrow> u_id u \<noteq> v)"

lemma acts_at:
  assumes acts: "acts_for_caller L S cred v m" and S: "auth_require_token S"
    and c: "other_caller v L S cred w" and ok: "db_ok (committed w)"
  shows "both (has_own v (own v (committed w))) (snd (m (fresh_view w)))"
proof -
  let ?I = "both (has_own v (own v (committed w)))"
  obtain k where k: "m = bindP (get_current_user L S cred) (\<lambda>(u, sess). k u sess (u_id u))"
    and sp: "\<And>u sess. spares v (k u sess)"
    using acts by (auto simp: acts_for_caller_def)
  obtain r z where g: "get_current_user L S cred (fresh_view w) = (r, z)" by fastforce
  obtain t where z: "z = (fresh_view w)\<lparr>tick := t\<rparr>"
    using current_user_reads [OF S, of L cred] g unfolding reads_only_def by (metis snd_conv)
  have I: "?I z" by (simp add: z both_def has_own_def fresh_view_def)
  show ?thesis
  proof (cases r)
    case (Inl e)
    then show ?thesis using g I by (simp add: k bindP_def)
  next
    case (Inr p)
    obtain u sess where p: "p = (u, sess)" by fastforce
    have "u_id u \<noteq> v" using c by (simp add: other_caller_def g Inr p)
    moreover have "db_ok (work z)" using ok by (simp add: z fresh_view_def)
    ultimately have "?I (snd (k u sess (u_id u) z))"
      using sp [of u sess] I by (simp add: spares_def)
    then show ?thesis using g by (simp add: k bindP_def Inr p)
  qed
qed

lemma keeps_catch_at: "I (snd (m w)) \<Longrightarrow> (\<And>e. keeps I (h e)) \<Longrightarrow> I (snd (catchP m h w))"
  by (auto simp: catchP_def keeps_def split: prod.split sum.split)

lemma scope_at:
  assumes "both P (snd (m (fresh_view w)))"
  shows "both P (snd (session_scope m w))"
proof -
  have "both P (snd (on_sql_error m (fresh_view w)))"
    unfolding on_sql_error_def
    by (rule keeps_catch_at [where I = "both P"], rule assms) (auto intro!: keeps_intros split: exn.split)
  then show ?thesis
    by (auto simp: session_scope_def session_rollback_def fresh_view_def finallyP_def prog_simps both_def
        split: prod.split sum.split)
qed

lemma serve_own:
  assumes S: "auth_require_token S" and e: "access_of e \<in> {Acting, Signed_In}"
    and reads: "reads_own_call fw e rq" and c: "other_caller v L S (fw_bearer fw rq) w" and ok: "db_ok (committed w)"
  shows "own v (committed (snd (serve L S R fw e rq w))) = own v (committed w)"
proof -
  let ?I = "both (has_own v (own v (committed w)))" and ?cred = "fw_bearer fw rq"
  have has: "has_session e" using e by (cases e) (simp_all add: has_session_def access_of_def)
  obtain t where t: "snd (authorize L S ?cred rq e (fresh_view w)) = (fresh_view w)\<lparr>tick := t\<rparr>"
    using authorize_reads [OF S, of L ?cred rq e] unfolding reads_only_def by blast
  have I: "?I (snd (authorize L S ?cred rq e (fresh_view w)))"
    unfolding t by (simp add: both_def has_own_def fresh_view_def)
  have "?I (snd (serve L S R fw e rq w)) \<or> snd (serve L S R fw e rq w) = w"
  proof (cases "fw_read fw e rq")
    case (Unreadable vs)
    then show ?thesis by (simp add: serve_def ret_def)
  next
    case (Invalid vs)
    have "?I (snd (bindP (authorize L S ?cred rq e) (\<lambda>_. ret (handle_raised rq (RaisedValidation vs))) (fresh_view w)))"
      by (rule keeps_then [where I = ?I], rule I) (rule keeps_ret)
    then show ?thesis by (simp add: serve_def Invalid in_session_def has scope_at)
  next
    case (Valid call)
    then have "access_of (endpoint_of call) \<in> {Acting, Signed_In}" using reads e by (simp add: reads_own_call_def)
    from acts_at [OF calls_act_for_caller [OF S this] S c ok]
    have "?I (snd (handle L S R (fw_metrics fw) ?cred rq call (fresh_view w)))" .
    then have "?I (snd (bindP (handle L S R (fw_metrics fw) ?cred rq call)
        (\<lambda>(st, b). ret (json_response st b [])) (fresh_view w)))"
      by (rule keeps_then [where I = ?I]) (auto intro!: keeps_intros)
    then show ?thesis by (simp add: serve_def Valid in_session_def has scope_at)
  qed
  then show ?thesis by (auto simp: both_def has_own_def)
qed

text \<open>
  C8. With a token required, a request handled by the whole stack for a signed-in caller changes no
  row of another account: the account and its roles, profiles, sources, feedback, sessions and
  codes stay as they are, whichever of the endpoints that act for the caller it reaches, and
  whatever identifiers it names.
\<close>

theorem other_accounts_untouched:
  assumes "cors_law cors" "auth_require_token S" "find_route (rq_method rq) (rq_path rq) = Found e"
    and "access_of e \<in> {Acting, Signed_In}" "db_ok (committed w)"
    and caller: "\<And>z i. same_data w z \<Longrightarrow> other_caller v L S (fw_bearer fw (rq\<lparr>rq_request_id := Some i\<rparr>)) z"
    and reads: "\<And>i. reads_own_call fw e (rq\<lparr>rq_request_id := Some i\<rparr>)"
  shows "own v (committed (snd (http_stack L S R cors (app_router L S R fw) rq w))) = own v (committed w)"
proof -
  obtain i w1 where i: "choose_request_id rq w = (Inr i, w1)"
    by (rule choose_request_id_runs)
  let ?rq = "rq\<lparr>rq_request_id := Some i\<rparr>" and ?router = "app_router L S R fw"
  show ?thesis
    using i
  proof (cases rule: stack_cases [where L = L and S = S and R = R and cors = cors and router = ?router])
    case (refused resp w')
    then show ?thesis by (simp add: same_data_def)
  next
    case (passed w2 hs)
    have "rq_method ?rq \<noteq> ''OPTIONS''" using found_not_options [OF assms(3)] by simp
    then obtain hs' where cors: "cors (exception_layer ?router) ?rq w2
        = bindP (exception_layer ?router ?rq) (\<lambda>x. ret (add_headers hs' x)) w2"
      using assms(1) unfolding cors_law_def by blast
    have route: "?router ?rq w2 = serve L S R fw e ?rq w2"
      using docs_not_found [of "rq_path rq" "rq_method rq" e] assms(3) by (auto simp: app_router_def)
    obtain q w3 where run: "serve L S R fw e ?rq w2 = (q, w3)" by fastforce
    have w2: "committed w2 = committed w" using passed(1) by (simp add: same_data_def)
    have "own v (committed w3) = own v (committed w2)"
      using serve_own [OF assms(2,4) reads caller [OF passed(1)], of R i] assms(5) by (simp add: run w2)
    moreover have "snd (http_stack L S R cors ?router rq w) = w3"
      unfolding passed(2) cors bindP_def exception_layer_run [where router = ?router, OF route [unfolded run]]
      by (auto simp: ret_def split: sum.split prod.split)
    ultimately show ?thesis by (simp add: w2)
  qed
qed

lemma token_resolves_to_one:
  assumes "v \<noteq> 1"
  shows "other_caller v access_lib_ex S (Some (''Bearer'', ''tok'')) w"
proof -
  let ?w = "(fresh_view w)\<lparr>tick := Suc (tick (fresh_view w))\<rparr>"
  have "u_id u = 1" if "resolve_user S 1 (Some 11) ?w = (Inr (u, sess), z)" for u sess z
    using resolve_user_done(3) [OF that] .
  then have "case fst (resolve_user S 1 (Some 11) ?w) of Inl _ \<Rightarrow> True | Inr (u, _) \<Rightarrow> u_id u \<noteq> v"
    using assms by (cases "resolve_user S 1 (Some 11) ?w") (auto split: sum.split)
  then show ?thesis
    unfolding other_caller_def get_current_user_bearer [OF bearer_ex] claims_read_ex option.case token_ids_ex prod.case .
qed

theorem other_accounts_untouched_witness:
  "own 2 (committed (snd (http_stack access_lib_ex (settings_ex\<lparr>auth_require_token := True\<rparr>) downed_redis (\<lambda>app. app)
       (app_router access_lib_ex (settings_ex\<lparr>auth_require_token := True\<rparr>) downed_redis
         ((framework_ex Delete_Me)\<lparr>fw_bearer := (\<lambda>_. Some (''Bearer'', ''tok''))\<rparr>))
       ((request_ex ''/api/v1/users/me'' [] [])\<lparr>rq_method := ''DELETE''\<rparr>) (world_ex db_ex))))
     = (own 2 empty_db)\<lparr>ho_account := [user_ex 2 ''b@x''], ho_sessions := [session_ex 13 2]\<rparr>"
proof -
  let ?rq = "(request_ex ''/api/v1/users/me'' [] [])\<lparr>rq_method := ''DELETE''\<rparr>"
  let ?fw = "(framework_ex Delete_Me)\<lparr>fw_bearer := (\<lambda>_. Some (''Bearer'', ''tok''))\<rparr>"
  have "own 2 (committed (snd (http_stack access_lib_ex (settings_ex\<lparr>auth_require_token := True\<rparr>) downed_redis (\<lambda>app. app)
       (app_router access_lib_ex (settings_ex\<lparr>auth_require_token := True\<rparr>) downed_redis ?fw) ?rq (world_ex db_ex))))
     = own 2 (committed (world_ex db_ex))"
  proof (rule other_accounts_untouched)
    show "cors_law (\<lambda>app :: unit app. app)"
      unfolding cors_law_def by (intro allI disjI2 exI [of _ "[]"]) simp
    show "find_route (rq_method ?rq) (rq_path ?rq) = Found E_Delete_Me"
      by (simp add: request_ex_def) code_simp
    show "other_caller 2 access_lib_ex S (fw_bearer ?fw rq) z" for S rq and z :: "unit world"
      by (simp add: token_resolves_to_one)
  qed (simp_all add: access_of_def framework_ex_def reads_own_call_def)
  also have "own 2 (committed (world_ex db_ex))
      = (own 2 empty_db)\<lparr>ho_account := [user_ex 2 ''b@x''], ho_sessions := [session_ex 13 2]\<rparr>"
    by (simp add: own_def sample_defs)
  finally show ?thesis .
qed

end
