(* ===== verification/Backup.thy ===== *)
theory Backup
  imports Samples Text_Formats
begin

text \<open>
  \<open>app/backup/service.py\<close> and \<open>app/backup/cli.py\<close>: dumps of the database in a directory, with a
  checksum and a metadata file beside each. The host is its files and its clock. The database
  commands, the parsing of the database URL (SQLAlchemy) and SHA-256 are arguments. A file is its
  bytes and its modification time; directories are not modelled, so \<open>mkdir\<close> changes nothing.
\<close>

section \<open>Files\<close>

text \<open>A path is a directory and a name.\<close>

type_synonym path = "string \<times> string"

record stored_file =
  fl_data :: string
  fl_mtime :: time

type_synonym disk = "(path \<times> stored_file) list"

definition unlink :: "path \<Rightarrow> disk \<Rightarrow> disk" where
  "unlink p d = filter (\<lambda>(q, _). q \<noteq> p) d"

definition put_file :: "path \<Rightarrow> stored_file \<Rightarrow> disk \<Rightarrow> disk" where
  "put_file p f d = (p, f) # unlink p d"

definition path_str :: "path \<Rightarrow> string" where
  "path_str p = fst p @ ''/'' @ snd p"

text \<open>\<open>Path.with_suffix\<close>: the last dot counts unless it begins or ends the name.\<close>

definition suffix_start :: "string \<Rightarrow> nat" where
  "suffix_start name =
     (let n = length name; k = n - 1 - length (takeWhile (\<lambda>c. c \<noteq> CHR ''.'') (rev name))
      in if CHR ''.'' \<in> set name \<and> 0 < k \<and> k < n - 1 then k else n)"

definition with_suffix :: "path \<Rightarrow> string \<Rightarrow> path" where
  "with_suffix p s = (fst p, take (suffix_start (snd p)) (snd p) @ s)"

definition endswith :: "string \<Rightarrow> string \<Rightarrow> bool" where
  "endswith s t = (drop (length s - length t) s = t)"

text \<open>\<open>backup_dir.glob("*.dump")\<close>.\<close>

definition dumps_in :: "string \<Rightarrow> disk \<Rightarrow> path list" where
  "dumps_in dir d = remdups (filter (\<lambda>p. fst p = dir \<and> endswith (snd p) ''.dump'') (map fst d))"

section \<open>The host and its commands\<close>

record host =
  h_disk :: disk
  h_clock :: "nat \<Rightarrow> time"
  h_tick :: nat

datatype host_error =
    CalledProcessError "string list"
  | FileNotFoundError path
  | Invalid_Backup string
  | IndexError
  | SystemExit string

type_synonym 'a host_op = "(host_error, host, 'a) prog"

record db_url =
  ur_host :: "string option"
  ur_username :: "string option"
  ur_password :: "string option"
  ur_port :: "int option"
  ur_database :: "string option"

text \<open>
  A command gets its arguments, the environment, the instant and the files, and answers whether it
  exited with 0 and the files it leaves.
\<close>

record tools =
  tl_url :: "string \<Rightarrow> db_url"
  tl_environ :: "(string \<times> string) list"
  tl_run :: "string list \<Rightarrow> (string \<times> string) list \<Rightarrow> time \<Rightarrow> disk \<Rightarrow> bool \<times> disk"
  tl_sha256 :: "string \<Rightarrow> string"

definition host_now :: "time host_op" where
  [prog_simps]: "host_now = (\<lambda>h. (Inr (h_clock h (h_tick h)), h\<lparr>h_tick := Suc (h_tick h)\<rparr>))"

definition look_up :: "path \<Rightarrow> stored_file option host_op" where
  [prog_simps]: "look_up p = (\<lambda>h. (Inr (map_of (h_disk h) p), h))"

definition on_disk :: "(disk \<Rightarrow> disk) \<Rightarrow> unit host_op" where
  [prog_simps]: "on_disk f = (\<lambda>h. (Inr (), h\<lparr>h_disk := f (h_disk h)\<rparr>))"

definition read_bytes :: "path \<Rightarrow> string host_op" where
  "read_bytes p = bindP (look_up p) (\<lambda>f.
     case f of None \<Rightarrow> raise (FileNotFoundError p) | Some x \<Rightarrow> ret (fl_data x))"

definition write_text :: "path \<Rightarrow> string \<Rightarrow> unit host_op" where
  "write_text p s = bindP host_now (\<lambda>t. on_disk (put_file p \<lparr>fl_data = s, fl_mtime = t\<rparr>))"

definition rename_file :: "path \<Rightarrow> path \<Rightarrow> unit host_op" where
  "rename_file p q = bindP (look_up p) (\<lambda>f.
     case f of None \<Rightarrow> raise (FileNotFoundError p) | Some x \<Rightarrow> on_disk (\<lambda>d. put_file q x (unlink p d)))"

definition database_options :: "tools \<Rightarrow> string \<Rightarrow> string list \<times> (string \<times> string) list" where
  "database_options T url =
     (let u = tl_url T url in
      ([''--host'', or_default (ur_host u) ''localhost'', ''--username'', or_default (ur_username u) []]
         @ (case ur_port u of None \<Rightarrow> [] | Some p \<Rightarrow> [''--port'', str_int p]),
       (case ur_password u of None \<Rightarrow> tl_environ T
          | Some pw \<Rightarrow> (''PGPASSWORD'', pw) # filter (\<lambda>(k, _). k \<noteq> ''PGPASSWORD'') (tl_environ T))))"

definition run_command :: "tools \<Rightarrow> string list \<Rightarrow> (string \<times> string) list \<Rightarrow> unit host_op" where
  "run_command T cmd environ =
     bindP host_now (\<lambda>t.
     bindP (asks (\<lambda>h. tl_run T cmd environ t (h_disk h))) (\<lambda>(ok, d).
     bindP (on_disk (\<lambda>_. d)) (\<lambda>_.
     if ok then ret () else raise (CalledProcessError cmd))))"

section \<open>Operations (backup/service.py)\<close>

text \<open>\<open>strftime('%Y%m%dT%H%M%SZ')\<close>, of a year of four digits.\<close>

definition stamp :: "time \<Rightarrow> string" where
  "stamp t = (let (y, m, dd) = civil (day_of t); s = t mod 86400000000 div 1000000 in
     pad 4 (nat y) @ pad 2 (nat m) @ pad 2 (nat dd) @ ''T''
     @ pad 2 (nat (s div 3600)) @ pad 2 (nat (s div 60 mod 60)) @ pad 2 (nat (s mod 60)) @ ''Z'')"

definition backup_stem :: "time \<Rightarrow> string" where
  "backup_stem t = ''jobradar-'' @ stamp t"

record backup_result =
  br_dump :: path
  br_checksum :: path
  br_metadata :: path

definition remove_expired :: "time \<Rightarrow> path \<Rightarrow> nat \<Rightarrow> nat host_op" where
  "remove_expired cutoff p removed =
     bindP (look_up p) (\<lambda>f.
     case f of None \<Rightarrow> raise (FileNotFoundError p)
     | Some x \<Rightarrow>
         if fl_mtime x < cutoff then
           bindP (on_disk (\<lambda>d. fold unlink [p, with_suffix p ''.sha256'', with_suffix p ''.json''] d)) (\<lambda>_.
           ret (removed + 1))
         else ret removed)"

definition cleanup_backups :: "string \<Rightarrow> int \<Rightarrow> time option \<Rightarrow> nat host_op" where
  "cleanup_backups dir retention_days now =
     bindP (case now of None \<Rightarrow> host_now | Some t \<Rightarrow> ret t) (\<lambda>t.
     let cutoff = t - days retention_days in
     bindP (asks (\<lambda>h. dumps_in dir (h_disk h))) (\<lambda>ps.
     foldP (\<lambda>n p. remove_expired cutoff p n) 0 ps))"

definition metadata_text :: "time \<Rightarrow> string option \<Rightarrow> string \<Rightarrow> nat \<Rightarrow> string" where
  "metadata_text t database sha bytes =
     json_indented (\<lambda>_. []) [(''created_at'', JStr (isoformat t)), (''database'', jstr_opt database),
       (''format'', JStr ''custom''), (''sha256'', JStr sha), (''size_bytes'', JInt (int bytes))] @ [CHR 0x0A]"

definition checksum_text :: "string \<Rightarrow> string \<Rightarrow> string" where
  "checksum_text sha name = sha @ ''  '' @ name @ [CHR 0x0A]"

definition backup_once :: "tools \<Rightarrow> settings \<Rightarrow> time option \<Rightarrow> backup_result host_op" where
  "backup_once T S now =
     bindP (case now of None \<Rightarrow> host_now | Some t \<Rightarrow> ret t) (\<lambda>t.
     let dir = backup_dir S; stem = backup_stem t;
         dump = (dir, stem @ ''.dump''); temporary = (dir, stem @ ''.dump.tmp'');
         checksum = (dir, stem @ ''.sha256''); metadata = (dir, stem @ ''.json'');
         (options, environ) = database_options T (database_url S);
         database = ur_database (tl_url T (database_url S)) in
     bindP (run_command T ([''pg_dump'', ''--format=custom'', ''--file'', path_str temporary] @ options
              @ [or_default database []]) environ) (\<lambda>_.
     bindP (run_command T [''pg_restore'', ''--list'', path_str temporary] environ) (\<lambda>_.
     bindP (rename_file temporary dump) (\<lambda>_.
     bindP (read_bytes dump) (\<lambda>content.
     let sha = tl_sha256 T content in
     bindP (write_text checksum (checksum_text sha (snd dump))) (\<lambda>_.
     bindP (read_bytes dump) (\<lambda>content'.
     bindP (write_text metadata (metadata_text t database sha (length content'))) (\<lambda>_.
     bindP (cleanup_backups dir (backup_retention_days S) (Some t)) (\<lambda>_.
     ret \<lparr>br_dump = dump, br_checksum = checksum, br_metadata = metadata\<rparr>)))))))))"

definition require_dump :: "path \<Rightarrow> string host_op" where
  "require_dump p = bindP (look_up p) (\<lambda>f.
     case f of None \<Rightarrow> raise (Invalid_Backup ''backup dump is missing or empty'')
     | Some x \<Rightarrow> if fl_data x = [] then raise (Invalid_Backup ''backup dump is missing or empty'')
                 else ret (fl_data x))"

definition verify_backup :: "tools \<Rightarrow> path \<Rightarrow> string \<Rightarrow> string host_op" where
  "verify_backup T dump url =
     bindP (require_dump dump) (\<lambda>_.
     let (options, environ) = database_options T url in
     bindP (run_command T [''pg_restore'', ''--list'', path_str dump] environ) (\<lambda>_.
     bindP (read_bytes dump) (\<lambda>content.
     let sha = tl_sha256 T content in
     bindP (look_up (with_suffix dump ''.sha256'')) (\<lambda>c.
     case c of None \<Rightarrow> ret sha
     | Some f \<Rightarrow> (case split_ws (fl_data f) of
         [] \<Rightarrow> raise IndexError
       | expected # _ \<Rightarrow> if expected \<noteq> sha then raise (Invalid_Backup ''backup checksum mismatch'')
                         else ret sha)))))"

definition restore_backup :: "tools \<Rightarrow> path \<Rightarrow> string \<Rightarrow> unit host_op" where
  "restore_backup T dump url =
     bindP (require_dump dump) (\<lambda>_.
     let (options, environ) = database_options T url in
     run_command T ([''pg_restore'', ''--exit-on-error'', ''--no-owner''] @ options
       @ [''--dbname'', or_default (ur_database (tl_url T url)) [], path_str dump]) environ)"

text \<open>\<open>backup/cli.py\<close>: the printed line, if any.\<close>

definition backup_cli :: "tools \<Rightarrow> settings \<Rightarrow> (string \<Rightarrow> path) \<Rightarrow> string list \<Rightarrow> string option host_op" where
  "backup_cli T S parse_path args =
     (let operation = (case args of [] \<Rightarrow> ''backup'' | a # _ \<Rightarrow> a) in
      if operation = ''backup'' then bindP (backup_once T S None) (\<lambda>r. ret (Some (path_str (br_dump r))))
      else if operation = ''verify'' \<and> 1 < length args then
        bindP (verify_backup T (parse_path (args ! 1)) (database_url S)) (\<lambda>d. ret (Some d))
      else if operation = ''restore'' \<and> 1 < length args then
        bindP (restore_backup T (parse_path (args ! 1)) (database_url S)) (\<lambda>_. ret None)
      else raise (SystemExit ''Usage: backup | verify BACKUP | restore BACKUP''))"

end
