(* ===== verification/Backup_Facts.thy ===== *)
theory Backup_Facts
  imports Backup
begin

text \<open>
  What the backup operations promise: retention removes expired dumps with their companions and
  nothing else, a failed dump leaves the directory as it was, and a finished backup verifies until
  its bytes change.
\<close>

section \<open>Files\<close>

lemma bindP_asks [run_simps]: "bindP (asks f) k s = k (f s) s"
  by (simp add: prog_simps)

lemma map_of_unlink [simp]: "map_of (unlink q d) p = (if p = q then None else map_of d p)"
  by (induction d) (auto simp: unlink_def)

lemma map_of_put_file [simp]: "map_of (put_file q f d) p = (if p = q then Some f else map_of d p)"
  by (simp add: put_file_def)

lemma map_of_unlinks: "map_of (fold unlink ps d) q = (if q \<in> set ps then None else map_of d q)"
  by (induction ps arbitrary: d) simp_all

lemma suffix_start_dot:
  assumes "x \<noteq> []" "CHR ''.'' \<notin> set y" "y \<noteq> []"
  shows "suffix_start (x @ CHR ''.'' # y) = length x"
proof -
  have "takeWhile (\<lambda>c. c \<noteq> CHR ''.'') (rev y @ [CHR ''.''] @ rev x) = rev y"
    using assms(2) by (subst takeWhile_append2) auto
  then show ?thesis
    using assms(1,3) by (simp add: suffix_start_def Let_def)
qed

lemma with_suffix_dump:
  assumes "x \<noteq> []"
  shows "with_suffix (dir, x @ ''.dump'') s = (dir, x @ s)"
  using suffix_start_dot [OF assms, of "''dump''"] by (simp add: with_suffix_def)

lemma with_suffix_bare: "with_suffix (dir, ''.dump'') s = (dir, ''.dump'' @ s)"
  by (simp add: with_suffix_def suffix_start_def Let_def)

lemma endswith_iff: "endswith s t \<longleftrightarrow> (\<exists>x. s = x @ t)"
  unfolding endswith_def by (metis append_take_drop_id append_eq_conv_conj diff_add_inverse2 length_append)

lemma dump_name_cases:
  assumes "endswith (snd p) ''.dump''"
  obtains "snd p = ''.dump''" | x where "x \<noteq> []" "snd p = x @ ''.dump''"
  using assms by (metis append_Nil endswith_iff)

lemma companion_not_dump:
  assumes "endswith (snd p) ''.dump''" "s \<in> {''.sha256'', ''.json''}"
  shows "\<not> endswith (snd (with_suffix p s)) ''.dump''"
  using assms by (cases rule: dump_name_cases; cases p) (auto simp: with_suffix_dump with_suffix_bare endswith_def)

section \<open>Retention\<close>

definition companions :: "path \<Rightarrow> path list" where
  "companions p = [p, with_suffix p ''.sha256'', with_suffix p ''.json'']"

definition is_expired :: "time \<Rightarrow> disk \<Rightarrow> path \<Rightarrow> bool" where
  "is_expired cutoff d p = (case map_of d p of None \<Rightarrow> False | Some f \<Rightarrow> fl_mtime f < cutoff)"

lemma dump_companion:
  "endswith (snd q) ''.dump'' \<Longrightarrow> endswith (snd p) ''.dump'' \<Longrightarrow> q \<in> set (companions p) \<longleftrightarrow> q = p"
  using companion_not_dump [of p] by (auto simp: companions_def)

lemma remove_all:
  assumes "distinct ps" "\<forall>p \<in> set ps. endswith (snd p) ''.dump'' \<and> map_of (h_disk h) p \<noteq> None"
  shows "foldP (\<lambda>n p. remove_expired cutoff p n) k ps h =
    (Inr (k + length (filter (is_expired cutoff (h_disk h)) ps)),
     h\<lparr>h_disk := fold unlink (concat (map companions (filter (is_expired cutoff (h_disk h)) ps))) (h_disk h)\<rparr>)"
  using assms
proof (induction ps arbitrary: h k)
  case Nil
  then show ?case by (simp add: ret_def)
next
  case (Cons p ps)
  obtain f where f: "map_of (h_disk h) p = Some f"
    using Cons.prems(2) by auto
  show ?case
  proof (cases "fl_mtime f < cutoff")
    case False
    then have "is_expired cutoff (h_disk h) p = False"
      using f by (simp add: is_expired_def)
    then show ?thesis
      using Cons.IH [of h k] Cons.prems f False by (simp add: remove_expired_def run_simps prog_simps)
  next
    case True
    let ?h = "h\<lparr>h_disk := fold unlink (companions p) (h_disk h)\<rparr>"
    have same: "map_of (h_disk ?h) q = map_of (h_disk h) q" if "q \<in> set ps" for q
      using dump_companion [of q p] Cons.prems that by (auto simp: map_of_unlinks)
    then have "filter (is_expired cutoff (h_disk ?h)) ps = filter (is_expired cutoff (h_disk h)) ps"
      by (intro filter_cong) (simp_all add: is_expired_def)
    moreover have "is_expired cutoff (h_disk h) p"
      using f True by (simp add: is_expired_def)
    ultimately show ?thesis
      using Cons.IH [of ?h "k + 1"] Cons.prems f True same
      by (simp add: remove_expired_def companions_def run_simps prog_simps)
  qed
qed

lemma cleanup_runs:
  "cleanup_backups dir n (Some t) h =
     (Inr (length (filter (is_expired (t - days n) (h_disk h)) (dumps_in dir (h_disk h)))),
      h\<lparr>h_disk := fold unlink (concat (map companions
        (filter (is_expired (t - days n) (h_disk h)) (dumps_in dir (h_disk h))))) (h_disk h)\<rparr>)"
proof -
  have "distinct (dumps_in dir (h_disk h))"
    "\<forall>p \<in> set (dumps_in dir (h_disk h)). endswith (snd p) ''.dump'' \<and> map_of (h_disk h) p \<noteq> None"
    by (auto simp: dumps_in_def map_of_eq_None_iff)
  from remove_all [OF this, of "t - days n" 0] show ?thesis
    unfolding cleanup_backups_def option.case bindP_ret Let_def bindP_asks by simp
qed

lemma set_expired:
  "p \<in> set (filter (is_expired c d) (dumps_in dir d)) \<longleftrightarrow>
     fst p = dir \<and> endswith (snd p) ''.dump'' \<and> (\<exists>f. map_of d p = Some f \<and> fl_mtime f < c)"
  by (auto simp: dumps_in_def is_expired_def map_of_eq_None_iff image_iff split: option.splits)
    (metis fst_conv map_of_SomeD)+

text \<open>
  Retention always ends and is exact: it counts and removes the dumps of the directory that were
  modified before the cutoff, each with its checksum and its metadata file, and leaves every other
  file as it was, other dumps and other directories included.
\<close>

theorem cleanup_exact:
  "\<exists>h'. let expired = {p. fst p = dir \<and> endswith (snd p) ''.dump''
              \<and> (\<exists>f. map_of (h_disk h) p = Some f \<and> fl_mtime f < t - days n)}
        in cleanup_backups dir n (Some t) h = (Inr (card expired), h')
          \<and> (\<forall>q. map_of (h_disk h') q =
               (if \<exists>p \<in> expired. q \<in> {p, with_suffix p ''.sha256'', with_suffix p ''.json''} then None
                else map_of (h_disk h) q))"
proof -
  let ?old = "filter (is_expired (t - days n) (h_disk h)) (dumps_in dir (h_disk h))"
  have old: "{p. fst p = dir \<and> endswith (snd p) ''.dump''
      \<and> (\<exists>f. map_of (h_disk h) p = Some f \<and> fl_mtime f < t - days n)} = set ?old"
    using set_expired by blast
  have "length ?old = card (set ?old)"
    by (rule distinct_card [symmetric]) (simp add: dumps_in_def)
  then show ?thesis
    unfolding Let_def old cleanup_runs
    by (intro exI conjI, simp) (auto simp: map_of_unlinks companions_def simp del: set_filter)
qed

lemma cleanup_keeps_recent:
  assumes "map_of (h_disk h) p = Some f" "endswith (snd p) ''.dump''" "t - days n \<le> fl_mtime f"
  shows "map_of (h_disk (snd (cleanup_backups dir n (Some t) h))) p = Some f"
proof -
  have "p \<notin> set (companions q)" if "q \<in> set (filter (is_expired (t - days n) (h_disk h)) (dumps_in dir (h_disk h)))" for q
    using that assms dump_companion [of p q] unfolding set_expired by auto
  then show ?thesis
    using assms(1) by (auto simp: cleanup_runs map_of_unlinks)
qed

section \<open>A backup and its verification\<close>

text \<open>A path whose name is one component, as every path of the program is: its text names it.\<close>

definition valid_path :: "path \<Rightarrow> bool" where
  "valid_path p = (CHR ''/'' \<notin> set (snd p))"

text \<open>
  What the program relies on in the database commands: \<open>pg_dump --file\<close> writes that file alone,
  \<open>pg_restore --list\<close> writes nothing and accepts a file by its bytes.
\<close>

definition dump_law :: "tools \<Rightarrow> bool" where
  "dump_law T = (\<forall>p opts e t d q. valid_path p \<and> valid_path q \<and> q \<noteq> p \<longrightarrow>
     map_of (snd (tl_run T ([''pg_dump'', ''--format=custom'', ''--file'', path_str p] @ opts) e t d)) q = map_of d q)"

definition list_law :: "tools \<Rightarrow> (string \<Rightarrow> bool) \<Rightarrow> bool" where
  "list_law T readable = (\<forall>p e t d. valid_path p \<longrightarrow>
     tl_run T [''pg_restore'', ''--list'', path_str p] e t d =
       ((case map_of d p of None \<Rightarrow> False | Some f \<Rightarrow> readable (fl_data f)), d))"

lemma digits_plain: "CHR ''/'' \<notin> set (nat_to_base 10 n) \<and> CHR ''.'' \<notin> set (nat_to_base 10 n)"
proof (induction "10::nat" n rule: nat_to_base.induct)
  case (1 n)
  have plain: "c \<noteq> digit_char k" if "k < 10" "of_char c < (48 :: nat)" for c k
  proof
    assume "c = digit_char k"
    then have "(of_char c :: nat) = of_char (digit_char k)"
      by simp
    then show False
      using that by (simp add: of_digit_char)
  qed
  have "CHR ''/'' \<noteq> digit_char k \<and> CHR ''.'' \<noteq> digit_char k" if "k < 10" for k
    using plain [OF that, of "CHR ''/''"] plain [OF that, of "CHR ''.''"] by simp
  then show ?case
    using 1 by (subst (1 2) nat_to_base.simps) auto
qed

lemma pad_plain: "CHR ''/'' \<notin> set (pad k n)" "CHR ''.'' \<notin> set (pad k n)"
  by (simp_all add: pad_def Let_def digits_plain)

lemma backup_stem_plain: "CHR ''/'' \<notin> set (backup_stem t)" "CHR ''.'' \<notin> set (backup_stem t)" "backup_stem t \<noteq> []"
  by (simp_all add: backup_stem_def stamp_def pad_plain Let_def split: prod.split)

lemma backup_valid [simp]: "CHR ''/'' \<notin> set s \<Longrightarrow> valid_path (dir, backup_stem t @ s)"
  by (simp add: valid_path_def backup_stem_plain)

lemma run_command_run:
  "run_command T cmd e h =
     (if fst (tl_run T cmd e (h_clock h (h_tick h)) (h_disk h)) then Inr () else Inl (CalledProcessError cmd),
      h\<lparr>h_tick := Suc (h_tick h), h_disk := snd (tl_run T cmd e (h_clock h (h_tick h)) (h_disk h))\<rparr>)"
  by (auto simp: run_command_def prog_simps split: prod.splits)

lemma bindP_run_command [run_simps]:
  "bindP (run_command T cmd e) k h =
     (if fst (tl_run T cmd e (h_clock h (h_tick h)) (h_disk h))
      then k () (h\<lparr>h_tick := Suc (h_tick h), h_disk := snd (tl_run T cmd e (h_clock h (h_tick h)) (h_disk h))\<rparr>)
      else (Inl (CalledProcessError cmd),
        h\<lparr>h_tick := Suc (h_tick h), h_disk := snd (tl_run T cmd e (h_clock h (h_tick h)) (h_disk h))\<rparr>))"
  by (simp add: bindP_def run_command_run)

lemma file_steps [run_simps]:
  "map_of (h_disk h) p = Some f \<Longrightarrow> bindP (read_bytes p) k h = k (fl_data f) h"
  "bindP (write_text p s) k' h = k' () (h\<lparr>h_tick := Suc (h_tick h),
     h_disk := put_file p \<lparr>fl_data = s, fl_mtime = h_clock h (h_tick h)\<rparr> (h_disk h)\<rparr>)"
  "map_of (h_disk h) p = Some f \<Longrightarrow> bindP (rename_file p q) k' h
     = k' () (h\<lparr>h_disk := put_file q f (unlink p (h_disk h))\<rparr>)"
  by (simp_all add: read_bytes_def write_text_def rename_file_def prog_simps)

text \<open>What is left of the dump that was just written, its checksum included.\<close>

lemma companion_of_dump:
  assumes "endswith (snd q) ''.dump''" "CHR ''.'' \<notin> set x" "x \<noteq> []" and c: "(dir, x @ ''.sha256'') \<in> set (companions q)"
  shows "q = (dir, x @ ''.dump'')"
proof -
  obtain d nm where q: "q = (d, nm)" by fastforce
  show ?thesis
    using assms(1)
  proof (cases rule: dump_name_cases)
    case 1
    then show ?thesis
      using c assms(2,3) by (cases x) (auto simp: q companions_def with_suffix_bare)
  next
    case (2 y)
    then show ?thesis
      using c by (auto simp: q companions_def with_suffix_dump)
  qed
qed

text \<open>Where the files of a backup at \<open>t\<close> are.\<close>

definition backup_path :: "settings \<Rightarrow> time \<Rightarrow> string \<Rightarrow> path" where
  "backup_path S t suffix = (backup_dir S, backup_stem t @ suffix)"

lemma backup_path_inject [simp]: "backup_path S t x = backup_path S t y \<longleftrightarrow> x = y"
  and backup_path_valid [simp]: "CHR ''/'' \<notin> set x \<Longrightarrow> valid_path (backup_path S t x)"
  and with_suffix_backup [simp]: "with_suffix (backup_path S t ''.dump'') x = backup_path S t x"
  by (simp_all add: backup_path_def with_suffix_dump backup_stem_plain)

definition after_writes :: "tools \<Rightarrow> settings \<Rightarrow> time \<Rightarrow> stored_file \<Rightarrow> time \<Rightarrow> time \<Rightarrow> disk \<Rightarrow> disk" where
  "after_writes T S t f t1 t2 d =
     put_file (backup_path S t ''.json'')
       \<lparr>fl_data = metadata_text t (ur_database (tl_url T (database_url S))) (tl_sha256 T (fl_data f)) (length (fl_data f)),
        fl_mtime = t2\<rparr>
     (put_file (backup_path S t ''.sha256'')
       \<lparr>fl_data = checksum_text (tl_sha256 T (fl_data f)) (backup_stem t @ ''.dump''), fl_mtime = t1\<rparr>
     (put_file (backup_path S t ''.dump'') f (unlink (backup_path S t ''.dump.tmp'') d)))"

lemma host_update_order [simp]: "h\<lparr>h_disk := d, h_tick := t\<rparr> = h\<lparr>h_tick := t, h_disk := d\<rparr>"
  by simp

lemma backup_cases:
  assumes laws: "dump_law T" "list_law T readable"
  obtains (fails) e h' where "backup_once T S (Some t) h = (Inl e, h')"
      "\<And>p. valid_path p \<Longrightarrow> p \<noteq> backup_path S t ''.dump.tmp'' \<Longrightarrow> map_of (h_disk h') p = map_of (h_disk h) p"
  | (ends) f d t1 t2 h2 where "readable (fl_data f)" "h_disk h2 = after_writes T S t f t1 t2 d"
      "backup_once T S (Some t) h = bindP (cleanup_backups (backup_dir S) (backup_retention_days S) (Some t)) (\<lambda>_.
         ret \<lparr>br_dump = backup_path S t ''.dump'', br_checksum = backup_path S t ''.sha256'',
              br_metadata = backup_path S t ''.json''\<rparr>) h2"
proof -
  let ?tmp = "backup_path S t ''.dump.tmp''"
  obtain opts environ where opts: "database_options T (database_url S) = (opts, environ)" by fastforce
  let ?cmd = "[''pg_dump'', ''--format=custom'', ''--file'', path_str ?tmp] @ (opts @ [or_default (ur_database (tl_url T (database_url S))) []])"
  obtain ok d where dump: "tl_run T ?cmd environ (h_clock h (h_tick h)) (h_disk h) = (ok, d)" by fastforce
  have d: "map_of d p = map_of (h_disk h) p" if "valid_path p" "p \<noteq> ?tmp" for p
    using laws(1) [unfolded dump_law_def, rule_format, of ?tmp p
        "opts @ [or_default (ur_database (tl_url T (database_url S))) []]" environ "h_clock h (h_tick h)" "h_disk h"] that dump
    by simp
  have list: "tl_run T [''pg_restore'', ''--list'', path_str ?tmp] environ t' d =
      ((case map_of d ?tmp of None \<Rightarrow> False | Some f \<Rightarrow> readable (fl_data f)), d)" for t'
    by (rule laws(2) [unfolded list_law_def, rule_format]) simp
  let ?h = "h\<lparr>h_tick := Suc (h_tick h), h_disk := d\<rparr>"
  let ?h2 = "h\<lparr>h_tick := Suc (Suc (h_tick h)), h_disk := d\<rparr>"
  note paths = backup_path_def [symmetric, of S t "''.dump''"] backup_path_def [symmetric, of S t "''.dump.tmp''"]
    backup_path_def [symmetric, of S t "''.sha256''"] backup_path_def [symmetric, of S t "''.json''"]
  define rest where "rest = bindP (rename_file ?tmp (backup_path S t ''.dump'')) (\<lambda>_.
     bindP (read_bytes (backup_path S t ''.dump'')) (\<lambda>content.
     bindP (write_text (backup_path S t ''.sha256'') (checksum_text (tl_sha256 T content) (backup_stem t @ ''.dump''))) (\<lambda>_.
     bindP (read_bytes (backup_path S t ''.dump'')) (\<lambda>content'.
     bindP (write_text (backup_path S t ''.json'')
       (metadata_text t (ur_database (tl_url T (database_url S))) (tl_sha256 T content) (length content'))) (\<lambda>_.
     bindP (cleanup_backups (backup_dir S) (backup_retention_days S) (Some t)) (\<lambda>_.
     ret \<lparr>br_dump = backup_path S t ''.dump'', br_checksum = backup_path S t ''.sha256'',
       br_metadata = backup_path S t ''.json''\<rparr>))))))"
  have run: "backup_once T S (Some t) h = bindP (run_command T ?cmd environ) (\<lambda>_.
      bindP (run_command T [''pg_restore'', ''--list'', path_str ?tmp] environ) (\<lambda>_. rest)) h"
    unfolding rest_def backup_once_def Let_def option.case bindP_ret opts paths by (simp add: backup_path_def)
  consider "\<not> ok" | "ok" "map_of d ?tmp = None" | f where "ok" "map_of d ?tmp = Some f" "\<not> readable (fl_data f)"
    | f where "ok" "map_of d ?tmp = Some f" "readable (fl_data f)"
    by fastforce
  then show thesis
  proof cases
    case 1
    show thesis
      by (rule fails [of "CalledProcessError ?cmd" ?h])
        (use 1 d in \<open>simp_all only: run bindP_def run_command_run dump, simp_all\<close>)
  next
    case 2
    show thesis
      by (rule fails [of "CalledProcessError [''pg_restore'', ''--list'', path_str ?tmp]" ?h2])
        (use 2 d in \<open>simp_all only: run bindP_def run_command_run dump, simp_all add: list\<close>)
  next
    case (3 f)
    show thesis
      by (rule fails [of "CalledProcessError [''pg_restore'', ''--list'', path_str ?tmp]" ?h2])
        (use 3 d in \<open>simp_all only: run bindP_def run_command_run dump, simp_all add: list\<close>)
  next
    case (4 f)
    have "backup_once T S (Some t) h = rest ?h2"
      using 4 by (simp only: run bindP_def run_command_run dump) (simp add: list)
    also have "rest ?h2 = bindP (cleanup_backups (backup_dir S) (backup_retention_days S) (Some t)) (\<lambda>_.
         ret \<lparr>br_dump = backup_path S t ''.dump'', br_checksum = backup_path S t ''.sha256'',
              br_metadata = backup_path S t ''.json''\<rparr>)
       (?h2\<lparr>h_tick := Suc (Suc (h_tick ?h2)),
            h_disk := after_writes T S t f (h_clock h (h_tick ?h2)) (h_clock h (Suc (h_tick ?h2))) d\<rparr>)"
      using 4(2) by (simp add: rest_def file_steps after_writes_def)
    finally show thesis
      by (rule ends [where d = d and ?t1.0 = "h_clock h (Suc (Suc (h_tick h)))"
            and ?t2.0 = "h_clock h (Suc (Suc (Suc (h_tick h))))", OF 4(3), rotated]) simp
  qed
qed


lemma split_ws_word: "\<forall>c \<in> set s. \<not> is_space c \<Longrightarrow> is_space x \<Longrightarrow> s \<noteq> [] \<or> w \<noteq> [] \<Longrightarrow>
    split_ws_aux w (s @ x # r) = (rev w @ s) # split_ws_aux [] r"
  by (induction s arbitrary: w) auto

lemma checksum_word:
  "sha \<noteq> [] \<Longrightarrow> \<forall>c \<in> set sha. \<not> is_space c \<Longrightarrow> \<exists>ws. split_ws (checksum_text sha name) = sha # ws"
  using split_ws_word [of sha "CHR '' ''" "[]" "'' '' @ name @ [CHR 0x0A]"]
  by (simp add: split_ws_def checksum_text_def is_space_def)

text \<open>What \<open>verify_backup\<close> answers for a readable dump beside its checksum.\<close>

lemma verify_run:
  assumes law: "list_law T readable" and p: "valid_path p" and f: "map_of (h_disk h) p = Some f" "fl_data f \<noteq> []"
    and c: "map_of (h_disk h) (with_suffix p ''.sha256'') = Some g" "split_ws (fl_data g) = expected # ws"
  shows "fst (verify_backup T p url h) =
    (if \<not> readable (fl_data f) then Inl (CalledProcessError [''pg_restore'', ''--list'', path_str p])
     else if expected \<noteq> tl_sha256 T (fl_data f) then Inl (Invalid_Backup ''backup checksum mismatch'')
     else Inr (tl_sha256 T (fl_data f)))"
proof -
  have "tl_run T [''pg_restore'', ''--list'', path_str p] e t (h_disk h) = (readable (fl_data f), h_disk h)" for e t
    using law [unfolded list_law_def, rule_format, OF p] f(1) by simp
  then show ?thesis
    using f c by (simp add: verify_backup_def require_dump_def read_bytes_def run_command_run prog_simps Let_def split: prod.split)
qed

text \<open>
  C34. A backup that was made and not yet expired verifies: the answer is the digest of its bytes.
  When the bytes of the dump change to others with another digest, verification raises.
\<close>

theorem backup_verifies:
  assumes laws: "dump_law T" "list_law T readable"
    and sha: "\<forall>x. tl_sha256 T x \<noteq> [] \<and> (\<forall>c \<in> set (tl_sha256 T x). \<not> is_space c)"
    and run: "backup_once T S (Some t) h = (Inr b, h')"
    and f: "map_of (h_disk h') (br_dump b) = Some f" "fl_data f \<noteq> []"
  shows "fst (verify_backup T (br_dump b) url h') = Inr (tl_sha256 T (fl_data f))
    \<and> (\<forall>h2 g. map_of (h_disk h2) (br_dump b) = Some g \<and> fl_data g \<noteq> []
         \<and> map_of (h_disk h2) (br_checksum b) = map_of (h_disk h') (br_checksum b)
         \<and> tl_sha256 T (fl_data g) \<noteq> tl_sha256 T (fl_data f)
         \<longrightarrow> (\<exists>e. fst (verify_backup T (br_dump b) url h2) = Inl e))"
  using laws
proof (cases rule: backup_cases [where S = S and t = t and h = h])
  case (fails e h'')
  then show ?thesis
    using run by simp
next
  case (ends d0 d t1 t2 h2)
  let ?dump = "backup_path S t ''.dump''" and ?sum = "backup_path S t ''.sha256''"
  define gone where "gone = concat (map companions (filter (is_expired (t - days (backup_retention_days S)) (h_disk h2))
     (dumps_in (backup_dir S) (h_disk h2))))"
  have b: "br_dump b = ?dump" "br_checksum b = ?sum" and h': "h_disk h' = fold unlink gone (h_disk h2)"
    using run by (auto simp: ends(3) gone_def bindP_result [where m = "cleanup_backups (backup_dir S) (backup_retention_days S) (Some t)", OF cleanup_runs]
        ret_def)
  have kept: "?dump \<notin> set gone" and d0: "d0 = f"
    using f(1) by (auto simp: b h' map_of_unlinks ends(2) after_writes_def split: if_splits)
  have "?sum \<notin> set gone"
  proof
    assume "?sum \<in> set gone"
    then obtain q where q: "q \<in> set (filter (is_expired (t - days (backup_retention_days S)) (h_disk h2))
        (dumps_in (backup_dir S) (h_disk h2)))" "?sum \<in> set (companions q)"
      by (auto simp: gone_def)
    then have "q = ?dump"
      using companion_of_dump [of q "backup_stem t" "backup_dir S"] backup_stem_plain set_expired
      by (simp add: backup_path_def)
    then have "?dump \<in> set (companions q)"
      by (simp add: companions_def)
    with q(1) kept show False
      by (simp only: gone_def set_concat set_map) blast
  qed
  then obtain g where g: "map_of (h_disk h') ?sum = Some g"
    "fl_data g = checksum_text (tl_sha256 T (fl_data f)) (backup_stem t @ ''.dump'')"
    by (auto simp: h' map_of_unlinks ends(2) after_writes_def d0)
  obtain ws where ws: "split_ws (fl_data g) = tl_sha256 T (fl_data f) # ws"
    using checksum_word sha unfolding g(2) by blast
  have v: "valid_path ?dump"
    by simp
  have "fst (verify_backup T ?dump url h') = Inr (tl_sha256 T (fl_data f))"
    using verify_run [OF laws(2) v _ f(2), of h' g _ ws url] f(1) g(1) ws ends(1) d0 by (simp add: b)
  moreover have "\<exists>e. fst (verify_backup T ?dump url h2) = Inl e" if "map_of (h_disk h2) ?dump = Some g2" "fl_data g2 \<noteq> []"
    "map_of (h_disk h2) ?sum = map_of (h_disk h') ?sum" "tl_sha256 T (fl_data g2) \<noteq> tl_sha256 T (fl_data f)" for h2 g2
    using verify_run [OF laws(2) v that(1,2), of g _ ws url] that(3,4) g(1) ws by simp
  ultimately show ?thesis
    by (simp add: b)
qed

section \<open>A concrete host\<close>

text \<open>Commands that write and read files by the text of a path.\<close>

definition parse_path :: "string \<Rightarrow> path" where
  "parse_path s = (rev (drop 1 (dropWhile (\<lambda>c. c \<noteq> CHR ''/'') (rev s))),
     rev (takeWhile (\<lambda>c. c \<noteq> CHR ''/'') (rev s)))"

lemma parse_path_str: "valid_path p \<Longrightarrow> parse_path (path_str p) = p"
proof -
  assume "valid_path p"
  then have "c \<in> set (rev (snd p)) \<Longrightarrow> c \<noteq> CHR ''/''" for c
    by (auto simp: valid_path_def)
  then have "takeWhile (\<lambda>c. c \<noteq> CHR ''/'') (rev (snd p) @ CHR ''/'' # rev (fst p)) = rev (snd p)"
    "dropWhile (\<lambda>c. c \<noteq> CHR ''/'') (rev (snd p) @ CHR ''/'' # rev (fst p)) = CHR ''/'' # rev (fst p)"
    by (subst takeWhile_append2 dropWhile_append2; simp)+
  then show ?thesis
    by (simp add: parse_path_def path_str_def)
qed

definition tools_ex :: tools where
  "tools_ex = \<lparr>tl_url = (\<lambda>u. \<lparr>ur_host = None, ur_username = Some ''jobradar'', ur_password = Some ''pw'',
       ur_port = None, ur_database = Some ''jobs''\<rparr>),
     tl_environ = [],
     tl_run = (\<lambda>cmd e t d. if hd cmd = ''pg_dump''
        then (True, put_file (parse_path (cmd ! 3)) \<lparr>fl_data = ''rows'', fl_mtime = t\<rparr> d)
        else ((case map_of d (parse_path (cmd ! 2)) of None \<Rightarrow> False | Some f \<Rightarrow> fl_data f = ''rows''), d)),
     tl_sha256 = (\<lambda>s. CHR ''#'' # filter (\<lambda>c. \<not> is_space c) s)\<rparr>"

lemma tools_ex_laws: "dump_law tools_ex" "list_law tools_ex (\<lambda>x. x = ''rows'')"
  "\<forall>x. tl_sha256 tools_ex x \<noteq> [] \<and> (\<forall>c \<in> set (tl_sha256 tools_ex x). \<not> is_space c)"
  by (auto simp: dump_law_def list_law_def tools_ex_def parse_path_str is_space_def)

definition host_ex :: host where
  "host_ex = \<lparr>h_disk = [((''./backups'', ''old.dump''), \<lparr>fl_data = ''x'', fl_mtime = - days 30\<rparr>)],
     h_clock = (\<lambda>n. seconds (int n)), h_tick = 0\<rparr>"

lemma backup_ex:
  obtains b h' f where "backup_once tools_ex settings_ex (Some 0) host_ex = (Inr b, h')"
    "map_of (h_disk h') (br_dump b) = Some f" "fl_data f = ''rows''"
proof -
  let ?tmp = "(''./backups'', backup_stem 0 @ ''.dump.tmp'')" and ?dump = "(''./backups'', backup_stem 0 @ ''.dump'')"
  have dir: "backup_dir settings_ex = ''./backups''" "backup_retention_days settings_ex = 7"
    by (simp_all add: settings_ex_def default_settings_def)
  have run: "tl_run tools_ex (''pg_dump'' # ''--format=custom'' # ''--file'' # path_str ?tmp # opts) e t d
      = (True, put_file ?tmp \<lparr>fl_data = ''rows'', fl_mtime = t\<rparr> d)"
    "tl_run tools_ex [''pg_restore'', ''--list'', path_str ?tmp] e t (put_file ?tmp \<lparr>fl_data = ''rows'', fl_mtime = t'\<rparr> d)
      = (True, put_file ?tmp \<lparr>fl_data = ''rows'', fl_mtime = t'\<rparr> d)" for opts e t t' d
    by (simp_all add: tools_ex_def parse_path_str)
  obtain opts environ where opts: "database_options tools_ex (database_url settings_ex) = (opts, environ)" by fastforce
  have "\<exists>h2 b. backup_once tools_ex settings_ex (Some 0) host_ex =
      bindP (cleanup_backups ''./backups'' 7 (Some 0)) (\<lambda>_. ret b) h2 \<and> br_dump b = ?dump
    \<and> map_of (h_disk h2) ?dump = Some \<lparr>fl_data = ''rows'', fl_mtime = seconds 0\<rparr>"
    by (intro exI conjI, simp add: backup_once_def Let_def opts run_simps run dir host_ex_def) simp_all
  then obtain h2 b where b: "backup_once tools_ex settings_ex (Some 0) host_ex =
      bindP (cleanup_backups ''./backups'' 7 (Some 0)) (\<lambda>_. ret b) h2" "br_dump b = ?dump"
    "map_of (h_disk h2) ?dump = Some \<lparr>fl_data = ''rows'', fl_mtime = seconds 0\<rparr>"
    by blast
  then have "map_of (h_disk (snd (cleanup_backups ''./backups'' 7 (Some 0) h2))) ?dump
      = Some \<lparr>fl_data = ''rows'', fl_mtime = seconds 0\<rparr>"
    by (intro cleanup_keeps_recent) (simp_all add: endswith_iff seconds_def days_def)
  moreover have "backup_once tools_ex settings_ex (Some 0) host_ex
      = (Inr b, snd (cleanup_backups ''./backups'' 7 (Some 0) h2))"
    using bindP_result [where m = "cleanup_backups ''./backups'' 7 (Some 0)", OF cleanup_runs] b(1)
    by (simp add: cleanup_runs ret_def)
  ultimately show thesis
    using that b(2) by simp
qed


theorem backup_verifies_witness:
  "\<exists>b h'. backup_once tools_ex settings_ex (Some 0) host_ex = (Inr b, h')
     \<and> fst (verify_backup tools_ex (br_dump b) ''postgresql'' h') = Inr ''#rows''"
proof -
  obtain b h' f where run: "backup_once tools_ex settings_ex (Some 0) host_ex = (Inr b, h')"
    "map_of (h_disk h') (br_dump b) = Some f" "fl_data f = ''rows''"
    by (rule backup_ex)
  have "tl_sha256 tools_ex ''rows'' = ''#rows''"
    by code_simp
  then show ?thesis
    using backup_verifies [OF tools_ex_laws run(1,2), of "''postgresql''"] run by auto
qed

end
