(* ===== verification/Processes.thy ===== *)
theory Processes
  imports Ingest_Facts Backup_Facts
begin

text \<open>
  The two processes that poll, \<open>processes/scheduler.py\<close> and \<open>processes/backup.py\<close>: a pass, a wait,
  and the next pass, until the stop event is seen or a pass raises. A loop that is never stopped has
  no result.
\<close>

section \<open>A polling loop\<close>

text \<open>
  \<open>seen k\<close>: whether the stop event is set at the check before pass \<open>k\<close>; without an event it is
  always false. \<open>wait k\<close>: what the rest of the system does to the state while the process waits.
  The wait ends early when the event is set, and its timeout is swallowed.
\<close>

partial_function (option) poll ::
  "(nat \<Rightarrow> bool) \<Rightarrow> ('e, 's, 'a) prog \<Rightarrow> (nat \<Rightarrow> 's \<Rightarrow> 's) \<Rightarrow> nat \<Rightarrow> 's \<Rightarrow> (('e + unit) \<times> 's) option" where
  "poll seen pass wait k s =
     (if seen k then Some (Inr (), s)
      else (case pass s of (r, s') \<Rightarrow>
        (case r of Inl e \<Rightarrow> Some (Inl e, s')
         | Inr _ \<Rightarrow> poll seen pass wait (Suc k) (wait k s'))))"

primrec at_check :: "('e, 's, 'a) prog \<Rightarrow> (nat \<Rightarrow> 's \<Rightarrow> 's) \<Rightarrow> 's \<Rightarrow> nat \<Rightarrow> 's" where
  "at_check pass wait s 0 = s"
| "at_check pass wait s (Suc k) = wait k (snd (pass (at_check pass wait s k)))"

definition passes :: "(nat \<Rightarrow> bool) \<Rightarrow> ('e, 's, 'a) prog \<Rightarrow> (nat \<Rightarrow> 's \<Rightarrow> 's) \<Rightarrow> 's \<Rightarrow> nat \<Rightarrow> bool" where
  "passes seen pass wait s k \<longleftrightarrow> \<not> seen k \<and> (\<exists>x. fst (pass (at_check pass wait s k)) = Inr x)"

lemma poll_step:
  "passes seen pass wait s k \<Longrightarrow>
     poll seen pass wait k (at_check pass wait s k) = poll seen pass wait (Suc k) (at_check pass wait s (Suc k))"
  by (subst poll.simps) (auto simp: passes_def split: prod.split)

lemma poll_passes:
  "(\<And>k. k < n \<Longrightarrow> passes seen pass wait s k) \<Longrightarrow>
     poll seen pass wait 0 s = poll seen pass wait n (at_check pass wait s n)"
  by (induction n) (simp_all add: poll_step del: at_check.simps(2))

text \<open>Where the first pass that does not go on is, the loop ends.\<close>

lemma poll_ends:
  assumes "\<And>k. k < n \<Longrightarrow> passes seen pass wait s k" "\<not> passes seen pass wait s n"
  shows "poll seen pass wait 0 s = Some (if seen n then (Inr (), at_check pass wait s n)
     else (case pass (at_check pass wait s n) of (r, s') \<Rightarrow> ((case r of Inl e \<Rightarrow> Inl e | Inr _ \<Rightarrow> Inr ()), s')))"
proof -
  have "poll seen pass wait 0 s = poll seen pass wait n (at_check pass wait s n)"
    by (rule poll_passes) (rule assms(1))
  also have "\<dots> = Some (if seen n then (Inr (), at_check pass wait s n)
     else (case pass (at_check pass wait s n) of (r, s') \<Rightarrow> ((case r of Inl e \<Rightarrow> Inl e | Inr _ \<Rightarrow> Inr ()), s')))"
    using assms(2) by (subst poll.simps) (auto simp: passes_def split: prod.splits sum.splits)
  finally show ?thesis .
qed

text \<open>A loop that has a result met such a pass: by induction on the computation of the result.\<close>

lemma poll_met_end:
  fixes pass :: "('e, 's, 'a) prog"
  assumes "poll seen pass wait k s = Some q"
  shows "\<forall>s0. s = at_check pass wait s0 k \<longrightarrow> (\<exists>n. \<not> passes seen pass wait s0 n)"
proof (rule poll.raw_induct [where P = "\<lambda>seen pass wait k s q.
      \<forall>s0. s = at_check pass wait s0 k \<longrightarrow> (\<exists>n. \<not> passes seen pass wait s0 n)", OF _ assms], intro allI impI)
  fix rc :: "(nat \<Rightarrow> bool) \<Rightarrow> ('e, 's, 'a) prog \<Rightarrow> (nat \<Rightarrow> 's \<Rightarrow> 's) \<Rightarrow> nat \<Rightarrow> 's \<Rightarrow> (('e + unit) \<times> 's) option"
  fix seen pass wait k q and s s0 :: 's
  assume IH: "\<And>seen pass wait k s q. rc seen pass wait k s = Some q \<Longrightarrow>
      \<forall>s0. s = at_check pass wait s0 k \<longrightarrow> (\<exists>n. \<not> passes seen pass wait s0 n)"
    and body: "(if seen k then Some (Inr (), s) else case pass s of (r, s') \<Rightarrow>
      (case r of Inl e \<Rightarrow> Some (Inl e, s') | Inr _ \<Rightarrow> rc seen pass wait (Suc k) (wait k s'))) = Some q"
    and s: "s = at_check pass wait s0 k"
  show "\<exists>n. \<not> passes seen pass wait s0 n"
  proof (cases "passes seen pass wait s0 k")
    case True
    then have "rc seen pass wait (Suc k) (at_check pass wait s0 (Suc k)) = Some q"
      using body by (auto simp: passes_def s split: prod.splits)
    from IH [OF this] show ?thesis by blast
  qed blast
qed

lemma poll_never_ends: "(\<And>k. passes seen pass wait s k) \<Longrightarrow> poll seen pass wait 0 s = None"
  using poll_met_end [of seen pass wait 0 s] by (cases "poll seen pass wait 0 s") auto

section \<open>The scheduler process\<close>

definition poll_interval :: "int option \<Rightarrow> settings \<Rightarrow> int" where
  "poll_interval poll_seconds S =
     (case poll_seconds of None \<Rightarrow> scheduler_poll_seconds S
      | Some n \<Rightarrow> if n = 0 then scheduler_poll_seconds S else n)"

text \<open>\<open>close\<close>, an argument, releases the connections; \<open>wait n k\<close> is a wait of \<open>n\<close> seconds.\<close>

definition run_scheduler ::
  "settings \<Rightarrow> 'r redis \<Rightarrow> ('r, unit) op \<Rightarrow> int option \<Rightarrow> (nat \<Rightarrow> bool) \<Rightarrow> (int \<Rightarrow> nat \<Rightarrow> 'r world \<Rightarrow> 'r world)
     \<Rightarrow> 'r world \<Rightarrow> ((exn + unit) \<times> 'r world) option" where
  "run_scheduler S R close poll_seconds seen wait w =
     (case poll seen (schedule_due_sources (Some R)) (wait (poll_interval poll_seconds S)) 0 w of
        None \<Rightarrow> None
      | Some (r, w') \<Rightarrow> Some (finallyP (\<lambda>v. (r, v)) close w'))"

text \<open>The state at check \<open>k\<close>, when the loop gets there.\<close>

definition scheduler_check ::
  "settings \<Rightarrow> 'r redis \<Rightarrow> int option \<Rightarrow> (int \<Rightarrow> nat \<Rightarrow> 'r world \<Rightarrow> 'r world) \<Rightarrow> 'r world \<Rightarrow> nat \<Rightarrow> 'r world" where
  "scheduler_check S R poll_seconds wait w k =
     at_check (schedule_due_sources (Some R)) (wait (poll_interval poll_seconds S)) w k"

section \<open>The backup process\<close>

definition run_backup_process ::
  "tools \<Rightarrow> settings \<Rightarrow> (nat \<Rightarrow> bool) \<Rightarrow> (int \<Rightarrow> nat \<Rightarrow> host \<Rightarrow> host) \<Rightarrow> host
     \<Rightarrow> ((host_error + unit) \<times> host) option" where
  "run_backup_process T S seen wait h =
     poll seen (backup_once T S None) (wait (backup_interval_seconds S)) 0 h"

section \<open>When the processes end\<close>

text \<open>The first pass that does not go on.\<close>

lemma first_end:
  assumes "\<not> passes seen pass wait s n"
  obtains m where "\<not> passes seen pass wait s m" "\<And>k. k < m \<Longrightarrow> passes seen pass wait s k"
  by (rule that [of "LEAST k. \<not> passes seen pass wait s k"], rule LeastI, rule assms) (blast dest: not_less_Least)

lemma poll_outcomes:
  obtains (ends) n where "\<And>k. k < n \<Longrightarrow> passes seen pass wait s k" "\<not> passes seen pass wait s n"
      "poll seen pass wait 0 s = Some (if seen n then (Inr (), at_check pass wait s n)
         else (case pass (at_check pass wait s n) of (r, s') \<Rightarrow> ((case r of Inl e \<Rightarrow> Inl e | Inr _ \<Rightarrow> Inr ()), s')))"
  | (never) "\<And>k. passes seen pass wait s k" "poll seen pass wait 0 s = None"
proof (cases "\<forall>k. passes seen pass wait s k")
  case True
  with never show thesis by (simp add: poll_never_ends)
next
  case False
  then obtain n where "\<not> passes seen pass wait s n" by blast
  then obtain m where m: "\<not> passes seen pass wait s m" "\<And>k. k < m \<Longrightarrow> passes seen pass wait s k"
    by (rule first_end) blast
  show thesis by (rule ends [OF m(2,1) poll_ends [OF m(2,1)]])
qed

text \<open>
  Polling, as it should be: the loop ends exactly when the event is set at a check that is reached,
  or a pass that is reached raises.
\<close>

lemma poll_ends_iff:
  "poll seen pass wait 0 s \<noteq> None \<longleftrightarrow> (\<exists>n. seen n \<or> (\<exists>e. fst (pass (at_check pass wait s n)) = Inl e))"
proof (cases rule: poll_outcomes [of seen pass wait s])
  case (ends n)
  have "seen n \<or> (\<exists>e. fst (pass (at_check pass wait s n)) = Inl e)"
    using ends(2) by (cases "fst (pass (at_check pass wait s n))") (auto simp: passes_def)
  with ends(3) show ?thesis by blast
next
  case never
  then show ?thesis by (auto simp: passes_def) (metis sum.distinct(1))
qed

text \<open>An invariant of passes and waits holds at every check.\<close>

lemma at_check_keeps:
  "I s \<Longrightarrow> keeps I pass \<Longrightarrow> (\<And>k s. I s \<Longrightarrow> I (wait k s)) \<Longrightarrow> I (at_check pass wait s k)"
  by (induction k) (simp_all add: keeps_at)

text \<open>
  The scheduler process ends exactly when it is asked to stop or one of its passes raises, and a
  request to stop ends it; its connections are then closed. Until then, whatever the workers and
  the API do between its passes, no source has two runs that are running at any of its checks, if
  they keep it so.
\<close>

theorem scheduler_process:
  assumes "single_running (committed w)" "single_running (work w)"
    and others: "\<And>n k v. both single_running v \<Longrightarrow> both single_running (wait n k v)"
  shows "(run_scheduler S R close poll_seconds seen wait w \<noteq> None \<longleftrightarrow>
      (\<exists>n. seen n \<or> (\<exists>e. fst (schedule_due_sources (Some R) (scheduler_check S R poll_seconds wait w n)) = Inl e)))
    \<and> single_running (committed (scheduler_check S R poll_seconds wait w k))"
proof
  show "run_scheduler S R close poll_seconds seen wait w \<noteq> None \<longleftrightarrow>
      (\<exists>n. seen n \<or> (\<exists>e. fst (schedule_due_sources (Some R) (scheduler_check S R poll_seconds wait w n)) = Inl e))"
    unfolding scheduler_check_def poll_ends_iff [symmetric]
    by (simp add: run_scheduler_def split: option.split prod.split)
  have "both single_running (scheduler_check S R poll_seconds wait w k)"
    unfolding scheduler_check_def
    by (rule at_check_keeps [where I = "both single_running"]) (use assms in \<open>simp_all add: both_def single.schedule_keeps\<close>)
  then show "single_running (committed (scheduler_check S R poll_seconds wait w k))" by (simp add: both_def)
qed

theorem scheduler_process_witness:
  "run_scheduler settings_ex no_redis (ret ()) None (\<lambda>k. k = 2) (\<lambda>n k v. v) (world_ex seen_db_ex) \<noteq> None
   \<and> single_running (committed (scheduler_check settings_ex no_redis None (\<lambda>n k v. v) (world_ex seen_db_ex) 2))"
proof -
  have d: "single_running seen_db_ex" by (simp add: single_running_def seen_defs)
  show ?thesis
    using scheduler_process [of "world_ex seen_db_ex" "\<lambda>n k v. v" settings_ex no_redis "ret ()" None "\<lambda>k. k = 2" 2] d
    by auto
qed

section \<open>A pass without Redis\<close>

definition redis_down :: "string \<Rightarrow> 'r redis \<Rightarrow> bool" where
  "redis_down m R \<longleftrightarrow> (\<forall>key n t k. fst (r_set_nx_ex R key n t k) = Inl m)"

text \<open>A source the scheduler would start a run for.\<close>

definition startable :: "db \<Rightarrow> source \<Rightarrow> bool" where
  "startable d s \<longleftrightarrow> s \<in> set (sources d) \<and> so_enabled s \<and> interval_seconds (so_schedule s) \<noteq> None
     \<and> so_last_success_at s = None \<and> so_kind s \<in> set supported_kinds \<and> active_runs d (so_id s) = []"

definition same_tables :: "'r world \<Rightarrow> 'r world \<Rightarrow> bool" where
  "same_tables v v' \<longleftrightarrow> work v' = work v \<and> committed v' = committed v \<and> wenv v' = wenv v"

lemma start_without_redis:
  assumes "redis_down m R" "distinct (map so_id (sources (work v)))" "s \<in> set (sources (work v))"
  obtains v' r where "start_run (Some R) (so_id s) (Some (so_user_id s)) v = (r, v')" "same_tables v v'"
    and "r = Inl (RedisError m) \<or> r = Inl (App (err UnsupportedSourceKind)) \<or> (\<exists>x. r = Inr (x, True))"
    and "so_kind s \<in> set supported_kinds \<Longrightarrow> active_runs (work v) (so_id s) = [] \<Longrightarrow> r = Inl (RedisError m)"
proof -
  have f: "find (\<lambda>x. so_id x = so_id s \<and> so_user_id x = so_user_id s) (sources (work v)) = Some s"
    by (rule find_unique_key [where k = so_id]) (use assms in auto)
  obtain k where r: "r_set_nx_ex R (lock_key (so_id s)) 900 (clock (wenv v) (tick v)) (kv v) = (Inl m, k)"
    using assms(1) unfolding redis_down_def by (metis prod.collapse)
  show thesis
    by (rule that [OF prod.collapse [symmetric]])
      (auto simp: start_run_def repo_get_source_for_user_def repo_get_active_run_def run_simps f redis_call_def r
        same_tables_def raise_def bindP_def ret_def split: list.split)
qed

lemma ret_run: "ret x w = (Inr x, w)"
  by (simp add: ret_def)

lemma schedule_without_redis:
  assumes "redis_down m R" "distinct (map so_id (sources (work v)))" "s \<in> set (sources (work v))"
  obtains v' r where "schedule_source (Some R) n s v = (r, v')" "same_tables v v'" "r = Inl (RedisError m) \<or> r = Inr n"
    and "startable (work v) s \<Longrightarrow> r = Inl (RedisError m)"
proof -
  let ?v = "v\<lparr>tick := Suc (tick v)\<rparr>"
  obtain v' r where s: "start_run (Some R) (so_id s) (Some (so_user_id s)) ?v = (r, v')" "same_tables ?v v'"
    and r: "r = Inl (RedisError m) \<or> r = Inl (App (err UnsupportedSourceKind)) \<or> (\<exists>x. r = Inr (x, True))"
      "so_kind s \<in> set supported_kinds \<Longrightarrow> active_runs (work ?v) (so_id s) = [] \<Longrightarrow> r = Inl (RedisError m)"
    by (rule start_without_redis [OF assms(1), of ?v s]) (use assms(2,3) in auto)
  have skip: "skips_source (App (err UnsupportedSourceKind))" "\<not> skips_source (RedisError m)"
    by (simp_all add: skips_source_def) code_simp
  have due: "startable (work v) s \<Longrightarrow> is_due s (clock (wenv v) (tick v))"
    by (auto simp: startable_def is_due_def)
  let ?m = "catchP (bindP (start_run (Some R) (so_id s) (Some (so_user_id s))) (\<lambda>r. ret (Some r)))
      (\<lambda>e. if skips_source e then ret None else raise e)"
  consider "r = Inl (RedisError m)" "?m ?v = (Inl (RedisError m), v')"
    | "r = Inl (App (err UnsupportedSourceKind))" "?m ?v = (Inr None, v')"
    | x where "r = Inr (x, True)" "?m ?v = (Inr (Some (x, True)), v')"
    using s(1) r(1) skip by (auto simp: catchP_def bindP_def ret_def raise_def)
  then have run: "schedule_source (Some R) n s v =
      (if \<not> is_due s (clock (wenv v) (tick v)) then (Inr n, ?v)
       else (if r = Inl (RedisError m) then Inl (RedisError m) else Inr n, v'))"
    by cases (auto simp: schedule_source_def run_simps bindP_result [where m = ?m] ret_run)
  show thesis
    by (rule that [OF run [THEN trans, OF surjective_pairing]])
      (use s(2) r due in \<open>auto simp: same_tables_def startable_def\<close>)
qed

lemma pass_without_redis:
  assumes "redis_down m R" "distinct (map so_id (sources (work v)))" "set ss \<subseteq> set (sources (work v))"
    and "\<exists>s\<in>set ss. startable (work v) s"
  shows "\<exists>v'. foldP (schedule_source (Some R)) n ss v = (Inl (RedisError m), v') \<and> same_tables v v'"
  using assms(2-4)
proof (induction ss arbitrary: n v)
  case (Cons s ss)
  obtain v' r where step: "schedule_source (Some R) n s v = (r, v')" "same_tables v v'"
      "r = Inl (RedisError m) \<or> r = Inr n" "startable (work v) s \<Longrightarrow> r = Inl (RedisError m)"
    by (rule schedule_without_redis [OF assms(1), of v s n]) (use Cons.prems in auto)
  show ?case
  proof (cases "r = Inl (RedisError m)")
    case True
    with step show ?thesis by (auto simp: bindP_def)
  next
    case False
    then have "r = Inr n" "\<not> startable (work v) s" using step by auto
    moreover have "\<exists>v''. foldP (schedule_source (Some R)) n ss v' = (Inl (RedisError m), v'') \<and> same_tables v' v''"
      using Cons.prems step(2) \<open>\<not> startable (work v) s\<close> by (intro Cons.IH) (auto simp: same_tables_def)
    ultimately show ?thesis using step(1,2) by (auto simp: bindP_def same_tables_def)
  qed
qed simp

text \<open>
  C39. One refused connection ends the scheduler: when Redis does not answer while an enabled source
  waits for its run, the pass raises \<open>RedisError\<close>, which the loop does not catch, so the process
  ends, whatever the interval and however many sources there are; nothing is stored. (Nothing in
  \<open>docker-compose.yml\<close> restarts it.)
\<close>

theorem scheduler_ends_without_redis:
  assumes "redis_down m R" "db_ok (committed w)" "startable (committed w) s" "\<not> seen 0"
    and close: "\<And>v. \<exists>v'. close v = (Inr (), v') \<and> same_tables v v'"
  shows "\<exists>w'. run_scheduler S R close poll_seconds seen wait w = Some (Inl (RedisError m), w')
     \<and> committed w' = committed w"
proof -
  let ?w = "w\<lparr>work := committed w\<rparr>"
  let ?ss = "filter so_enabled (sources (committed w))"
  obtain v where fold: "foldP (schedule_source (Some R)) 0 ?ss ?w = (Inl (RedisError m), v)" and v: "same_tables ?w v"
    using pass_without_redis [OF assms(1), of ?w ?ss 0] assms(2,3) by (auto simp: db_ok_unfold startable_def)
  have pass: "schedule_due_sources (Some R) w = (Inl (RedisError m), v\<lparr>work := committed v\<rparr>)"
    by (simp add: schedule_due_sources_def session_scope_def session_rollback_def on_sql_error_def finallyP_def
        catchP_def run_simps prog_simps fold)
  then have "\<not> passes seen (schedule_due_sources (Some R)) (wait (poll_interval poll_seconds S)) w 0"
    by (simp add: passes_def)
  from poll_ends [OF _ this] have poll: "poll seen (schedule_due_sources (Some R)) (wait (poll_interval poll_seconds S)) 0 w
      = Some (Inl (RedisError m), v\<lparr>work := committed v\<rparr>)"
    using assms(4) pass by simp
  obtain w' where "close (v\<lparr>work := committed v\<rparr>) = (Inr (), w')" "same_tables (v\<lparr>work := committed v\<rparr>) w'"
    using close by blast
  with v show ?thesis
    by (auto simp: run_scheduler_def poll finallyP_def same_tables_def)
qed

theorem scheduler_ends_without_redis_witness:
  "\<exists>w'. run_scheduler settings_ex no_redis (ret ()) None (\<lambda>_. False) (\<lambda>n k v. v)
     (world_ex (seen_db_ex\<lparr>sources := [source_ex\<lparr>so_schedule := Some ''interval:60''\<rparr>]\<rparr>))
     = Some (Inl (RedisError ''down''), w')"
proof -
  let ?s = "source_ex\<lparr>so_schedule := Some ''interval:60''\<rparr>"
  let ?d = "seen_db_ex\<lparr>sources := [?s]\<rparr>"
  have "interval_seconds (Some ''interval:60'') = Some 60" by code_simp
  then have "startable ?d ?s"
    by (simp add: startable_def seen_defs supported_kinds_def active_runs_def)
  moreover have "db_ok ?d"
    by (simp add: db_ok_unfold seen_defs references_def references_opt_def)
  moreover have "redis_down ''down'' no_redis" by (simp add: redis_down_def no_redis_def)
  ultimately show ?thesis
    using scheduler_ends_without_redis [of "''down''" no_redis "world_ex ?d" ?s "\<lambda>_. False" "ret ()" settings_ex None "\<lambda>n k v. v"]
    by (auto simp: ret_run same_tables_def)
qed

end
