(* ===== verification/System.thy ===== *)
theory System
  imports Isolation Processes
begin

text \<open>
  The program as a whole: its processes act on one database, each request, pass, task or command in
  a session of its own. The relation \<open>writes\<close> says in one rule per kind of change what they may do to
  the stored data; every operation of the program is a sequence of such writes (a forward
  simulation), so an invariant of the stored data is checked on the rules alone.
\<close>

section \<open>The writes of the program\<close>

text \<open>The tables that the rules below guard; the other tables may change in any way.\<close>

definition guarded ::
  "db \<Rightarrow> refresh_token list \<times> auth_session list \<times> verification_code list \<times> audit_event list
     \<times> preference_profile list \<times> source list \<times> ingestion_run list" where
  "guarded d = (refresh_tokens d, auth_sessions d, verification_codes d, audit_events d,
     preference_profiles d, sources d, ingestion_runs d)"

text \<open>
  New rows of tokens, sessions, codes and events get their identifiers from the set \<open>I\<close>; old events
  are deleted only when \<open>T\<close> allows it.
\<close>

inductive writes :: "bool \<Rightarrow> uuid set \<Rightarrow> db \<Rightarrow> db \<Rightarrow> bool" for T I where
  unguarded: "guarded d' = guarded d \<Longrightarrow> writes T I d d'"
| token_issued: "rt_id t \<in> I \<Longrightarrow> rt_revoked_at t = None \<Longrightarrow>
    writes T I d (d\<lparr>refresh_tokens := refresh_tokens d @ [t]\<rparr>)"
| tokens_revoked: "writes T I d (revoke_tokens_where Q now d)"
| session_opened: "as_id s \<in> I \<Longrightarrow> as_revoked_at s = None \<Longrightarrow>
    writes T I d (d\<lparr>auth_sessions := auth_sessions d @ [s]\<rparr>)"
| sessions_revoked: "writes T I d (revoke_sessions_where Z now t d)"
| code_issued: "vc_id c \<in> I \<Longrightarrow> vc_consumed_at c = None \<Longrightarrow>
    writes T I d (d\<lparr>verification_codes := verification_codes d @ [c]\<rparr>)"
| code_consumed: "writes T I d (d\<lparr>verification_codes :=
    update_where (\<lambda>c. vc_id c = i) (\<lambda>c. c\<lparr>vc_consumed_at := Some now\<rparr>) (verification_codes d)\<rparr>)"
| event_recorded: "ev_id e \<in> I \<Longrightarrow> writes T I d (d\<lparr>audit_events := audit_events d @ [e]\<rparr>)"
| events_retired: "T \<Longrightarrow> writes T I d (d\<lparr>audit_events :=
    delete_where (\<lambda>e. ev_created_at e < cutoff) (audit_events d)\<rparr>)"
| profile_published: "prefs_ok q \<Longrightarrow> pp_config p = normalize_preferences q \<Longrightarrow> pp_is_active p \<Longrightarrow>
    pp_version p = latest_version d (pp_user_id p) + 1 \<Longrightarrow>
    writes T I d (d\<lparr>preference_profiles := deactivated (pp_user_id p) (preference_profiles d) @ [p]\<rparr>)"
| source_added: "so_last_success_at s = None \<Longrightarrow> writes T I d (d\<lparr>sources := sources d @ [s]\<rparr>)"
| run_started: "active_runs d (ir_source_id r) = [] \<Longrightarrow> ir_status r = ''running'' \<Longrightarrow> ir_completed_at r = None \<Longrightarrow>
    writes T I d (d\<lparr>ingestion_runs := ingestion_runs d @ [r]\<rparr>)"
| run_finished: "rn_status v \<in> {''succeeded'', ''partial'', ''failed''} \<Longrightarrow>
    writes T I d (d\<lparr>ingestion_runs := update_where (\<lambda>r. ir_id r = i) (finished v t) (ingestion_runs d)\<rparr>)"
| account_deleted: "writes T I d (delete_user_cascade i d)"

abbreviation evolves :: "bool \<Rightarrow> uuid set \<Rightarrow> db \<Rightarrow> db \<Rightarrow> bool" where
  "evolves T I \<equiv> (writes T I)\<^sup>*\<^sup>*"

text \<open>The worlds whose data came from \<open>d0\<close> by such writes, and whose committed data is consistent.\<close>

abbreviation evolved :: "bool \<Rightarrow> uuid set \<Rightarrow> db \<Rightarrow> 'r world \<Rightarrow> bool" where
  "evolved T I d0 \<equiv> safe True I (evolves T I d0)"

named_theorems evolving \<open>a write after a sequence of writes\<close>

lemma evolve_write: "evolves T I d0 d \<Longrightarrow> writes T I d d' \<Longrightarrow> evolves T I d0 d'"
  by (rule rtranclp.rtrancl_into_rtrancl)

lemmas evolve_rules = writes.intros(2-14) [THEN evolve_write [rotated]]

lemma evolve_unguarded [evolving]:
  assumes "evolves T I d0 d"
  shows "evolves T I d0 (d\<lparr>users := a\<rparr>)" "evolves T I d0 (d\<lparr>roles := b\<rparr>)" "evolves T I d0 (d\<lparr>user_roles := c\<rparr>)"
    "evolves T I d0 (d\<lparr>jobs := e\<rparr>)" "evolves T I d0 (d\<lparr>job_source_records := f\<rparr>)"
    "evolves T I d0 (d\<lparr>job_feedbacks := g\<rparr>)" "evolves T I d0 (d\<lparr>match_results := h\<rparr>)"
    "evolves T I d0 (d\<lparr>notification_deliveries := n\<rparr>)"
  by (rule evolve_write [OF assms], rule unguarded, simp add: guarded_def)+

interpretation evolution: run_invariant "evolves T I d0" for T I d0
  by unfold_locales (auto intro: evolving evolve_rules)

lemma keeps_modify [keeps_intros]:
  "(\<And>w. safe C I P w \<Longrightarrow> safe C I P (g w)) \<Longrightarrow> keeps (safe C I P) (modify g)"
  by (simp add: keeps_def modify_def)

lemma safe_logs [evolving]:
  "safe C I P w \<Longrightarrow> safe C I P (w\<lparr>auth_log := l\<rparr>)" "safe C I P w \<Longrightarrow> safe C I P (w\<lparr>archived := a\<rparr>)"
  by (simp_all add: safe_def)

section \<open>Accounts, tokens and sessions\<close>

lemma auth_rows_evolve [keeps_intros]:
  "keeps (evolved T I d0) (repo_create_role n ds)" "keeps (evolved T I d0) (repo_assign_role u r)"
  "keeps (evolved T I d0) (set_user u f)" "keeps (evolved T I d0) (revoke_tokens fam now)"
  "keeps (evolved T I d0) (revoke_auth_session sid u now)" "keeps (evolved T I d0) (revoke_other_auth_sessions u cur now)"
  "keeps (evolved T I d0) (revoke_user_tokens u now)" "keeps (evolved T I d0) (consume_code i now)"
  "keeps (evolved T I d0) anonymous_user"
  unfolding repo_create_role_def repo_assign_role_def set_user_def revoke_tokens_def revoke_auth_session_def
    repo_auth_session_def revoke_other_auth_sessions_def repo_auth_sessions_def revoke_user_tokens_def
    consume_code_def anonymous_user_def get_user_def Let_def
  by (intro keeps_intros evolving evolve_rules; assumption)+

lemma new_rows_evolve [keeps_intros]:
  "rt_id t \<in> I \<Longrightarrow> rt_revoked_at t = None \<Longrightarrow> keeps (evolved T I d0) (save_refresh_token t)"
  "as_id s \<in> I \<Longrightarrow> as_revoked_at s = None \<Longrightarrow> keeps (evolved T I d0) (save_auth_session s)"
  "vc_id c \<in> I \<Longrightarrow> vc_consumed_at c = None \<Longrightarrow> keeps (evolved T I d0) (save_verification_code c)"
  "ev_id e \<in> I \<Longrightarrow> keeps (evolved T I d0) (create_event e)"
  unfolding save_refresh_token_def save_auth_session_def save_verification_code_def create_event_def
  by (intro keeps_intros evolving evolve_rules; assumption)+

lemma register_evolves [keeps_intros]: "keeps (evolved T I d0) (register L S e p)"
  unfolding register_def role_or_create_def repo_role_def user_by_email_def Let_def
  by (intro keeps_intros evolving; assumption)

lemma authenticate_evolves [keeps_intros]: "keeps (evolved T I d0) (authenticate L S e p)"
  unfolding authenticate_def user_by_email_def by (intro keeps_intros)

lemma issue_tokens_evolves [keeps_intros]: "keeps (evolved T I d0) (issue_tokens L S u sid md)"
  unfolding issue_tokens_def repo_roles_def open_session_def create_access_token_def
  by (intro keeps_new_id keeps_intros; simp)

lemma refresh_evolves [keeps_intros]: "keeps (evolved T I d0) (refresh L S raw)"
  unfolding refresh_def repo_refresh_token_def get_user_def by (intro keeps_intros)

lemma sessions_evolve [keeps_intros]:
  "keeps (evolved T I d0) (list_sessions S u)" "keeps (evolved T I d0) (revoke_session S u sid)"
  "keeps (evolved T I d0) (revoke_other_sessions S u cur)"
  unfolding list_sessions_def repo_auth_sessions_def revoke_session_def revoke_other_sessions_def
  by (intro keeps_intros)+

lemma issue_code_evolves [keeps_intros]: "keeps (evolved T I d0) (issue_code L S e purpose)"
  unfolding issue_code_def user_by_email_def Let_def
  by (intro keeps_new_id keeps_intros evolving; simp)

lemma codes_evolve [keeps_intros]:
  "keeps (evolved T I d0) (checked_code L e purpose c)" "keeps (evolved T I d0) (verify_email L S e c)"
  "keeps (evolved T I d0) (reset_password L S e c p)"
  unfolding verify_email_def reset_password_def checked_code_def user_by_email_def repo_verification_code_def
  by (intro keeps_intros)+

lemma roles_evolve [keeps_intros]:
  "keeps (evolved T I d0) (create_role n ds)" "keeps (evolved T I d0) (assign_role u n)"
  unfolding create_role_def assign_role_def get_user_def repo_role_def by (intro keeps_intros)+

lemma caller_evolves [keeps_intros]:
  "keeps (evolved T I d0) (get_current_user L S cred)" "keeps (evolved T I d0) (request_user_id L S cred rq)"
  "keeps (evolved T I d0) (require_role L S cred n)"
  unfolding request_user_id_def require_role_def get_current_user_def user_id_from_current_user_def
    decode_access_token_def check_session_def get_user_def repo_auth_session_def repo_roles_def Let_def
  by (intro keeps_intros)+

lemma audit_evolves [keeps_intros]: "keeps (evolved T I d0) (record_audit rq act ty rid actor ok md)"
  unfolding record_audit_def record_event_def by (intro keeps_new_id keeps_intros; simp)

lemma retention_evolves: "T \<Longrightarrow> keeps (evolved T I d0) (apply_retention n arch dir)"
  unfolding apply_retention_def events_before_def delete_before_def Let_def
  by (intro keeps_intros evolving evolve_rules; simp add: safe_logs split: option.split)

lemma audited_evolves [keeps_intros]:
  "keeps (evolved T I d0) m \<Longrightarrow> keeps (evolved T I d0) (audited_failure c rq act ty m)"
  unfolding audited_failure_def by (intro keeps_intros; (simp split: exn.split; intro conjI impI allI keeps_intros)?)

section \<open>Profiles, jobs, matches and notifications\<close>

lemma ensure_user_evolves [keeps_intros]: "keeps (evolved T I d0) (ensure_user u)"
  unfolding ensure_user_def get_user_def by (intro keeps_intros evolving; assumption)

text \<open>The two writes of an update reach the database together.\<close>

lemma publish_evolves:
  assumes q: "prefs_ok q" and k: "\<And>p. keeps (evolved T I d0) (k p)"
  shows "keeps (evolved T I d0) (bindP (ensure_user uid) (\<lambda>_. bindP (get_latest_version uid) (\<lambda>latest.
    bindP (deactivate_active uid) (\<lambda>_. bindP (create_profile uid (latest + 1) (normalize_preferences q) wts) k))))"
proof (rule keeps_bind, rule ensure_user_evolves, rule keepsI)
  fix w :: "'a world"
  assume w: "evolved T I d0 w"
  let ?p = "\<lparr>pp_id = uuid_source (wenv w) (tick w), pp_user_id = uid, pp_version = latest_version (work w) uid + 1,
    pp_config = normalize_preferences q, pp_matching_weights = wts, pp_is_active = True,
    pp_created_at = clock (wenv w) (Suc (tick w))\<rparr>"
  let ?w = "w\<lparr>tick := Suc (Suc (tick w)),
    work := (work w)\<lparr>preference_profiles := deactivated uid (preference_profiles (work w)) @ [?p]\<rparr>\<rparr>"
  let ?rest = "bindP commit_session (\<lambda>_. bindP refresh_session (\<lambda>_. k ?p))"
  have "writes T I (work w) (work ?w)"
    using profile_published [OF q, of ?p "work w"] by simp
  then have "evolved T I d0 ?w"
    using w by (auto simp: safe_def id_supply_def intro: evolve_write)
  moreover have "keeps (evolved T I d0) ?rest" by (intro keeps_intros k)
  ultimately have "evolved T I d0 (snd (?rest ?w))" unfolding keeps_def by blast
  then show "evolved T I d0 (snd (bindP (get_latest_version uid) (\<lambda>latest. bindP (deactivate_active uid) (\<lambda>_.
      bindP (create_profile uid (latest + 1) (normalize_preferences q) wts) k)) w))"
    by (simp add: get_latest_version_def deactivate_active_def create_profile_def run_simps bindP_assoc Let_def)
qed

lemma preferences_evolve [keeps_intros]:
  "keeps (evolved T I d0) (v1_get_active u)" "keeps (evolved T I d0) (v2_get_active u)"
  "prefs_ok q \<Longrightarrow> keeps (evolved T I d0) (v1_update u q)" "prefs_ok q \<Longrightarrow> keeps (evolved T I d0) (v2_update u q)"
  unfolding v1_get_active_def v2_get_active_def v1_update_def v2_update_def v1_response_def to_v2_response_def
  by (intro publish_evolves keeps_intros; assumption)+

lemma delete_user_evolves [keeps_intros]: "keeps (evolved T I d0) (delete_user u)"
  unfolding delete_user_def get_user_def by (intro keeps_intros evolve_rules; assumption)

lemma jobs_evolve [keeps_intros]:
  "keeps (evolved T I d0) (repo_list_jobs L u n k f)" "keeps (evolved T I d0) (query_detail u i)"
  "keeps (evolved T I d0) (query_latest_match u i)" "keeps (evolved T I d0) (give_feedback u i x)"
  "keeps (evolved T I d0) (match_job i u)"
  unfolding repo_list_jobs_def query_detail_def query_latest_match_def give_feedback_def repo_save_feedback_def
    repo_get_visible_job_def repo_get_feedback_def repo_latest_match_def match_job_def get_job_def evaluate_def
    repo_create_match_def
  by (intro keeps_intros evolving; assumption)+

lemma delivery_evolves [keeps_intros]:
  "keeps (evolved T I d0) (get_delivery i u)"
  "(\<And>x. keeps (evolved T I d0) (snd_msg x)) \<Longrightarrow> keeps (evolved T I d0) (deliver u j pid m ch snd_msg)"
  unfolding get_delivery_def repo_get_delivery_for_user_def deliver_def get_or_create_def try_send_def Let_def
  by (intro keeps_intros evolving; assumption)+

lemma keeps_case_http [keeps_intros]:
  "keeps I m \<Longrightarrow> (\<And>st h b. keeps I (f st h b)) \<Longrightarrow>
     keeps I (case r of Request_Error \<Rightarrow> m | Http_Response st h b \<Rightarrow> f st h b)"
  by (simp split: http_result.split)

lemma send_evolves [keeps_intros]: "keeps (evolved T I d0) (send L prov m)"
  by (cases prov; simp add: email_send_def telegram_send_def whatsapp_send_def http_post_def raise_for_status_def;
      intro conjI impI keeps_intros)

lemma dead_letters_keep: "keeps I m \<Longrightarrow> keeps I (dead_letter_loop n left m)"
  by (induction left arbitrary: n) (auto intro!: keeps_intros)

lemma celery_keeps: "keeps I m \<Longrightarrow> keeps I (celery_loop n m)"
proof (induction n)
  case 0
  then show ?case by (auto simp: keeps_def split: prod.split sum.split)
next
  case (Suc n)
  then show ?case by (fastforce simp: keeps_def split: prod.split sum.split)
qed

section \<open>The calls and the stack\<close>

text \<open>A document that FastAPI hands to a route is one that Pydantic has validated.\<close>

fun call_ok :: "call \<Rightarrow> bool" where
  "call_ok (Update_Preferences p) = prefs_ok p"
| "call_ok (Update_Preferences_V2 p) = prefs_ok p"
| "call_ok c = True"

lemma auth_routes_evolve [keeps_intros]:
  "keeps (evolved T I d0) (register_route L S rq e p)" "keeps (evolved T I d0) (login_route L S rq e p)"
  "keeps (evolved T I d0) (refresh_route L S rq raw)" "keeps (evolved T I d0) (request_password_reset_route L S rq e)"
  "keeps (evolved T I d0) (confirm_password_reset_route L S rq e c p)"
  "keeps (evolved T I d0) (verify_email_route L S rq e c)" "keeps (evolved T I d0) (resend_route L S rq e)"
  "keeps (evolved T I d0) (logout_route L S raw)"
  unfolding register_route_def login_route_def refresh_route_def request_password_reset_route_def
    confirm_password_reset_route_def verify_email_route_def resend_route_def logout_route_def repo_refresh_token_def
  by (intro keeps_intros)+

lemma open_routes_evolve [keeps_intros]:
  "keeps (evolved T I d0) live_route" "keeps (evolved T I d0) live_v2_route" "keeps (evolved T I d0) (ready_route R rq)"
  "keeps (evolved T I d0) (version_route S rq)" "keeps (evolved T I d0) (validate_preferences_route rq q)"
proof -
  have "keeps (evolved T I d0) (check_postgres :: ('r, bool) op)"
    by (simp add: keeps_def safe_def check_postgres_def id_supply_def)
  then show "keeps (evolved T I d0) (ready_route R rq)"
    unfolding ready_route_def check_redis_def by (intro keeps_intros)
qed (unfold live_route_def live_v2_route_def version_route_def validate_preferences_route_def Let_def, (intro keeps_intros)+)

lemma handle_evolves:
  assumes "call_ok c"
  shows "keeps (evolved T I d0) (handle L S R m cred rq c)"
  using assms
  by (cases c; simp add: route_defs bindP_assoc service_list_sources_def repo_list_sources_def service_get_run_def
      repo_get_run_for_user_def search_events_def export_events_def Let_def;
      intro keeps_intros evolution.create_source_keeps evolution.start_run_keeps)

text \<open>
  A deployment: the third-party functions, the settings, the Redis server, CORS and the framework.
  It is sound when CORS does as its law says, the documentation pages touch nothing, and the framework
  reads only documents that are valid.
\<close>

record 'r deployment =
  dp_lib :: lib
  dp_settings :: settings
  dp_redis :: "'r redis"
  dp_cors :: "'r app \<Rightarrow> 'r app"
  dp_framework :: "'r framework"

definition sound :: "'r deployment \<Rightarrow> bool" where
  "sound D \<longleftrightarrow> cors_law (dp_cors D) \<and> (\<forall>rq w. snd (fw_docs (dp_framework D) rq w) = w)
     \<and> (\<forall>e rq c. fw_read (dp_framework D) e rq = Valid c \<longrightarrow> call_ok c)"

lemma serve_evolves:
  assumes "\<And>c. fw_read fw e rq = Valid c \<Longrightarrow> call_ok c"
  shows "keeps (evolved T I d0) (serve L S R fw e rq)"
proof -
  have "keeps (evolved T I d0) (authorize L S cred rq e)" for cred
    unfolding authorize_def by (cases "access_of e") (simp_all, (intro keeps_intros)+)
  then show ?thesis
    unfolding serve_def in_session_def
    by (cases "fw_read fw e rq") (auto intro!: keeps_intros handle_evolves assms)
qed

lemma router_evolves:
  assumes "sound D"
  shows "keeps (evolved T I d0) (app_router L S R (dp_framework D) rq)"
proof -
  have "keeps (evolved T I d0) (fw_docs (dp_framework D) rq)"
    using assms by (simp add: sound_def keeps_def)
  moreover have "keeps (evolved T I d0) (serve L S R (dp_framework D) e rq)" for e
    using assms by (intro serve_evolves) (auto simp: sound_def)
  ultimately show ?thesis
    unfolding app_router_def by (auto intro!: keeps_intros split: routed.split)
qed

lemma layers_keep:
  assumes "\<And>rq. keeps (safe C I P) (app rq)"
  shows "keeps (safe C I P) (exception_layer app rq)" "keeps (safe C I P) (server_error_layer i app rq)"
    "keeps (safe C I P) (request_id_middleware i app rq)" "keeps (safe C I P) (rate_limit_middleware L S R app rq)"
    "keeps (safe C I P) (security_headers_middleware S app rq)" "keeps (safe C I P) (csrf_middleware S app rq)"
    "cors_law cors \<Longrightarrow> keeps (safe C I P) (cors app rq)"
proof -
  show "keeps (safe C I P) (exception_layer app rq)" "keeps (safe C I P) (server_error_layer i app rq)"
    "keeps (safe C I P) (request_id_middleware i app rq)"
    "keeps (safe C I P) (security_headers_middleware S app rq)" "keeps (safe C I P) (csrf_middleware S app rq)"
    unfolding exception_layer_def server_error_layer_def request_id_middleware_def
      security_headers_middleware_def csrf_middleware_def
    by (auto intro!: keeps_intros assms split: exn.split)
  show "keeps (safe C I P) (rate_limit_middleware L S R app rq)"
    unfolding rate_limit_middleware_def checked_def rate_check_def Let_def
    by (auto intro!: keeps_intros assms split: exn.split option.split)
  have "keeps (safe C I P) (bindP (app rq) (\<lambda>x. ret (add_headers hs x)))" for hs
    by (intro keeps_intros assms)
  then show "keeps (safe C I P) (cors app rq)" if "cors_law cors"
    using that unfolding cors_law_def keeps_def by (metis snd_conv)
qed

lemma stack_evolves:
  assumes "sound D"
  shows "keeps (evolved T I d0) (http_stack L S R (dp_cors D) (app_router L S R (dp_framework D)) rq)"
proof -
  let ?app = "dp_cors D (exception_layer (app_router L S R (dp_framework D)))"
  have "keeps (evolved T I d0) (?app rq)" for rq
    by (rule layers_keep(7), rule layers_keep(1), rule router_evolves [OF assms])
      (use assms in \<open>simp add: sound_def\<close>)
  then have "keeps (evolved T I d0) (server_error_layer i (request_id_middleware i (rate_limit_middleware L S R
      (security_headers_middleware S (csrf_middleware S ?app)))) rq)" for i
    by (intro layers_keep(2-6))
  then show ?thesis
    unfolding http_stack_def choose_request_id_def
    by (auto intro!: keeps_intros split: option.split list.split)
qed

section \<open>Everything that happens\<close>

text \<open>
  A request, a pass of the scheduler, a task of the worker with Celery's retries, a dispatched run,
  the retention command, and the delivery of a notification with its dead letters.
\<close>

datatype event =
    Request request
  | Scheduler_Tick
  | Worker_Task uuid uuid
  | Dispatch uuid uuid
  | Retention
  | Delivery int uuid job uuid match_result string provider

fun happens :: "'r deployment \<Rightarrow> event \<Rightarrow> 'r world \<Rightarrow> 'r world" where
  "happens D (Request rq) w = snd (http_stack (dp_lib D) (dp_settings D) (dp_redis D) (dp_cors D)
     (app_router (dp_lib D) (dp_settings D) (dp_redis D) (dp_framework D)) rq w)"
| "happens D Scheduler_Tick w = snd (schedule_due_sources (Some (dp_redis D)) w)"
| "happens D (Worker_Task sid rid) w = snd (ingestion_task (dp_lib D) (Some (dp_redis D)) sid rid w)"
| "happens D (Dispatch sid rid) w = snd (dispatch_ingestion_run (dp_lib D) (Some (dp_redis D)) sid rid w)"
| "happens D Retention w = snd (retention_command (dp_settings D) w)"
| "happens D (Delivery n uid j pid m ch prov) w =
     snd (run_with_dead_letter n (session_scope (deliver uid j pid m ch (send (dp_lib D) prov))) w)"

text \<open>The worlds that follow on \<open>w\<close>, after any events of the set \<open>E\<close> in any order.\<close>

inductive follows :: "'r deployment \<Rightarrow> event set \<Rightarrow> 'r world \<Rightarrow> 'r world \<Rightarrow> bool" for D E w where
  now: "follows D E w w"
| later: "follows D E w v \<Longrightarrow> e \<in> E \<Longrightarrow> follows D E w (happens D e v)"

lemma happens_evolves:
  assumes "sound D" "evolved T I d0 w" "e = Retention \<longrightarrow> T"
  shows "evolved T I d0 (happens D e w)"
proof (cases e)
  case (Request rq)
  show ?thesis unfolding Request happens.simps by (rule keeps_at [OF stack_evolves [OF assms(1)] assms(2)])
next
  case Scheduler_Tick
  show ?thesis unfolding Scheduler_Tick happens.simps by (rule keeps_at [OF evolution.schedule_keeps assms(2)])
next
  case (Worker_Task sid rid)
  show ?thesis
    unfolding Worker_Task happens.simps ingestion_task_def
    by (rule keeps_at [OF celery_keeps [OF evolution.run_ingestion_keeps] assms(2)])
next
  case (Dispatch sid rid)
  show ?thesis unfolding Dispatch happens.simps by (rule keeps_at [OF evolution.dispatch_keeps assms(2)])
next
  case Retention
  show ?thesis
    unfolding Retention happens.simps retention_command_def
    by (rule keeps_at [OF keeps_safe_scope assms(2)], rule retention_evolves) (use Retention assms(3) in simp)
next
  case (Delivery n uid j pid m ch prov)
  show ?thesis
    unfolding Delivery happens.simps run_with_dead_letter_def
    by (rule keeps_at [where I = "evolved T I d0"], rule dead_letters_keep) (intro keeps_intros, rule assms(2))
qed

declare happens.simps [simp del]

text \<open>No session is open, and the constraints of the database hold.\<close>

definition idle :: "'r world \<Rightarrow> bool" where
  "idle w \<longleftrightarrow> work w = committed w \<and> db_ok (committed w)"

text \<open>The identifiers a world has still to give.\<close>

definition new_ids :: "'r world \<Rightarrow> uuid set" where
  "new_ids w = uuid_source (wenv w) ` {tick w..}"

lemma follows_evolved:
  assumes "follows D E w v" "sound D" "idle w"
  shows "evolved (Retention \<in> E) (new_ids w) (committed w) v"
  using assms(1)
proof induction
  case now
  then show ?case using assms(3) by (auto simp: safe_def id_supply_def new_ids_def idle_def)
next
  case (later v e)
  show ?case by (rule happens_evolves [OF assms(2) later.IH]) (use later.hyps(2) in blast)
qed

section \<open>Invariants of the writes\<close>

locale write_invariant =
  fixes T :: bool and I :: "uuid set" and P :: "db \<Rightarrow> bool"
  assumes step: "writes T I d d' \<Longrightarrow> P d \<Longrightarrow> P d'"
begin

lemma evolution_keeps: "evolves T I d d' \<Longrightarrow> P d \<Longrightarrow> P d'"
  by (induction rule: rtranclp_induct) (auto intro: step)

lemma safe_keeps: "evolved T I d0 w \<Longrightarrow> P d0 \<Longrightarrow> P (committed w)"
  by (auto simp: safe_def intro: evolution_keeps)

end

text \<open>The shape of a run: it is running without an end, or has ended with one of three outcomes.\<close>

definition run_shape :: "ingestion_run \<Rightarrow> bool" where
  "run_shape r \<longleftrightarrow> (if ir_status r = ''running'' then ir_completed_at r = None
     else ir_status r \<in> {''succeeded'', ''partial'', ''failed''} \<and> ir_completed_at r \<noteq> None)"

definition runs_ok :: "db \<Rightarrow> bool" where
  "runs_ok d \<longleftrightarrow> single_running d \<and> (\<forall>r\<in>set (ingestion_runs d). run_shape r)"

text \<open>
  Every stored document is one the program wrote, and an active profile is its owner's newest one.
\<close>

definition profiles_ok :: "db \<Rightarrow> bool" where
  "profiles_ok d \<longleftrightarrow> (\<forall>p\<in>set (preference_profiles d).
     (\<exists>q. prefs_ok q \<and> pp_config p = normalize_preferences q)
     \<and> (pp_is_active p \<longrightarrow> pp_version p = latest_version d (pp_user_id p)))"

text \<open>A session, a token, a code with this identifier can no more be used.\<close>

definition dead_session :: "uuid \<Rightarrow> db \<Rightarrow> bool" where
  "dead_session i d \<longleftrightarrow> (\<forall>s\<in>set (auth_sessions d). as_id s = i \<longrightarrow> as_revoked_at s \<noteq> None)"

definition dead_token :: "uuid \<Rightarrow> db \<Rightarrow> bool" where
  "dead_token i d \<longleftrightarrow> (\<forall>t\<in>set (refresh_tokens d). rt_id t = i \<longrightarrow> rt_revoked_at t \<noteq> None)"

definition dead_code :: "uuid \<Rightarrow> db \<Rightarrow> bool" where
  "dead_code i d \<longleftrightarrow> (\<forall>c\<in>set (verification_codes d). vc_id c = i \<longrightarrow> vc_consumed_at c \<noteq> None)"

text \<open>Every event of \<open>es\<close> is still there, perhaps without its actor.\<close>

definition trail_holds :: "audit_event list \<Rightarrow> db \<Rightarrow> bool" where
  "trail_holds es d \<longleftrightarrow> (\<forall>e0\<in>set es. \<exists>e\<in>set (audit_events d). e = e0 \<or> e = e0\<lparr>ev_actor_user_id := None\<rparr>)"

text \<open>An event of the trail is new, or one of \<open>es\<close>, perhaps without its actor.\<close>

definition trail_from :: "uuid set \<Rightarrow> audit_event list \<Rightarrow> db \<Rightarrow> bool" where
  "trail_from I es d \<longleftrightarrow> (\<forall>e\<in>set (audit_events d). ev_id e \<in> I
     \<or> (\<exists>e0\<in>set es. e = e0 \<or> e = e0\<lparr>ev_actor_user_id := None\<rparr>))"

lemma deleted_tables:
  "refresh_tokens (delete_user_cascade i d) = delete_where (\<lambda>t. rt_user_id t = i
     \<or> (\<exists>s\<in>set (auth_sessions d). as_user_id s = i \<and> rt_session_id t = Some (as_id s))) (refresh_tokens d)"
  "auth_sessions (delete_user_cascade i d) = delete_where (\<lambda>s. as_user_id s = i) (auth_sessions d)"
  "verification_codes (delete_user_cascade i d) = delete_where (\<lambda>c. vc_user_id c = i) (verification_codes d)"
  "audit_events (delete_user_cascade i d) = update_where (\<lambda>e. ev_actor_user_id e = Some i)
     (\<lambda>e. e\<lparr>ev_actor_user_id := None\<rparr>) (audit_events d)"
  "preference_profiles (delete_user_cascade i d) = delete_where (\<lambda>p. pp_user_id p = i) (preference_profiles d)"
  "sources (delete_user_cascade i d) = delete_where (\<lambda>s. so_user_id s = i) (sources d)"
  "ingestion_runs (delete_user_cascade i d) = delete_where (\<lambda>r. ir_source_id r \<in> so_id ` {s \<in> set (sources d). so_user_id s = i})
     (ingestion_runs d)"
  by (simp_all add: delete_user_cascade_def Let_def) (simp_all add: delete_where_def image_iff Bex_def, meson?)

interpretation sessions_stay_dead: write_invariant T "I - {i}" "dead_session i" for T I i
  by unfold_locales (erule writes.cases; auto simp: dead_session_def guarded_def deleted_tables
      revoke_tokens_where_def revoke_sessions_where_def table_simps)

interpretation tokens_stay_dead: write_invariant T "I - {i}" "dead_token i" for T I i
  by unfold_locales (erule writes.cases; auto simp: dead_token_def guarded_def deleted_tables
      revoke_tokens_where_def revoke_sessions_where_def table_simps)

interpretation codes_stay_dead: write_invariant T "I - {i}" "dead_code i" for T I i
  by unfold_locales (erule writes.cases; auto simp: dead_code_def guarded_def deleted_tables
      revoke_tokens_where_def revoke_sessions_where_def table_simps)

interpretation trail_stays: write_invariant T I "trail_from I es" for T I es
proof
  fix d d' :: db
  assume "writes T I d d'" and ok: "trail_from I es d"
  then show "trail_from I es d'"
  proof cases
    case (account_deleted i)
    show ?thesis
      unfolding trail_from_def account_deleted deleted_tables
    proof
      fix e
      assume "e \<in> set (update_where (\<lambda>e. ev_actor_user_id e = Some i)
        (\<lambda>e. e\<lparr>ev_actor_user_id := None\<rparr>) (audit_events d))"
      then obtain x where "x \<in> set (audit_events d)" "e = x \<or> e = x\<lparr>ev_actor_user_id := None\<rparr>"
        by (auto simp: table_simps split: if_splits)
      moreover from this(1) ok have "ev_id x \<in> I \<or> (\<exists>e0\<in>set es. x = e0 \<or> x = e0\<lparr>ev_actor_user_id := None\<rparr>)"
        by (simp add: trail_from_def)
      ultimately show "ev_id e \<in> I \<or> (\<exists>e0\<in>set es. e = e0 \<or> e = e0\<lparr>ev_actor_user_id := None\<rparr>)"
        by auto
    qed
  qed (use ok in \<open>auto simp: trail_from_def guarded_def revoke_tokens_where_def revoke_sessions_where_def\<close>)
qed

interpretation trail_kept: write_invariant False I "trail_holds es" for I es
proof
  fix d d' :: db
  assume "writes False I d d'" and ok: "trail_holds es d"
  then show "trail_holds es d'"
  proof cases
    case (account_deleted i)
    let ?f = "\<lambda>e. if ev_actor_user_id e = Some i then e\<lparr>ev_actor_user_id := None\<rparr> else e"
    have "?f e \<in> set (audit_events d')" if "e \<in> set (audit_events d)" for e
      using that by (auto simp: account_deleted deleted_tables table_simps)
    moreover have "?f e = e0 \<or> ?f e = e0\<lparr>ev_actor_user_id := None\<rparr>" if "e = e0 \<or> e = e0\<lparr>ev_actor_user_id := None\<rparr>" for e e0
      using that by auto
    ultimately show ?thesis using ok unfolding trail_holds_def by (metis (no_types, lifting))
  qed (use ok in \<open>auto simp: trail_holds_def guarded_def revoke_tokens_where_def revoke_sessions_where_def\<close>)
qed

interpretation nothing_marked: write_invariant T I no_success for T I
  by unfold_locales (erule writes.cases; auto simp: no_success_def guarded_def deleted_tables list_all_iff
      revoke_tokens_where_def revoke_sessions_where_def)

lemma finished_shape: "rn_status v \<in> {''succeeded'', ''partial'', ''failed''} \<Longrightarrow> run_shape (finished v t r)"
  by (auto simp: run_shape_def finished_def)

interpretation runs_stay_ok: write_invariant T I runs_ok for T I
proof
  fix d d' :: db
  assume "writes T I d d'" and ok: "runs_ok d"
  then show "runs_ok d'"
  proof cases
    case (run_started r)
    have "single_running d'"
      unfolding run_started(1) by (rule single.start) (use ok run_started in \<open>simp_all add: runs_ok_def\<close>)
    with ok run_started show ?thesis by (auto simp: runs_ok_def run_shape_def)
  next
    case (run_finished v i t)
    have "single_running d'"
      unfolding run_finished(1) by (rule single.stop) (use ok run_finished(2) in \<open>simp_all add: runs_ok_def\<close>)
    with ok show ?thesis
      using finished_shape [OF run_finished(2)] by (auto simp: runs_ok_def run_finished(1) table_simps)
  next
    case (account_deleted i)
    with ok show ?thesis by (auto simp: runs_ok_def single_running_def deleted_tables distinct_filter_delete)
  qed (use ok in \<open>simp_all add: runs_ok_def single_running_def guarded_def revoke_tokens_where_def revoke_sessions_where_def\<close>)
qed

lemma latest_version_cong:
  "map pp_version (filter (\<lambda>p. pp_user_id p = i) (preference_profiles d'))
     = map pp_version (filter (\<lambda>p. pp_user_id p = i) (preference_profiles d)) \<Longrightarrow>
   latest_version d' i = latest_version d i"
  by (simp add: latest_version_def)

lemma latest_version_published:
  assumes "pp_version p = latest_version d (pp_user_id p) + 1"
    and "preference_profiles d' = deactivated (pp_user_id p) (preference_profiles d) @ [p]"
  shows "latest_version d' i = (if i = pp_user_id p then pp_version p else latest_version d i)"
proof (cases "i = pp_user_id p")
  case True
  have "Max (insert (pp_version p) (set (map pp_version (filter (\<lambda>x. pp_user_id x = i) (preference_profiles d))))) = pp_version p"
    using latest_version_ge [of _ d i] assms(1) True by (intro Max_eqI) force+
  then show ?thesis
    using True assms(2) deactivated_versions [of i i "preference_profiles d"]
    by (simp add: latest_version_def Let_def)
next
  case False
  then have "latest_version d' i = latest_version d i"
    by (intro latest_version_cong) (simp add: assms(2) deactivated_versions)
  with False show ?thesis by simp
qed

lemma deactivated_row:
  assumes "y \<in> set (deactivated i ps)"
  shows "\<exists>x\<in>set ps. pp_config y = pp_config x \<and> (pp_is_active y \<longrightarrow> y = x \<and> pp_user_id y \<noteq> i)"
  using assms by (fastforce simp: deactivated_def table_simps)

interpretation profiles_stay_ok: write_invariant T I profiles_ok for T I
proof
  fix d d' :: db
  assume "writes T I d d'" and ok: "profiles_ok d"
  then show "profiles_ok d'"
  proof cases
    case (profile_published q p)
    have rows: "preference_profiles d' = deactivated (pp_user_id p) (preference_profiles d) @ [p]"
      by (simp add: profile_published(1))
    show ?thesis
      unfolding profiles_ok_def latest_version_published [OF profile_published(5) rows]
    proof
      fix y
      assume "y \<in> set (preference_profiles d')"
      then consider "y = p" | x where "x \<in> set (preference_profiles d)" "pp_config y = pp_config x"
          "pp_is_active y \<longrightarrow> y = x \<and> pp_user_id y \<noteq> pp_user_id p"
        unfolding rows by (auto dest: deactivated_row)
      then show "(\<exists>q. prefs_ok q \<and> pp_config y = normalize_preferences q) \<and> (pp_is_active y \<longrightarrow>
          pp_version y = (if pp_user_id y = pp_user_id p then pp_version p else latest_version d (pp_user_id y)))"
        using ok profile_published(2,3) by cases (auto simp: profiles_ok_def)
    qed
  next
    case (account_deleted i)
    have "map pp_version (filter (\<lambda>p. pp_user_id p = j) (preference_profiles d'))
        = map pp_version (filter (\<lambda>p. pp_user_id p = j) (preference_profiles d))" if "j \<noteq> i" for j
      using that by (auto simp: account_deleted deleted_tables delete_where_def intro!: arg_cong [where f = "map pp_version"] filter_cong)
    then have "latest_version d' j = latest_version d j" if "j \<noteq> i" for j
      by (rule latest_version_cong [OF _]) (rule that)
    with ok show ?thesis by (auto simp: profiles_ok_def account_deleted deleted_tables)
  qed (use ok in \<open>simp_all add: profiles_ok_def latest_version_def guarded_def revoke_tokens_where_def revoke_sessions_where_def\<close>)
qed

section \<open>Properties\<close>

text \<open>
  C1. The whole program refines its writes: whatever requests reach the stack, whatever passes, tasks
  and commands run between them, in whatever order and with whatever failures, the committed data
  goes from one state to the next by the writes listed above and by nothing else (old audit events are
  deleted only if retention is among the events), and every constraint of the database holds at every
  instant.
\<close>

theorem program_refines_writes:
  assumes "sound D" "idle w" "follows D E w v"
  shows "evolves (Retention \<in> E) (new_ids w) (committed w) (committed v) \<and> db_ok (committed v)"
  using follows_evolved [OF assms(3,1,2)] by (simp add: safe_def)

text \<open>
  C9. One run at a time, for the whole program: at every instant no source has two runs that are
  running, and every run is running without an end or has ended with one of three outcomes, as long
  as each event completes before the next one begins.
\<close>

theorem runs_always_ok:
  assumes "sound D" "idle w" "follows D E w v" "runs_ok (committed w)"
  shows "length (filter (\<lambda>r. ir_source_id r = sid \<and> ir_status r = ''running'') (ingestion_runs (committed v))) \<le> 1
    \<and> (\<forall>r\<in>set (ingestion_runs (committed v)). run_shape r)"
proof -
  have ok: "runs_ok (committed v)"
    by (rule runs_stay_ok.safe_keeps [OF follows_evolved [OF assms(3,1,2)] assms(4)])
  have "distinct (map ir_source_id (filter (\<lambda>r. ir_status r = ''running'') (ingestion_runs (committed v))))"
    using ok by (simp add: runs_ok_def single_running_def)
  from one_row_per_key [OF this, of sid] ok show ?thesis by (simp add: runs_ok_def conj_commute)
qed

text \<open>
  C27. The schedule has no memory, whatever the program does: no event ever records a success on a
  source, so every enabled source with an interval is due at every instant.
\<close>

theorem sources_always_due:
  assumes "sound D" "idle w" "follows D E w v" "no_success (committed w)"
    and "s \<in> set (sources (committed v))" "so_enabled s" "interval_seconds (so_schedule s) = Some n"
  shows "is_due s now"
  using nothing_marked.safe_keeps [OF follows_evolved [OF assms(3,1,2)] assms(4)] assms(5-7)
  by (simp add: no_success_def list_all_iff is_due_def)

text \<open>
  C5. Revocation is final: once every stored session with an identifier is revoked, an access token
  that names the identifier is refused at every later instant, whatever happens in between.
\<close>

theorem revoked_session_refused_for_good:
  assumes "sound D" "idle w" "follows D E w v" "dead_session i (committed w)" "i \<notin> new_ids w"
    and "auth_session_management_enabled S" "startswith (scheme @ '' '' @ tok) ''Bearer ''"
    and "token_claims L S (scheme @ '' '' @ tok) (clock (wenv v) (tick v)) = Some c"
    and "token_ids c = Some (uid, Some i)"
  shows "fst (get_current_user L S (Some (scheme, tok)) (fresh_view v)) = Inl (App (err SessionRevoked))"
proof -
  have "evolved (Retention \<in> E) (new_ids w - {i}) (committed w) v"
    using follows_evolved [OF assms(3,1,2)] assms(5) by simp
  from sessions_stay_dead.safe_keeps [OF this assms(4)] have dead: "dead_session i (committed v)" .
  let ?found = "find (\<lambda>s. as_id s = i \<and> as_user_id s = uid) (auth_sessions (committed v))"
  have "?found = None \<or> (\<exists>s. ?found = Some s \<and> as_revoked_at s \<noteq> None)"
    using dead by (cases ?found) (auto simp: dead_session_def dest: find_SomeD)
  then have "fst (resolve_user S uid (Some i) ((fresh_view v)\<lparr>tick := Suc (tick v)\<rparr>)) = Inl (App (err SessionRevoked))"
    using assms(6)
    by (auto simp: resolve_user_def get_user_def check_session_def repo_auth_session_def run_simps fresh_view_def)
  then show ?thesis
    using assms(8,9) by (simp add: get_current_user_bearer [OF assms(7)] fresh_view_def)
qed

text \<open>
  C4. Nothing is used twice: a refresh token that has been rotated or revoked, and a one-time code
  that has been consumed, stay so for good; no later refresh that succeeds rests on that token, and no
  later check of a code that succeeds rests on that code.
\<close>

theorem used_credentials_stay_dead:
  assumes "sound D" "idle w" "follows D E w v"
    and "dead_token i (committed w)" "i \<notin> new_ids w" "dead_code j (committed w)" "j \<notin> new_ids w"
  shows "(\<forall>p v1. refresh L S raw (fresh_view v) = (Inr p, v1) \<longrightarrow>
      (\<exists>t. find (\<lambda>t. rt_token_hash t = digest L raw) (refresh_tokens (committed v)) = Some t \<and> rt_id t \<noteq> i))
    \<and> (\<forall>u x v1. checked_code L e purpose code (fresh_view v) = (Inr (u, x), v1) \<longrightarrow> vc_id x \<noteq> j)"
proof -
  have "evolved (Retention \<in> E) (new_ids w - {i}) (committed w) v" "evolved (Retention \<in> E) (new_ids w - {j}) (committed w) v"
    using follows_evolved [OF assms(3,1,2)] assms(5,7) by simp_all
  from tokens_stay_dead.safe_keeps [OF this(1) assms(4)] codes_stay_dead.safe_keeps [OF this(2) assms(6)]
  have dead: "dead_token i (committed v)" "dead_code j (committed v)" .
  have "rt_id t \<noteq> i" if "find (\<lambda>t. rt_token_hash t = h) (refresh_tokens (committed v)) = Some t"
      "token_usable now t" for t h now
    using dead(1) find_SomeD [OF that(1)] that(2) by (auto simp: dead_token_def token_usable_def)
  then have "\<exists>t. find (\<lambda>t. rt_token_hash t = digest L raw) (refresh_tokens (committed v)) = Some t \<and> rt_id t \<noteq> i"
    if "refresh L S raw (fresh_view v) = (Inr p, v1)" for p v1
    using that by (auto simp: refresh_def repo_refresh_token_def run_simps fresh_view_def bindP_Inr_iff raise_def
        split: option.splits if_splits)
  moreover have "vc_id x \<noteq> j" if "checked_code L e purpose code (fresh_view v) = (Inr (u, x), v1)" for u x v1
    using that dead(2)
    by (auto simp: checked_code_def user_by_email_def repo_verification_code_def run_simps fresh_view_def
        bindP_Inr_iff raise_def dead_code_def split: option.splits if_splits dest!: find_SomeD)
  ultimately show ?thesis by blast
qed

text \<open>
  C22. Preferences are always readable: at every instant an account has no active profile, and is told
  so, or exactly one, whose stored document loads and whose version is the account's newest one; both
  API versions then answer that version.
\<close>

theorem active_profile_is_newest:
  assumes "sound D" "idle w" "follows D E w v" "profiles_ok (committed w)"
  shows "case active_profiles (committed v) uid of
      [] \<Rightarrow> fst (v1_get_active uid (fresh_view v)) = Inl (App (err ActivePreferenceNotFound))
    | p # ps \<Rightarrow> ps = [] \<and> pp_version p = latest_version (committed v) uid
        \<and> (\<exists>r. fst (v1_get_active uid (fresh_view v)) = Inr r \<and> pr_version r = pp_version p)
        \<and> (\<exists>r. fst (v2_get_active uid (fresh_view v)) = Inr r \<and> v2_version r = pp_version p)"
proof -
  note evolved = follows_evolved [OF assms(3,1,2)]
  have ok: "profiles_ok (committed v)" by (rule profiles_stay_ok.safe_keeps [OF evolved assms(4)])
  have "db_ok (committed v)" using evolved by (simp add: safe_def)
  then have "distinct (map pp_user_id (filter pp_is_active (preference_profiles (committed v))))"
    by (simp add: db_ok_unfold)
  from one_row_per_key [OF this, of uid] have one: "length (active_profiles (committed v) uid) \<le> 1"
    by (simp add: active_profiles_def conj_commute)
  show ?thesis
  proof (cases "active_profiles (committed v) uid")
    case Nil
    then show ?thesis by (simp add: v1_get_active_def repo_get_active_def run_simps fresh_view_def raise_def)
  next
    case (Cons p ps)
    with one have ps: "ps = []" by simp
    have "p \<in> set (active_profiles (committed v) uid)" by (simp add: Cons)
    with ok obtain q where "prefs_ok q" "pp_config p = normalize_preferences q"
      and "pp_version p = latest_version (committed v) uid"
      by (auto simp: active_profiles_def profiles_ok_def)
    then show ?thesis
      by (simp add: Cons ps v1_get_active_def v2_get_active_def repo_get_active_def v1_response_def
          to_v2_response_def loaded_published run_simps fresh_view_def)
  qed
qed

text \<open>
  C17. The audit trail is never rewritten: an event that was stored stays exactly as it was, apart
  from the actor that goes with a deleted account; every other event bears a new identifier; and as
  long as retention does not run, no event goes away.
\<close>

theorem trail_never_rewritten:
  assumes "sound D" "idle w" "follows D E w v"
  shows "(\<forall>e\<in>set (audit_events (committed v)). ev_id e \<in> new_ids w
      \<or> (\<exists>e0\<in>set (audit_events (committed w)). e = e0 \<or> e = e0\<lparr>ev_actor_user_id := None\<rparr>))
    \<and> (Retention \<notin> E \<longrightarrow> (\<forall>e0\<in>set (audit_events (committed w)). \<exists>e\<in>set (audit_events (committed v)).
        e = e0 \<or> e = e0\<lparr>ev_actor_user_id := None\<rparr>))"
proof -
  let ?es = "audit_events (committed w)"
  note evolved = follows_evolved [OF assms(3,1,2)]
  have "trail_from (new_ids w) ?es (committed w)" "trail_holds ?es (committed w)"
    by (auto simp: trail_from_def trail_holds_def)
  then have "trail_from (new_ids w) ?es (committed v)"
    and "Retention \<notin> E \<Longrightarrow> trail_holds ?es (committed v)"
    using trail_stays.safe_keeps [OF evolved] trail_kept.safe_keeps [of "new_ids w"] evolved by simp_all
  then show ?thesis by (simp add: trail_from_def trail_holds_def)
qed

section \<open>Instances\<close>

definition deployment_ex :: "call \<Rightarrow> unit deployment" where
  "deployment_ex c = \<lparr>dp_lib = access_lib_ex, dp_settings = settings_ex, dp_redis = downed_redis,
     dp_cors = (\<lambda>app. app), dp_framework = framework_ex c\<rparr>"

lemma sound_ex: "call_ok c \<Longrightarrow> sound (deployment_ex c)"
proof -
  have "cors_law (\<lambda>app :: unit app. app)"
    unfolding cors_law_def by (intro allI disjI2 exI [of _ "[]"]) simp
  then show "call_ok c \<Longrightarrow> sound (deployment_ex c)"
    by (simp add: sound_def deployment_ex_def framework_ex_def ret_def)
qed

lemma follows_one: "follows D {e} w (happens D e w)"
  by (intro follows.intros) simp

lemma idle_ex: "db_ok d \<Longrightarrow> idle (world_ex d)"
  by (simp add: idle_def)

lemmas consistent_ex = db_ok_unfold sample_defs references_def references_opt_def

lemma new_ids_ex: "i < 1000 \<Longrightarrow> i \<notin> new_ids (world_ex d)"
  by (auto simp: new_ids_def env_ex_def)

text \<open>A dispatch for a source that is not there.\<close>

lemma dispatch_nothing:
  assumes "find (\<lambda>s. so_id s = sid) (sources (committed w)) = None"
  shows "committed (happens D (Dispatch sid rid) w) = committed w"
  using assms by (simp add: happens.simps dispatch_ingestion_run_def session_scope_def session_rollback_def on_sql_error_def
      repo_get_source_def prog_simps)

theorem program_refines_writes_witness:
  "evolves False (new_ids (world_ex db_ex)) db_ex (committed (happens (deployment_ex Delete_Me)
     (Request ((request_ex ''/api/v1/users/me'' [] [])\<lparr>rq_method := ''DELETE''\<rparr>)) (world_ex db_ex)))"
  using program_refines_writes [OF sound_ex [of Delete_Me] idle_ex follows_one, of db_ex
    "Request ((request_ex ''/api/v1/users/me'' [] [])\<lparr>rq_method := ''DELETE''\<rparr>)"] by simp

theorem runs_always_ok_witness:
  "length (filter (\<lambda>r. ir_source_id r = 71 \<and> ir_status r = ''running'')
     (ingestion_runs (committed (happens (deployment_ex (Run_Source 71))
       (Request (request_ex ''/api/v1/sources'' [] [])) (world_ex seen_db_ex))))) \<le> 1"
proof -
  have "runs_ok seen_db_ex" by (simp add: runs_ok_def single_running_def seen_defs)
  then show ?thesis
    using runs_always_ok [OF sound_ex [of "Run_Source 71"] idle_ex follows_one, of seen_db_ex 71] db_ok_seen by simp
qed

theorem sources_always_due_witness: "is_due (source_ex\<lparr>so_schedule := Some ''interval:60''\<rparr>) 5"
proof -
  let ?s = "source_ex\<lparr>so_schedule := Some ''interval:60''\<rparr>"
  let ?w = "world_ex (seen_db_ex\<lparr>sources := [?s]\<rparr>)" and ?D = "deployment_ex Live"
  have "committed (happens ?D (Dispatch 5 6) ?w) = committed ?w"
    by (rule dispatch_nothing) (simp add: source_ex_def)
  moreover have "interval_seconds (Some ''interval:60'') = Some 60" by code_simp
  moreover have "db_ok (seen_db_ex\<lparr>sources := [?s]\<rparr>)" using db_ok_seen by (simp add: db_ok_unfold seen_db_ex_def source_ex_def)
  ultimately show ?thesis
    by (intro sources_always_due [OF sound_ex [of Live] idle_ex follows_one [of _ "Dispatch 5 6"], of "seen_db_ex\<lparr>sources := [?s]\<rparr>"])
      (simp_all add: no_success_def source_ex_def)
qed

definition revoked_db_ex :: db where
  "revoked_db_ex = db_ex\<lparr>auth_sessions := [(session_ex 11 1)\<lparr>as_revoked_at := Some 5\<rparr>, session_ex 12 1, session_ex 13 2]\<rparr>"

theorem revoked_session_refused_for_good_witness:
  "fst (get_current_user access_lib_ex settings_ex (Some (''Bearer'', ''tok'')) (fresh_view
     (happens (deployment_ex (Login ''a@x'' ''secret'')) (Request (request_ex ''/api/v1/auth/login'' [] []))
       (world_ex revoked_db_ex)))) = Inl (App (err SessionRevoked))"
proof -
  have "db_ok revoked_db_ex" by (simp add: consistent_ex revoked_db_ex_def)
  from idle_ex [OF this] show ?thesis
    by (rule revoked_session_refused_for_good [OF sound_ex _ follows_one _ new_ids_ex _ bearer_ex claims_read_ex token_ids_ex, rotated])
      (simp_all add: dead_session_def session_ex_def revoked_db_ex_def)
qed

theorem used_credentials_stay_dead_witness:
  "\<nexists>p v1. refresh access_lib_ex settings_ex ''seed'' (fresh_view (happens (deployment_ex Live) (Dispatch 5 6)
     (world_ex (db_ex\<lparr>refresh_tokens := [(token_ex 21 1 None ''#seed'')\<lparr>rt_revoked_at := Some 5\<rparr>]\<rparr>)))) = (Inr p, v1)"
proof -
  let ?t = "(token_ex 21 1 None ''#seed'')\<lparr>rt_revoked_at := Some 5\<rparr>"
  let ?w = "world_ex (db_ex\<lparr>refresh_tokens := [?t]\<rparr>)" and ?D = "deployment_ex Live"
  have same: "committed (happens ?D (Dispatch 5 6) ?w) = committed ?w"
    by (rule dispatch_nothing) (simp add: sample_defs)
  have f: "find (\<lambda>t. rt_token_hash t = digest access_lib_ex ''seed'') [?t] = Some ?t"
    by (simp add: access_lib_ex_def lib_ex_def token_ex_def)
  have ok: "db_ok (committed ?w)" by (simp add: consistent_ex)
  have "dead_token 21 (committed ?w)" "dead_code 31 (committed ?w)"
    by (simp_all add: dead_token_def dead_code_def db_ex_def empty_db_def)
  from used_credentials_stay_dead [OF sound_ex [of Live] idle_ex follows_one [of _ "Dispatch 5 6"] this(1) new_ids_ex this(2) new_ids_ex,
      of access_lib_ex settings_ex "''seed''" "[]" "[]" "[]"]
  show ?thesis unfolding same using f ok by (auto simp: token_ex_def)
qed

definition published_ex :: preference_profile where
  "published_ex = \<lparr>pp_id = 41, pp_user_id = 1, pp_version = 1, pp_config = normalize_preferences normal_ex,
     pp_matching_weights = [], pp_is_active = True, pp_created_at = 0\<rparr>"

lemma normal_ex_ok: "prefs_ok normal_ex"
  using validate_ex by (auto simp: validate_eq split: if_splits)

theorem active_profile_is_newest_witness:
  "case active_profiles (committed (happens (deployment_ex (Update_Preferences normal_ex))
       (Request ((request_ex ''/api/v1/preferences'' [] [])\<lparr>rq_method := ''PUT''\<rparr>))
       (world_ex (db_ex\<lparr>preference_profiles := [published_ex]\<rparr>)))) 1 of [] \<Rightarrow> True | p # ps \<Rightarrow> ps = []"
proof -
  let ?w = "world_ex (db_ex\<lparr>preference_profiles := [published_ex]\<rparr>)"
  have "profiles_ok (committed ?w)"
    using normal_ex_ok by (auto simp: profiles_ok_def published_ex_def latest_version_def)
  moreover have "db_ok (committed ?w)" by (simp add: consistent_ex published_ex_def)
  ultimately show ?thesis
    using active_profile_is_newest [OF sound_ex [of "Update_Preferences normal_ex"] idle_ex follows_one, of
      "db_ex\<lparr>preference_profiles := [published_ex]\<rparr>" 1
      "Request ((request_ex ''/api/v1/preferences'' [] [])\<lparr>rq_method := ''PUT''\<rparr>)"] normal_ex_ok
    by (simp split: list.splits)
qed

theorem trail_never_rewritten_witness:
  "\<exists>e\<in>set (audit_events (committed (happens (deployment_ex Delete_Me)
       (Request ((request_ex ''/api/v1/users/me'' [] [])\<lparr>rq_method := ''DELETE''\<rparr>)) (world_ex awkward_db_ex)))).
     e = awkward_event \<or> e = awkward_event\<lparr>ev_actor_user_id := None\<rparr>"
proof -
  have "db_ok awkward_db_ex"
    by (simp add: consistent_ex awkward_db_ex_def role_db_ex_def awkward_event_def event_ex_def)
  moreover have "awkward_event \<in> set (audit_events awkward_db_ex)" by (simp add: awkward_db_ex_def)
  ultimately show ?thesis
    using trail_never_rewritten [OF sound_ex [of Delete_Me] idle_ex follows_one, of awkward_db_ex
      "Request ((request_ex ''/api/v1/users/me'' [] [])\<lparr>rq_method := ''DELETE''\<rparr>)"] by fastforce
qed

end
