(* ===== verification/Spec2Isabelle.thy ===== *)
theory Spec2Isabelle
  imports Auth_Facts Load_Check Load_Test Migration_Facts Release_Notes Run_Races System
begin

text \<open>
  The job radar agent: a FastAPI service with a PostgreSQL database, a Redis server and Celery
  workers. It registers accounts, keeps one preference profile per account, collects job postings
  from configured sources, matches them against the profile and notifies the account.

  How the model is built. An operation of the program is a function from the world to a result or
  an exception, and the world after it (\<open>prog\<close> in Prelude). The world of Runtime holds
  what the code can observe or change: the committed database and the open session's copy of it,
  the clock and the supplies of random values (an environment read in order, so that two reads of
  the clock may differ), the Redis state, the broker's queue, the log of authentication events and
  the archive file. \<open>session_scope\<close>, commit, flush and rollback work on the pair of
  databases, and a commit fails with the code's own error values when a constraint is violated
  (\<open>db_violation\<close>) or when the environment says that the database fails. Hashing,
  signing of tokens, Python's float printing and the Redis commands are parameters (the records
  \<open>lib\<close> and \<open>redis\<close>).

  The theories, from the bottom.

  \<^item> Prelude: the program monad, its evaluation rules and the calculus of kept predicates. Py_Text,
    Py_Repr, Text_Formats, Uuid, Iso_Time: the parts of Python's text handling the code uses, with JSON
    and CSV as the standard library writes them. Doubles: IEEE double rounding, for the one
    float computation whose result is rounded down. Paging and Retry: the contracts of a paged query
    and of a retry loop, locales that are interpreted wherever the code has one.
  \<^item> Http: JSON values, requests, the success envelope. App_Errors: the exception classes, their status
    codes and all handlers (\<open>app/errors\<close>). Config: settings. Schema: the tables and their keys.
    Migrations: the Alembic revisions as schema changes and the tables the ORM models declare;
    Migration_Facts checks that the revisions can be undone and build the tables and constraints of
    Schema. Runtime: world and transactions (\<open>app/db.py\<close>, \<open>app/errors/database.py\<close>). Samples: concrete
    values for the witnesses.
  \<^item> Auth_Repo, Auth_Service: repository and service of \<open>app/domain/auth\<close>, with the properties in
    Auth_Facts (refresh tokens, one after the other and overlapping) and Login_Facts (accounts). Auth_Access: the dependencies that guard
    every route. Auth_Api: the routes of \<open>api/v1/auth.py\<close>. Audit_Trail, Audit_Api: recording, search,
    export and retention of the audit trail.
  \<^item> Middleware: the rate limiter, CSRF and security headers, the request identifier and the exception
    layers in the order of \<open>app/main.py\<close>. Middleware_Facts holds for every inner application.
  \<^item> Preferences, Preference_Store: documents, profiles in versions, both API versions, deletion of an
    account.
  \<^item> Adapters, Ingest_Repo, Ingestion: fetching with retries, job storage, runs, workers, the scheduler;
    Ingest_Facts follows any history of runs, Run_Facts a single run. Run_Races takes starts and runs
    apart into their awaits and lets them overlap: each process is a state machine (\<open>stage\<close>,
    \<open>advance\<close>), a system of them takes steps (\<open>step\<close>), and the lock's promise is an invariant of the
    histories in which runs end before their lock expires.
  \<^item> Matching, Job_Query, Notifications: rules and scores, queries and feedback, delivery, with their
    properties in Match_Facts, Job_Facts and Notify_Facts.
  \<^item> Operations: health, version and metrics, the telemetry switches, SchedulerService and the retries of
    the Celery task. Backup and Backup_Facts: dumps, retention and verification over a model of the
    files. Processes: the polling loops of the scheduler and the backup process, with the exact
    condition under which they end. Release_Notes: the release script. Load_Test: what the simulated
    users of the load test send. Load_Check: the script that compares its figures with two thresholds.
  \<^item> Application: the whole of \<open>app/main.py\<close>. The routers are tables of templates, in their order;
    \<open>find_route\<close> is the framework's search in them, \<open>call\<close> a request that has been read, \<open>handle\<close> the
    operation of the route, \<open>serve\<close> the same with its session, \<open>create_app\<close> the router behind the stack
    of Middleware. Its theorems say that calls reach their routes, that refused requests change
    nothing, and who is let in. Isolation proves, over all the endpoints that act for an account, that
    the rows of other accounts stay as they are.
  \<^item> System: all of it together. The inductive relation \<open>writes\<close> is the abstract specification of what
    the program may do to the stored data, one rule per kind of change with the guard the code puts on
    it; \<open>happens\<close> is one event of the deployed program (a request through the whole stack, a pass of the
    scheduler, a task with its retries, a dispatched run, the retention command, a delivery), \<open>follows\<close>
    any sequence of them. Every event is simulated by a sequence of writes, whatever fails in between, and
    the locale \<open>write_invariant\<close> turns a check of the rules into an invariant of the whole program: one
    running run per source, the newest profile active and readable, revoked sessions and used tokens and
    codes dead for good, the audit trail never rewritten. The proof runs over the definitions of every
    operation with the calculus of kept predicates (\<open>safe\<close> in Ingest_Facts: identifiers still to be
    given, both copies of the data, the constraints).

  Bounds. Loops of the code are folds over lists or structural recursion, and retry loops count their
  attempts down (three, or what the caller passes), so nothing needs fuel: an adapter asks for the
  list of page numbers up to the configured maximum. Only the polling processes may run for ever:
  \<open>poll\<close> is a partial function whose result is \<open>None\<close> in that case, and \<open>poll_ends_iff\<close> says when.

  What the properties say where the code does not do what its documents say is listed with the
  findings: a refresh token's successor survives a replay, overlapping exchanges of one token all
  succeed, verifying an address makes a disabled account active again, starts through the API take no
  lock, one refused connection to Redis ends the scheduler, a run whose adapter raises an unexpected
  exception stays running, a score never reaches the default threshold, every source is always due,
  and the limiter shares one counter between authentication and other requests.

  Not modelled: column lengths (\<open>String(n)\<close>) outside the migrations, text outside Latin-1, connection
  pools, log lines, what the telemetry packages do, the CORS middleware (a parameter with a law), how
  FastAPI reads a request into typed values (a parameter), the start of uvicorn and Celery, and the Alembic
  environment. Outside Run_Races and
  the last section of Auth_Facts every operation runs alone on its session, and the interleaving of
  requests is the order of the operations on the world.
\<close>

end
